(* ===== verification/WR_Prelude.thy ===== *)
theory WR_Prelude
  imports Main "HOL-Library.Char_ord" "HOL-Library.List_Lexorder" "HOL-Library.Product_Lexorder"
    "HOL-Library.AList" "HOL-Library.Multiset"
begin

text \<open>
  Shared vocabulary of the development.

  \<^item> Go's fixed-width integers: \<open>i64\<close> and \<open>u64\<close> are the two's-complement and the modular
    reading of a result of \<open>int64\<close>/\<open>int\<close> and \<open>uint64\<close> arithmetic; the components apply them
    wherever the code adds or subtracts values that are not known to be small.
  \<^item> Go's strings: byte lists (\<^typ>\<open>string\<close>), compared bytewise; \<open>dec\<close> is \<open>%d\<close>.
  \<^item> Go's maps: association lists with distinct keys; the order of the list is the iteration
    order, which Go leaves open.
\<close>

named_theorems wr_defs \<open>definitions of the model that a proof of a component unfolds\<close>

section \<open>Fixed-width integers\<close>

definition i64 :: "int \<Rightarrow> int" where
  "i64 x = (x + 2 ^ 63) mod 2 ^ 64 - 2 ^ 63"

definition u64 :: "nat \<Rightarrow> nat" where
  "u64 n = n mod 2 ^ 64"

abbreviation i64_range :: "int \<Rightarrow> bool" where
  "i64_range x \<equiv> - (2 ^ 63) \<le> x \<and> x < 2 ^ 63"

lemma i64_id: "- (2 ^ 63) \<le> x \<Longrightarrow> x < 2 ^ 63 \<Longrightarrow> i64 x = x"
  by (simp add: i64_def)

lemma i64_bounds: "i64_range (i64 x)"
  by (simp add: i64_def)

lemma u64_id: "n < 2 ^ 64 \<Longrightarrow> u64 n = n"
  by (simp add: u64_def)

lemma u64_bound: "u64 n < 2 ^ 64"
  by (simp add: u64_def)

section \<open>Decimal text\<close>

definition digit_char :: "nat \<Rightarrow> char" where
  "digit_char d = char_of (48 + d)"

fun dec :: "nat \<Rightarrow> string" where
  "dec n = (if n < 10 then [digit_char n] else dec (n div 10) @ [digit_char (n mod 10)])"

declare dec.simps [simp del]

definition is_digit :: "char \<Rightarrow> bool" where
  "is_digit c \<longleftrightarrow> 48 \<le> (of_char c :: nat) \<and> (of_char c :: nat) \<le> 57"

definition digit_val :: "char \<Rightarrow> nat" where
  "digit_val c = of_char c - 48"

fun undec_from :: "nat \<Rightarrow> string \<Rightarrow> nat" where
  "undec_from acc [] = acc"
| "undec_from acc (c # cs) = undec_from (10 * acc + digit_val c) cs"

abbreviation undec :: "string \<Rightarrow> nat" where
  "undec \<equiv> undec_from 0"

lemma of_char_digit_char [simp]: "d < 10 \<Longrightarrow> (of_char (digit_char d) :: nat) = 48 + d"
  by (simp add: digit_char_def)

lemma is_digit_digit_char [simp]: "d < 10 \<Longrightarrow> is_digit (digit_char d)"
  by (simp add: is_digit_def)

lemma digit_val_digit_char [simp]: "d < 10 \<Longrightarrow> digit_val (digit_char d) = d"
  by (simp add: digit_val_def)

lemma digit_char_numerals [simp]:
  "digit_char 0 = CHR ''0''" "digit_char 1 = CHR ''1''" "digit_char (Suc 0) = CHR ''1''"
  "digit_char 2 = CHR ''2''" "digit_char 3 = CHR ''3''" "digit_char 4 = CHR ''4''"
  "digit_char 5 = CHR ''5''" "digit_char 6 = CHR ''6''" "digit_char 7 = CHR ''7''"
  "digit_char 8 = CHR ''8''" "digit_char 9 = CHR ''9''"
  by code_simp+

lemma undec_from_append [simp]: "undec_from a (xs @ ys) = undec_from (undec_from a xs) ys"
  by (induction xs arbitrary: a) auto

lemma undec_dec [simp]: "undec (dec n) = n"
proof (induction n rule: dec.induct)
  case (1 n)
  then show ?case by (cases "n < 10") (simp_all add: dec.simps [of n])
qed

lemma dec_digits: "list_all is_digit (dec n)"
proof (induction n rule: dec.induct)
  case (1 n)
  then show ?case by (cases "n < 10") (simp_all add: dec.simps [of n])
qed

lemma dec_not_Nil [simp]: "dec n \<noteq> []"
  by (subst dec.simps) simp

lemma dec_inj [simp]: "dec m = dec n \<longleftrightarrow> m = n"
  by (metis undec_dec)

text \<open>Two numbers joined by a separator that is no digit can be told apart again.\<close>

lemma dec_sep_inj:
  assumes "\<not> is_digit s" and "dec a @ s # xs = dec b @ s # ys"
  shows "a = b \<and> xs = ys"
proof -
  have "takeWhile is_digit (dec k @ s # zs) = dec k" for k zs
    using assms(1) dec_digits [of k] by (simp add: takeWhile_append list_all_iff)
  with assms(2) have "dec a = dec b" by metis
  with assms(2) show ?thesis by simp
qed

section \<open>Association lists as Go maps\<close>

text \<open>The rows whose value satisfies a predicate, and what an update does to their number.\<close>

definition count_if :: "('v \<Rightarrow> bool) \<Rightarrow> ('k \<times> 'v) list \<Rightarrow> nat" where
  "count_if P kvs = length (filter (\<lambda>(k, v). P v) kvs)"

lemma count_if_simps [simp]:
  "count_if P [] = 0"
  "count_if P ((k, v) # kvs) = (if P v then 1 else 0) + count_if P kvs"
  by (simp_all add: count_if_def)

lemma count_if_append [simp]: "count_if P (xs @ ys) = count_if P xs + count_if P ys"
  by (simp add: count_if_def)

lemma count_if_mono:
  "(\<And>k v. (k, v) \<in> set kvs \<Longrightarrow> P v \<Longrightarrow> Q v) \<Longrightarrow> count_if P kvs \<le> count_if Q kvs"
  by (induction kvs) (auto simp: count_if_def le_SucI, fastforce+)

lemma count_if_map_mono:
  "(\<And>k v. (k, v) \<in> set kvs \<Longrightarrow> P (f v) \<Longrightarrow> P v) \<Longrightarrow>
   count_if P (map (\<lambda>(k, v). (k, f v)) kvs) \<le> count_if P kvs"
proof (induction kvs)
  case (Cons kv kvs)
  then have "count_if P (map (\<lambda>(k, v). (k, f v)) kvs) \<le> count_if P kvs" by auto
  with Cons.prems [of "fst kv" "snd kv"] show ?case by (cases kv) auto
qed simp

lemma update_new: "k \<notin> fst ` set kvs \<Longrightarrow> AList.update k v kvs = kvs @ [(k, v)]"
  by (induction kvs) auto

lemma update_split:
  assumes "distinct (map fst (xs @ (k, v) # ys))"
  shows "AList.update k w (xs @ (k, v) # ys) = xs @ (k, w) # ys"
  using assms by (induction xs) auto

lemma map_of_splitE:
  assumes "map_of kvs k = Some v"
  obtains xs ys where "kvs = xs @ (k, v) # ys"
  using map_of_SomeD [OF assms] by (auto simp: in_set_conv_decomp)

lemma count_if_update:
  assumes "distinct (map fst kvs)" and "map_of kvs k = Some v"
  shows "count_if P (AList.update k w kvs) + (if P v then 1 else 0)
       = count_if P kvs + (if P w then 1 else 0)"
proof -
  obtain xs ys where kvs: "kvs = xs @ (k, v) # ys" using map_of_splitE [OF assms(2)] .
  with assms(1) show ?thesis by (simp add: update_split)
qed

lemma count_if_update_new:
  "map_of kvs k = None \<Longrightarrow>
   count_if P (AList.update k w kvs) = count_if P kvs + (if P w then 1 else 0)"
  by (simp add: update_new map_of_eq_None_iff)

lemma map_of_map_snd: "map_of (map (\<lambda>(k, v). (k, f v)) kvs) k = map_option f (map_of kvs k)"
  by (induction kvs) auto

lemma set_update_cases:
  "(k', v') \<in> set (AList.update k v kvs) \<Longrightarrow> distinct (map fst kvs) \<Longrightarrow>
   (k' = k \<and> v' = v) \<or> (k' \<noteq> k \<and> (k', v') \<in> set kvs)"
  by (induction kvs) (auto split: if_splits intro: rev_image_eqI)

section \<open>Multisets of list elements\<close>

lemma distinct_subseteq_mset:
  assumes "mset ys \<subseteq># mset xs" and "distinct xs"
  shows "distinct ys"
proof -
  obtain C where "mset xs = mset ys + C" using assms(1) by (auto simp: mset_subset_eq_exists_conv)
  moreover obtain zs where "mset zs = C" using ex_mset by blast
  ultimately have "mset xs = mset (ys @ zs)" by simp
  then have "distinct (ys @ zs)" using assms(2) mset_eq_imp_distinct_iff by blast
  then show ?thesis by simp
qed

text \<open>Two sorted arrangements of the same elements agree when the sort key tells them apart.\<close>

lemma sorted_arrangement_unique:
  fixes f :: "'a \<Rightarrow> 'b :: linorder"
  assumes "mset xs = mset ys" and "sorted (map f xs)" and "sorted (map f ys)"
    and "inj_on f (set xs)"
  shows "xs = ys"
proof -
  have "sort (map f xs) = map f ys"
    by (rule properties_for_sort) (use assms in simp_all)
  moreover have "sort (map f xs) = map f xs"
    by (rule properties_for_sort) (use assms in simp_all)
  ultimately have "map f xs = map f ys" by simp
  moreover have "set xs = set ys" using assms(1) by (metis set_mset_mset)
  ultimately show ?thesis using assms(4) by (metis inj_on_map_eq_map Un_absorb)
qed

lemma find_distinct: "distinct (map f xs) \<Longrightarrow> x \<in> set xs \<Longrightarrow> find (\<lambda>y. f y = f x) xs = Some x"
  by (induction xs) (auto simp: rev_image_eqI)

end
