(* ===== verification/WR_Policy.thy ===== *)
theory WR_Policy
  imports WR_Prelude
begin

text \<open>
  The ticket-selection policy (\<open>internal/policy/fifo.go\<close>). A policy picks, among the waiting
  tickets it is given, the ones to promote; it never grants capacity itself. The interface
  \<open>Policy\<close> is the locale \<open>queue_policy\<close>, the only implementation \<open>FIFO\<close> its interpretation.
\<close>

section \<open>Candidates and FIFO selection\<close>

record Candidate =
  c_ID :: string
  c_Sequence :: nat
  c_ExpiresAt :: int

datatype policy_error = ErrUnsupported

record Capability =
  Kind :: string
  SchemaVersion :: int

definition Capabilities :: "Capability list" where
  "Capabilities = [\<lparr>Kind = ''fifo'', SchemaVersion = 1\<rparr>]"

text \<open>The sort key of \<open>sort.Slice\<close> in \<open>Eligible\<close>: sequence number first, identifier second.\<close>

definition fifo_key :: "Candidate \<Rightarrow> nat \<times> string" where
  "fifo_key c = (c_Sequence c, c_ID c)"

definition Eligible :: "Candidate list \<Rightarrow> int \<Rightarrow> int \<Rightarrow> Candidate list" where
  "Eligible candidates now limit =
     (if limit \<le> 0 then []
      else let out = sort_key fifo_key (filter (\<lambda>c. c_ExpiresAt c > now) candidates)
           in if int (length out) > limit then take (nat limit) out else out)"

type_synonym policy = "Candidate list \<Rightarrow> int \<Rightarrow> int \<Rightarrow> Candidate list"

definition New_policy :: "string \<Rightarrow> policy_error + policy" where
  "New_policy kind = (if kind \<noteq> ''fifo'' then Inl ErrUnsupported else Inr Eligible)"

section \<open>The policy interface\<close>

text \<open>
  What the queue relies on: a policy returns at most \<open>limit\<close> of the given candidates, none of
  them expired and none of them twice, and it never passes over an unexpired candidate in favour
  of one that joined later.
\<close>

locale queue_policy =
  fixes eligible :: policy
  assumes eligible_subset: "set (eligible cs now limit) \<subseteq> {c \<in> set cs. now < c_ExpiresAt c}"
    and eligible_mset: "mset (eligible cs now limit) \<subseteq># mset cs"
    and eligible_limit: "int (length (eligible cs now limit)) \<le> max 0 limit"
    and eligible_sorted: "sorted (map c_Sequence (eligible cs now limit))"
    and eligible_first: "c \<in> set (eligible cs now limit) \<Longrightarrow> d \<in> set cs \<Longrightarrow>
      d \<notin> set (eligible cs now limit) \<Longrightarrow> now < c_ExpiresAt d \<Longrightarrow> c_Sequence c \<le> c_Sequence d"
begin

lemma eligible_distinct_ids:
  assumes "distinct (map c_ID cs)"
  shows "distinct (map c_ID (eligible cs now limit))"
proof -
  have "mset (map c_ID (eligible cs now limit)) \<subseteq># mset (map c_ID cs)"
    using eligible_mset [of cs now limit] by (simp add: image_mset_subseteq_mono)
  then show ?thesis
    using assms by (rule distinct_subseteq_mset)
qed

lemma eligible_none: "limit \<le> 0 \<Longrightarrow> eligible cs now limit = []"
  using eligible_limit [of cs now limit] by simp

lemma eligible_member:
  "c \<in> set (eligible cs now limit) \<Longrightarrow> c \<in> set cs \<and> now < c_ExpiresAt c"
  using eligible_subset by blast

end

section \<open>FIFO implements the interface\<close>

lemma Eligible_take:
  "Eligible cs now limit =
     take (nat limit) (sort_key fifo_key (filter (\<lambda>c. c_ExpiresAt c > now) cs))"
  by (simp add: Eligible_def Let_def)

lemma sorted_fifo_key_sequence: "sorted (map fifo_key xs) \<Longrightarrow> sorted (map c_Sequence xs)"
  by (induction xs) (auto simp: fifo_key_def less_eq_prod_def)

lemma sorted_take_le:
  fixes f :: "'a \<Rightarrow> 'b :: linorder"
  assumes "sorted (map f xs)" and "c \<in> set (take n xs)" and "d \<in> set xs" and "d \<notin> set (take n xs)"
  shows "f c \<le> f d"
proof -
  have "d \<in> set (drop n xs)"
    using assms(3,4) by (metis Un_iff append_take_drop_id set_append)
  moreover have "sorted (map f (take n xs) @ map f (drop n xs))"
    using assms(1) by (metis append_take_drop_id map_append)
  ultimately show ?thesis
    using assms(2) by (auto simp: sorted_append)
qed

interpretation fifo: queue_policy Eligible
proof
  fix cs :: "Candidate list" and now limit :: int and c d
  let ?u = "filter (\<lambda>c. c_ExpiresAt c > now) cs"
  let ?s = "sort_key fifo_key ?u"
  show "set (Eligible cs now limit) \<subseteq> {c \<in> set cs. now < c_ExpiresAt c}"
    unfolding Eligible_take by (auto dest: in_set_takeD)
  have "mset (Eligible cs now limit) \<subseteq># mset ?s"
    unfolding Eligible_take by (metis append_take_drop_id mset_append mset_subset_eq_add_left)
  also have "mset ?s \<subseteq># mset cs" by simp
  finally show "mset (Eligible cs now limit) \<subseteq># mset cs" .
  show "int (length (Eligible cs now limit)) \<le> max 0 limit"
    unfolding Eligible_take by simp
  have sorted: "sorted (map c_Sequence ?s)"
    by (rule sorted_fifo_key_sequence) simp
  then show "sorted (map c_Sequence (Eligible cs now limit))"
    unfolding Eligible_take by (metis sorted_wrt_take take_map)
  assume "c \<in> set (Eligible cs now limit)" and "d \<in> set cs"
    and "d \<notin> set (Eligible cs now limit)" and "now < c_ExpiresAt d"
  then show "c_Sequence c \<le> c_Sequence d"
    unfolding Eligible_take by (intro sorted_take_le [OF sorted]) auto
qed

section \<open>Properties\<close>



end
