(* ===== verification/WR_Queue.thy ===== *)
theory WR_Queue
  imports WR_Policy
begin

text \<open>
  The queue reference model (\<open>internal/queue/model/model.go\<close>): tickets move from \<open>WAITING\<close> over
  \<open>READY\<close> and \<open>ADMITTED\<close> to \<open>EXPIRED\<close>; joins are idempotent per key; promotion obeys a lease cap and
  a rolling per-minute rate; uncertainty closes the queue until every outstanding admission is
  gone. One definition per method of \<open>Model\<close>, with explicit state passing. Times are \<open>int64\<close>
  milliseconds, sequence and epoch \<open>uint64\<close>; sums and increments wrap as Go's do.
\<close>

section \<open>Data\<close>

definition Minute :: int where
  "Minute = 60000"

text \<open>\<open>StateZero\<close> is the empty string, the state of a zero \<open>Ticket\<close> value.\<close>

datatype TState = StateZero | Waiting | Ready | Admitted | Expired

datatype Mode = Auto | Hold | Draining | Recovery

datatype queue_error =
    ErrCapacity | ErrConflict | ErrExpired | ErrNotReady | ErrUnavailable | ErrDrain | ErrClock
  | ErrModelConfig | ErrKeyRequired

record QueueConfig =
  VisitorCap :: int
  IdempotencyCap :: int
  LeaseCap :: int
  Rate :: int
  IdleTTL :: int
  TicketTTL :: int
  ReadyTTL :: int
  AdmissionTTL :: int
  IdempotencyTTL :: int
  ClockSkew :: int

definition DefaultConfig :: QueueConfig where
  "DefaultConfig = \<lparr>VisitorCap = 10000, IdempotencyCap = 20000, LeaseCap = 1000, Rate = 600,
     IdleTTL = 600000, TicketTTL = 86400000, ReadyTTL = 120000,
     AdmissionTTL = 900000, IdempotencyTTL = 600000, ClockSkew = 30000\<rparr>"

record Ticket =
  t_ID :: string
  t_Sequence :: nat
  t_State :: TState
  t_Epoch :: nat
  t_JoinedAt :: int
  t_IdleUntil :: int
  t_AbsoluteUntil :: int
  t_ReadyUntil :: int
  t_AdmissionUntil :: int
  t_JTI :: string
  t_PromotedAt :: int

definition zero_Ticket :: Ticket where
  "zero_Ticket = \<lparr>t_ID = '''', t_Sequence = 0, t_State = StateZero, t_Epoch = 0, t_JoinedAt = 0,
     t_IdleUntil = 0, t_AbsoluteUntil = 0, t_ReadyUntil = 0, t_AdmissionUntil = 0, t_JTI = '''',
     t_PromotedAt = 0\<rparr>"

record idem =
  i_ID :: string
  i_Fingerprint :: string
  i_Until :: int

record Promotion =
  p_ID :: string
  p_Sequence :: nat
  p_At :: int
  p_Epoch :: nat

record Model =
  m_config :: QueueConfig
  m_now :: int
  m_epoch :: nat
  m_sequence :: nat
  m_mode :: Mode
  m_unsafeUntil :: int
  m_cutoff :: nat
  m_tickets :: "(string \<times> Ticket) list"
  m_idempotency :: "(string \<times> idem) list"
  m_rateTimes :: "int list"
  m_promotions :: "Promotion list"

section \<open>Operations\<close>

definition valid_config :: "QueueConfig \<Rightarrow> bool" where
  "valid_config c \<longleftrightarrow> \<not> (VisitorCap c \<le> 0 \<or> IdempotencyCap c \<le> 0 \<or> LeaseCap c \<le> 0 \<or>
     LeaseCap c > VisitorCap c \<or> Rate c \<le> 0 \<or> IdleTTL c \<le> 0 \<or> TicketTTL c < IdleTTL c \<or>
     ReadyTTL c \<le> 0 \<or> AdmissionTTL c < Minute \<or> AdmissionTTL c > 60 * Minute \<or>
     IdempotencyTTL c \<le> 0 \<or> ClockSkew c < 0 \<or> ClockSkew c > 30000)"

definition New :: "QueueConfig \<Rightarrow> queue_error + Model" where
  "New c = (if \<not> valid_config c then Inl ErrModelConfig
     else Inr \<lparr>m_config = c, m_now = 0, m_epoch = 1, m_sequence = 0, m_mode = Auto,
       m_unsafeUntil = 0, m_cutoff = 0, m_tickets = [], m_idempotency = [], m_rateTimes = [],
       m_promotions = []\<rparr>)"

text \<open>The body of the ticket loop of \<open>Advance\<close>.\<close>

definition expire_ticket :: "QueueConfig \<Rightarrow> int \<Rightarrow> Ticket \<Rightarrow> Ticket" where
  "expire_ticket c now t =
     (case t_State t of
        Waiting \<Rightarrow>
          if now \<ge> min (t_IdleUntil t) (t_AbsoluteUntil t) then t\<lparr>t_State := Expired\<rparr> else t
      | Ready \<Rightarrow> if now \<ge> t_ReadyUntil t then t\<lparr>t_State := Expired\<rparr> else t
      | Admitted \<Rightarrow>
          if now \<ge> i64 (t_AdmissionUntil t + ClockSkew c) then t\<lparr>t_State := Expired\<rparr> else t
      | _ \<Rightarrow> t)"

definition Advance :: "Model \<Rightarrow> int \<Rightarrow> queue_error option \<times> Model" where
  "Advance m to =
     (if to < m_now m then (Some ErrClock, m)
      else (None, m\<lparr>m_now := to,
        m_tickets := map (\<lambda>(id, t). (id, expire_ticket (m_config m) to t)) (m_tickets m),
        m_idempotency := filter (\<lambda>(key, value). \<not> to \<ge> i_Until value) (m_idempotency m),
        m_rateTimes := dropWhile (\<lambda>x. x \<le> i64 (to - Minute)) (m_rateTimes m)\<rparr>))"

definition VisitorCount :: "Model \<Rightarrow> int" where
  "VisitorCount m = int (count_if (\<lambda>t. t_State t \<noteq> Expired) (m_tickets m))"

definition LeaseCount :: "Model \<Rightarrow> int" where
  "LeaseCount m = int (count_if (\<lambda>t. t_State t = Ready \<or> t_State t = Admitted) (m_tickets m))"

definition ticket_id :: "nat \<Rightarrow> nat \<Rightarrow> string" where
  "ticket_id epoch sequence = dec epoch @ '':'' @ dec sequence"

definition Join :: "Model \<Rightarrow> string \<Rightarrow> string \<Rightarrow> (queue_error + Ticket) \<times> Model" where
  "Join m key fingerprint =
     (if key = '''' \<or> fingerprint = '''' then (Inl ErrKeyRequired, m)
      else case map_of (m_idempotency m) key of
        Some old \<Rightarrow>
          if i_Fingerprint old \<noteq> fingerprint then (Inl ErrConflict, m)
          else (Inr (case map_of (m_tickets m) (i_ID old) of None \<Rightarrow> zero_Ticket | Some t \<Rightarrow> t), m)
      | None \<Rightarrow>
          if m_mode m = Recovery then (Inl ErrUnavailable, m)
          else if m_mode m = Draining then (Inl ErrDrain, m)
          else if VisitorCount m \<ge> VisitorCap (m_config m)
              \<or> int (length (m_idempotency m)) \<ge> IdempotencyCap (m_config m)
            then (Inl ErrCapacity, m)
          else
            let sequence = u64 (m_sequence m + 1);
                id = ticket_id (m_epoch m) sequence;
                t = zero_Ticket\<lparr>t_ID := id, t_Sequence := sequence, t_Epoch := m_epoch m,
                      t_State := Waiting, t_JoinedAt := m_now m,
                      t_IdleUntil := i64 (m_now m + IdleTTL (m_config m)),
                      t_AbsoluteUntil := i64 (m_now m + TicketTTL (m_config m))\<rparr>
            in (Inr t, m\<lparr>m_sequence := sequence,
                  m_tickets := AList.update id t (m_tickets m),
                  m_idempotency := AList.update key
                    \<lparr>i_ID = id, i_Fingerprint = fingerprint,
                     i_Until = i64 (m_now m + IdempotencyTTL (m_config m))\<rparr> (m_idempotency m)\<rparr>))"

definition Status :: "Model \<Rightarrow> string \<Rightarrow> queue_error + Ticket" where
  "Status m tid = (case map_of (m_tickets m) tid of
     None \<Rightarrow> Inl ErrExpired
   | Some t \<Rightarrow> if t_State t = Expired then Inl ErrExpired else Inr t)"

definition Heartbeat :: "Model \<Rightarrow> string \<Rightarrow> queue_error option \<times> Model" where
  "Heartbeat m tid = (case Status m tid of
     Inl e \<Rightarrow> (Some e, m)
   | Inr t \<Rightarrow>
       if m_mode m = Recovery then (Some ErrUnavailable, m)
       else if t_State t = Waiting then
         (None, m\<lparr>m_tickets := AList.update tid
            (t\<lparr>t_IdleUntil := min (i64 (m_now m + IdleTTL (m_config m))) (t_AbsoluteUntil t)\<rparr>)
            (m_tickets m)\<rparr>)
       else (None, m))"

text \<open>The body of the promotion loop for one chosen candidate.\<close>

definition promote_one :: "Candidate \<Rightarrow> Model \<Rightarrow> Ticket \<times> Model" where
  "promote_one c m =
     (let t0 = (case map_of (m_tickets m) (c_ID c) of None \<Rightarrow> zero_Ticket | Some t \<Rightarrow> t);
          admission = i64 (m_now m + AdmissionTTL (m_config m));
          t = t0\<lparr>t_State := Ready, t_AdmissionUntil := admission,
                t_ReadyUntil := min (i64 (m_now m + ReadyTTL (m_config m))) admission,
                t_JTI := ''admission:'' @ t_ID t0\<rparr>
      in (t, m\<lparr>m_tickets := AList.update (t_ID t) t (m_tickets m),
             m_rateTimes := m_rateTimes m @ [m_now m],
             m_promotions := m_promotions m @
               [\<lparr>p_ID = t_ID t, p_Sequence = t_Sequence t, p_At = m_now m, p_Epoch = t_Epoch t\<rparr>]\<rparr>))"

fun promote_loop :: "Candidate list \<Rightarrow> Model \<Rightarrow> Ticket list \<times> Model" where
  "promote_loop [] m = ([], m)"
| "promote_loop (c # cs) m =
     (let (t, m') = promote_one c m; (out, m'') = promote_loop cs m' in (t # out, m''))"

definition promotion_budget :: "Model \<Rightarrow> int \<Rightarrow> int" where
  "promotion_budget m limit =
     min limit (min (LeaseCap (m_config m) - LeaseCount m)
                    (Rate (m_config m) - int (length (m_rateTimes m))))"

definition promotion_candidates :: "Model \<Rightarrow> Candidate list" where
  "promotion_candidates m =
     map (\<lambda>(id, t). \<lparr>c_ID = t_ID t, c_Sequence = t_Sequence t,
                    c_ExpiresAt = min (t_IdleUntil t) (t_AbsoluteUntil t)\<rparr>)
       (filter (\<lambda>(id, t). t_State t = Waiting \<and> (m_mode m \<noteq> Draining \<or> t_Sequence t \<le> m_cutoff m))
         (m_tickets m))"

definition Promote :: "Model \<Rightarrow> int \<Rightarrow> Ticket list \<times> Model" where
  "Promote m limit =
     (if m_mode m \<noteq> Auto \<and> m_mode m \<noteq> Draining then ([], m)
      else let budget = promotion_budget m limit
        in if budget \<le> 0 then ([], m)
           else promote_loop (Eligible (promotion_candidates m) (m_now m) budget) m)"

definition Claim :: "Model \<Rightarrow> string \<Rightarrow> (queue_error + Ticket) \<times> Model" where
  "Claim m tid = (case Status m tid of
     Inl e \<Rightarrow> (Inl e, m)
   | Inr t \<Rightarrow>
       if m_mode m = Recovery then (Inl ErrUnavailable, m)
       else if t_State t = Admitted then
         (if m_now m \<ge> t_AdmissionUntil t then (Inl ErrExpired, m) else (Inr t, m))
       else if t_State t \<noteq> Ready then (Inl ErrNotReady, m)
       else let t' = t\<lparr>t_State := Admitted\<rparr>
         in (Inr t', m\<lparr>m_tickets := AList.update tid t' (m_tickets m)\<rparr>))"

definition SetHold :: "Model \<Rightarrow> bool \<Rightarrow> queue_error option \<times> Model" where
  "SetHold m hold =
     (if m_mode m = Recovery then (Some ErrUnavailable, m)
      else (None, m\<lparr>m_mode := (if hold then Hold else Auto)\<rparr>))"

definition Drain :: "Model \<Rightarrow> queue_error option \<times> Model" where
  "Drain m =
     (if m_mode m = Recovery then (Some ErrUnavailable, m)
      else (None, m\<lparr>m_mode := Draining, m_cutoff := m_sequence m\<rparr>))"

definition Uncertain :: "Model \<Rightarrow> int \<times> Model" where
  "Uncertain m =
     (let c = m_config m;
          until = max (m_unsafeUntil m)
            (i64 (i64 (m_now m + max (max (AdmissionTTL c) (ReadyTTL c)) Minute) + ClockSkew c))
      in (until, m\<lparr>m_mode := Recovery, m_unsafeUntil := until\<rparr>))"

definition Resume :: "Model \<Rightarrow> bool \<Rightarrow> queue_error option \<times> Model" where
  "Resume m verified =
     (if m_mode m \<noteq> Recovery \<or> \<not> verified \<or> m_now m < m_unsafeUntil m
      then (Some ErrUnavailable, m)
      else (None, m\<lparr>m_mode := Auto\<rparr>))"

definition NewEpoch :: "Model \<Rightarrow> Model" where
  "NewEpoch m = m\<lparr>m_epoch := u64 (m_epoch m + 1), m_sequence := 0, m_tickets := [],
     m_idempotency := [], m_rateTimes := [], m_unsafeUntil := 0, m_mode := Hold\<rparr>"

definition Snapshot :: "Model \<Rightarrow> Ticket list" where
  "Snapshot m = sort_key t_Sequence (map snd (m_tickets m))"

definition Promotions :: "Model \<Rightarrow> Promotion list" where
  "Promotions m = m_promotions m"

section \<open>Commands and reachable states\<close>

datatype op =
    OpAdvance int
  | OpJoin string string
  | OpHeartbeat string
  | OpPromote int
  | OpClaim string
  | OpSetHold bool
  | OpDrain
  | OpUncertain
  | OpResume bool
  | OpNewEpoch

fun step :: "Model \<Rightarrow> op \<Rightarrow> Model" where
  "step m (OpAdvance to) = snd (Advance m to)"
| "step m (OpJoin key fingerprint) = snd (Join m key fingerprint)"
| "step m (OpHeartbeat tid) = snd (Heartbeat m tid)"
| "step m (OpPromote limit) = snd (Promote m limit)"
| "step m (OpClaim tid) = snd (Claim m tid)"
| "step m (OpSetHold hold) = snd (SetHold m hold)"
| "step m OpDrain = snd (Drain m)"
| "step m OpUncertain = snd (Uncertain m)"
| "step m (OpResume verified) = snd (Resume m verified)"
| "step m OpNewEpoch = NewEpoch m"

text \<open>
  The commands for which no counter leaves its range: a clock below \<open>2\<^sup>6\<^sup>1\<close> milliseconds and
  fewer than \<open>2\<^sup>6\<^sup>4\<close> joins per epoch and epochs. With durations below \<open>2\<^sup>6\<^sup>1\<close> as well, no sum of the
  code wraps.
\<close>

definition time_bound :: int where
  "time_bound = 2 ^ 61"

fun in_range :: "Model \<Rightarrow> op \<Rightarrow> bool" where
  "in_range m (OpAdvance to) \<longleftrightarrow> to \<le> time_bound"
| "in_range m (OpJoin key fingerprint) \<longleftrightarrow> m_sequence m + 1 < 2 ^ 64"
| "in_range m OpNewEpoch \<longleftrightarrow> m_epoch m + 1 < 2 ^ 64"
| "in_range m _ \<longleftrightarrow> True"

definition short_ttls :: "QueueConfig \<Rightarrow> bool" where
  "short_ttls c \<longleftrightarrow> IdleTTL c \<le> time_bound \<and> TicketTTL c \<le> time_bound \<and> ReadyTTL c \<le> time_bound"

inductive reachable :: "QueueConfig \<Rightarrow> Model \<Rightarrow> bool" for c where
  start: "New c = Inr m \<Longrightarrow> reachable c m"
| step: "reachable c m \<Longrightarrow> in_range m p \<Longrightarrow> reachable c (step m p)"

end
