(* ===== verification/WR_Queue_Inv.thy ===== *)
theory WR_Queue_Inv
  imports WR_Queue
begin

text \<open>
  The invariant of the queue model and its preservation by every operation. It has five parts:
  the shape of the maps (\<open>shape_inv\<close>), the quotas (\<open>quota_inv\<close>), the deadlines of live tickets
  (\<open>deadline_inv\<close>), the promotion history (\<open>history_inv\<close>) and the recovery window
  (\<open>recovery_inv\<close>).
\<close>

section \<open>The invariant\<close>

definition ticket_shape :: "nat \<Rightarrow> nat \<Rightarrow> string \<Rightarrow> Ticket \<Rightarrow> bool" where
  "ticket_shape epoch sequence k t \<longleftrightarrow> t_ID t = k \<and> k = ticket_id epoch (t_Sequence t) \<and>
     t_Epoch t = epoch \<and> 1 \<le> t_Sequence t \<and> t_Sequence t \<le> sequence \<and> t_State t \<noteq> StateZero"

definition shape_inv :: "Model \<Rightarrow> bool" where
  "shape_inv m \<longleftrightarrow> distinct (map fst (m_tickets m)) \<and> distinct (map fst (m_idempotency m)) \<and>
     (\<forall>(k, t) \<in> set (m_tickets m). ticket_shape (m_epoch m) (m_sequence m) k t) \<and>
     (\<forall>(k, i) \<in> set (m_idempotency m). i_ID i \<in> fst ` set (m_tickets m)) \<and>
     m_sequence m < 2 ^ 64 \<and> m_epoch m < 2 ^ 64"

definition quota_inv :: "Model \<Rightarrow> bool" where
  "quota_inv m \<longleftrightarrow> valid_config (m_config m) \<and>
     VisitorCount m \<le> VisitorCap (m_config m) \<and> LeaseCount m \<le> LeaseCap (m_config m) \<and>
     int (length (m_idempotency m)) \<le> IdempotencyCap (m_config m) \<and>
     int (length (m_rateTimes m)) \<le> Rate (m_config m)"

definition ticket_deadline :: "QueueConfig \<Rightarrow> int \<Rightarrow> Ticket \<Rightarrow> bool" where
  "ticket_deadline c now t \<longleftrightarrow>
     (t_State t = Waiting \<longrightarrow> now < t_IdleUntil t \<and> now < t_AbsoluteUntil t) \<and>
     (t_State t = Ready \<longrightarrow> now < t_ReadyUntil t \<and> t_ReadyUntil t \<le> now + ReadyTTL c
        \<and> t_ReadyUntil t \<le> t_AdmissionUntil t) \<and>
     (t_State t = Ready \<or> t_State t = Admitted \<longrightarrow> now < t_AdmissionUntil t + ClockSkew c
        \<and> t_AdmissionUntil t \<le> now + AdmissionTTL c \<and> 0 \<le> t_AdmissionUntil t)"

definition deadline_inv :: "Model \<Rightarrow> bool" where
  "deadline_inv m \<longleftrightarrow> short_ttls (m_config m) \<and> 0 \<le> m_now m \<and> m_now m \<le> time_bound \<and>
     (\<forall>(k, t) \<in> set (m_tickets m). ticket_deadline (m_config m) (m_now m) t)"

text \<open>The promotions of one epoch, and those of them in the minute that ends at a given time.\<close>

definition epoch_promotions :: "nat \<Rightarrow> Promotion list \<Rightarrow> Promotion list" where
  "epoch_promotions e ps = filter (\<lambda>p. p_Epoch p = e) ps"

definition minute_promotions :: "nat \<Rightarrow> int \<Rightarrow> Promotion list \<Rightarrow> Promotion list" where
  "minute_promotions e until ps =
     filter (\<lambda>p. until - Minute < p_At p \<and> p_At p \<le> until) (epoch_promotions e ps)"

definition history_inv :: "Model \<Rightarrow> bool" where
  "history_inv m \<longleftrightarrow>
     (\<forall>p \<in> set (m_promotions m). p_Epoch p \<le> m_epoch m \<and> p_At p \<le> m_now m) \<and>
     m_rateTimes m = map p_At (minute_promotions (m_epoch m) (m_now m) (m_promotions m)) \<and>
     sorted (map p_At (m_promotions m)) \<and>
     (\<forall>e until. int (length (minute_promotions e until (m_promotions m))) \<le> Rate (m_config m)) \<and>
     (\<forall>e. sorted_wrt (<) (map p_Sequence (epoch_promotions e (m_promotions m)))) \<and>
     (\<forall>p \<in> set (epoch_promotions (m_epoch m) (m_promotions m)). p_Sequence p \<le> m_sequence m) \<and>
     (\<forall>p \<in> set (epoch_promotions (m_epoch m) (m_promotions m)). \<forall>(k, t) \<in> set (m_tickets m).
        t_State t = Waiting \<longrightarrow> p_Sequence p < t_Sequence t)"

definition recovery_inv :: "Model \<Rightarrow> bool" where
  "recovery_inv m \<longleftrightarrow> (m_mode m = Recovery \<longrightarrow>
     (\<forall>(k, t) \<in> set (m_tickets m). (t_State t = Ready \<longrightarrow> t_ReadyUntil t \<le> m_unsafeUntil m) \<and>
        (t_State t = Admitted \<longrightarrow> t_AdmissionUntil t + ClockSkew (m_config m) \<le> m_unsafeUntil m)) \<and>
     (\<forall>x \<in> set (m_rateTimes m). x + Minute \<le> m_unsafeUntil m))"

definition queue_inv :: "Model \<Rightarrow> bool" where
  "queue_inv m \<longleftrightarrow> shape_inv m \<and> quota_inv m \<and> deadline_inv m \<and> history_inv m \<and> recovery_inv m"

lemmas queue_inv_parts = shape_inv_def quota_inv_def deadline_inv_def history_inv_def recovery_inv_def

section \<open>Arithmetic that does not wrap\<close>

lemma time_sum_id:
  assumes "0 \<le> now" and "now \<le> time_bound" and "0 \<le> d" and "d \<le> time_bound"
  shows "i64 (now + d) = now + d"
  using assms by (intro i64_id) (simp_all add: time_bound_def)

lemma valid_configD:
  assumes "valid_config c"
  shows "0 < VisitorCap c" "0 < IdempotencyCap c" "0 < LeaseCap c" "LeaseCap c \<le> VisitorCap c"
    "0 < Rate c" "0 < IdleTTL c" "IdleTTL c \<le> TicketTTL c" "0 < ReadyTTL c" "60000 \<le> AdmissionTTL c"
    "AdmissionTTL c \<le> 3600000" "0 \<le> ClockSkew c" "ClockSkew c \<le> 30000" "0 < IdempotencyTTL c"
  using assms by (auto simp: valid_config_def Minute_def)

lemma queue_sums:
  assumes "valid_config c" and "short_ttls c" and "0 \<le> now" and "now \<le> time_bound"
  shows "i64 (now + IdleTTL c) = now + IdleTTL c" "i64 (now + TicketTTL c) = now + TicketTTL c"
    "i64 (now + ReadyTTL c) = now + ReadyTTL c" "i64 (now + AdmissionTTL c) = now + AdmissionTTL c"
    "i64 (now - Minute) = now - Minute"
    "i64 (i64 (now + max (max (AdmissionTTL c) (ReadyTTL c)) Minute) + ClockSkew c)
       = now + max (max (AdmissionTTL c) (ReadyTTL c)) Minute + ClockSkew c"
proof -
  note v = valid_configD [OF assms(1)]
  note s = assms(2) [unfolded short_ttls_def]
  show "i64 (now + IdleTTL c) = now + IdleTTL c" "i64 (now + TicketTTL c) = now + TicketTTL c"
    "i64 (now + ReadyTTL c) = now + ReadyTTL c"
    using v s assms(3,4) by (auto intro!: time_sum_id)
  show "i64 (now + AdmissionTTL c) = now + AdmissionTTL c"
    using v assms(3,4) by (intro time_sum_id) (auto simp: time_bound_def)
  show "i64 (now - Minute) = now - Minute"
    using assms(3,4) by (intro i64_id) (auto simp: time_bound_def Minute_def)
  have "i64 (now + max (max (AdmissionTTL c) (ReadyTTL c)) Minute)
      = now + max (max (AdmissionTTL c) (ReadyTTL c)) Minute"
    using v s assms(3,4) by (intro time_sum_id) (auto simp: time_bound_def Minute_def)
  moreover have "i64 (now + max (max (AdmissionTTL c) (ReadyTTL c)) Minute + ClockSkew c)
      = now + max (max (AdmissionTTL c) (ReadyTTL c)) Minute + ClockSkew c"
    using v s assms(3,4) by (intro i64_id) (auto simp: time_bound_def Minute_def)
  ultimately show "i64 (i64 (now + max (max (AdmissionTTL c) (ReadyTTL c)) Minute) + ClockSkew c)
       = now + max (max (AdmissionTTL c) (ReadyTTL c)) Minute + ClockSkew c"
    by simp
qed

lemma admission_leeway:
  assumes "ticket_deadline c now t" and "t_State t = Admitted" and "valid_config c"
    and "0 \<le> now" and "now \<le> time_bound"
  shows "i64 (t_AdmissionUntil t + ClockSkew c) = t_AdmissionUntil t + ClockSkew c"
  using assms valid_configD [OF assms(3)]
  by (intro i64_id) (auto simp: ticket_deadline_def time_bound_def)

section \<open>Promotion histories\<close>

lemma epoch_promotions_append [simp]:
  "epoch_promotions e (ps @ [p]) = epoch_promotions e ps @ (if p_Epoch p = e then [p] else [])"
  by (simp add: epoch_promotions_def)

lemma minute_promotions_append [simp]:
  "minute_promotions e u (ps @ [p]) = minute_promotions e u ps @
     (if p_Epoch p = e \<and> u - Minute < p_At p \<and> p_At p \<le> u then [p] else [])"
  by (simp add: minute_promotions_def)

lemma epoch_promotions_set: "p \<in> set (epoch_promotions e ps) \<longleftrightarrow> p \<in> set ps \<and> p_Epoch p = e"
  by (auto simp: epoch_promotions_def)

lemma minute_promotions_set:
  "p \<in> set (minute_promotions e u ps) \<longleftrightarrow>
     p \<in> set ps \<and> p_Epoch p = e \<and> u - Minute < p_At p \<and> p_At p \<le> u"
  by (auto simp: minute_promotions_def epoch_promotions_set)

lemma sorted_epoch_promotions:
  "sorted (map p_At ps) \<Longrightarrow> sorted (map p_At (minute_promotions e u ps))"
  unfolding minute_promotions_def epoch_promotions_def by (intro sorted_filter)

text \<open>Dropping the times that left the minute is the minute of the later clock.\<close>

lemma minute_promotions_advance:
  assumes "sorted (map p_At ps)" and "\<forall>p \<in> set ps. p_At p \<le> now" and "now \<le> u"
  shows "map p_At (minute_promotions e u ps) =
    dropWhile (\<lambda>x. x \<le> u - Minute) (map p_At (minute_promotions e now ps))"
proof -
  have *: "dropWhile (\<lambda>x. x \<le> b) ys = filter (\<lambda>x. b < x) ys" if "sorted ys" for b :: int and ys
    using that by (induction ys) (auto intro!: filter_True [symmetric])
  have "map p_At (minute_promotions e u ps)
      = filter (\<lambda>x. u - Minute < x) (map p_At (minute_promotions e now ps))"
    unfolding minute_promotions_def epoch_promotions_def filter_map filter_filter comp_def
    using assms(2,3) by (intro arg_cong [where f = "map p_At"] filter_cong) auto
  also have "\<dots> = dropWhile (\<lambda>x. x \<le> u - Minute) (map p_At (minute_promotions e now ps))"
    by (rule * [symmetric]) (rule sorted_epoch_promotions [OF assms(1)])
  finally show ?thesis .
qed

section \<open>Preservation by the ticket operations\<close>

text \<open>An operation that rewrites tickets in place and at most forgets idempotency records.\<close>

lemma shape_inv_same_keys:
  assumes "shape_inv m" and "map fst (m_tickets m') = map fst (m_tickets m)"
    and "\<forall>(k, t) \<in> set (m_tickets m'). ticket_shape (m_epoch m) (m_sequence m) k t"
    and "set (m_idempotency m') \<subseteq> set (m_idempotency m)"
    and "distinct (map fst (m_idempotency m'))"
    and "m_epoch m' = m_epoch m" and "m_sequence m' = m_sequence m"
  shows "shape_inv m'"
proof -
  have "fst ` set (m_tickets m') = fst ` set (m_tickets m)"
    using assms(2) by (metis list.set_map)
  with assms show ?thesis by (auto simp: shape_inv_def)
qed


lemma quota_inv_mono:
  assumes "quota_inv m" and "m_config m' = m_config m" and "VisitorCount m' \<le> VisitorCount m"
    and "LeaseCount m' \<le> LeaseCount m" and "length (m_idempotency m') \<le> length (m_idempotency m)"
    and "length (m_rateTimes m') \<le> length (m_rateTimes m)"
  shows "quota_inv m'"
  using assms by (auto simp: quota_inv_def)

text \<open>
  An operation that promotes nobody: waiting tickets are old ones or joined behind every
  sequence number given out so far.
\<close>

lemma history_inv_frame:
  assumes H: "history_inv m" and p: "m_promotions m' = m_promotions m" "m_epoch m' = m_epoch m"
      "m_config m' = m_config m" "m_sequence m \<le> m_sequence m'" "m_now m \<le> m_now m'"
    and r: "m_rateTimes m' = map p_At (minute_promotions (m_epoch m) (m_now m') (m_promotions m))"
    and w: "\<And>k t. (k, t) \<in> set (m_tickets m') \<Longrightarrow> t_State t = Waiting \<Longrightarrow>
      m_sequence m < t_Sequence t \<or>
      (\<exists>t0. (k, t0) \<in> set (m_tickets m) \<and> t_State t0 = Waiting \<and> t_Sequence t0 = t_Sequence t)"
  shows "history_inv m'"
proof -
  have old: "p_Epoch q \<le> m_epoch m" "p_At q \<le> m_now m'" if "q \<in> set (m_promotions m)" for q
    using H that p(5) by (auto simp: history_inv_def)
  have seq: "p_Sequence q \<le> m_sequence m'"
    if "q \<in> set (epoch_promotions (m_epoch m) (m_promotions m))" for q
    using H that p(4) by (auto simp: history_inv_def)
  have fifo: "p_Sequence q < t_Sequence t"
    if q: "q \<in> set (epoch_promotions (m_epoch m) (m_promotions m))"
      and t: "(k, t) \<in> set (m_tickets m')" "t_State t = Waiting" for q k t
  proof -
    from H q have "p_Sequence q \<le> m_sequence m" by (auto simp: history_inv_def)
    moreover from H q have "p_Sequence q < t_Sequence t0"
      if "(k, t0) \<in> set (m_tickets m)" "t_State t0 = Waiting" for t0
      using that by (fastforce simp: history_inv_def)
    ultimately show ?thesis using w [OF t] by fastforce
  qed
  from H old seq fifo show ?thesis by (auto simp: history_inv_def p r)
qed

lemma queue_inv_New:
  assumes "New c = Inr m" and "short_ttls c"
  shows "queue_inv m"
proof -
  have v: "valid_config c" using assms(1) by (auto simp: New_def split: if_splits)
  show ?thesis
    using assms v valid_configD [OF v]
    by (auto simp: New_def queue_inv_def queue_inv_parts VisitorCount_def LeaseCount_def
        minute_promotions_def epoch_promotions_def time_bound_def split: if_splits)
qed

lemma expire_ticket_fields [simp]:
  "t_ID (expire_ticket c now t) = t_ID t" "t_Sequence (expire_ticket c now t) = t_Sequence t"
  "t_Epoch (expire_ticket c now t) = t_Epoch t"
  "t_IdleUntil (expire_ticket c now t) = t_IdleUntil t"
  "t_AbsoluteUntil (expire_ticket c now t) = t_AbsoluteUntil t"
  "t_ReadyUntil (expire_ticket c now t) = t_ReadyUntil t"
  "t_AdmissionUntil (expire_ticket c now t) = t_AdmissionUntil t"
  by (simp_all add: expire_ticket_def split: TState.split)

lemma expire_ticket_state:
  "t_State (expire_ticket c now t) = t_State t \<or> t_State (expire_ticket c now t) = Expired"
  by (simp add: expire_ticket_def split: TState.split)

lemma expire_ticket_live:
  assumes "t_State (expire_ticket c now t) = s" and "s \<noteq> Expired"
  shows "t_State t = s"
  using assms expire_ticket_state [of c now t] by auto

lemma expire_ticket_deadline:
  assumes "ticket_deadline c old t" and "old \<le> now" and "valid_config c"
    and "0 \<le> old" and "now \<le> time_bound"
  shows "ticket_deadline c now (expire_ticket c now t)"
proof -
  have "old \<le> time_bound" using assms(2,5) by simp
  with admission_leeway [OF assms(1) _ assms(3,4)] assms(1,2) valid_configD(11) [OF assms(3)]
  show ?thesis
    by (cases "t_State t") (auto simp: expire_ticket_def ticket_deadline_def)
qed

lemma queue_inv_Advance:
  assumes inv: "queue_inv m" and "to \<le> time_bound"
  shows "queue_inv (snd (Advance m to))"
proof (cases "to < m_now m")
  case False
  let ?c = "m_config m"
  let ?m = "snd (Advance m to)"
  from False have m: "?m = m\<lparr>m_now := to,
      m_tickets := map (\<lambda>(id, t). (id, expire_ticket ?c to t)) (m_tickets m),
      m_idempotency := filter (\<lambda>(key, value). \<not> to \<ge> i_Until value) (m_idempotency m),
      m_rateTimes := dropWhile (\<lambda>x. x \<le> i64 (to - Minute)) (m_rateTimes m)\<rparr>"
    by (simp add: Advance_def)
  from inv have S: "shape_inv m" and Q: "quota_inv m" and D: "deadline_inv m"
    and H: "history_inv m" and R: "recovery_inv m" by (simp_all add: queue_inv_def)
  from Q have v: "valid_config ?c" by (simp add: quota_inv_def)
  from D have now: "0 \<le> m_now m" "m_now m \<le> time_bound" and ttls: "short_ttls ?c"
    by (simp_all add: deadline_inv_def)
  have to: "0 \<le> to" "m_now m \<le> to" using now False by simp_all
  have minus: "i64 (to - Minute) = to - Minute" using queue_sums(5) [OF v ttls to(1) assms(2)] .
  have "shape_inv ?m"
  proof (rule shape_inv_same_keys [OF S])
    show "map fst (m_tickets ?m) = map fst (m_tickets m)"
      by (simp add: m case_prod_beta comp_def)
    show "\<forall>(k, t) \<in> set (m_tickets ?m). ticket_shape (m_epoch m) (m_sequence m) k t"
      using S expire_ticket_live [of ?c to _ StateZero]
      by (auto simp: m shape_inv_def ticket_shape_def)
    show "distinct (map fst (m_idempotency ?m))"
      using S by (auto simp: m shape_inv_def distinct_map_filter)
  qed (auto simp: m)
  moreover have "quota_inv ?m"
  proof (rule quota_inv_mono [OF Q])
    show "VisitorCount ?m \<le> VisitorCount m"
      using expire_ticket_state by (auto simp: m VisitorCount_def intro!: count_if_map_mono) metis
    show "LeaseCount ?m \<le> LeaseCount m"
      by (auto simp: m LeaseCount_def intro!: count_if_map_mono dest: expire_ticket_live)
  qed (simp_all add: m length_dropWhile_le)
  moreover have "deadline_inv ?m"
    using D to assms(2) expire_ticket_deadline [OF _ to(2) v now(1) assms(2)]
    by (auto simp: deadline_inv_def m)
  moreover have "history_inv ?m"
  proof (rule history_inv_frame [OF H])
    have "map p_At (minute_promotions (m_epoch m) to (m_promotions m)) = m_rateTimes ?m"
      using H to minute_promotions_advance [of "m_promotions m" "m_now m" to "m_epoch m"]
      by (simp add: history_inv_def m minus)
    then show "m_rateTimes ?m =
        map p_At (minute_promotions (m_epoch m) (m_now ?m) (m_promotions m))"
      by (simp add: m)
  qed (use to in \<open>auto simp: m dest: expire_ticket_live\<close>)
  moreover have "recovery_inv ?m"
    using R by (auto simp: recovery_inv_def m dest!: expire_ticket_live set_dropWhileD)
  ultimately show ?thesis by (simp add: queue_inv_def)
qed (use inv in \<open>simp add: Advance_def\<close>)

lemma map_fst_update:
  "map_of kvs k = Some v \<Longrightarrow> map fst (AList.update k w kvs) = map fst kvs"
  by (induction kvs) auto

lemma queue_inv_update:
  assumes inv: "queue_inv m" and t: "map_of (m_tickets m) k = Some t"
    and same: "t_ID t' = t_ID t" "t_Sequence t' = t_Sequence t" "t_Epoch t' = t_Epoch t"
      "t_State t' \<noteq> StateZero"
    and dl: "ticket_deadline (m_config m) (m_now m) t'"
    and st: "t_State t' = Waiting \<Longrightarrow> t_State t = Waiting"
      "t_State t' = Ready \<or> t_State t' = Admitted \<Longrightarrow> t_State t = Ready \<or> t_State t = Admitted"
      "t_State t' \<noteq> Expired \<Longrightarrow> t_State t \<noteq> Expired"
    and mode: "m_mode m \<noteq> Recovery"
  shows "queue_inv (m\<lparr>m_tickets := AList.update k t' (m_tickets m)\<rparr>)"
proof -
  let ?m = "m\<lparr>m_tickets := AList.update k t' (m_tickets m)\<rparr>"
  from inv have S: "shape_inv m" and Q: "quota_inv m" and D: "deadline_inv m"
    and H: "history_inv m" by (simp_all add: queue_inv_def)
  from S have dist: "distinct (map fst (m_tickets m))" by (simp add: shape_inv_def)
  have mem: "(k, t) \<in> set (m_tickets m)" using t by (rule map_of_SomeD)
  note cases = set_update_cases [OF _ dist]
  have "shape_inv ?m"
  proof (rule shape_inv_same_keys [OF S])
    show "map fst (m_tickets ?m) = map fst (m_tickets m)"
      using t by (simp add: map_fst_update)
    show "\<forall>(k, t) \<in> set (m_tickets ?m). ticket_shape (m_epoch m) (m_sequence m) k t"
      using S mem same by (fastforce simp: shape_inv_def ticket_shape_def dest!: cases)
  qed (use S in \<open>auto simp: shape_inv_def\<close>)
  moreover have "quota_inv ?m"
  proof (rule quota_inv_mono [OF Q])
    show "VisitorCount ?m \<le> VisitorCount m"
      using count_if_update [OF dist t, of "\<lambda>t. t_State t \<noteq> Expired" t'] st(3)
      by (auto simp: VisitorCount_def split: if_splits)
    show "LeaseCount ?m \<le> LeaseCount m"
      using count_if_update [OF dist t, of "\<lambda>t. t_State t = Ready \<or> t_State t = Admitted" t'] st(2)
      by (auto simp: LeaseCount_def split: if_splits)
  qed simp_all
  moreover have "deadline_inv ?m"
    using D dl by (fastforce simp: deadline_inv_def dest!: cases)
  moreover have "history_inv ?m"
  proof (rule history_inv_frame [OF H])
    fix k' u assume "(k', u) \<in> set (m_tickets ?m)" "t_State u = Waiting"
    then show "m_sequence m < t_Sequence u \<or>
      (\<exists>t0. (k', t0) \<in> set (m_tickets m) \<and> t_State t0 = Waiting \<and> t_Sequence t0 = t_Sequence u)"
      using mem st(1) same(2) by (auto dest!: cases)
  qed (use H in \<open>simp_all add: history_inv_def\<close>)
  moreover have "recovery_inv ?m" using mode by (simp add: recovery_inv_def)
  ultimately show ?thesis by (simp add: queue_inv_def)
qed

lemma Status_Inr: "Status m k = Inr t \<longleftrightarrow> map_of (m_tickets m) k = Some t \<and> t_State t \<noteq> Expired"
  by (auto simp: Status_def split: option.splits)

lemma queue_inv_ticketD:
  assumes "queue_inv m" and "map_of (m_tickets m) k = Some t"
  shows "ticket_deadline (m_config m) (m_now m) t" "ticket_shape (m_epoch m) (m_sequence m) k t"
  using assms map_of_SomeD [OF assms(2)]
  by (auto simp: queue_inv_def deadline_inv_def shape_inv_def)

lemma queue_inv_Heartbeat:
  assumes inv: "queue_inv m"
  shows "queue_inv (snd (Heartbeat m tid))"
proof -
  let ?c = "m_config m"
  from inv have v: "valid_config ?c" and ttls: "short_ttls ?c"
    and now: "0 \<le> m_now m" "m_now m \<le> time_bound"
    by (simp_all add: queue_inv_def quota_inv_def deadline_inv_def)
  note sums = queue_sums(1) [OF v ttls now] and pos = valid_configD(6) [OF v]
  show ?thesis
    using inv sums pos queue_inv_ticketD [OF inv]
    by (auto simp: Heartbeat_def Status_Inr ticket_deadline_def split: sum.splits
        intro!: queue_inv_update)
qed

lemma queue_inv_Claim:
  assumes inv: "queue_inv m"
  shows "queue_inv (snd (Claim m tid))"
  using inv queue_inv_ticketD [OF inv]
  by (auto simp: Claim_def Status_Inr Let_def ticket_deadline_def split: sum.splits
      intro!: queue_inv_update)

section \<open>Preservation by Join\<close>

lemma colon_no_digit [simp]: "\<not> is_digit (CHR '':'')"
  by (simp add: is_digit_def)

lemma ticket_id_inj [simp]: "ticket_id e s = ticket_id e' s' \<longleftrightarrow> e = e' \<and> s = s'"
  using dec_sep_inj [OF colon_no_digit, of e "dec s" e' "dec s'"] by (auto simp: ticket_id_def)

lemma fresh_ticket_id:
  assumes "shape_inv m" and "m_sequence m < s"
  shows "map_of (m_tickets m) (ticket_id (m_epoch m) s) = None"
  using assms by (auto simp: map_of_eq_None_iff shape_inv_def ticket_shape_def)

text \<open>The state after a join that is accepted.\<close>

lemma Join_accepted:
  assumes "map_of (m_idempotency m) key = None" and "key \<noteq> ''''" and "fingerprint \<noteq> ''''"
    and "m_mode m \<noteq> Recovery" and "m_mode m \<noteq> Draining"
    and "VisitorCount m < VisitorCap (m_config m)"
    and "int (length (m_idempotency m)) < IdempotencyCap (m_config m)"
  defines "sequence \<equiv> u64 (m_sequence m + 1)"
  defines "k \<equiv> ticket_id (m_epoch m) sequence"
  defines "t \<equiv> zero_Ticket\<lparr>t_ID := k, t_Sequence := sequence, t_Epoch := m_epoch m,
    t_State := Waiting, t_JoinedAt := m_now m, t_IdleUntil := i64 (m_now m + IdleTTL (m_config m)),
    t_AbsoluteUntil := i64 (m_now m + TicketTTL (m_config m))\<rparr>"
  shows "Join m key fingerprint = (Inr t, m\<lparr>m_sequence := sequence,
    m_tickets := AList.update k t (m_tickets m),
    m_idempotency := AList.update key \<lparr>i_ID = k, i_Fingerprint = fingerprint,
       i_Until = i64 (m_now m + IdempotencyTTL (m_config m))\<rparr> (m_idempotency m)\<rparr>)"
  using assms by (simp add: Join_def Let_def)

lemma Join_refused:
  assumes "\<not> (map_of (m_idempotency m) key = None \<and> key \<noteq> '''' \<and> fingerprint \<noteq> '''' \<and>
    m_mode m \<noteq> Recovery \<and> m_mode m \<noteq> Draining \<and> VisitorCount m < VisitorCap (m_config m) \<and>
    int (length (m_idempotency m)) < IdempotencyCap (m_config m))"
  shows "snd (Join m key fingerprint) = m"
  using assms by (auto simp: Join_def split: option.splits)

lemma queue_inv_Join:
  assumes inv: "queue_inv m" and range: "m_sequence m + 1 < 2 ^ 64"
  shows "queue_inv (snd (Join m key fingerprint))"
proof (cases "map_of (m_idempotency m) key = None \<and> key \<noteq> '''' \<and> fingerprint \<noteq> '''' \<and>
    m_mode m \<noteq> Recovery \<and> m_mode m \<noteq> Draining \<and> VisitorCount m < VisitorCap (m_config m) \<and>
    int (length (m_idempotency m)) < IdempotencyCap (m_config m)")
  case True
  let ?c = "m_config m" and ?s = "Suc (m_sequence m)"
  let ?k = "ticket_id (m_epoch m) ?s"
  from inv have S: "shape_inv m" and Q: "quota_inv m" and D: "deadline_inv m"
    and H: "history_inv m" by (simp_all add: queue_inv_def)
  from Q D have v: "valid_config ?c" and ttls: "short_ttls ?c"
    and now: "0 \<le> m_now m" "m_now m \<le> time_bound"
    by (simp_all add: quota_inv_def deadline_inv_def)
  note sums = queue_sums(1,2) [OF v ttls now] and pos = valid_configD [OF v]
  define t where "t = zero_Ticket\<lparr>t_ID := ?k, t_Sequence := ?s, t_Epoch := m_epoch m,
    t_State := Waiting, t_JoinedAt := m_now m, t_IdleUntil := m_now m + IdleTTL ?c,
    t_AbsoluteUntil := m_now m + TicketTTL ?c\<rparr>"
  define i where "i = \<lparr>i_ID = ?k, i_Fingerprint = fingerprint,
    i_Until = i64 (m_now m + IdempotencyTTL ?c)\<rparr>"
  have free: "map_of (m_tickets m) ?k = None" by (rule fresh_ticket_id [OF S]) simp
  have new: "AList.update ?k t (m_tickets m) = m_tickets m @ [(?k, t)]"
    using free by (simp add: update_new map_of_eq_None_iff)
  have newi: "AList.update key i (m_idempotency m) = m_idempotency m @ [(key, i)]"
    using True by (simp add: update_new map_of_eq_None_iff)
  have u: "u64 (m_sequence m + 1) = ?s" using range by (simp add: u64_id)
  define m' where "m' = m\<lparr>m_sequence := ?s, m_tickets := m_tickets m @ [(?k, t)],
    m_idempotency := m_idempotency m @ [(key, i)]\<rparr>"
  have "snd (Join m key fingerprint) = m'"
    using True Join_accepted [of m key fingerprint] u sums
    by (simp add: m'_def t_def i_def new [unfolded t_def] newi [unfolded i_def])
  moreover have "shape_inv m'"
    using S free True range
    by (auto simp: m'_def shape_inv_def ticket_shape_def t_def i_def map_of_eq_None_iff)
  moreover have "quota_inv m'"
    using Q True by (auto simp: m'_def quota_inv_def VisitorCount_def LeaseCount_def t_def)
  moreover have "deadline_inv m'"
    using D pos by (auto simp: m'_def deadline_inv_def ticket_deadline_def t_def)
  moreover have "history_inv m'"
    by (rule history_inv_frame [OF H]) (use H in \<open>auto simp: m'_def t_def history_inv_def\<close>)
  moreover have "recovery_inv m'" using True by (simp add: m'_def recovery_inv_def)
  ultimately show ?thesis by (simp add: queue_inv_def)
qed (simp add: Join_refused inv)

section \<open>Preservation by the mode changes\<close>

lemma queue_inv_mode:
  assumes "queue_inv m" and "mode \<noteq> Recovery"
  shows "queue_inv (m\<lparr>m_mode := mode, m_cutoff := cutoff\<rparr>)"
  using assms by (simp add: queue_inv_def queue_inv_parts VisitorCount_def LeaseCount_def)

lemma queue_inv_SetHold: "queue_inv m \<Longrightarrow> queue_inv (snd (SetHold m hold))"
  using queue_inv_mode [of m _ "m_cutoff m"] by (simp add: SetHold_def)

lemma queue_inv_Drain: "queue_inv m \<Longrightarrow> queue_inv (snd (Drain m))"
  using queue_inv_mode [of m Draining] by (simp add: Drain_def)

lemma queue_inv_Resume: "queue_inv m \<Longrightarrow> queue_inv (snd (Resume m verified))"
  using queue_inv_mode [of m Auto "m_cutoff m"] by (simp add: Resume_def)

lemma queue_inv_Uncertain:
  assumes inv: "queue_inv m"
  shows "queue_inv (snd (Uncertain m))"
proof -
  let ?c = "m_config m"
  from inv have v: "valid_config ?c" and ttls: "short_ttls ?c"
    and now: "0 \<le> m_now m" "m_now m \<le> time_bound"
    by (simp_all add: queue_inv_def quota_inv_def deadline_inv_def)
  note sums = queue_sums(6) [OF v ttls now] and pos = valid_configD [OF v]
  from inv have rate: "x \<le> m_now m" if "x \<in> set (m_rateTimes m)" for x
    using that by (auto simp: queue_inv_def history_inv_def minute_promotions_set)
  from inv have dl: "ticket_deadline ?c (m_now m) t" if "(k, t) \<in> set (m_tickets m)" for k t
    using that by (auto simp: queue_inv_def deadline_inv_def)
  define u where "u = fst (Uncertain m)"
  have m': "snd (Uncertain m) = m\<lparr>m_mode := Recovery, m_unsafeUntil := u\<rparr>"
    by (simp add: Uncertain_def Let_def u_def)
  have u: "m_now m + AdmissionTTL ?c + ClockSkew ?c \<le> u" "m_now m + ReadyTTL ?c \<le> u"
      "m_now m + Minute \<le> u"
    using sums pos(11) by (simp_all add: Uncertain_def Let_def u_def)
  have "t_ReadyUntil t \<le> u" if "(k, t) \<in> set (m_tickets m)" "t_State t = Ready" for k t
    using dl [OF that(1)] that(2) u(2) by (simp add: ticket_deadline_def)
  moreover have "t_AdmissionUntil t + ClockSkew ?c \<le> u"
    if "(k, t) \<in> set (m_tickets m)" "t_State t = Admitted" for k t
    using dl [OF that(1)] that(2) u(1) by (simp add: ticket_deadline_def)
  moreover have "x + Minute \<le> u" if "x \<in> set (m_rateTimes m)" for x
    using rate [OF that] u(3) by simp
  ultimately have "recovery_inv (snd (Uncertain m))" by (auto simp: recovery_inv_def m')
  with inv show ?thesis
    by (simp add: queue_inv_def queue_inv_parts VisitorCount_def LeaseCount_def Uncertain_def Let_def)
qed

lemma queue_inv_NewEpoch:
  assumes inv: "queue_inv m" and range: "m_epoch m + 1 < 2 ^ 64"
  shows "queue_inv (NewEpoch m)"
proof -
  have u: "u64 (m_epoch m + 1) = m_epoch m + 1" using range by (simp add: u64_id)
  have none: "epoch_promotions (m_epoch m + 1) (m_promotions m) = []"
    using inv by (auto simp: queue_inv_def history_inv_def epoch_promotions_def filter_empty_conv)
  show ?thesis
    using inv u none range valid_configD [of "m_config m"]
    by (auto simp: NewEpoch_def queue_inv_def queue_inv_parts VisitorCount_def LeaseCount_def
        minute_promotions_def le_SucI)
qed

section \<open>Preservation by Promote\<close>

text \<open>
  A list of candidates the loop can work off: they name waiting tickets, in the order of their
  sequence numbers and ahead of every other waiting ticket, and the quotas have room for them.
\<close>

definition promotable :: "Candidate list \<Rightarrow> Model \<Rightarrow> bool" where
  "promotable cs m \<longleftrightarrow> m_mode m \<noteq> Recovery \<and>
     (\<forall>c \<in> set cs. \<exists>t. map_of (m_tickets m) (c_ID c) = Some t \<and> t_State t = Waiting \<and>
        c_Sequence c = t_Sequence t) \<and>
     sorted_wrt (<) (map c_Sequence cs) \<and>
     (\<forall>(k, u) \<in> set (m_tickets m). t_State u = Waiting \<longrightarrow>
        k \<in> c_ID ` set cs \<or> (\<forall>c \<in> set cs. c_Sequence c < t_Sequence u)) \<and>
     LeaseCount m + int (length cs) \<le> LeaseCap (m_config m) \<and>
     int (length (m_rateTimes m)) + int (length cs) \<le> Rate (m_config m)"

lemma minute_window_le:
  assumes "\<forall>p \<in> set ps. p_At p \<le> now" and "now \<le> u"
  shows "length (minute_promotions e u ps) \<le> length (minute_promotions e now ps)"
proof -
  have "minute_promotions e u ps = filter (\<lambda>p. u - Minute < p_At p) (minute_promotions e now ps)"
    unfolding minute_promotions_def epoch_promotions_def filter_filter
    using assms by (intro filter_cong) auto
  then show ?thesis by simp
qed

lemma promote_one_state:
  assumes "map_of (m_tickets m) (c_ID c) = Some t0" and "t_ID t0 = c_ID c"
  shows "promote_one c m =
    (let t = t0\<lparr>t_State := Ready, t_AdmissionUntil := i64 (m_now m + AdmissionTTL (m_config m)),
           t_ReadyUntil := min (i64 (m_now m + ReadyTTL (m_config m)))
             (i64 (m_now m + AdmissionTTL (m_config m))),
           t_JTI := ''admission:'' @ c_ID c\<rparr>
     in (t, m\<lparr>m_tickets := AList.update (c_ID c) t (m_tickets m),
         m_rateTimes := m_rateTimes m @ [m_now m],
         m_promotions := m_promotions m @
          [\<lparr>p_ID = c_ID c, p_Sequence = t_Sequence t0, p_At = m_now m, p_Epoch = t_Epoch t0\<rparr>]\<rparr>))"
  using assms by (simp add: promote_one_def Let_def)

lemma promotable_ahead:
  assumes inv: "queue_inv m" and pr: "promotable (c # cs) m"
    and u: "(k, u) \<in> set (m_tickets m)" "t_State u = Waiting" "k \<noteq> c_ID c"
  shows "c_Sequence c < t_Sequence u"
proof -
  from inv have "distinct (map fst (m_tickets m))" by (simp add: queue_inv_def shape_inv_def)
  with u(1) have k: "map_of (m_tickets m) k = Some u" by simp
  from pr u consider "k \<in> c_ID ` set cs" | "c_Sequence c < t_Sequence u"
    by (fastforce simp: promotable_def)
  then show ?thesis
  proof cases
    case 1
    then obtain d where d: "d \<in> set cs" "k = c_ID d" by blast
    with pr k have "c_Sequence d = t_Sequence u" by (fastforce simp: promotable_def)
    moreover from pr d have "c_Sequence c < c_Sequence d" by (simp add: promotable_def)
    ultimately show ?thesis by simp
  qed
qed

lemma history_inv_promotion:
  assumes H: "history_inv m" and room: "int (length (m_rateTimes m)) < Rate (m_config m)"
    and t0: "(k0, t0) \<in> set (m_tickets m)" "t_State t0 = Waiting" "t_Sequence t0 \<le> m_sequence m"
    and ahead: "\<And>k u. (k, u) \<in> set ts \<Longrightarrow> t_State u = Waiting \<Longrightarrow> t_Sequence t0 < t_Sequence u"
  shows "history_inv (m\<lparr>m_tickets := ts, m_rateTimes := m_rateTimes m @ [m_now m],
    m_promotions := m_promotions m @ [\<lparr>p_ID = x, p_Sequence = t_Sequence t0, p_At = m_now m,
      p_Epoch = m_epoch m\<rparr>]\<rparr>)"
proof -
  let ?ps = "m_promotions m" and ?e = "m_epoch m"
  have behind: "p_Sequence q < t_Sequence t0" if "q \<in> set (epoch_promotions ?e ?ps)" for q
    using H that t0(1,2) by (fastforce simp: history_inv_def)
  have window: "int (length (minute_promotions ?e u ?ps)) < Rate (m_config m)"
    if "m_now m \<le> u" for u
  proof -
    have "length (minute_promotions ?e u ?ps) \<le> length (m_rateTimes m)"
      using H minute_window_le [OF _ that] by (auto simp: history_inv_def)
    with room show ?thesis by simp
  qed
  have old: "p_Sequence q < t_Sequence u"
    if "q \<in> set (epoch_promotions ?e ?ps)" "(k, u) \<in> set ts" "t_State u = Waiting" for q k u
    using behind [OF that(1)] ahead [OF that(2,3)] by simp
  from H room t0(3) behind old ahead show ?thesis
    by (auto simp: history_inv_def sorted_append sorted_wrt_append Minute_def
        dest: window [unfolded Minute_def])
qed

lemma promote_one_inv:
  assumes inv: "queue_inv m" and pr: "promotable (c # cs) m"
  shows "queue_inv (snd (promote_one c m))" "promotable cs (snd (promote_one c m))"
proof -
  let ?c = "m_config m"
  from inv have S: "shape_inv m" and Q: "quota_inv m" and D: "deadline_inv m"
    and H: "history_inv m" by (simp_all add: queue_inv_def)
  from Q D have v: "valid_config ?c" and ttls: "short_ttls ?c"
    and now: "0 \<le> m_now m" "m_now m \<le> time_bound"
    by (simp_all add: quota_inv_def deadline_inv_def)
  note sums = queue_sums(3,4) [OF v ttls now] and pos = valid_configD [OF v]
  from pr obtain t0 where t0: "map_of (m_tickets m) (c_ID c) = Some t0" "t_State t0 = Waiting"
      "c_Sequence c = t_Sequence t0"
    by (auto simp: promotable_def)
  from queue_inv_ticketD(2) [OF inv t0(1)] have sh: "t_ID t0 = c_ID c" "t_Epoch t0 = m_epoch m"
      "c_ID c = ticket_id (m_epoch m) (t_Sequence t0)" "1 \<le> t_Sequence t0" "t_Sequence t0 \<le> m_sequence m"
    by (auto simp: ticket_shape_def)
  define t where "t = t0\<lparr>t_State := Ready, t_AdmissionUntil := m_now m + AdmissionTTL ?c,
    t_ReadyUntil := min (m_now m + ReadyTTL ?c) (m_now m + AdmissionTTL ?c),
    t_JTI := ''admission:'' @ c_ID c\<rparr>"
  define p where "p = \<lparr>p_ID = c_ID c, p_Sequence = t_Sequence t0, p_At = m_now m,
    p_Epoch = m_epoch m\<rparr>"
  define m' where "m' = m\<lparr>m_tickets := AList.update (c_ID c) t (m_tickets m),
    m_rateTimes := m_rateTimes m @ [m_now m], m_promotions := m_promotions m @ [p]\<rparr>"
  have m': "snd (promote_one c m) = m'"
    by (simp add: promote_one_state [OF t0(1) sh(1)] sums t_def p_def m'_def sh Let_def)
  from S have dist: "distinct (map fst (m_tickets m))" by (simp add: shape_inv_def)
  note cases = set_update_cases [OF _ dist]
  have lease: "LeaseCount m' = LeaseCount m + 1"
    using count_if_update [OF dist t0(1), of "\<lambda>t. t_State t = Ready \<or> t_State t = Admitted" t] t0(2)
    by (simp add: LeaseCount_def m'_def t_def)
  have vis: "VisitorCount m' = VisitorCount m"
    using count_if_update [OF dist t0(1), of "\<lambda>t. t_State t \<noteq> Expired" t] t0(2)
    by (simp add: VisitorCount_def m'_def t_def)
  have "shape_inv m'"
  proof (rule shape_inv_same_keys [OF S])
    show "map fst (m_tickets m') = map fst (m_tickets m)"
      using t0(1) by (simp add: m'_def map_fst_update)
    show "\<forall>(k, t) \<in> set (m_tickets m'). ticket_shape (m_epoch m) (m_sequence m) k t"
      using S sh by (fastforce simp: m'_def t_def shape_inv_def ticket_shape_def dest!: cases)
  qed (use S in \<open>auto simp: m'_def shape_inv_def\<close>)
  moreover have "quota_inv m'"
    using Q pr lease vis by (auto simp: quota_inv_def promotable_def m'_def)
  moreover have "deadline_inv m'"
    using D pos now by (fastforce simp: deadline_inv_def m'_def t_def ticket_deadline_def dest!: cases)
  moreover have "history_inv m'"
  proof -
    have "t_Sequence t0 < t_Sequence u"
      if "(k, u) \<in> set (m_tickets m')" "t_State u = Waiting" for k u
      using that t0(3) promotable_ahead [OF inv pr]
      by (auto simp: m'_def t_def dest!: cases)
    moreover have "int (length (m_rateTimes m)) < Rate ?c"
      using pr by (simp add: promotable_def)
    ultimately show ?thesis
      unfolding m'_def p_def
      by (intro history_inv_promotion [OF H _ map_of_SomeD [OF t0(1)] t0(2) sh(5)])
         (auto simp: m'_def)
  qed
  moreover have "recovery_inv m'" using pr by (simp add: recovery_inv_def promotable_def m'_def)
  ultimately show "queue_inv (snd (promote_one c m))" by (simp add: queue_inv_def m')
  have "\<exists>u. map_of (m_tickets m') (c_ID d) = Some u \<and> t_State u = Waiting \<and>
      c_Sequence d = t_Sequence u" if d: "d \<in> set cs" for d
  proof -
    from pr d obtain u where u: "map_of (m_tickets m) (c_ID d) = Some u" "t_State u = Waiting"
        "c_Sequence d = t_Sequence u"
      by (fastforce simp: promotable_def)
    moreover from pr d have "c_Sequence c < c_Sequence d" by (simp add: promotable_def)
    ultimately have "c_ID d \<noteq> c_ID c" using t0 by auto
    with u show ?thesis by (auto simp: m'_def update_conv)
  qed
  moreover have "k \<in> c_ID ` set cs \<or> (\<forall>d \<in> set cs. c_Sequence d < t_Sequence u)"
    if "(k, u) \<in> set (m_tickets m')" "t_State u = Waiting" for k u
    using that pr by (fastforce simp: m'_def t_def promotable_def dest!: cases)
  ultimately show "promotable cs (snd (promote_one c m))"
    using pr lease unfolding m' promotable_def by (auto simp: m'_def)
qed

lemma promote_loop_inv:
  assumes "queue_inv m" and "promotable cs m"
  shows "queue_inv (snd (promote_loop cs m))"
  using assms
proof (induction cs arbitrary: m)
  case (Cons c cs)
  from promote_one_inv [OF Cons.prems] have "queue_inv (snd (promote_loop cs (snd (promote_one c m))))"
    by (rule Cons.IH)
  then show ?case by (simp add: Let_def case_prod_beta)
qed simp

lemma candidate_ticket:
  assumes "shape_inv m" and "c \<in> set (promotion_candidates m)"
  shows "\<exists>t. map_of (m_tickets m) (c_ID c) = Some t \<and> t_State t = Waiting \<and>
    c_Sequence c = t_Sequence t"
proof -
  from assms(2) obtain k t where kt: "(k, t) \<in> set (m_tickets m)" "t_State t = Waiting"
      "c_ID c = t_ID t" "c_Sequence c = t_Sequence t"
    by (auto simp: promotion_candidates_def)
  moreover from kt(1) assms(1) have "t_ID t = k" "map_of (m_tickets m) k = Some t"
    by (auto simp: shape_inv_def ticket_shape_def)
  ultimately show ?thesis by simp
qed

lemma candidate_id:
  "shape_inv m \<Longrightarrow> c \<in> set (promotion_candidates m) \<Longrightarrow> c_ID c = ticket_id (m_epoch m) (c_Sequence c)"
  by (auto simp: promotion_candidates_def shape_inv_def ticket_shape_def)

lemma candidate_cutoff:
  "c \<in> set (promotion_candidates m) \<Longrightarrow> m_mode m = Draining \<Longrightarrow> c_Sequence c \<le> m_cutoff m"
  by (auto simp: promotion_candidates_def)

lemma distinct_candidate_ids:
  assumes "shape_inv m"
  shows "distinct (map c_ID (promotion_candidates m))"
proof -
  let ?f = "filter (\<lambda>(id, t). t_State t = Waiting \<and> (m_mode m \<noteq> Draining \<or> t_Sequence t \<le> m_cutoff m))
    (m_tickets m)"
  have "map c_ID (promotion_candidates m) = map fst ?f"
    using assms by (auto simp: promotion_candidates_def shape_inv_def ticket_shape_def)
  then show ?thesis using assms by (simp add: shape_inv_def distinct_map_filter)
qed

lemma distinct_candidate_sequences:
  assumes "shape_inv m" and "set cs \<subseteq> set (promotion_candidates m)" and "distinct (map c_ID cs)"
  shows "distinct (map c_Sequence cs)"
proof -
  have "map c_ID cs = map (ticket_id (m_epoch m)) (map c_Sequence cs)"
    using assms(2) candidate_id [OF assms(1)] by auto
  with assms(3) show ?thesis by (metis distinct_map)
qed

lemma promotable_Eligible:
  assumes inv: "queue_inv m" and mode: "m_mode m \<noteq> Recovery"
    and budget: "budget = promotion_budget m limit" "0 < budget"
  shows "promotable (Eligible (promotion_candidates m) (m_now m) budget) m" (is "promotable ?cs m")
proof -
  from inv have S: "shape_inv m" and D: "deadline_inv m" by (simp_all add: queue_inv_def)
  have sub: "set ?cs \<subseteq> set (promotion_candidates m)" using fifo.eligible_member by blast
  have "distinct (map c_Sequence ?cs)"
    by (rule distinct_candidate_sequences [OF S sub])
       (rule fifo.eligible_distinct_ids [OF distinct_candidate_ids [OF S]])
  then have strict: "sorted_wrt (<) (map c_Sequence ?cs)"
    using fifo.eligible_sorted by (simp add: strict_sorted_iff)
  have ahead: "k \<in> c_ID ` set ?cs \<or> (\<forall>c \<in> set ?cs. c_Sequence c < t_Sequence u)"
    if u: "(k, u) \<in> set (m_tickets m)" "t_State u = Waiting" for k u
  proof (cases "m_mode m = Draining \<and> m_cutoff m < t_Sequence u")
    case True
    then show ?thesis using sub candidate_cutoff [of _ m] by fastforce
  next
    case False
    define d where "d = \<lparr>c_ID = t_ID u, c_Sequence = t_Sequence u,
      c_ExpiresAt = min (t_IdleUntil u) (t_AbsoluteUntil u)\<rparr>"
    from False u have d: "d \<in> set (promotion_candidates m)"
      by (force simp: promotion_candidates_def d_def)
    from u S have k: "c_ID d = k" by (auto simp: shape_inv_def ticket_shape_def d_def)
    from D u have live: "m_now m < c_ExpiresAt d"
      by (auto simp: deadline_inv_def ticket_deadline_def d_def)
    show ?thesis
    proof (cases "d \<in> set ?cs")
      case False
      have "c_Sequence c < t_Sequence u" if c: "c \<in> set ?cs" "k \<notin> c_ID ` set ?cs" for c
      proof -
        have "c_Sequence c \<le> c_Sequence d" using fifo.eligible_first [OF c(1) d False live] .
        moreover have "c_Sequence c \<noteq> c_Sequence d"
          using c sub d k candidate_id [OF S] by (metis image_eqI subsetD)
        ultimately show ?thesis by (simp add: d_def)
      qed
      then show ?thesis by blast
    qed (use k in auto)
  qed
  have "int (length ?cs) \<le> budget"
    using fifo.eligible_limit [of "promotion_candidates m" "m_now m" budget] budget(2) by simp
  moreover have "\<forall>c \<in> set ?cs. \<exists>t. map_of (m_tickets m) (c_ID c) = Some t \<and> t_State t = Waiting \<and>
      c_Sequence c = t_Sequence t"
    using sub candidate_ticket [OF S] by blast
  ultimately show ?thesis
    using strict ahead mode budget(1) unfolding promotable_def promotion_budget_def by auto
qed

lemma queue_inv_Promote:
  assumes "queue_inv m"
  shows "queue_inv (snd (Promote m limit))"
  using assms promote_loop_inv [OF assms promotable_Eligible [OF assms _ refl]]
  by (auto simp: Promote_def Let_def)

section \<open>Reachable states\<close>

lemma queue_inv_step: "queue_inv m \<Longrightarrow> in_range m p \<Longrightarrow> queue_inv (step m p)"
  by (cases p)
     (simp_all add: queue_inv_Advance queue_inv_Join queue_inv_Heartbeat queue_inv_Promote
       queue_inv_Claim queue_inv_SetHold queue_inv_Drain queue_inv_Uncertain queue_inv_Resume
       queue_inv_NewEpoch)

lemma reachable_inv: "reachable c m \<Longrightarrow> short_ttls c \<Longrightarrow> queue_inv m"
  by (induction rule: reachable.induct) (simp_all add: queue_inv_New queue_inv_step)

end
