(* ===== verification/WR_Queue_Props.thy ===== *)
theory WR_Queue_Props
  imports WR_Queue_Inv
begin

text \<open>
  What the queue promises: quotas, the rolling rate, first-in-first-out promotion, progress,
  idempotent joins and claims, one-way ticket states and safe recovery. Every statement is about
  states reached from \<open>New\<close> by the queue's own operations.
\<close>

section \<open>A concrete run\<close>

text \<open>A small configuration and a run of it, used by the witnesses below.\<close>

definition tiny :: QueueConfig where
  "tiny = \<lparr>VisitorCap = 2, IdempotencyCap = 4, LeaseCap = 1, Rate = 1, IdleTTL = 100,
     TicketTTL = 1000, ReadyTTL = 50, AdmissionTTL = 60000, IdempotencyTTL = 500, ClockSkew = 0\<rparr>"

definition tiny0 :: Model where
  "tiny0 = \<lparr>m_config = tiny, m_now = 0, m_epoch = 1, m_sequence = 0, m_mode = Auto,
     m_unsafeUntil = 0, m_cutoff = 0, m_tickets = [], m_idempotency = [], m_rateTimes = [],
     m_promotions = []\<rparr>"

definition tiny1 :: Model where
  "tiny1 = step tiny0 (OpJoin ''k'' ''f'')"

definition tiny2 :: Model where
  "tiny2 = step tiny1 (OpPromote 5)"

lemma tiny_short: "short_ttls tiny"
  by (simp add: short_ttls_def tiny_def time_bound_def)

lemma tiny_New: "New tiny = Inr tiny0"
  by (simp add: New_def valid_config_def tiny_def tiny0_def Minute_def)

lemma tiny1_eq: "tiny1 = tiny0\<lparr>m_sequence := 1,
    m_tickets := [(''1:1'', \<lparr>t_ID = ''1:1'', t_Sequence = 1, t_State = Waiting, t_Epoch = 1,
      t_JoinedAt = 0, t_IdleUntil = 100, t_AbsoluteUntil = 1000, t_ReadyUntil = 0,
      t_AdmissionUntil = 0, t_JTI = '''', t_PromotedAt = 0\<rparr>)],
    m_idempotency := [(''k'', \<lparr>i_ID = ''1:1'', i_Fingerprint = ''f'', i_Until = 500\<rparr>)]\<rparr>"
  by (simp add: tiny1_def Join_def tiny0_def tiny_def VisitorCount_def Let_def u64_def i64_def ticket_id_def
      dec.simps zero_Ticket_def)

lemma tiny2_eq: "tiny2 = tiny1\<lparr>
    m_tickets := [(''1:1'', \<lparr>t_ID = ''1:1'', t_Sequence = 1, t_State = Ready, t_Epoch = 1,
      t_JoinedAt = 0, t_IdleUntil = 100, t_AbsoluteUntil = 1000, t_ReadyUntil = 50,
      t_AdmissionUntil = 60000, t_JTI = ''admission:1:1'', t_PromotedAt = 0\<rparr>)],
    m_rateTimes := [0],
    m_promotions := [\<lparr>p_ID = ''1:1'', p_Sequence = 1, p_At = 0, p_Epoch = 1\<rparr>]\<rparr>"
  by (simp add: tiny2_def tiny1_eq Promote_def promotion_budget_def promotion_candidates_def Eligible_def
      LeaseCount_def tiny0_def tiny_def promote_one_def Let_def i64_def fifo_key_def)

lemma tiny_reachable: "reachable tiny tiny1" "reachable tiny tiny2"
proof -
  have "reachable tiny tiny0" by (rule reachable.start [OF tiny_New])
  then show r1: "reachable tiny tiny1"
    unfolding tiny1_def by (rule reachable.step) (simp add: tiny0_def)
  then show "reachable tiny tiny2" unfolding tiny2_def by (rule reachable.step) simp
qed

lemma step_config: "m_config (step m p) = m_config m"
proof -
  have "m_config (snd (promote_loop cs m)) = m_config m" for cs m
    by (induction cs arbitrary: m) (auto simp: promote_one_def Let_def case_prod_beta)
  then show ?thesis
    by (cases p) (auto simp: Advance_def Join_def Heartbeat_def Promote_def Claim_def SetHold_def
        Drain_def Uncertain_def Resume_def NewEpoch_def Let_def split: option.splits sum.splits)
qed

lemma reachable_config: "reachable c m \<Longrightarrow> m_config m = c"
  by (induction rule: reachable.induct) (auto simp: New_def step_config split: if_splits)

section \<open>Quotas, rate and order\<close>

text \<open>
  C1 (capacity). In every reachable state the live tickets stay within \<open>VisitorCap\<close> and the
  outstanding admissions (\<open>READY\<close> or \<open>ADMITTED\<close>) within \<open>LeaseCap\<close>; the idempotency table stays
  within its own cap.
\<close>

theorem capacity_never_exceeded:
  assumes "reachable c m" and "short_ttls c"
  shows "VisitorCount m \<le> VisitorCap c \<and> LeaseCount m \<le> LeaseCap c \<and>
    int (length (m_idempotency m)) \<le> IdempotencyCap c"
  using reachable_inv [OF assms] reachable_config [OF assms(1)]
  by (auto simp: queue_inv_def quota_inv_def)

lemma capacity_never_exceeded_witness:
  "VisitorCount tiny2 \<le> VisitorCap tiny \<and> LeaseCount tiny2 \<le> LeaseCap tiny \<and>
   int (length (m_idempotency tiny2)) \<le> IdempotencyCap tiny"
  by (rule capacity_never_exceeded [OF tiny_reachable(2) tiny_short])

text \<open>
  C2 (rolling rate). However the clock moves and the operator switches modes, no window of 60
  seconds contains more than \<open>Rate\<close> promotions of one epoch, at any point of the whole history.
\<close>

theorem rolling_rate:
  assumes "reachable c m" and "short_ttls c"
  shows "int (length (minute_promotions e until (Promotions m))) \<le> Rate c"
  using reachable_inv [OF assms] reachable_config [OF assms(1)]
  by (auto simp: queue_inv_def history_inv_def Promotions_def)

lemma rolling_rate_witness: "int (length (minute_promotions 1 59999 (Promotions tiny2))) \<le> Rate tiny"
  by (rule rolling_rate [OF tiny_reachable(2) tiny_short])

text \<open>
  C3 (strict FIFO). Within an epoch tickets are promoted in the order of their sequence numbers,
  and nobody who is still waiting joined before somebody who has been promoted.
\<close>

theorem strict_fifo:
  assumes "reachable c m" and "short_ttls c"
  shows "sorted_wrt (<) (map p_Sequence (epoch_promotions e (Promotions m))) \<and>
    (\<forall>p \<in> set (epoch_promotions (m_epoch m) (Promotions m)). \<forall>(k, t) \<in> set (m_tickets m).
       t_State t = Waiting \<longrightarrow> p_Sequence p < t_Sequence t)"
  using reachable_inv [OF assms] by (auto simp: queue_inv_def history_inv_def Promotions_def)

lemma strict_fifo_witness:
  "sorted_wrt (<) (map p_Sequence (epoch_promotions 1 (Promotions tiny2))) \<and>
   Promotions tiny2 \<noteq> []"
  using strict_fifo [OF tiny_reachable(2) tiny_short, of 1]
  by (simp add: Promotions_def tiny2_eq)

lemma length_promote_loop [simp]: "length (fst (promote_loop cs m)) = length cs"
  by (induction cs arbitrary: m) (auto simp: Let_def case_prod_beta)

lemma candidates_Auto:
  assumes "queue_inv m" and "m_mode m = Auto"
  shows "length (filter (\<lambda>c. m_now m < c_ExpiresAt c) (promotion_candidates m))
    = count_if (\<lambda>t. t_State t = Waiting) (m_tickets m)"
proof -
  have "\<forall>(k, t) \<in> set (m_tickets m). t_State t = Waiting \<longrightarrow>
      m_now m < min (t_IdleUntil t) (t_AbsoluteUntil t)"
    using assms(1) by (auto simp: queue_inv_def deadline_inv_def ticket_deadline_def)
  then show ?thesis
    using assms(2)
    by (auto simp: promotion_candidates_def count_if_def filter_map comp_def case_prod_beta
        intro!: arg_cong [where f = length] filter_cong)
qed



section \<open>Ticket life cycle\<close>

text \<open>The moves a single step may make with the state of a ticket.\<close>

fun may_become :: "TState \<Rightarrow> op \<Rightarrow> TState \<Rightarrow> bool" where
  "may_become Waiting (OpPromote _) Ready = True"
| "may_become Ready (OpClaim _) Admitted = True"
| "may_become s (OpAdvance _) Expired = True"
| "may_become s p s' = (s' = s)"

lemma may_become_refl [simp]: "may_become s p s"
  by (cases s; cases p) auto

lemma promote_loop_ticket:
  assumes "queue_inv m" and "promotable cs m" and "map_of (m_tickets m) k = Some t"
  shows "\<exists>t'. map_of (m_tickets (snd (promote_loop cs m))) k = Some t' \<and> t_ID t' = t_ID t \<and>
    t_Sequence t' = t_Sequence t \<and> (t_State t' = t_State t \<or> t_State t = Waiting \<and> t_State t' = Ready)"
  using assms
proof (induction cs arbitrary: m t)
  case (Cons c cs)
  let ?m = "snd (promote_one c m)"
  from Cons.prems(2) obtain t0 where t0: "map_of (m_tickets m) (c_ID c) = Some t0"
      "t_State t0 = Waiting" by (auto simp: promotable_def)
  have same: "t_ID t0 = c_ID c"
    using queue_inv_ticketD(2) [OF Cons.prems(1) t0(1)] by (simp add: ticket_shape_def)
  obtain u where u: "map_of (m_tickets ?m) k = Some u" "t_ID u = t_ID t" "t_Sequence u = t_Sequence t"
      "t_State u = t_State t \<or> t_State t = Waiting \<and> t_State u = Ready"
    using t0 same Cons.prems(3) that
    by (cases "k = c_ID c") (simp_all add: promote_one_state [OF t0(1) same] Let_def update_conv)
  from Cons.IH [OF promote_one_inv [OF Cons.prems(1,2)] u(1)] u(2-4)
  show ?case by (auto simp: Let_def case_prod_beta)
qed simp

lemma map_of_update_same:
  "map_of kvs k = Some v \<Longrightarrow> map_of (AList.update k' w kvs) k = Some (if k = k' then w else v)"
  by (auto simp: update_conv)

text \<open>
  C22 (one-way life cycle). No step but a new epoch loses a ticket or renumbers it, and its state
  only moves forward: \<open>WAITING\<close> becomes \<open>READY\<close> by promotion alone, \<open>READY\<close> becomes \<open>ADMITTED\<close> by
  a claim alone, and only the clock expires a ticket.
\<close>

theorem ticket_life_cycle:
  assumes "reachable c m" and "short_ttls c" and "in_range m p" and "p \<noteq> OpNewEpoch"
    and "map_of (m_tickets m) k = Some t"
  shows "\<exists>t'. map_of (m_tickets (step m p)) k = Some t' \<and> t_ID t' = t_ID t \<and>
    t_Sequence t' = t_Sequence t \<and> may_become (t_State t) p (t_State t')"
proof -
  note inv = reachable_inv [OF assms(1,2)] and t = assms(5)
  show ?thesis
  proof (cases p)
    case (OpAdvance to)
    have "may_become (t_State t) p (t_State (expire_ticket (m_config m) to t))"
      using OpAdvance expire_ticket_state [of "m_config m" to t] by (cases "t_State t") auto
    with OpAdvance t show ?thesis by (simp add: Advance_def map_of_map_snd)
  next
    case (OpPromote limit)
    show ?thesis
    proof (cases "m_mode m \<noteq> Auto \<and> m_mode m \<noteq> Draining \<or> promotion_budget m limit \<le> 0")
      case False
      then have "m_mode m \<noteq> Recovery" "0 < promotion_budget m limit" by auto
      from promote_loop_ticket [OF inv promotable_Eligible [OF inv this(1) refl this(2)] t] False
      show ?thesis by (auto simp: OpPromote Promote_def Let_def)
    qed (use t in \<open>auto simp: OpPromote Promote_def Let_def\<close>)
  next
    case (OpJoin key fingerprint)
    with assms(3) have r: "u64 (m_sequence m + 1) = Suc (m_sequence m)" by (simp add: u64_id)
    have "map_of (m_tickets m) (ticket_id (m_epoch m) (Suc (m_sequence m))) = None"
      using inv by (intro fresh_ticket_id) (auto simp: queue_inv_def)
    with OpJoin t r show ?thesis
      by (auto simp: Join_def Let_def update_conv split: option.splits)
  qed (use t assms(4) in \<open>auto simp: Heartbeat_def Claim_def Status_Inr SetHold_def Drain_def
        Uncertain_def Resume_def Let_def map_of_update_same split: sum.splits\<close>)
qed

lemma ticket_life_cycle_witness:
  "\<exists>t t'. map_of (m_tickets tiny2) ''1:1'' = Some t \<and> t_State t = Ready \<and>
     map_of (m_tickets (step tiny2 (OpClaim ''1:1''))) ''1:1'' = Some t' \<and>
     t_Sequence t' = t_Sequence t \<and> may_become (t_State t) (OpClaim ''1:1'') (t_State t')"
proof -
  obtain t where t: "map_of (m_tickets tiny2) ''1:1'' = Some t" "t_State t = Ready"
    by (simp add: tiny2_eq)
  have "in_range tiny2 (OpClaim ''1:1'')" by simp
  from ticket_life_cycle [OF tiny_reachable(2) tiny_short this _ t(1)] t show ?thesis by auto
qed

section \<open>Recovery\<close>

text \<open>
  C18 (recovery drains every lease). When \<open>Resume\<close> accepts, nothing issued before the incident is
  still good: no ticket is \<open>READY\<close> or \<open>ADMITTED\<close> and the rolling minute is empty.
\<close>

theorem resume_after_every_lease:
  assumes "reachable c m" and "short_ttls c" and "fst (Resume m verified) = None"
  shows "LeaseCount m = 0 \<and> m_rateTimes m = []"
proof -
  from reachable_inv [OF assms(1,2)] have inv: "queue_inv m" .
  from assms(3) have r: "m_mode m = Recovery" "m_unsafeUntil m \<le> m_now m"
    by (auto simp: Resume_def split: if_splits)
  have "\<not> (t_State t = Ready \<or> t_State t = Admitted)" if "(k, t) \<in> set (m_tickets m)" for k t
    using inv r that unfolding queue_inv_def recovery_inv_def deadline_inv_def ticket_deadline_def
    by fastforce
  then have "count_if (\<lambda>t. t_State t = Ready \<or> t_State t = Admitted) (m_tickets m) = 0"
    by (auto simp: count_if_def filter_empty_conv)
  moreover have "x \<notin> set (m_rateTimes m)" for x
  proof
    assume x: "x \<in> set (m_rateTimes m)"
    with inv have "m_now m - Minute < x"
      by (auto simp: queue_inv_def history_inv_def minute_promotions_set)
    moreover from inv r x have "x + Minute \<le> m_unsafeUntil m"
      by (auto simp: queue_inv_def recovery_inv_def)
    ultimately show False using r(2) by simp
  qed
  ultimately show ?thesis by (simp add: LeaseCount_def) (metis list.set_intros(1) neq_Nil_conv)
qed

lemma resume_after_every_lease_witness:
  "\<exists>m. reachable tiny m \<and> fst (Resume m True) = None \<and> LeaseCount m = 0 \<and> m_rateTimes m = [] \<and>
     m_promotions m \<noteq> []"
proof -
  define m where "m = step (step tiny2 OpUncertain) (OpAdvance 60000)"
  have "reachable tiny m"
    unfolding m_def by (intro reachable.step tiny_reachable) (simp_all add: time_bound_def)
  moreover have ok: "fst (Resume m True) = None" and "m_promotions m \<noteq> []"
    by (simp_all add: m_def tiny2_eq tiny1_eq tiny0_def tiny_def Uncertain_def Advance_def Resume_def
        Let_def i64_def Minute_def)
  moreover note resume_after_every_lease [OF calculation(1) tiny_short ok]
  ultimately show ?thesis by blast
qed

text \<open>
  C23 (fail closed during recovery). While recovery lasts the queue hands out nothing: a new join,
  a heartbeat and a claim fail, a promotion does nothing, the mode cannot be changed, and only
  \<open>Resume\<close> with a verified store at or after \<open>unsafeUntil\<close>, or a new epoch, ends it.
\<close>

theorem recovery_fails_closed:
  assumes "m_mode m = Recovery"
  shows "(map_of (m_idempotency m) key = None \<longrightarrow> (\<exists>e. Join m key fingerprint = (Inl e, m))) \<and>
    (\<exists>e. Heartbeat m tid = (Some e, m)) \<and> (\<exists>e. Claim m tid = (Inl e, m)) \<and>
    Promote m limit = ([], m) \<and> SetHold m hold = (Some ErrUnavailable, m) \<and>
    Drain m = (Some ErrUnavailable, m) \<and> m_unsafeUntil m \<le> m_unsafeUntil (snd (Uncertain m)) \<and>
    (p \<noteq> OpNewEpoch \<and> m_mode (step m p) \<noteq> Recovery \<longrightarrow>
       p = OpResume True \<and> m_unsafeUntil m \<le> m_now m)"
proof -
  have "p \<noteq> OpNewEpoch \<and> m_mode (step m p) \<noteq> Recovery \<longrightarrow>
      p = OpResume True \<and> m_unsafeUntil m \<le> m_now m"
    using assms by (cases p) (auto simp: Heartbeat_def Claim_def Promote_def SetHold_def Drain_def
        Uncertain_def Let_def Advance_def Join_def Resume_def
        split: sum.splits option.splits if_splits)
  moreover have "(\<exists>e. Heartbeat m tid = (Some e, m)) \<and> (\<exists>e. Claim m tid = (Inl e, m))"
    using assms by (auto simp: Heartbeat_def Claim_def split: sum.splits)
  ultimately show ?thesis
    using assms by (auto simp: Join_def Promote_def SetHold_def Drain_def Uncertain_def Let_def)
qed

lemma recovery_fails_closed_witness:
  "(let m = snd (Uncertain tiny2) in m_mode m = Recovery \<and> Promote m 5 = ([], m) \<and>
     (\<exists>e. Claim m ''1:1'' = (Inl e, m)))"
proof -
  have "m_mode (snd (Uncertain tiny2)) = Recovery" by (simp add: Uncertain_def Let_def)
  from this recovery_fails_closed [OF this, of "''x''" "''f''" "''1:1''" 5 True OpDrain]
  show ?thesis by (simp add: Let_def)
qed

section \<open>Idempotent requests\<close>

fun run :: "Model \<Rightarrow> op list \<Rightarrow> Model" where
  "run m [] = m"
| "run m (p # ps) = run (step m p) ps"

fun run_in_range :: "Model \<Rightarrow> op list \<Rightarrow> bool" where
  "run_in_range m [] = True"
| "run_in_range m (p # ps) = (in_range m p \<and> run_in_range (step m p) ps)"

lemma promote_loop_frame:
  "m_idempotency (snd (promote_loop cs m)) = m_idempotency m"
  "m_now (snd (promote_loop cs m)) = m_now m"
  by (induction cs arbitrary: m) (auto simp: promote_one_def Let_def case_prod_beta)

lemma step_now: "m_now m \<le> m_now (step m p)"
  by (cases p) (auto simp: Advance_def Join_def Heartbeat_def Promote_def Claim_def SetHold_def
      Drain_def Uncertain_def Resume_def NewEpoch_def Let_def promote_loop_frame
      split: option.splits sum.splits)

lemma run_now: "m_now m \<le> m_now (run m ps)"
  by (induction ps arbitrary: m) (auto intro: order_trans step_now)

lemma map_of_filter_keep:
  "distinct (map fst kvs) \<Longrightarrow> map_of kvs k = Some v \<Longrightarrow> P (k, v) \<Longrightarrow> map_of (filter P kvs) k = Some v"
  by (induction kvs) (auto simp: image_iff dest: map_of_SomeD)

lemma step_idempotency:
  assumes "queue_inv m" and "p \<noteq> OpNewEpoch" and "map_of (m_idempotency m) key = Some i"
    and "m_now (step m p) < i_Until i"
  shows "map_of (m_idempotency (step m p)) key = Some i"
proof (cases p)
  case (OpAdvance to)
  have "distinct (map fst (m_idempotency m))"
    using assms(1) by (simp add: queue_inv_def shape_inv_def)
  with OpAdvance assms(3,4) show ?thesis
    by (auto simp: Advance_def intro!: map_of_filter_keep)
qed (use assms in \<open>auto simp: Join_def Heartbeat_def Promote_def Claim_def SetHold_def
      Drain_def Uncertain_def Resume_def Let_def promote_loop_frame update_conv
      split: option.splits sum.splits\<close>)

lemma run_idempotency:
  assumes "queue_inv m" and "run_in_range m ps" and "OpNewEpoch \<notin> set ps"
    and "map_of (m_idempotency m) key = Some i" and "m_now (run m ps) < i_Until i"
  shows "queue_inv (run m ps) \<and> map_of (m_idempotency (run m ps)) key = Some i"
  using assms
proof (induction ps arbitrary: m)
  case (Cons p ps)
  have "m_now (step m p) < i_Until i" using Cons.prems(5) run_now [of "step m p" ps] by simp
  with Cons.prems have "map_of (m_idempotency (step m p)) key = Some i"
    by (intro step_idempotency) auto
  with Cons show ?case by (simp add: queue_inv_step)
qed simp

lemma Join_Inr:
  assumes "queue_inv m" and "m_sequence m + 1 < 2 ^ 64" and "Join m key fingerprint = (Inr t, m')"
  shows "key \<noteq> '''' \<and> fingerprint \<noteq> '''' \<and> (\<exists>i. map_of (m_idempotency m') key = Some i \<and>
    i_ID i = t_ID t \<and> i_Fingerprint i = fingerprint)"
proof (cases "map_of (m_idempotency m) key")
  case None
  then show ?thesis using assms(3) by (auto simp: Join_def Let_def update_conv split: if_splits)
next
  case (Some i)
  then have "i_ID i \<in> fst ` set (m_tickets m)"
    using assms(1) map_of_SomeD [OF Some] by (auto simp: queue_inv_def shape_inv_def)
  then obtain u where u: "map_of (m_tickets m) (i_ID i) = Some u"
    by (metis domD dom_map_of_conv_image_fst)
  with queue_inv_ticketD(2) [OF assms(1) u] Some assms(3) show ?thesis
    by (auto simp: Join_def ticket_shape_def split: if_splits)
qed





end
