(* ===== verification/WR_Codec.thy ===== *)
theory WR_Codec
  imports WR_Prelude
begin

text \<open>
  The parts of Go's standard library that the components call on text and bytes: \<open>strings\<close>
  (\<open>Split\<close>, \<open>TrimSuffix\<close>, \<open>HasPrefix\<close>, \<open>Contains\<close>, \<open>Cut\<close>), \<open>strconv\<close>, \<open>unicode/utf8\<close> and
  \<open>encoding/base64\<close>, on byte strings. These are models of library behaviour, not of code under
  \<open>src/\<close>; the round trips the components need are proved here.
\<close>

section \<open>strings\<close>

fun split_on :: "char \<Rightarrow> string \<Rightarrow> string list" where
  "split_on c [] = [[]]"
| "split_on c (x # xs) =
     (if x = c then [] # split_on c xs
      else case split_on c xs of [] \<Rightarrow> [[x]] | s # ss \<Rightarrow> (x # s) # ss)"

fun join_with :: "char \<Rightarrow> string list \<Rightarrow> string" where
  "join_with c [] = []"
| "join_with c [s] = s"
| "join_with c (s # ss) = s @ c # join_with c ss"

definition has_prefix :: "string \<Rightarrow> string \<Rightarrow> bool" where
  "has_prefix s p \<longleftrightarrow> take (length p) s = p"

definition has_suffix :: "string \<Rightarrow> string \<Rightarrow> bool" where
  "has_suffix s p \<longleftrightarrow> length p \<le> length s \<and> drop (length s - length p) s = p"

definition trim_prefix :: "string \<Rightarrow> string \<Rightarrow> string" where
  "trim_prefix s p = (if has_prefix s p then drop (length p) s else s)"

definition trim_suffix :: "string \<Rightarrow> string \<Rightarrow> string" where
  "trim_suffix s p = (if has_suffix s p then take (length s - length p) s else s)"

fun contains_str :: "string \<Rightarrow> string \<Rightarrow> bool" where
  "contains_str [] p = (p = [])"
| "contains_str (x # xs) p = (has_prefix (x # xs) p \<or> contains_str xs p)"

text \<open>\<open>strings.Cut(s, sep)\<close> for a one-byte separator: before, after, found.\<close>

definition cut_on :: "char \<Rightarrow> string \<Rightarrow> string \<times> string \<times> bool" where
  "cut_on c s = (if c \<in> set s then (takeWhile (\<lambda>x. x \<noteq> c) s, tl (dropWhile (\<lambda>x. x \<noteq> c) s), True)
     else (s, [], False))"

definition byte :: "char \<Rightarrow> nat" where
  "byte c = of_char c"

definition is_lower :: "char \<Rightarrow> bool" where
  "is_lower c \<longleftrightarrow> 97 \<le> byte c \<and> byte c \<le> 122"

definition is_upper :: "char \<Rightarrow> bool" where
  "is_upper c \<longleftrightarrow> 65 \<le> byte c \<and> byte c \<le> 90"

definition is_alnum :: "char \<Rightarrow> bool" where
  "is_alnum c \<longleftrightarrow> is_lower c \<or> is_upper c \<or> is_digit c"

text \<open>\<open>strings.ToLower\<close> on ASCII text.\<close>

definition to_lower :: "char \<Rightarrow> char" where
  "to_lower c = (if is_upper c then char_of (byte c + 32) else c)"

lemma has_prefix_iff: "has_prefix s p \<longleftrightarrow> (\<exists>r. s = p @ r)"
  by (auto simp: has_prefix_def) (metis append_take_drop_id)

lemma has_suffix_iff: "has_suffix s p \<longleftrightarrow> (\<exists>r. s = r @ p)"
  by (auto simp: has_suffix_def) (metis append_take_drop_id)

lemma trim_suffix_append [simp]: "trim_suffix (s @ p) p = s"
  by (simp add: trim_suffix_def has_suffix_def)

lemma trim_suffix_cases: "s = trim_suffix s p \<or> s = trim_suffix s p @ p"
  by (auto simp: trim_suffix_def has_suffix_iff)

lemma split_on_not_Nil [simp]: "split_on c s \<noteq> []"
  by (cases s) (auto split: list.splits)

lemma join_split [simp]: "join_with c (split_on c s) = s"
proof (induction s)
  case (Cons x xs)
  then show ?case by (cases "split_on c xs"; cases "tl (split_on c xs)") (auto split: list.splits)
qed simp

lemma split_on_no_sep: "c \<notin> set s \<Longrightarrow> split_on c s = [s]"
  by (induction s) auto

lemma split_on_append: "c \<notin> set s \<Longrightarrow> split_on c (s @ c # r) = s # split_on c r"
  by (induction s) auto

lemma split_on_sep_free: "p \<in> set (split_on c s) \<Longrightarrow> c \<notin> set p"
  by (induction s arbitrary: p) (auto split: if_splits list.splits)

section \<open>strconv\<close>

text \<open>
  \<open>strconv.Atoi\<close> on text of digits, as \<open>URL.Port()\<close> returns it: \<open>None\<close> when empty or above the
  range of \<open>int\<close>.
\<close>

definition atoi :: "string \<Rightarrow> int option" where
  "atoi s = (if s \<noteq> [] \<and> list_all is_digit s \<and> undec s < 2 ^ 63 then Some (int (undec s)) else None)"

definition itoa :: "int \<Rightarrow> string" where
  "itoa n = (if n < 0 then ''-'' @ dec (nat (- n)) else dec (nat n))"

lemma atoi_dec [simp]: "n < 2 ^ 63 \<Longrightarrow> atoi (dec n) = Some (int n)"
  by (simp add: atoi_def dec_digits)

section \<open>unicode/utf8\<close>

text \<open>
  The runes of a valid UTF-8 text, \<open>None\<close> for an invalid one: overlong forms, surrogates and
  values above \<open>10FFFF\<close> are invalid, as in Go.
\<close>

definition cont_byte :: "nat \<Rightarrow> bool" where
  "cont_byte b \<longleftrightarrow> 128 \<le> b \<and> b \<le> 191"

fun utf8_bytes :: "nat list \<Rightarrow> nat list option" where
  "utf8_bytes [] = Some []"
| "utf8_bytes (a # r) =
     (if a < 128 then map_option (Cons a) (utf8_bytes r)
      else case r of
        b # r2 \<Rightarrow>
          if 194 \<le> a \<and> a \<le> 223 then
            (if cont_byte b then map_option (Cons ((a - 192) * 64 + (b - 128))) (utf8_bytes r2)
             else None)
          else (case r2 of
            c # r3 \<Rightarrow>
              if 224 \<le> a \<and> a \<le> 239 then
                (if cont_byte b \<and> cont_byte c \<and> (a = 224 \<longrightarrow> 160 \<le> b) \<and> (a = 237 \<longrightarrow> b \<le> 159)
                 then map_option (Cons ((a - 224) * 4096 + (b - 128) * 64 + (c - 128))) (utf8_bytes r3)
                 else None)
              else (case r3 of
                d # r4 \<Rightarrow>
                  if 240 \<le> a \<and> a \<le> 244 \<and> cont_byte b \<and> cont_byte c \<and> cont_byte d \<and>
                     (a = 240 \<longrightarrow> 144 \<le> b) \<and> (a = 244 \<longrightarrow> b \<le> 143)
                  then map_option (Cons ((a - 240) * 262144 + (b - 128) * 4096 + (c - 128) * 64 + (d - 128)))
                         (utf8_bytes r4)
                  else None
              | [] \<Rightarrow> None)
          | [] \<Rightarrow> None)
      | [] \<Rightarrow> None)"

definition utf8_runes :: "string \<Rightarrow> nat list option" where
  "utf8_runes s = utf8_bytes (map byte s)"

definition utf8_valid :: "string \<Rightarrow> bool" where
  "utf8_valid s \<longleftrightarrow> utf8_runes s \<noteq> None"

text \<open>\<open>unicode.IsControl\<close>: the C0 and C1 controls.\<close>

definition is_control :: "nat \<Rightarrow> bool" where
  "is_control r \<longleftrightarrow> r \<le> 31 \<or> 127 \<le> r \<and> r \<le> 159"

section \<open>encoding/base64\<close>

definition std_alphabet :: string where
  "std_alphabet = ''ABCDEFGHIJKLMNOPQRSTUVWXYZabcdefghijklmnopqrstuvwxyz0123456789+/''"

definition url_alphabet :: string where
  "url_alphabet = ''ABCDEFGHIJKLMNOPQRSTUVWXYZabcdefghijklmnopqrstuvwxyz0123456789-_''"

fun index_of :: "'a list \<Rightarrow> 'a \<Rightarrow> nat option" where
  "index_of [] x = None"
| "index_of (y # ys) x = (if x = y then Some 0 else map_option Suc (index_of ys x))"

fun b64_encode :: "string \<Rightarrow> bool \<Rightarrow> string \<Rightarrow> string" where
  "b64_encode al pad [] = []"
| "b64_encode al pad [a] =
     [al ! (byte a div 4), al ! (byte a mod 4 * 16)] @ (if pad then ''=='' else [])"
| "b64_encode al pad [a, b] =
     [al ! (byte a div 4), al ! (byte a mod 4 * 16 + byte b div 16), al ! (byte b mod 16 * 4)] @
     (if pad then ''='' else [])"
| "b64_encode al pad (a # b # c # r) =
     [al ! (byte a div 4), al ! (byte a mod 4 * 16 + byte b div 16),
      al ! (byte b mod 16 * 4 + byte c div 64), al ! (byte c mod 64)] @ b64_encode al pad r"

text \<open>Decoding of text without line breaks; the last group may be short in the raw encodings.\<close>

fun b64_groups :: "string \<Rightarrow> bool \<Rightarrow> bool \<Rightarrow> string \<Rightarrow> string option" where
  "b64_groups al pad strict [] = Some []"
| "b64_groups al pad strict [x] = None"
| "b64_groups al pad strict [x, y] =
     (if pad then None else
      case (index_of al x, index_of al y) of
        (Some i, Some j) \<Rightarrow>
          if strict \<and> j mod 16 \<noteq> 0 then None else Some [char_of (i * 4 + j div 16)]
      | _ \<Rightarrow> None)"
| "b64_groups al pad strict [x, y, z] =
     (if pad then None else
      case (index_of al x, index_of al y, index_of al z) of
        (Some i, Some j, Some k) \<Rightarrow>
          if strict \<and> k mod 4 \<noteq> 0 then None
          else Some [char_of (i * 4 + j div 16), char_of (j mod 16 * 16 + k div 4)]
      | _ \<Rightarrow> None)"
| "b64_groups al pad strict (x # y # z # w # r) =
     (if pad \<and> r = [] \<and> w = CHR ''='' then
        (if z = CHR ''='' then b64_groups al False strict [x, y]
         else b64_groups al False strict [x, y, z])
      else case (index_of al x, index_of al y, index_of al z, index_of al w) of
        (Some i, Some j, Some k, Some l) \<Rightarrow>
          map_option (\<lambda>t. [char_of (i * 4 + j div 16), char_of (j mod 16 * 16 + k div 4),
            char_of (k mod 4 * 64 + l)] @ t) (b64_groups al pad strict r)
      | _ \<Rightarrow> None)"

definition b64_decode :: "string \<Rightarrow> bool \<Rightarrow> bool \<Rightarrow> string \<Rightarrow> string option" where
  "b64_decode al pad strict s =
     b64_groups al pad strict (filter (\<lambda>c. byte c \<noteq> 10 \<and> byte c \<noteq> 13) s)"

abbreviation raw_url_encode :: "string \<Rightarrow> string" where
  "raw_url_encode \<equiv> b64_encode url_alphabet False"

abbreviation raw_url_decode :: "string \<Rightarrow> string option" where
  "raw_url_decode \<equiv> b64_decode url_alphabet False False"

abbreviation raw_url_decode_strict :: "string \<Rightarrow> string option" where
  "raw_url_decode_strict \<equiv> b64_decode url_alphabet False True"

abbreviation raw_std_encode :: "string \<Rightarrow> string" where
  "raw_std_encode \<equiv> b64_encode std_alphabet False"

abbreviation raw_std_decode_strict :: "string \<Rightarrow> string option" where
  "raw_std_decode_strict \<equiv> b64_decode std_alphabet False True"

abbreviation std_encode :: "string \<Rightarrow> string" where
  "std_encode \<equiv> b64_encode std_alphabet True"

abbreviation std_decode_strict :: "string \<Rightarrow> string option" where
  "std_decode_strict \<equiv> b64_decode std_alphabet True True"

subsection \<open>Round trip\<close>

definition good_alphabet :: "string \<Rightarrow> bool" where
  "good_alphabet al \<longleftrightarrow> length al = 64 \<and> distinct al \<and>
     list_all (\<lambda>c. c \<noteq> CHR ''='' \<and> byte c \<noteq> 10 \<and> byte c \<noteq> 13) al"

lemma good_alphabets [simp]: "good_alphabet std_alphabet" "good_alphabet url_alphabet"
  unfolding good_alphabet_def std_alphabet_def url_alphabet_def byte_def by simp_all

lemma byte_bound [simp]: "byte c < 256"
  by (simp add: byte_def)

lemma char_of_byte [simp]: "char_of (byte c) = c"
  by (simp add: byte_def)

lemma index_of_nth: "distinct al \<Longrightarrow> i < length al \<Longrightarrow> index_of al (al ! i) = Some i"
proof (induction al arbitrary: i)
  case (Cons y ys)
  then show ?case by (cases i) (auto simp: nth_mem)
qed simp

lemma good_index:
  assumes "good_alphabet al" and "i < 64"
  shows "index_of al (al ! i) = Some i" "al ! i \<noteq> CHR ''=''" "al ! i \<in> set al"
  using assms index_of_nth [of al i] by (auto simp: good_alphabet_def list_all_iff)

lemma sextet_bounds:
  "byte a div 4 < 64" "byte a mod 4 * 16 < 64" "byte a mod 4 * 16 + byte b div 16 < 64"
  "byte b mod 16 * 4 < 64" "byte b mod 16 * 4 + byte c div 64 < 64" "byte c mod 64 < 64"
  using byte_bound [of a] byte_bound [of b] byte_bound [of c] by linarith+

lemma sextets_join:
  "byte a div 4 * 4 + byte a mod 4 * 16 div 16 = byte a"
  "byte a div 4 * 4 + (byte a mod 4 * 16 + byte b div 16) div 16 = byte a"
  "(byte a mod 4 * 16 + byte b div 16) mod 16 * 16 + byte b mod 16 * 4 div 4 = byte b"
  "(byte a mod 4 * 16 + byte b div 16) mod 16 * 16 + (byte b mod 16 * 4 + byte c div 64) div 4 = byte b"
  "(byte b mod 16 * 4 + byte c div 64) mod 4 * 64 + byte c mod 64 = byte c"
proof -
  have *: "byte b div 16 < 16" "byte c div 64 < 4"
    using byte_bound [of b] byte_bound [of c] by linarith+
  show "byte a div 4 * 4 + byte a mod 4 * 16 div 16 = byte a" by simp
  show "byte a div 4 * 4 + (byte a mod 4 * 16 + byte b div 16) div 16 = byte a" using * by simp
  have m: "(byte a mod 4 * 16 + byte b div 16) mod 16 = byte b div 16" using * by simp
  show "(byte a mod 4 * 16 + byte b div 16) mod 16 * 16 + byte b mod 16 * 4 div 4 = byte b"
    unfolding m by simp
  show "(byte a mod 4 * 16 + byte b div 16) mod 16 * 16 + (byte b mod 16 * 4 + byte c div 64) div 4
      = byte b"
    unfolding m using * by simp
  have "(byte b mod 16 * 4 + byte c div 64) mod 4 = byte c div 64" using * by simp
  then show "(byte b mod 16 * 4 + byte c div 64) mod 4 * 64 + byte c mod 64 = byte c" by simp
qed

lemma b64_groups_encode:
  assumes "good_alphabet al"
  shows "b64_groups al pad strict (b64_encode al pad s) = Some s"
  using assms
proof (induction al pad s rule: b64_encode.induct)
  case (2 al pad a)
  note i = good_index [OF 2 sextet_bounds(1) [of a]] good_index [OF 2 sextet_bounds(2) [of a]]
  show ?case using i sextets_join(1) [of a] by (cases pad) simp_all
next
  case (3 al pad a b)
  note i = good_index [OF 3 sextet_bounds(1) [of a]] good_index [OF 3 sextet_bounds(3) [of a b]]
    good_index [OF 3 sextet_bounds(4) [of b]]
  show ?case using i sextets_join(2,3) [of a b] by (cases pad) simp_all
next
  case (4 al pad a b c r)
  note i = good_index [OF 4(2) sextet_bounds(1) [of a]] good_index [OF 4(2) sextet_bounds(3) [of a b]]
    good_index [OF 4(2) sextet_bounds(5) [of b c]] good_index [OF 4(2) sextet_bounds(6) [of c]]
  show ?case using i 4 sextets_join(2) [of a b] sextets_join(4) [of a b c] sextets_join(5) [of b c]
    by simp
qed simp

lemma b64_encode_chars: "good_alphabet al \<Longrightarrow> set (b64_encode al pad s) \<subseteq> insert (CHR ''='') (set al)"
proof (induction al pad s rule: b64_encode.induct)
  case (2 al pad a)
  then show ?case using good_index(3) sextet_bounds by auto
next
  case (3 al pad a b)
  then show ?case using good_index(3) sextet_bounds by auto
next
  case (4 al pad a b c r)
  then show ?case using good_index(3) sextet_bounds by auto
qed simp

lemma b64_round_trip [simp]:
  assumes "good_alphabet al"
  shows "b64_decode al pad strict (b64_encode al pad s) = Some s"
proof -
  have "byte c \<noteq> 10 \<and> byte c \<noteq> 13" if "c \<in> set (b64_encode al pad s)" for c
  proof (cases "c = CHR ''=''")
    case False
    with b64_encode_chars [OF assms, of pad s] that have "c \<in> set al" by blast
    with assms show ?thesis by (simp add: good_alphabet_def list_all_iff)
  qed (simp add: byte_def)
  then have "filter (\<lambda>c. byte c \<noteq> 10 \<and> byte c \<noteq> 13) (b64_encode al pad s) = b64_encode al pad s"
    by (simp add: filter_id_conv)
  then show ?thesis by (simp add: b64_decode_def b64_groups_encode [OF assms])
qed

lemma b64_encode_inj: "good_alphabet al \<Longrightarrow> b64_encode al pad s = b64_encode al pad t \<longleftrightarrow> s = t"
  by (metis b64_round_trip option.inject)

lemma b64_length: "length (b64_encode al True s) = 4 * ((length s + 2) div 3)"
proof (induction al True s rule: b64_encode.induct)
  case (4 al a b c r)
  have "(length r + 2 + 3) div 3 = (length r + 2) div 3 + 1" by simp
  with 4 show ?case by simp
qed auto

section \<open>encoding/json\<close>

text \<open>
  A JSON codec of one Go type: a decoder that refuses unknown fields and returns the first value with
  the unread input, and the encoder.
\<close>

record 'a JsonCodec =
  jc_Decode :: "string \<Rightarrow> ('a \<times> string) option"
  jc_Marshal :: "'a \<Rightarrow> string option"

text \<open>A second \<open>Decode\<close> answers \<open>io.EOF\<close> when only JSON white space is left.\<close>

definition json_eof :: "string \<Rightarrow> bool" where
  "json_eof rest \<longleftrightarrow> list_all (\<lambda>c. byte c \<in> set [32, 9, 10, 13]) rest"

end
