(* ===== verification/WR_Control.thy ===== *)
theory WR_Control
  imports WR_Codec WR_Queue
begin

text \<open>
  The operator configuration (\<open>internal/control\<close>): rooms, their limits and themes, the validation
  every draft and every signed delivery passes, route matching, runtime state and scheduled events.
  Parsing a URL (\<open>net/url\<close>) and decoding images (\<open>image/png\<close>, \<open>image/jpeg\<close>) are parameters of the
  definitions that use them; every theorem holds for all of their values.
\<close>

section \<open>Configuration data (config.go)\<close>

datatype control_error = CErrInvalid | CErrConflict

record Limits =
  MaxActiveAdmissionLeases :: int
  AdmissionsPerMinute :: int
  AdmissionTTLSeconds :: int

record QueuePolicy =
  qp_Kind :: string
  TicketIdleTTLSeconds :: int
  TicketMaxTTLSeconds :: int
  ReadyTTLSeconds :: int

record Theme =
  TemplateID :: string
  Title :: string
  Message :: string
  PrimaryColor :: string
  Locale :: string
  ShowEstimatedWait :: bool
  LogoImage :: string

text \<open>A slice that the code compares with \<open>nil\<close> is an option: \<open>None\<close> is \<open>nil\<close>.\<close>

record Room =
  r_ID :: string
  PublicID :: string
  Name :: string
  Hostname :: string
  Origin :: string
  HealthURL :: string
  ProtectPrefixes :: "string list"
  ExcludePrefixes :: "string list option"
  r_QueuePolicy :: QueuePolicy
  r_Limits :: Limits
  r_Theme :: Theme
  Active :: bool

record Config =
  cfg_SchemaVersion :: int
  cfg_Revision :: int
  Profile :: string
  RegionID :: string
  Rooms :: "Room list option"

text \<open>The compiled patterns, anchored at both ends.\<close>

definition IDPattern :: "string \<Rightarrow> bool" where
  "IDPattern s \<longleftrightarrow> (case s of [] \<Rightarrow> False | c # cs \<Rightarrow> is_lower c \<and> length cs \<le> 63 \<and>
     list_all (\<lambda>x. is_lower x \<or> is_digit x \<or> x = CHR ''_'' \<or> x = CHR ''-'') cs)"

definition publicIDPattern :: "string \<Rightarrow> bool" where
  "publicIDPattern s \<longleftrightarrow> length s = 20 \<and> list_all (\<lambda>x. is_lower x \<or> 50 \<le> byte x \<and> byte x \<le> 55) s"

definition regionPattern :: "string \<Rightarrow> bool" where
  "regionPattern s \<longleftrightarrow> (case s of [] \<Rightarrow> False | c # cs \<Rightarrow> is_lower c \<and> length cs \<le> 62 \<and>
     list_all (\<lambda>x. is_lower x \<or> is_digit x \<or> x = CHR ''-'') cs)"

definition colorPattern :: "string \<Rightarrow> bool" where
  "colorPattern s \<longleftrightarrow> (case s of [] \<Rightarrow> False | c # cs \<Rightarrow> c = CHR ''#'' \<and> length cs = 6 \<and>
     list_all (\<lambda>x. is_digit x \<or> 97 \<le> byte x \<and> byte x \<le> 102 \<or> 65 \<le> byte x \<and> byte x \<le> 70) cs)"

definition profile_caps :: "string \<Rightarrow> (int \<times> int) option" where
  "profile_caps profile =
     (if profile = ''high-scale-100k'' then Some (100000, 60000)
      else if profile \<noteq> ''standard-10k'' then None else Some (10000, 6000))"

definition Limits_Validate :: "Limits \<Rightarrow> string \<Rightarrow> control_error option" where
  "Limits_Validate l profile =
     (case profile_caps profile of
        None \<Rightarrow> Some CErrInvalid
      | Some (cap, rate) \<Rightarrow>
          if MaxActiveAdmissionLeases l < 1 \<or> MaxActiveAdmissionLeases l > cap \<or>
             AdmissionsPerMinute l < 1 \<or> AdmissionsPerMinute l > rate \<or>
             AdmissionTTLSeconds l < 60 \<or> AdmissionTTLSeconds l > 3600
          then Some CErrInvalid else None)"

text \<open>Invalid UTF-8 fails before its runes are looked at.\<close>

definition plain :: "string \<Rightarrow> nat \<Rightarrow> bool \<Rightarrow> bool" where
  "plain s max_runes multiline =
     (case utf8_runes s of
        None \<Rightarrow> False
      | Some rs \<Rightarrow> length rs \<le> max_runes \<and>
          list_all (\<lambda>c. \<not> (c = 60 \<or> c = 62 \<or>
            is_control c \<and> \<not> (multiline \<and> (c = 10 \<or> c = 9)))) rs)"

definition valid_label :: "string \<Rightarrow> bool" where
  "valid_label label \<longleftrightarrow>
     \<not> (length label = 0 \<or> length label > 63 \<or> hd label = CHR ''-'' \<or> last label = CHR ''-'') \<and>
     list_all (\<lambda>c. is_lower c \<or> is_digit c \<or> c = CHR ''-'') label"

text \<open>
  A byte outside ASCII is rejected by the label check, so \<open>strings.ToLower\<close> is only ever decisive
  on ASCII.
\<close>

definition ValidHostname :: "string \<Rightarrow> bool" where
  "ValidHostname host \<longleftrightarrow>
     \<not> (length host = 0 \<or> length host > 253 \<or> host \<noteq> map to_lower host) \<and>
     list_all valid_label (split_on (CHR ''.'') host)"

definition ValidPath :: "string \<Rightarrow> bool" where
  "ValidPath p \<longleftrightarrow>
     \<not> (p = [] \<or> length p > 2048 \<or> hd p \<noteq> CHR ''/'' \<or> contains_str p ''//'') \<and>
     list_all (\<lambda>c. \<not> (byte c \<le> 32 \<or> byte c \<ge> 127 \<or> c \<in> set [CHR ''%'', CHR 92, CHR ''?'', CHR ''#'', CHR '';''])) p \<and>
     list_all (\<lambda>segment. \<not> (segment = ''.'' \<or> segment = ''..'')) (split_on (CHR ''/'') p)"

definition PrefixMatches :: "string \<Rightarrow> string \<Rightarrow> bool" where
  "PrefixMatches pre path =
     (let pre' = trim_suffix pre ''/''
      in pre' = [] \<or> path = pre' \<or> has_prefix path (pre' @ ''/''))"

definition reserved :: "string \<Rightarrow> bool" where
  "reserved p \<longleftrightarrow> PrefixMatches ''/_wr'' p \<or> PrefixMatches ''/api/admin'' p"

section \<open>URLs\<close>

text \<open>\<open>url.URL\<close> as far as the code reads it; \<open>u_User\<close> says that user information is present.\<close>

record URL =
  u_Scheme :: string
  u_Opaque :: string
  u_User :: bool
  u_Host :: string
  u_Path :: string
  u_RawPath :: string
  u_RawQuery :: string
  u_ForceQuery :: bool
  u_Fragment :: string

text \<open>\<open>url.splitHostPort\<close>: the last colon starts a port if only digits follow.\<close>

definition split_host_port :: "string \<Rightarrow> string \<times> string" where
  "split_host_port hostport =
     (let tail = takeWhile (\<lambda>c. c \<noteq> CHR '':'') (rev hostport);
          port = rev tail;
          (host, port') =
            (if CHR '':'' \<in> set hostport \<and> list_all is_digit port
             then (take (length hostport - length port - 1) hostport, port) else (hostport, []))
      in (if has_prefix host ''['' \<and> has_suffix host '']'' then take (length host - 2) (drop 1 host) else host,
          port'))"

definition URL_Hostname :: "URL \<Rightarrow> string" where
  "URL_Hostname u = fst (split_host_port (u_Host u))"

definition URL_Port :: "URL \<Rightarrow> string" where
  "URL_Port u = snd (split_host_port (u_Host u))"

definition canonical_port :: "string \<Rightarrow> bool" where
  "canonical_port s \<longleftrightarrow> (case atoi s of None \<Rightarrow> False
     | Some port \<Rightarrow> \<not> (port < 1 \<or> port > 65535 \<or> itoa port \<noteq> s))"

definition validOrigin :: "(string \<Rightarrow> URL option) \<Rightarrow> string \<Rightarrow> URL option" where
  "validOrigin parse raw =
     (case parse raw of
        None \<Rightarrow> None
      | Some u \<Rightarrow>
          if u_Scheme u \<noteq> ''https'' \<or> u_User u \<or> \<not> ValidHostname (URL_Hostname u) \<or>
             u_Fragment u \<noteq> [] \<or> u_RawQuery u \<noteq> [] \<or> u_ForceQuery u \<or> u_Opaque u \<noteq> [] \<or>
             u_RawPath u \<noteq> []
          then None
          else if URL_Port u \<noteq> [] \<and> \<not> canonical_port (URL_Port u) then None
          else Some u)"

section \<open>Logos (logo.go)\<close>

definition MaxLogoBytes :: nat where "MaxLogoBytes = 16 * 1024"
definition MaxLogoDimension :: int where "MaxLogoDimension = 256"
definition MaxLogoPixels :: int where "MaxLogoPixels = 65536"
definition MaxLogoBase64 :: nat where "MaxLogoBase64 = (MaxLogoBytes + 2) div 3 * 4"

record Image =
  img_Dx :: int
  img_Dy :: int
  img_Pixels :: string

text \<open>
  The image library: the decoders, and the redraw-and-encode step (\<open>image.NewNRGBA\<close>, \<open>draw.Draw\<close>,
  \<open>png.Encode\<close>) on an image and its dimensions.
\<close>

record ImageLib =
  png_DecodeConfig :: "string \<Rightarrow> (int \<times> int) option"
  jpeg_DecodeConfig :: "string \<Rightarrow> (int \<times> int) option"
  png_Decode :: "string \<Rightarrow> Image option"
  jpeg_Decode :: "string \<Rightarrow> Image option"
  png_Redraw :: "Image \<Rightarrow> int \<Rightarrow> int \<Rightarrow> string option"

definition png_signature :: string where
  "png_signature = map char_of [137, 80, 78, 71, 13, 10, 26, 10 :: nat]"

definition jpeg_signature :: string where
  "jpeg_signature = map char_of [255, 216, 255 :: nat]"

definition logo_dimensions_ok :: "int \<times> int \<Rightarrow> bool" where
  "logo_dimensions_ok cfg \<longleftrightarrow> (case cfg of (width, height) \<Rightarrow>
     \<not> (width < 1 \<or> height < 1 \<or> width > MaxLogoDimension \<or> height > MaxLogoDimension \<or>
        width * height > MaxLogoPixels))"

definition SanitizeLogo :: "ImageLib \<Rightarrow> string \<Rightarrow> control_error + string" where
  "SanitizeLogo lib encoded =
     (if encoded = [] then Inr []
      else if length encoded > MaxLogoBase64 then Inl CErrInvalid
      else case std_decode_strict encoded of
        None \<Rightarrow> Inl CErrInvalid
      | Some raw \<Rightarrow>
          if length raw > MaxLogoBytes \<or> std_encode raw \<noteq> encoded then Inl CErrInvalid
          else
            let choice =
              (if has_prefix raw png_signature then Some (png_DecodeConfig lib raw, png_Decode lib)
               else if has_prefix raw jpeg_signature
                 then Some (jpeg_DecodeConfig lib raw, jpeg_Decode lib)
               else None)
            in case choice of
                None \<Rightarrow> Inl CErrInvalid
              | Some (None, decode) \<Rightarrow> Inl CErrInvalid
              | Some (Some (width, height), decode) \<Rightarrow>
                  if \<not> logo_dimensions_ok (width, height) then Inl CErrInvalid
                  else case decode raw of
                    None \<Rightarrow> Inl CErrInvalid
                  | Some source \<Rightarrow>
                      if img_Dx source \<noteq> width \<or> img_Dy source \<noteq> height then Inl CErrInvalid
                      else case png_Redraw lib source width height of
                        None \<Rightarrow> Inl CErrInvalid
                      | Some output \<Rightarrow>
                          if length output > MaxLogoBytes then Inl CErrInvalid
                          else Inr (std_encode output))"

definition be32 :: "string \<Rightarrow> nat" where
  "be32 s = byte (s ! 0) * 2 ^ 24 + byte (s ! 1) * 2 ^ 16 + byte (s ! 2) * 2 ^ 8 + byte (s ! 3)"

text \<open>
  The chunk loop of \<open>LogoBytes\<close> from offset \<open>at\<close>: \<open>None\<close> is an early \<open>ErrInvalid\<close>, otherwise the
  final value of \<open>end\<close>.
\<close>

function logo_chunks :: "string \<Rightarrow> nat \<Rightarrow> bool \<Rightarrow> bool option" where
  "logo_chunks raw at fin =
     (if \<not> at < length raw then Some fin
      else if length raw - at < 12 then None
      else let size = be32 (take 4 (drop at raw)) in
        if size > length raw - at - 12 then None
        else let nxt = at + 12 + size; kind = take 4 (drop (at + 4) raw) in
          if kind = ''IHDR'' then
            (if at \<noteq> 8 \<or> size \<noteq> 13 \<or> byte (raw ! (at + 16)) \<noteq> 8 \<or>
                (byte (raw ! (at + 17)) \<noteq> 2 \<and> byte (raw ! (at + 17)) \<noteq> 6)
             then None else logo_chunks raw nxt fin)
          else if kind = ''IDAT'' then logo_chunks raw nxt fin
          else if kind = ''IEND'' then
            (if nxt \<noteq> length raw \<or> size \<noteq> 0 then None else logo_chunks raw nxt True)
          else None)"
  by pat_completeness auto
termination
  by (relation "measure (\<lambda>(raw, at, fin). length raw - at)") auto

declare logo_chunks.simps [simp del]

definition LogoBytes :: "ImageLib \<Rightarrow> string \<Rightarrow> control_error + string" where
  "LogoBytes lib encoded =
     (if encoded = [] then Inr []
      else if length encoded > MaxLogoBase64 then Inl CErrInvalid
      else case std_decode_strict encoded of
        None \<Rightarrow> Inl CErrInvalid
      | Some raw \<Rightarrow>
          if length raw > MaxLogoBytes \<or> std_encode raw \<noteq> encoded \<or>
             \<not> has_prefix raw png_signature
          then Inl CErrInvalid
          else case png_DecodeConfig lib raw of
            None \<Rightarrow> Inl CErrInvalid
          | Some cfg \<Rightarrow>
              if \<not> logo_dimensions_ok cfg then Inl CErrInvalid
              else case logo_chunks raw 8 False of
                None \<Rightarrow> Inl CErrInvalid
              | Some fin \<Rightarrow>
                  if \<not> fin then Inl CErrInvalid
                  else case png_Decode lib raw of None \<Rightarrow> Inl CErrInvalid | Some _ \<Rightarrow> Inr raw)"

text \<open>The rooms are rewritten in place; on an error the ones before it keep their new logo.\<close>

fun normalize_rooms :: "ImageLib \<Rightarrow> Room list \<Rightarrow> control_error option \<times> Room list" where
  "normalize_rooms lib [] = (None, [])"
| "normalize_rooms lib (r # rs) =
     (case SanitizeLogo lib (LogoImage (r_Theme r)) of
        Inl e \<Rightarrow> (Some CErrInvalid, r # rs)
      | Inr logo \<Rightarrow>
          let (e, rs') = normalize_rooms lib rs
          in (e, r\<lparr>r_Theme := (r_Theme r)\<lparr>LogoImage := logo\<rparr>\<rparr> # rs'))"

definition NormalizeThemeImages :: "ImageLib \<Rightarrow> Config \<Rightarrow> control_error option \<times> Config" where
  "NormalizeThemeImages lib c =
     (case Rooms c of
        None \<Rightarrow> (None, c)
      | Some rs \<Rightarrow> let (e, rs') = normalize_rooms lib rs in (e, c\<lparr>Rooms := Some rs'\<rparr>))"

section \<open>Validation (config.go)\<close>

definition is_space :: "nat \<Rightarrow> bool" where
  "is_space r \<longleftrightarrow> 9 \<le> r \<and> r \<le> 13 \<or> r \<in> set [32, 133, 160, 5760, 8232, 8233, 8239, 8287, 12288] \<or>
     8192 \<le> r \<and> r \<le> 8202"

text \<open>\<open>strings.TrimSpace(s) == ""\<close> on valid UTF-8; invalid text fails \<open>plain\<close> right after.\<close>

definition blank :: "string \<Rightarrow> bool" where
  "blank s \<longleftrightarrow> (case utf8_runes s of None \<Rightarrow> False | Some rs \<Rightarrow> list_all is_space rs)"

text \<open>The loop over one list of prefixes; \<open>seen\<close> holds the canonical forms met so far.\<close>

fun prefixes_ok :: "string list \<Rightarrow> string list \<Rightarrow> bool" where
  "prefixes_ok seen [] = True"
| "prefixes_ok seen (p # ps) =
     (let canonical = trim_suffix p ''/'' in
      if \<not> ValidPath p \<or> reserved p \<or> canonical \<in> set seen then False
      else prefixes_ok (canonical # seen) ps)"

definition policy_ok :: "QueuePolicy \<Rightarrow> bool" where
  "policy_ok p \<longleftrightarrow> \<not> (qp_Kind p \<noteq> ''fifo'' \<or> TicketIdleTTLSeconds p < 60 \<or> TicketIdleTTLSeconds p > 600 \<or>
     TicketMaxTTLSeconds p < 600 \<or> TicketMaxTTLSeconds p > 86400 \<or>
     TicketMaxTTLSeconds p < TicketIdleTTLSeconds p \<or> ReadyTTLSeconds p < 1 \<or> ReadyTTLSeconds p > 120)"

definition theme_ok :: "Theme \<Rightarrow> bool" where
  "theme_ok t \<longleftrightarrow> \<not> (TemplateID t \<noteq> ''calm'' \<or> \<not> plain (Title t) 120 False \<or>
     \<not> plain (Message t) 1000 True \<or> \<not> colorPattern (PrimaryColor t) \<or>
     (Locale t \<noteq> ''ko'' \<and> Locale t \<noteq> ''en''))"

definition Room_Validate ::
  "(string \<Rightarrow> URL option) \<Rightarrow> ImageLib \<Rightarrow> Room \<Rightarrow> string \<Rightarrow> control_error option" where
  "Room_Validate parse lib r profile =
     (if \<not> IDPattern (r_ID r) \<or> \<not> publicIDPattern (PublicID r) \<or> blank (Name r) \<or>
         \<not> plain (Name r) 120 False \<or> \<not> ValidHostname (Hostname r) then Some CErrInvalid
      else case validOrigin parse (Origin r) of
        None \<Rightarrow> Some CErrInvalid
      | Some origin \<Rightarrow>
          if (u_Path origin \<noteq> [] \<and> u_Path origin \<noteq> ''/'') \<or> URL_Hostname origin = Hostname r
          then Some CErrInvalid
          else case validOrigin parse (HealthURL r) of
            None \<Rightarrow> Some CErrInvalid
          | Some health \<Rightarrow>
              if u_Host health \<noteq> u_Host origin \<or> \<not> ValidPath (u_Path health) then Some CErrInvalid
              else (case ExcludePrefixes r of
                None \<Rightarrow> Some CErrInvalid
              | Some excludes \<Rightarrow>
                  if length (ProtectPrefixes r) = 0 \<or> length (ProtectPrefixes r) > 32 \<or>
                     length excludes > 32 then Some CErrInvalid
                  else if \<not> prefixes_ok [] (ProtectPrefixes r) \<or> \<not> prefixes_ok [] excludes
                    then Some CErrInvalid
                  else if \<not> policy_ok (r_QueuePolicy r) then Some CErrInvalid
                  else if Limits_Validate (r_Limits r) profile \<noteq> None then Some CErrInvalid
                  else if \<not> theme_ok (r_Theme r) then Some CErrInvalid
                  else (case LogoBytes lib (LogoImage (r_Theme r)) of
                      Inl e \<Rightarrow> Some CErrInvalid | Inr _ \<Rightarrow> None)))"

definition routes_conflict :: "Room \<Rightarrow> Room \<Rightarrow> bool" where
  "routes_conflict r other \<longleftrightarrow> Active other \<and> Hostname other = Hostname r \<and>
     list_ex (\<lambda>a. list_ex (\<lambda>b. PrefixMatches a b \<or> PrefixMatches b a) (ProtectPrefixes other))
       (ProtectPrefixes r)"

text \<open>The room loop of \<open>Config.Validate\<close>; \<open>before\<close> is \<open>c.Rooms[:i]\<close>.\<close>

fun validate_rooms ::
  "(string \<Rightarrow> URL option) \<Rightarrow> ImageLib \<Rightarrow> string \<Rightarrow> Room list \<Rightarrow> Room list \<Rightarrow> control_error option" where
  "validate_rooms parse lib profile before [] = None"
| "validate_rooms parse lib profile before (r # rs) =
     (if Room_Validate parse lib r profile \<noteq> None \<or> r_ID r \<in> set (map r_ID before) \<or>
         PublicID r \<in> set (map PublicID before) then Some CErrInvalid
      else if Active r \<and> list_ex (routes_conflict r) before then Some CErrConflict
      else validate_rooms parse lib profile (before @ [r]) rs)"

definition Config_Validate ::
  "(string \<Rightarrow> URL option) \<Rightarrow> ImageLib \<Rightarrow> Config \<Rightarrow> control_error option" where
  "Config_Validate parse lib c =
     (case Rooms c of
        None \<Rightarrow> Some CErrInvalid
      | Some rooms \<Rightarrow>
          if cfg_SchemaVersion c \<noteq> 1 \<or> cfg_Revision c < 0 \<or> cfg_Revision c \<ge> 9007199254740990 \<or>
             \<not> regionPattern (RegionID c) \<or> length rooms > 100 \<or>
             (Profile c \<noteq> ''standard-10k'' \<and> Profile c \<noteq> ''high-scale-100k'')
          then Some CErrInvalid
          else validate_rooms parse lib (Profile c) [] rooms)"

section \<open>Route matching (config.go, route_check.go)\<close>

record Match =
  Decision :: string
  RoomID :: string
  Reason :: string

definition active_on :: "string \<Rightarrow> Room \<Rightarrow> bool" where
  "active_on host r \<longleftrightarrow> \<not> (\<not> Active r \<or> Hostname r \<noteq> host)"

definition rooms_of :: "Config \<Rightarrow> Room list" where
  "rooms_of c = (case Rooms c of None \<Rightarrow> [] | Some rs \<Rightarrow> rs)"

definition excludes_of :: "Room \<Rightarrow> string list" where
  "excludes_of r = (case ExcludePrefixes r of None \<Rightarrow> [] | Some ps \<Rightarrow> ps)"

definition MatchURL :: "Config \<Rightarrow> string \<Rightarrow> URL option \<Rightarrow> Match" where
  "MatchURL c host u =
     (case u of
        None \<Rightarrow> \<lparr>Decision = ''invalid'', RoomID = [], Reason = ''noncanonical_url''\<rparr>
      | Some u \<Rightarrow>
          if \<not> ValidHostname host \<or> \<not> ValidPath (u_Path u) \<or> u_RawPath u \<noteq> [] \<or> u_Opaque u \<noteq> []
          then \<lparr>Decision = ''invalid'', RoomID = [], Reason = ''noncanonical_url''\<rparr>
          else if reserved (u_Path u)
          then \<lparr>Decision = ''reserved'', RoomID = [], Reason = ''internal_namespace''\<rparr>
          else case find (\<lambda>r. active_on host r \<and> list_ex (\<lambda>p. PrefixMatches p (u_Path u)) (excludes_of r))
                 (rooms_of c) of
            Some r \<Rightarrow> \<lparr>Decision = ''excluded'', RoomID = r_ID r, Reason = ''exclude_prefix''\<rparr>
          | None \<Rightarrow>
              (case find (\<lambda>r. active_on host r \<and> list_ex (\<lambda>p. PrefixMatches p (u_Path u)) (ProtectPrefixes r))
                 (rooms_of c) of
                 Some r \<Rightarrow> \<lparr>Decision = ''protected'', RoomID = r_ID r, Reason = ''protect_prefix''\<rparr>
               | None \<Rightarrow> \<lparr>Decision = ''unprotected'', RoomID = [], Reason = ''no_active_rule''\<rparr>))"

definition MaxRouteURLBytes :: nat where "MaxRouteURLBytes = 4096"

definition CheckRoute :: "(string \<Rightarrow> URL option) \<Rightarrow> Config \<Rightarrow> string \<Rightarrow> Match" where
  "CheckRoute parse c raw =
     (let invalid = \<lparr>Decision = ''invalid'', RoomID = [], Reason = ''noncanonical_url''\<rparr> in
      if length raw = 0 \<or> length raw > MaxRouteURLBytes \<or> CHR ''#'' \<in> set raw \<or> CHR 92 \<in> set raw
      then invalid
      else case parse raw of
        None \<Rightarrow> invalid
      | Some u \<Rightarrow>
          if u_Scheme u \<noteq> ''https'' \<or> u_User u \<or> u_Opaque u \<noteq> [] \<or>
             \<not> ValidHostname (URL_Hostname u) \<or> u_Host u = [] then invalid
          else if list_ex (\<lambda>b. byte b \<le> 32 \<or> byte b \<ge> 127) raw then invalid
          else if URL_Port u \<noteq> [] \<and> \<not> canonical_port (URL_Port u) then invalid
          else if URL_Port u = [] \<and> CHR '':'' \<in> set (u_Host u) then invalid
          else MatchURL c (URL_Hostname u) (Some (if u_Path u = [] then u\<lparr>u_Path := ''/''\<rparr> else u)))"

section \<open>Runtime state and deliveries (runtime.go)\<close>

record Runtime =
  rt_Revision :: int
  rt_Mode :: string
  rt_Limits :: Limits
  rt_Epoch :: nat
  EventState :: string
  RecoveryUntil :: int

record RoomRuntime =
  rr_RoomID :: string
  rr_Runtime :: Runtime

record Delivery =
  d_Config :: Config
  d_Runtimes :: "RoomRuntime list"

definition Runtime_Validate :: "Runtime \<Rightarrow> string \<Rightarrow> control_error option" where
  "Runtime_Validate r profile =
     (if RecoveryUntil r < 0 \<or> RecoveryUntil r \<ge> 9007199254740990 \<or> rt_Revision r < 1 \<or>
         rt_Revision r \<ge> 9007199254740990 \<or> rt_Epoch r < 1 \<or> rt_Epoch r \<ge> 9007199254740990 \<or>
         Limits_Validate (rt_Limits r) profile \<noteq> None then Some CErrInvalid
      else if rt_Mode r \<notin> set [''OFF'', ''AUTO'', ''HOLD'', ''DRAINING'', ''RECOVERY_HOLD'']
        then Some CErrInvalid
      else if EventState r \<notin> set [''none'', ''scheduled'', ''running'', ''paused_by_override'']
        then Some CErrInvalid
      else None)"

definition Delivery_Validate ::
  "(string \<Rightarrow> URL option) \<Rightarrow> ImageLib \<Rightarrow> Delivery \<Rightarrow> control_error option" where
  "Delivery_Validate parse lib d =
     (if Config_Validate parse lib (d_Config d) \<noteq> None \<or>
         length (d_Runtimes d) \<noteq> length (rooms_of (d_Config d)) then Some CErrInvalid
      else if list_all (\<lambda>(r, v). \<not> (rr_RoomID v \<noteq> r_ID r \<or>
             Runtime_Validate (rr_Runtime v) (Profile (d_Config d)) \<noteq> None \<or>
             (\<not> Active r \<and> rt_Mode (rr_Runtime v) \<noteq> ''OFF'')))
           (zip (rooms_of (d_Config d)) (d_Runtimes d)) then None
      else Some CErrInvalid)"

text \<open>
  \<open>ValidateDelivery\<close> over a decoder (\<open>DecodeExact\<close> into a \<open>Delivery\<close>) and an encoder
  (\<open>json.Marshal\<close>).
\<close>

definition ValidateDelivery ::
  "(string \<Rightarrow> URL option) \<Rightarrow> ImageLib \<Rightarrow> (string \<Rightarrow> Delivery option) \<Rightarrow> (Delivery \<Rightarrow> string) \<Rightarrow>
   string \<Rightarrow> control_error option" where
  "ValidateDelivery parse lib decode bytes raw =
     (case decode raw of
        None \<Rightarrow> Some CErrInvalid
      | Some d \<Rightarrow>
          if Delivery_Validate parse lib d \<noteq> None \<or> bytes d \<noteq> raw then Some CErrInvalid else None)"

text \<open>The outer \<open>None\<close> is the panic of \<open>d.Runtimes[i]\<close> past the end; \<open>Some None\<close> is "not found".\<close>

fun find_room :: "string \<Rightarrow> Room list \<Rightarrow> RoomRuntime list \<Rightarrow> (Room \<times> Runtime) option option" where
  "find_room i [] vs = Some None"
| "find_room i (r # rs) [] = (if r_ID r = i then None else find_room i rs [])"
| "find_room i (r # rs) (v # vs) =
     (if r_ID r = i then Some (Some (r, rr_Runtime v)) else find_room i rs vs)"

definition Delivery_Find :: "Delivery \<Rightarrow> string \<Rightarrow> (Room \<times> Runtime) option option" where
  "Delivery_Find d i = find_room i (rooms_of (d_Config d)) (d_Runtimes d)"

definition InitialRuntime :: "Room \<Rightarrow> Runtime" where
  "InitialRuntime room = \<lparr>rt_Revision = 1, rt_Mode = (if Active room then ''HOLD'' else ''OFF''),
     rt_Limits = r_Limits room, rt_Epoch = 1, EventState = ''none'', RecoveryUntil = 0\<rparr>"

definition runtime_ETag :: "Runtime \<Rightarrow> string" where
  "runtime_ETag r = [CHR 34] @ ''runtime-'' @ itoa (rt_Revision r) @ [CHR 34]"

definition Runtime_QueueConfig :: "Runtime \<Rightarrow> string \<Rightarrow> Room \<Rightarrow> QueueConfig" where
  "Runtime_QueueConfig r profile room =
     (let c = DefaultConfig;
          c = (if profile = ''high-scale-100k''
               then c\<lparr>VisitorCap := 100000, IdempotencyCap := 200000\<rparr> else c)
      in c\<lparr>LeaseCap := MaxActiveAdmissionLeases (rt_Limits r),
           Rate := AdmissionsPerMinute (rt_Limits r),
           AdmissionTTL := i64 (AdmissionTTLSeconds (rt_Limits r) * 1000),
           IdleTTL := i64 (TicketIdleTTLSeconds (r_QueuePolicy room) * 1000),
           TicketTTL := i64 (TicketMaxTTLSeconds (r_QueuePolicy room) * 1000),
           ReadyTTL := i64 (ReadyTTLSeconds (r_QueuePolicy room) * 1000)\<rparr>)"

text \<open>
  \<open>FitsDeliveryBudget\<close>: the sizes of the largest delivery and of its signed envelope, over the two
  encoders.
\<close>

definition MaxConfigBytes :: nat where "MaxConfigBytes = 65536"
definition MaxSnapshotBytes :: nat where "MaxSnapshotBytes = 65536"

definition widest_runtime :: Runtime where
  "widest_runtime = \<lparr>rt_Revision = 9007199254740989, rt_Mode = ''RECOVERY_HOLD'',
     rt_Limits = \<lparr>MaxActiveAdmissionLeases = 100000, AdmissionsPerMinute = 60000,
                  AdmissionTTLSeconds = 3600\<rparr>,
     rt_Epoch = 9007199254740989, EventState = ''paused_by_override'',
     RecoveryUntil = 9007199254740989\<rparr>"

definition widest_delivery :: "Config \<Rightarrow> Delivery" where
  "widest_delivery c =
     (let c = c\<lparr>cfg_Revision := 9007199254740989\<rparr> in
      \<lparr>d_Config = c,
       d_Runtimes = map (\<lambda>room. \<lparr>rr_RoomID = r_ID room, rr_Runtime = widest_runtime\<rparr>) (rooms_of c)\<rparr>)"

definition FitsDeliveryBudget :: "(Delivery \<Rightarrow> string) \<Rightarrow> (string \<Rightarrow> string) \<Rightarrow> Config \<Rightarrow> bool" where
  "FitsDeliveryBudget bytes widest_envelope c =
     (let d = widest_delivery c
      in length (bytes d) \<le> MaxConfigBytes \<and> length (widest_envelope (bytes d)) \<le> MaxSnapshotBytes)"

section \<open>Scheduled events (runtime.go)\<close>

text \<open>Instants are integers (nanoseconds).\<close>

record EventInput =
  ei_PrequeueAt :: int
  ei_AdmitAt :: int
  ei_DrainAt :: int

record Event =
  ev_ID :: string
  ev_RoomID :: string
  ev_PrequeueAt :: int
  ev_AdmitAt :: int
  ev_DrainAt :: int
  ev_State :: string

definition hours :: "int \<Rightarrow> int" where
  "hours n = n * 3600000000000"

definition EventInput_Validate :: "EventInput \<Rightarrow> int \<Rightarrow> control_error option" where
  "EventInput_Validate e now =
     (if ei_PrequeueAt e < now \<or> \<not> ei_PrequeueAt e < ei_AdmitAt e \<or> \<not> ei_AdmitAt e < ei_DrainAt e \<or>
         ei_DrainAt e > now + hours (366 * 24) then Some CErrInvalid else None)"

definition Overlaps :: "Event \<Rightarrow> EventInput \<Rightarrow> bool" where
  "Overlaps e other \<longleftrightarrow> ev_State e \<noteq> ''cancelled'' \<and> ev_State e \<noteq> ''completed'' \<and>
     ev_PrequeueAt e < ei_DrainAt other \<and> ei_PrequeueAt other < ev_DrainAt e"

definition NextEventMode :: "Event \<Rightarrow> int \<Rightarrow> string \<times> string" where
  "NextEventMode e now =
     (if ev_State e = ''paused_by_override'' \<or> ev_State e = ''cancelled'' \<or>
         ev_State e = ''completed'' \<or> now < ev_PrequeueAt e then ('''', ev_State e)
      else if \<not> now < ev_DrainAt e then (''DRAINING'', ''running'')
      else if \<not> now < ev_AdmitAt e then (''AUTO'', ''running'')
      else (''HOLD'', ''running''))"

end
