(* ===== verification/WR_Control_Props.thy ===== *)
theory WR_Control_Props
  imports WR_Control WR_Queue_Inv
begin

text \<open>
  What validation of a configuration buys: routing without ambiguity, reserved namespaces that no
  room can capture, queue settings the queue accepts, deliveries whose rooms and runtimes agree,
  event stages in order, and logos that carry pixels only.
\<close>

section \<open>Prefixes\<close>

lemma common_prefix_extends:
  assumes "A @ CHR ''/'' # r = B @ CHR ''/'' # q" and "length A \<le> length B"
  shows "B = A \<or> (\<exists>d. B = A @ CHR ''/'' # d)"
proof -
  have "take (length A) B = A" using assms by (metis append_eq_conv_conj take_append take_all_iff
      diff_is_0_eq' append_Nil2 take_0)
  then obtain d where B: "B = A @ d" by (metis append_take_drop_id)
  with assms(1) have "CHR ''/'' # r = d @ CHR ''/'' # q" by simp
  with B show ?thesis by (cases d) auto
qed

lemma PrefixMatches_path:
  assumes "PrefixMatches a path" and "trim_suffix a ''/'' \<noteq> []"
  shows "\<exists>r. path @ ''/'' = trim_suffix a ''/'' @ CHR ''/'' # r"
  using assms by (auto simp: PrefixMatches_def Let_def has_prefix_iff)

text \<open>Two prefixes that match one path match each other: the matching paths form a tree.\<close>

lemma prefix_tree_shorter:
  assumes "PrefixMatches a path" and "PrefixMatches b path"
    and "length (trim_suffix a ''/'') \<le> length (trim_suffix b ''/'')"
  shows "PrefixMatches a b"
proof (cases "trim_suffix a ''/'' = []")
  case False
  with assms(3) have "trim_suffix b ''/'' \<noteq> []" by auto
  with False PrefixMatches_path [OF assms(1)] PrefixMatches_path [OF assms(2)] obtain r q
    where "trim_suffix a ''/'' @ CHR ''/'' # r = trim_suffix b ''/'' @ CHR ''/'' # q" by metis
  from common_prefix_extends [OF this assms(3)]
  consider "trim_suffix b ''/'' = trim_suffix a ''/''"
    | d where "trim_suffix b ''/'' = trim_suffix a ''/'' @ CHR ''/'' # d" by blast
  then have "\<exists>d. b = trim_suffix a ''/'' \<or> b = trim_suffix a ''/'' @ CHR ''/'' # d"
  proof cases
    case 1
    with trim_suffix_cases [of b "''/''"] show ?thesis by metis
  next
    case (2 d)
    with trim_suffix_cases [of b "''/''"] show ?thesis by (metis append_Cons append_assoc)
  qed
  then show ?thesis by (auto simp: PrefixMatches_def Let_def has_prefix_iff)
qed (simp add: PrefixMatches_def)

lemma prefix_tree:
  assumes "PrefixMatches a path" and "PrefixMatches b path"
  shows "PrefixMatches a b \<or> PrefixMatches b a"
  using prefix_tree_shorter [OF assms] prefix_tree_shorter [OF assms(2,1)] nat_le_linear by blast

section \<open>Validated rooms\<close>

text \<open>What one pass of the room loop guarantees, between a room and the rooms before it.\<close>

definition room_after :: "Room \<Rightarrow> Room \<Rightarrow> bool" where
  "room_after other r \<longleftrightarrow> r_ID r \<noteq> r_ID other \<and> PublicID r \<noteq> PublicID other \<and>
     (Active r \<longrightarrow> \<not> routes_conflict r other)"

lemma validate_rooms_pairwise:
  assumes "validate_rooms parse lib profile before rs = None"
  shows "(\<forall>r \<in> set rs. Room_Validate parse lib r profile = None \<and> (\<forall>b \<in> set before. room_after b r)) \<and>
    sorted_wrt room_after rs"
  using assms
proof (induction rs arbitrary: before)
  case (Cons r rs)
  from Cons.prems have rest: "validate_rooms parse lib profile (before @ [r]) rs = None"
    and "Room_Validate parse lib r profile = None"
    and "\<forall>b \<in> set before. room_after b r"
    by (auto simp: room_after_def list_ex_iff split: if_splits)
  with Cons.IH [OF rest] show ?case by auto
qed simp

lemma Config_Validate_rooms:
  assumes "Config_Validate parse lib c = None"
  shows "validate_rooms parse lib (Profile c) [] (rooms_of c) = None"
  using assms by (auto simp: Config_Validate_def rooms_of_def split: option.splits if_splits)

text \<open>No two active rooms of one host protect a common path.\<close>

lemma routes_unambiguous:
  assumes "Config_Validate parse lib c = None" and "r \<in> set (rooms_of c)" and "s \<in> set (rooms_of c)"
    and "active_on host r" and "active_on host s"
    and "p \<in> set (ProtectPrefixes r)" and "q \<in> set (ProtectPrefixes s)"
    and "PrefixMatches p path" and "PrefixMatches q path"
  shows "r = s"
proof (rule ccontr)
  assume "r \<noteq> s"
  have w: "sorted_wrt room_after (rooms_of c)"
    using validate_rooms_pairwise [OF Config_Validate_rooms [OF assms(1)]] by blast
  from assms(2,3) obtain i j where ij: "i < length (rooms_of c)" "rooms_of c ! i = r"
      "j < length (rooms_of c)" "rooms_of c ! j = s"
    by (auto simp: in_set_conv_nth)
  with \<open>r \<noteq> s\<close> consider "i < j" | "j < i" by (metis linorder_neqE_nat)
  then have "room_after r s \<or> room_after s r"
    using w ij by cases (auto dest: sorted_wrt_nth_less)
  moreover from prefix_tree [OF assms(8,9)] assms(4-7)
  have "routes_conflict r s" "routes_conflict s r" "Active r" "Active s"
    by (auto simp: routes_conflict_def active_on_def list_ex_iff)
  ultimately show False by (simp add: room_after_def)
qed

section \<open>A concrete installation\<close>

text \<open>One active room that protects \<open>/shop\<close> and lets \<open>/shop/help\<close> through.\<close>

definition demo_room :: Room where
  "demo_room = \<lparr>r_ID = ''sale'', PublicID = ''abcdefghijklmnop2345'', Name = ''Sale'',
     Hostname = ''shop.test'', Origin = ''o'', HealthURL = ''h'', ProtectPrefixes = [''/shop/''],
     ExcludePrefixes = Some [''/shop/help''],
     r_QueuePolicy = \<lparr>qp_Kind = ''fifo'', TicketIdleTTLSeconds = 60, TicketMaxTTLSeconds = 600,
       ReadyTTLSeconds = 30\<rparr>,
     r_Limits = \<lparr>MaxActiveAdmissionLeases = 10, AdmissionsPerMinute = 5, AdmissionTTLSeconds = 60\<rparr>,
     r_Theme = \<lparr>TemplateID = ''calm'', Title = ''Sale'', Message = [], PrimaryColor = ''#00aAfF'',
       Locale = ''en'', ShowEstimatedWait = True, LogoImage = []\<rparr>, Active = True\<rparr>"

definition demo_config :: Config where
  "demo_config = \<lparr>cfg_SchemaVersion = 1, cfg_Revision = 1, Profile = ''standard-10k'',
     RegionID = ''kr'', Rooms = Some [demo_room]\<rparr>"

definition demo_url :: "string \<Rightarrow> string \<Rightarrow> URL" where
  "demo_url host path = \<lparr>u_Scheme = ''https'', u_Opaque = [], u_User = False, u_Host = host,
     u_Path = path, u_RawPath = [], u_RawQuery = [], u_ForceQuery = False, u_Fragment = []\<rparr>"

definition demo_parse :: "string \<Rightarrow> URL option" where
  "demo_parse s = (if s = ''o'' then Some (demo_url ''origin.test'' [])
     else if s = ''h'' then Some (demo_url ''origin.test'' ''/health'') else None)"

definition no_images :: ImageLib where
  "no_images = \<lparr>png_DecodeConfig = \<lambda>_. None, jpeg_DecodeConfig = \<lambda>_. None, png_Decode = \<lambda>_. None,
     jpeg_Decode = \<lambda>_. None, png_Redraw = \<lambda>_ _ _. None\<rparr>"

definition demo_delivery :: Delivery where
  "demo_delivery = \<lparr>d_Config = demo_config,
     d_Runtimes = [\<lparr>rr_RoomID = ''sale'', rr_Runtime = InitialRuntime demo_room\<rparr>]\<rparr>"

lemma demo_origin: "validOrigin demo_parse (Origin demo_room) = Some (demo_url ''origin.test'' [])"
  by code_simp

lemma demo_health:
  "validOrigin demo_parse (HealthURL demo_room) = Some (demo_url ''origin.test'' ''/health'')"
  by code_simp

lemma demo_names:
  "IDPattern (r_ID demo_room) \<and> publicIDPattern (PublicID demo_room) \<and> \<not> blank (Name demo_room) \<and>
   plain (Name demo_room) 120 False \<and> ValidHostname (Hostname demo_room) \<and>
   URL_Hostname (demo_url ''origin.test'' []) \<noteq> Hostname demo_room \<and> ValidPath ''/health''"
  by code_simp

lemma demo_settings:
  "prefixes_ok [] (ProtectPrefixes demo_room) \<and> prefixes_ok [] [''/shop/help''] \<and>
   policy_ok (r_QueuePolicy demo_room) \<and> Limits_Validate (r_Limits demo_room) ''standard-10k'' = None \<and>
   theme_ok (r_Theme demo_room)"
  by code_simp

lemma demo_room_valid: "Room_Validate demo_parse no_images demo_room ''standard-10k'' = None"
proof -
  have "ExcludePrefixes demo_room = Some [''/shop/help'']" "length (ProtectPrefixes demo_room) = 1"
    "LogoImage (r_Theme demo_room) = []"
    by (simp_all add: demo_room_def)
  moreover have "u_Path (demo_url h p) = p" "u_Host (demo_url h p) = h" for h p
    by (simp_all add: demo_url_def)
  ultimately show ?thesis using demo_names demo_settings
    by (simp add: Room_Validate_def demo_origin demo_health LogoBytes_def del: prefixes_ok.simps)
qed

lemma demo_config_valid: "Config_Validate demo_parse no_images demo_config = None"
proof -
  have "regionPattern ''kr''" by code_simp
  then show ?thesis by (simp add: Config_Validate_def demo_config_def demo_room_valid)
qed

lemma demo_delivery_valid: "Delivery_Validate demo_parse no_images demo_delivery = None"
proof -
  have "Limits_Validate (r_Limits demo_room) ''standard-10k'' = None" using demo_settings by blast
  then have "Runtime_Validate (InitialRuntime demo_room) ''standard-10k'' = None"
    by (simp add: Runtime_Validate_def InitialRuntime_def)
  then show ?thesis using demo_config_valid
    by (simp add: Delivery_Validate_def demo_delivery_def demo_config_def rooms_of_def demo_room_def)
qed

section \<open>Routing\<close>

definition protects :: "Room \<Rightarrow> string \<Rightarrow> string \<Rightarrow> bool" where
  "protects r host path \<longleftrightarrow> active_on host r \<and> list_ex (\<lambda>p. PrefixMatches p path) (ProtectPrefixes r)"

definition excludes :: "Room \<Rightarrow> string \<Rightarrow> string \<Rightarrow> bool" where
  "excludes r host path \<longleftrightarrow> active_on host r \<and> list_ex (\<lambda>p. PrefixMatches p path) (excludes_of r)"

lemma protects_unique:
  assumes "Config_Validate parse lib c = None" and "r \<in> set (rooms_of c)" and "s \<in> set (rooms_of c)"
    and "protects r host path" and "protects s host path"
  shows "r = s"
  using assms by (auto simp: protects_def list_ex_iff intro: routes_unambiguous)

lemma sorted_wrt_neq_distinct: "sorted_wrt (\<noteq>) xs \<Longrightarrow> distinct xs"
  by (induction xs) auto

lemma room_IDs_distinct:
  assumes "Config_Validate parse lib c = None"
  shows "distinct (map r_ID (rooms_of c))"
proof -
  have "sorted_wrt room_after (rooms_of c)"
    using validate_rooms_pairwise [OF Config_Validate_rooms [OF assms]] by blast
  then have "sorted_wrt (\<lambda>a b. r_ID a \<noteq> r_ID b) (rooms_of c)"
    by (rule sorted_wrt_mono_rel [rotated]) (auto simp: room_after_def)
  then have "sorted_wrt (\<noteq>) (map r_ID (rooms_of c))" by (simp add: sorted_wrt_map)
  then show ?thesis by (rule sorted_wrt_neq_distinct)
qed

lemma MatchURL_canonical:
  assumes "ValidHostname host" and "ValidPath (u_Path u)" and "u_RawPath u = []" and "u_Opaque u = []"
  shows "MatchURL c host (Some u) =
    (if reserved (u_Path u)
     then \<lparr>Decision = ''reserved'', RoomID = [], Reason = ''internal_namespace''\<rparr>
     else case find (\<lambda>r. excludes r host (u_Path u)) (rooms_of c) of
       Some r \<Rightarrow> \<lparr>Decision = ''excluded'', RoomID = r_ID r, Reason = ''exclude_prefix''\<rparr>
     | None \<Rightarrow> (case find (\<lambda>r. protects r host (u_Path u)) (rooms_of c) of
         Some r \<Rightarrow> \<lparr>Decision = ''protected'', RoomID = r_ID r, Reason = ''protect_prefix''\<rparr>
       | None \<Rightarrow> \<lparr>Decision = ''unprotected'', RoomID = [], Reason = ''no_active_rule''\<rparr>))"
  using assms by (simp add: MatchURL_def protects_def excludes_def cong: option.case_cong)

text \<open>
  C17 (routing). On a validated configuration and a canonical URL, \<open>MatchURL\<close> answers "protected by
  room r" exactly when the path is outside the reserved namespaces, no active room of the host
  excludes it, and \<open>r\<close> is an active room of the host with a matching protect prefix. In particular
  at most one room can ever be answered, and the order of the rooms does not matter.
\<close>

theorem protected_iff:
  assumes "Config_Validate parse lib c = None" and "r \<in> set (rooms_of c)"
    and "ValidHostname host" and "ValidPath (u_Path u)" and "u_RawPath u = []" and "u_Opaque u = []"
  shows "MatchURL c host (Some u) =
      \<lparr>Decision = ''protected'', RoomID = r_ID r, Reason = ''protect_prefix''\<rparr> \<longleftrightarrow>
    \<not> reserved (u_Path u) \<and> (\<forall>s \<in> set (rooms_of c). \<not> excludes s host (u_Path u)) \<and>
    protects r host (u_Path u)"
proof -
  have ids: "s = r" if "s \<in> set (rooms_of c)" "r_ID s = r_ID r" for s
    using room_IDs_distinct [OF assms(1)] that assms(2) by (auto simp: distinct_map inj_on_def)
  have found: "find (\<lambda>r. protects r host (u_Path u)) (rooms_of c) = Some s \<Longrightarrow>
      s \<in> set (rooms_of c) \<and> protects s host (u_Path u)" for s
    by (auto simp: find_Some_iff)
  have "(\<exists>s. find (\<lambda>r. protects r host (u_Path u)) (rooms_of c) = Some s \<and> r_ID s = r_ID r) \<longleftrightarrow>
      protects r host (u_Path u)"
    using found ids assms(2) protects_unique [OF assms(1) _ assms(2)]
    by (metis find_None_iff option.exhaust)
  moreover have "find (\<lambda>r. excludes r host (u_Path u)) (rooms_of c) = None \<longleftrightarrow>
      (\<forall>s \<in> set (rooms_of c). \<not> excludes s host (u_Path u))"
    by (auto simp: find_None_iff)
  ultimately show ?thesis
    by (auto simp: MatchURL_canonical [OF assms(3-6)] split: option.splits)
qed

theorem protected_iff_witness:
  "MatchURL demo_config ''shop.test'' (Some (demo_url ''shop.test'' ''/shop/cart'')) =
     \<lparr>Decision = ''protected'', RoomID = ''sale'', Reason = ''protect_prefix''\<rparr>"
proof -
  have "ValidHostname ''shop.test'' \<and> ValidPath ''/shop/cart'' \<and> \<not> reserved ''/shop/cart'' \<and>
    \<not> PrefixMatches ''/shop/help'' ''/shop/cart'' \<and> PrefixMatches ''/shop/'' ''/shop/cart''"
    by code_simp
  then show ?thesis
    using protected_iff [OF demo_config_valid, of demo_room "''shop.test''" "demo_url ''shop.test'' ''/shop/cart''"]
    by (simp add: rooms_of_def demo_config_def demo_url_def protects_def excludes_def excludes_of_def
        active_on_def demo_room_def)
qed

section \<open>Deliveries\<close>

lemma find_room_zip:
  assumes "length vs = length rs"
  shows "find_room i rs vs =
    Some (map_option (\<lambda>(r, v). (r, rr_Runtime v)) (find (\<lambda>(r, v). r_ID r = i) (zip rs vs)))"
  using assms by (induction rs vs rule: list_induct2') auto

lemma Delivery_Validate_parts:
  assumes "Delivery_Validate parse lib d = None"
  shows "Config_Validate parse lib (d_Config d) = None"
    and "length (d_Runtimes d) = length (rooms_of (d_Config d))"
    and "(r, v) \<in> set (zip (rooms_of (d_Config d)) (d_Runtimes d)) \<Longrightarrow>
      Runtime_Validate (rr_Runtime v) (Profile (d_Config d)) = None \<and>
      (Active r \<or> rt_Mode (rr_Runtime v) = ''OFF'')"
  using assms by (auto simp: Delivery_Validate_def list_all_iff split: if_splits)

lemma Room_Validate_policy: "Room_Validate parse lib r profile = None \<Longrightarrow> policy_ok (r_QueuePolicy r)"
  by (auto simp: Room_Validate_def split: option.splits if_splits)

lemma valid_room:
  assumes "Config_Validate parse lib c = None" and "r \<in> set (rooms_of c)"
  shows "Room_Validate parse lib r (Profile c) = None"
  using validate_rooms_pairwise [OF Config_Validate_rooms [OF assms(1)]] assms(2) by blast

lemma QueueConfig_valid:
  assumes "policy_ok (r_QueuePolicy room)" and "Limits_Validate (rt_Limits rt) profile = None"
  shows "valid_config (Runtime_QueueConfig rt profile room) \<and>
    short_ttls (Runtime_QueueConfig rt profile room)"
proof -
  from assms(2) have "60 \<le> AdmissionTTLSeconds (rt_Limits rt)" "AdmissionTTLSeconds (rt_Limits rt) \<le> 3600"
    by (auto simp: Limits_Validate_def split: option.splits if_splits)
  moreover from assms(1) have "60 \<le> TicketIdleTTLSeconds (r_QueuePolicy room)"
    "TicketMaxTTLSeconds (r_QueuePolicy room) \<le> 86400" "1 \<le> ReadyTTLSeconds (r_QueuePolicy room)"
    "TicketIdleTTLSeconds (r_QueuePolicy room) \<le> TicketMaxTTLSeconds (r_QueuePolicy room)"
    "ReadyTTLSeconds (r_QueuePolicy room) \<le> 120"
    by (auto simp: policy_ok_def)
  moreover from assms(2)
  have "1 \<le> MaxActiveAdmissionLeases (rt_Limits rt)" "1 \<le> AdmissionsPerMinute (rt_Limits rt)"
    "MaxActiveAdmissionLeases (rt_Limits rt) \<le> (if profile = ''high-scale-100k'' then 100000 else 10000)"
    by (auto simp: Limits_Validate_def profile_caps_def split: option.splits if_splits)
  ultimately show ?thesis
    by (auto simp: Runtime_QueueConfig_def valid_config_def short_ttls_def DefaultConfig_def Minute_def
        Let_def i64_id time_bound_def)
qed



section \<open>Logos\<close>

text \<open>A PNG chunk: a four-byte length, a four-byte kind, that many bytes, a four-byte checksum.\<close>

definition png_chunk :: "string \<Rightarrow> string \<Rightarrow> bool" where
  "png_chunk kind c \<longleftrightarrow> 12 \<le> length c \<and> be32 (take 4 c) = length c - 12 \<and> take 4 (drop 4 c) = kind"

text \<open>The accepted sequences: an optional leading header, image data, one empty end marker.\<close>

definition pixel_chunks :: "bool \<Rightarrow> string list \<Rightarrow> bool" where
  "pixel_chunks first cs \<longleftrightarrow> (\<exists>body fin. cs = body @ [fin] \<and> png_chunk ''IEND'' fin \<and> length fin = 12 \<and>
     (\<forall>i < length body. png_chunk ''IDAT'' (body ! i) \<or>
        first \<and> i = 0 \<and> png_chunk ''IHDR'' (body ! i) \<and> length (body ! i) = 25))"

lemma pixel_chunks_data:
  "png_chunk ''IDAT'' c \<Longrightarrow> pixel_chunks False cs \<Longrightarrow> pixel_chunks first (c # cs)"
  unfolding pixel_chunks_def
  by (elim exE conjE, rule_tac x = "c # body" in exI) (auto simp: nth_Cons split: nat.split)

lemma pixel_chunks_header:
  "png_chunk ''IHDR'' c \<Longrightarrow> length c = 25 \<Longrightarrow> pixel_chunks False cs \<Longrightarrow> pixel_chunks True (c # cs)"
  unfolding pixel_chunks_def
  by (elim exE conjE, rule_tac x = "c # body" in exI) (auto simp: nth_Cons split: nat.split)

lemma pixel_chunks_end: "png_chunk ''IEND'' c \<Longrightarrow> length c = 12 \<Longrightarrow> pixel_chunks first [c]"
  by (auto simp: pixel_chunks_def)

text \<open>One iteration of the chunk loop that does not fail.\<close>

lemma logo_chunks_cases:
  assumes "logo_chunks raw at False = Some True" and "at \<le> length raw"
  obtains c r where "drop at raw = c @ r" "r = drop (at + length c) raw" "at + length c \<le> length raw"
      "png_chunk ''IHDR'' c" "length c = 25" "at = 8" "logo_chunks raw (at + length c) False = Some True"
  | c r where "drop at raw = c @ r" "r = drop (at + length c) raw" "at + length c \<le> length raw"
      "png_chunk ''IDAT'' c" "logo_chunks raw (at + length c) False = Some True"
  | c where "drop at raw = c" "png_chunk ''IEND'' c" "length c = 12"
proof -
  define size where "size = be32 (take 4 (drop at raw))"
  define c where "c = take (12 + size) (drop at raw)"
  have at: "at < length raw" "12 \<le> length raw - at" "size \<le> length raw - at - 12"
    using assms(1) by (auto simp: logo_chunks.simps [of raw at] size_def Let_def split: if_splits)
  then have len: "length c = 12 + size" by (simp add: c_def)
  have c: "drop at raw = c @ drop (at + length c) raw" "at + length c \<le> length raw"
    using at len by (auto simp: c_def) (metis append_take_drop_id drop_drop add.commute)
  have "be32 (take 4 c) = length c - 12" using len by (simp add: c_def size_def)
  moreover have "take 4 (drop 4 c) = take 4 (drop (at + 4) raw)"
    by (simp add: c_def drop_take add.commute)
  ultimately have kind: "png_chunk k c \<longleftrightarrow> take 4 (drop (at + 4) raw) = k" for k
    using len by (simp add: png_chunk_def)
  have nxt: "at + 12 + size = at + length c" using len by simp
  define k where "k = take 4 (drop (at + 4) raw)"
  have "(k = ''IHDR'' \<and> at = 8 \<and> size = 13 \<or> k = ''IDAT'') \<and>
        logo_chunks raw (at + length c) False = Some True \<or>
      k = ''IEND'' \<and> at + length c = length raw \<and> size = 0"
    using assms(1) at
    by (simp add: logo_chunks.simps [of raw at] Let_def k_def flip: size_def nxt split: if_splits)
  then consider "k = ''IHDR''" "at = 8" "size = 13" "logo_chunks raw (at + length c) False = Some True"
    | "k = ''IDAT''" "logo_chunks raw (at + length c) False = Some True"
    | "k = ''IEND''" "at + length c = length raw" "size = 0" by blast
  then show ?thesis
  proof cases
    case 1
    then show ?thesis using that(1) [of c] c kind len by (simp add: k_def)
  next
    case 2
    then show ?thesis using that(2) [of c] c kind by (simp add: k_def)
  next
    case 3
    then show ?thesis using that(3) [of c] c kind len by (simp add: k_def)
  qed
qed

lemma logo_chunks_sound:
  assumes "logo_chunks raw at False = Some True" and "at \<le> length raw" and "8 \<le> at"
  shows "\<exists>cs. drop at raw = concat cs \<and> pixel_chunks (at = 8) cs"
  using assms
proof (induction "length raw - at" arbitrary: at rule: less_induct)
  case less
  have more: "\<exists>cs. drop (at + length c) raw = concat cs \<and> pixel_chunks False cs"
    if "png_chunk k c" "at + length c \<le> length raw" "logo_chunks raw (at + length c) False = Some True" for k c
  proof -
    from that(1) have "12 \<le> length c" by (simp add: png_chunk_def)
    with less.hyps [of "at + length c"] that less.prems show ?thesis by simp
  qed
  from less.prems(1,2) show ?case
  proof (cases rule: logo_chunks_cases)
    case (1 c r)
    with more obtain cs where "drop (at + length c) raw = concat cs" "pixel_chunks False cs" by blast
    with 1 show ?thesis by (intro exI [of _ "c # cs"]) (simp add: pixel_chunks_header)
  next
    case (2 c r)
    with more obtain cs where "drop (at + length c) raw = concat cs" "pixel_chunks False cs" by blast
    with 2 show ?thesis by (intro exI [of _ "c # cs"]) (simp add: pixel_chunks_data)
  next
    case (3 c)
    then show ?thesis by (intro exI [of _ "[c]"]) (simp add: pixel_chunks_end)
  qed
qed

text \<open>
  C27 (logos). A non-empty logo that validation accepts is the canonical base64 of at most 16 KiB of
  PNG, and the PNG is its signature followed by an optional leading header chunk, image data chunks
  and one empty end chunk reaching the last byte: no text, profile, time or other ancillary chunk and
  nothing after the image can travel in it, whatever the image library answers.
\<close>

theorem logo_carries_pixels_only:
  assumes "LogoBytes lib encoded = Inr raw" and "encoded \<noteq> []"
  shows "encoded = std_encode raw \<and> length raw \<le> MaxLogoBytes \<and>
    (\<exists>cs. raw = png_signature @ concat cs \<and> pixel_chunks True cs)"
proof -
  from assms have raw: "std_encode raw = encoded" "length raw \<le> MaxLogoBytes" "has_prefix raw png_signature"
    and chunks: "logo_chunks raw 8 False = Some True"
    by (auto simp: LogoBytes_def split: if_splits option.splits)
  from raw(3) obtain r where r: "raw = png_signature @ r" by (auto simp: has_prefix_iff)
  have "length png_signature = 8" by (simp add: png_signature_def)
  with logo_chunks_sound [OF chunks] r show ?thesis using raw by auto
qed

definition tiny_png :: string where
  "tiny_png = png_signature @ replicate 4 (CHR 0x00) @ ''IEND'' @ replicate 4 (CHR 0x00)"

definition trusting_images :: ImageLib where
  "trusting_images = \<lparr>png_DecodeConfig = \<lambda>_. Some (1, 1), jpeg_DecodeConfig = \<lambda>_. None,
     png_Decode = \<lambda>_. Some \<lparr>img_Dx = 1, img_Dy = 1, img_Pixels = []\<rparr>, jpeg_Decode = \<lambda>_. None,
     png_Redraw = \<lambda>_ _ _. None\<rparr>"

lemma tiny_png_chunk:
  "length tiny_png = 20 \<and> drop 8 tiny_png = replicate 4 (CHR 0x00) @ ''IEND'' @ replicate 4 (CHR 0x00) \<and>
   drop 12 tiny_png = ''IEND'' @ replicate 4 (CHR 0x00)"
  by (simp add: tiny_png_def png_signature_def numeral_eq_Suc)

theorem logo_carries_pixels_only_witness:
  "LogoBytes trusting_images (std_encode tiny_png) = Inr tiny_png \<and>
   (\<exists>cs. tiny_png = png_signature @ concat cs \<and> pixel_chunks True cs)"
proof -
  have "be32 (replicate 4 (CHR 0x00)) = 0" by (simp add: be32_def byte_def)
  then have "logo_chunks tiny_png 8 False = Some True" using tiny_png_chunk
    by (subst logo_chunks.simps, subst logo_chunks.simps) (simp add: Let_def)
  moreover have "has_prefix tiny_png png_signature" by (simp add: tiny_png_def has_prefix_iff)
  moreover have "length (std_encode tiny_png) = 28" using tiny_png_chunk by (simp add: b64_length)
  ultimately have "LogoBytes trusting_images (std_encode tiny_png) = Inr tiny_png"
    and "std_encode tiny_png \<noteq> []"
    using tiny_png_chunk good_alphabets
    by (auto simp: LogoBytes_def trusting_images_def logo_dimensions_ok_def MaxLogoDimension_def
        MaxLogoPixels_def MaxLogoBytes_def MaxLogoBase64_def)
  with logo_carries_pixels_only [of trusting_images "std_encode tiny_png" tiny_png] show ?thesis by simp
qed

end
