(* ===== verification/WR_Trust.thy ===== *)
theory WR_Trust
  imports WR_Codec
begin

text \<open>
  Signed configuration snapshots (\<open>internal/configtrust\<close>): the gate that accepts, persists and serves
  them (\<open>snapshot.go\<close>), the in-memory store and the file store (\<open>file.go\<close>). Ed25519, SHA-256, the JSON
  codec of each type and the payload validator are parameters. The gate is written over the two
  operations of its store; a locale states what a store promises, and both stores interpret it.
\<close>

section \<open>Data (snapshot.go)\<close>

datatype trust_error = TErrInvalid | TErrUnavailable | TErrRollback | TErrPersistence | TErrEmpty

definition trust_max_bytes :: nat where "trust_max_bytes = 65536"

definition domain :: string where "domain = ''waiting-room-config/v1'' @ [CHR 0x00]"

record Snapshot =
  s_SchemaVersion :: int
  s_Installation :: string
  s_Generation :: nat
  s_Revision :: nat
  s_IssuedAt :: int
  s_ExpiresAt :: int
  s_Kid :: string
  s_Payload :: string

definition zero_Snapshot :: Snapshot where
  "zero_Snapshot = \<lparr>s_SchemaVersion = 0, s_Installation = [], s_Generation = 0, s_Revision = 0,
     s_IssuedAt = 0, s_ExpiresAt = 0, s_Kid = [], s_Payload = []\<rparr>"

record ClockRecovery =
  cr_Generation :: nat
  cr_NotBefore :: int
  cr_Digest :: string

record envelope =
  e_Snapshot :: string
  e_Signature :: string

text \<open>The libraries the gate calls, and the validator it was given.\<close>

record TrustEnv =
  te_envelope :: "envelope JsonCodec"
  te_snapshot :: "Snapshot JsonCodec"
  te_json_Valid :: "string \<Rightarrow> bool"
  te_ed_Verify :: "string \<Rightarrow> string \<Rightarrow> string \<Rightarrow> bool"
  te_ed_Sign :: "string \<Rightarrow> string \<Rightarrow> string"
  te_sha256_hex :: "string \<Rightarrow> string"
  te_validate :: "string \<Rightarrow> bool"

record 's Gate =
  g_keys :: "(string \<times> string) list"
  g_installation :: string
  g_minimum :: nat
  g_store :: 's
  g_current :: Snapshot
  g_raw :: string
  g_lastClock :: int
  g_clockHold :: bool
  g_recoveryAfter :: int
  g_failed :: bool
  g_failureReason :: string

section \<open>Signing and verification\<close>

definition strict :: "'a JsonCodec \<Rightarrow> string \<Rightarrow> 'a option" where
  "strict codec raw =
     (case jc_Decode codec raw of
        None \<Rightarrow> None
      | Some (dst, rest) \<Rightarrow>
          if \<not> json_eof rest then None
          else case jc_Marshal codec dst of
            None \<Rightarrow> None
          | Some canonical \<Rightarrow> if canonical \<noteq> raw then None else Some dst)"

definition safe_name :: "string \<Rightarrow> bool" where
  "safe_name s \<longleftrightarrow> 1 \<le> length s \<and> length s \<le> 80 \<and>
     list_all (\<lambda>c. is_alnum c \<or> c = CHR ''_'' \<or> c = CHR ''-'') s"

definition structural :: "TrustEnv \<Rightarrow> Snapshot \<Rightarrow> bool" where
  "structural env s \<longleftrightarrow> s_SchemaVersion s = 1 \<and> safe_name (s_Installation s) \<and> safe_name (s_Kid s) \<and>
     s_Generation s > 0 \<and> s_Generation s \<le> 9007199254740991 \<and> s_Revision s \<le> 9007199254740991 \<and>
     s_IssuedAt s > 0 \<and> s_IssuedAt s \<le> 253402214399 \<and> s_ExpiresAt s > s_IssuedAt s \<and>
     i64 (s_ExpiresAt s - s_IssuedAt s) \<le> 86400 \<and> length (s_Payload s) > 1 \<and>
     hd (s_Payload s) = CHR ''{'' \<and> te_json_Valid env (s_Payload s)"

definition Sign_snapshot :: "TrustEnv \<Rightarrow> string \<Rightarrow> Snapshot \<Rightarrow> trust_error + string" where
  "Sign_snapshot env key s =
     (if length key \<noteq> 64 \<or> \<not> structural env s then Inl TErrInvalid
      else case jc_Marshal (te_snapshot env) s of
        None \<Rightarrow> Inl TErrInvalid
      | Some raw \<Rightarrow>
          (case jc_Marshal (te_envelope env)
             \<lparr>e_Snapshot = raw, e_Signature = raw_url_encode (te_ed_Sign env key (domain @ raw))\<rparr> of
             None \<Rightarrow> Inl TErrInvalid
           | Some out \<Rightarrow> if length out > trust_max_bytes then Inl TErrInvalid else Inr out))"

definition verify :: "TrustEnv \<Rightarrow> (string \<times> string) list \<Rightarrow> string \<Rightarrow> nat \<Rightarrow> string \<Rightarrow> trust_error + Snapshot" where
  "verify env keys installation minimum raw =
     (if length raw = 0 \<or> length raw > trust_max_bytes then Inl TErrInvalid
      else case strict (te_envelope env) raw of
        None \<Rightarrow> Inl TErrInvalid
      | Some out \<Rightarrow>
          (case strict (te_snapshot env) (e_Snapshot out) of
             None \<Rightarrow> Inl TErrInvalid
           | Some s \<Rightarrow>
               if \<not> structural env s \<or> s_Installation s \<noteq> installation \<or> s_Generation s < minimum
               then Inl TErrInvalid
               else
                 let key = (case map_of keys (s_Kid s) of None \<Rightarrow> [] | Some k \<Rightarrow> k) in
                 case raw_url_decode (e_Signature out) of
                   None \<Rightarrow> Inl TErrInvalid
                 | Some sig \<Rightarrow>
                     if length key \<noteq> 32 \<or> raw_url_encode sig \<noteq> e_Signature out \<or>
                        \<not> te_ed_Verify env key (domain @ e_Snapshot out) sig then Inl TErrInvalid
                     else if \<not> te_validate env (s_Payload s) then Inl TErrInvalid
                     else Inr s))"

abbreviation gate_verify :: "TrustEnv \<Rightarrow> 's Gate \<Rightarrow> string \<Rightarrow> trust_error + Snapshot" where
  "gate_verify env g \<equiv> verify env (g_keys g) (g_installation g) (g_minimum g)"

section \<open>The gate\<close>

text \<open>
  \<open>Open\<close> returns no gate on bad arguments, otherwise a gate that may already be latched closed. The
  nil checks on the validator and the store have no counterpart: both are always given.
\<close>

definition Open ::
  "TrustEnv \<Rightarrow> ('s \<Rightarrow> (trust_error + string) \<times> 's) \<Rightarrow> (string \<times> string) list \<Rightarrow> string \<Rightarrow> nat \<Rightarrow> 's \<Rightarrow>
   's Gate option \<times> trust_error option" where
  "Open env load keys installation minimum store =
     (if length keys = 0 \<or> length keys > 8 \<or> \<not> safe_name installation \<or> minimum = 0 \<or>
         minimum > 9007199254740991 then (None, Some TErrInvalid)
      else if list_ex (\<lambda>(kid, key). \<not> safe_name kid \<or> length key \<noteq> 32) keys
        then (None, Some TErrInvalid)
      else
        let (r, store') = load store;
            g = \<lparr>g_keys = keys, g_installation = installation, g_minimum = minimum, g_store = store',
                 g_current = zero_Snapshot, g_raw = [], g_lastClock = 0, g_clockHold = False,
                 g_recoveryAfter = 0, g_failed = False, g_failureReason = []\<rparr>
        in case r of
            Inl TErrEmpty \<Rightarrow> (Some g, None)
          | Inl _ \<Rightarrow> (Some (g\<lparr>g_failed := True, g_failureReason := ''snapshot_persistence''\<rparr>),
                      Some TErrPersistence)
          | Inr raw \<Rightarrow>
              (case gate_verify env g raw of
                 Inl _ \<Rightarrow> (Some (g\<lparr>g_failed := True, g_failureReason := ''snapshot_invalid''\<rparr>),
                           Some TErrInvalid)
               | Inr s \<Rightarrow> (Some (g\<lparr>g_current := s, g_raw := raw\<rparr>), None)))"

definition clock :: "'s Gate \<Rightarrow> int \<Rightarrow> bool \<times> 's Gate" where
  "clock g n =
     (if n < g_lastClock g
      then (False, g\<lparr>g_clockHold := True, g_recoveryAfter := g_lastClock g,
                     g_failureReason := ''snapshot_clock_rollback''\<rparr>)
      else (True, g\<lparr>g_lastClock := n\<rparr>))"

definition applyLocked ::
  "TrustEnv \<Rightarrow> ('s \<Rightarrow> string \<Rightarrow> trust_error option \<times> 's) \<Rightarrow> 's Gate \<Rightarrow> string \<Rightarrow> int \<Rightarrow>
   trust_error option \<times> 's Gate" where
  "applyLocked env save g raw now =
     (if g_failed g then (Some TErrUnavailable, g)
      else let (fine, g) = clock g now in
        if \<not> fine then (Some TErrUnavailable, g)
        else case gate_verify env g raw of
          Inl e \<Rightarrow> (Some e, g)
        | Inr s \<Rightarrow>
            if now < s_IssuedAt s \<or> now \<ge> s_ExpiresAt s then (Some TErrInvalid, g)
            else if s_Generation s < s_Generation (g_current g) \<or> s_Revision s < s_Revision (g_current g)
              then (Some TErrRollback, g)
            else if g_clockHold g \<and>
                (s_Generation s \<le> s_Generation (g_current g) \<or> s_IssuedAt s < g_recoveryAfter g)
              then (Some TErrUnavailable, g)
            else if s_Generation s = s_Generation (g_current g)
              then (if raw = g_raw g then (None, g) else (Some TErrRollback, g))
            else
              let (e, store') = save (g_store g) raw; g = g\<lparr>g_store := store'\<rparr> in
              if e \<noteq> None
              then (Some TErrPersistence, g\<lparr>g_failed := True, g_failureReason := ''snapshot_persistence''\<rparr>)
              else (None, g\<lparr>g_current := s, g_raw := raw, g_clockHold := False, g_recoveryAfter := 0,
                            g_failureReason := []\<rparr>))"

text \<open>The exported operations allow a nil gate.\<close>

definition Gate_Apply ::
  "TrustEnv \<Rightarrow> ('s \<Rightarrow> string \<Rightarrow> trust_error option \<times> 's) \<Rightarrow> 's Gate option \<Rightarrow> string \<Rightarrow> int \<Rightarrow>
   trust_error option \<times> 's Gate option" where
  "Gate_Apply env save g raw now =
     (case g of None \<Rightarrow> (Some TErrUnavailable, None)
      | Some g \<Rightarrow> let (e, g') = applyLocked env save g raw now in (e, Some g'))"

definition FailureReason :: "'s Gate option \<Rightarrow> string" where
  "FailureReason g = (case g of None \<Rightarrow> [] | Some g \<Rightarrow> g_failureReason g)"

definition RecoveryRequest :: "TrustEnv \<Rightarrow> 's Gate option \<Rightarrow> ClockRecovery option" where
  "RecoveryRequest env g =
     (case g of None \<Rightarrow> None
      | Some g \<Rightarrow>
          if g_failed g \<or> \<not> g_clockHold g \<or> s_Generation (g_current g) = 0 then None
          else Some \<lparr>cr_Generation = s_Generation (g_current g), cr_NotBefore = g_recoveryAfter g,
                     cr_Digest = te_sha256_hex env (g_raw g)\<rparr>)"

definition currentLocked :: "'s Gate \<Rightarrow> int \<Rightarrow> (trust_error + Snapshot) \<times> 's Gate" where
  "currentLocked g now =
     (if g_failed g then (Inl TErrUnavailable, g)
      else let (fine, g) = clock g now in
        if \<not> fine \<or> g_clockHold g \<or> s_Generation (g_current g) = 0 \<or> now < s_IssuedAt (g_current g) \<or>
           now \<ge> s_ExpiresAt (g_current g)
        then (Inl TErrUnavailable, g) else (Inr (g_current g), g))"

definition Gate_Current :: "'s Gate option \<Rightarrow> int \<Rightarrow> (trust_error + Snapshot) \<times> 's Gate option" where
  "Gate_Current g now =
     (case g of None \<Rightarrow> (Inl TErrUnavailable, None)
      | Some g \<Rightarrow> let (r, g') = currentLocked g now in (r, Some g'))"

text \<open>
  The HTTP wrapper: the probe answer, the problem answer (its body differs only in a fresh request
  id), or the wrapped handler.
\<close>

record TrustRequest =
  q_Method :: string
  q_Path :: string
  q_RawPath :: string
  q_RawQuery :: string

datatype handled =
    Answer nat "(string \<times> string) list"
  | Next

definition Handler :: "'s Gate option \<Rightarrow> bool \<Rightarrow> TrustRequest \<Rightarrow> int \<Rightarrow> handled \<times> 's Gate option" where
  "Handler g has_next r now =
     (if q_Method r = ''GET'' \<and> q_Path r = ''/livez'' \<and> q_RawPath r = [] \<and> q_RawQuery r = []
      then (Answer 204 [], g)
      else let (c, g') = Gate_Current g now in
        case c of
          Inl _ \<Rightarrow> (Answer 503 [(''Content-Type'', ''application/problem+json''),
                      (''Cache-Control'', ''no-store''), (''Retry-After'', ''3'')], g')
        | Inr _ \<Rightarrow>
            if \<not> has_next
            then (Answer 503 [(''Content-Type'', ''application/problem+json''),
                    (''Cache-Control'', ''no-store''), (''Retry-After'', ''3'')], g')
            else (Next, g'))"

section \<open>The stores\<close>

text \<open>MemoryStore keeps the bytes; empty bytes count as an empty store.\<close>

type_synonym MemoryStore = string

definition mem_Load :: "MemoryStore \<Rightarrow> (trust_error + string) \<times> MemoryStore" where
  "mem_Load s = (if length s = 0 then (Inl TErrEmpty, s) else (Inr s, s))"

definition mem_Save :: "MemoryStore \<Rightarrow> string \<Rightarrow> trust_error option \<times> MemoryStore" where
  "mem_Save s raw = (None, raw)"

text \<open>
  FileStore: the directory as the process sees it. Every system call may fail; the outcomes of the
  calls to come are part of the state (\<open>fs_calls\<close>, \<open>True\<close> for success, success once the list is used
  up), so every theorem covers every pattern of failures. A failed write leaves any prefix of the
  data in the temporary file. File names other than \<open>snapshot.json\<close> are the temporary ones; the fresh
  name comes from \<open>rand.Text\<close> and is taken as unused (\<open>O_EXCL\<close> would refuse it otherwise).
\<close>

record file_entry =
  f_regular :: bool
  f_perm :: nat
  f_bytes :: string

record FileStore =
  fs_dir :: bool
  fs_dir_perm :: nat
  fs_snapshot :: "file_entry option"
  fs_temp :: "file_entry option"
  fs_calls :: "bool list"

definition call :: "FileStore \<Rightarrow> bool \<times> FileStore" where
  "call s = (case fs_calls s of [] \<Rightarrow> (True, s) | b # bs \<Rightarrow> (b, s\<lparr>fs_calls := bs\<rparr>))"

definition file_check :: "FileStore \<Rightarrow> trust_error option \<times> FileStore" where
  "file_check s =
     (let (stat, s) = call s in
      if \<not> stat \<or> \<not> fs_dir s \<or> fs_dir_perm s \<noteq> 448 then (Some TErrPersistence, s)
      else let (lstat, s) = call s in
        if \<not> lstat then (Some TErrPersistence, s)
        else case fs_snapshot s of
          None \<Rightarrow> (Some TErrEmpty, s)
        | Some info \<Rightarrow>
            if \<not> f_regular info \<or> f_perm info \<noteq> 384 \<or> length (f_bytes info) > trust_max_bytes
            then (Some TErrPersistence, s) else (None, s))"

definition file_Load :: "FileStore \<Rightarrow> (trust_error + string) \<times> FileStore" where
  "file_Load s =
     (case file_check s of
        (Some e, s) \<Rightarrow> (Inl e, s)
      | (None, s) \<Rightarrow>
          let (opened, s) = call s in
          if \<not> opened then (Inl TErrPersistence, s)
          else let (fetched, s) = call s in
            case fs_snapshot s of
              None \<Rightarrow> (Inl TErrPersistence, s)
            | Some info \<Rightarrow>
                let raw = take (trust_max_bytes + 1) (f_bytes info) in
                if \<not> fetched \<or> length raw > trust_max_bytes then (Inl TErrPersistence, s) else (Inr raw, s))"

text \<open>\<open>defer s.root.Remove(name)\<close>: its own error is ignored.\<close>

definition remove_temp :: "'e \<times> FileStore \<Rightarrow> 'e \<times> FileStore" where
  "remove_temp r = (case r of (e, s) \<Rightarrow>
     let (removed, s) = call s in (e, if removed then s\<lparr>fs_temp := None\<rparr> else s))"

definition file_write :: "nat \<Rightarrow> FileStore \<Rightarrow> string \<Rightarrow> trust_error option \<times> FileStore" where
  "file_write partial s raw =
     (let (written, s) = call s in
      if \<not> written
      then (Some TErrPersistence, s\<lparr>fs_temp := Some \<lparr>f_regular = True, f_perm = 384, f_bytes = take partial raw\<rparr>\<rparr>)
      else let s = s\<lparr>fs_temp := Some \<lparr>f_regular = True, f_perm = 384, f_bytes = raw\<rparr>\<rparr>;
               (synced, s) = call s in
        if \<not> synced then (Some TErrPersistence, s)
        else let (closed, s) = call s in
          if \<not> closed then (Some TErrPersistence, s)
          else let (renamed, s) = call s in
            if \<not> renamed then (Some TErrPersistence, s)
            else let s = s\<lparr>fs_snapshot := fs_temp s, fs_temp := None\<rparr>;
                     (opened, s) = call s in
              if \<not> opened then (Some TErrPersistence, s)
              else let (dir_synced, s) = call s in
                if \<not> dir_synced then (Some TErrPersistence, s) else (None, s))"

definition file_Save :: "nat \<Rightarrow> FileStore \<Rightarrow> string \<Rightarrow> trust_error option \<times> FileStore" where
  "file_Save partial s raw =
     (if length raw = 0 \<or> length raw > trust_max_bytes then (Some TErrPersistence, s)
      else case file_check s of
        (e, s) \<Rightarrow>
          if e \<noteq> None \<and> e \<noteq> Some TErrEmpty then (e, s)
          else let (created, s) = call s in
            if \<not> created then (Some TErrPersistence, s)
            else remove_temp (file_write partial
              (s\<lparr>fs_temp := Some \<lparr>f_regular = True, f_perm = 384, f_bytes = []\<rparr>\<rparr>) raw))"

text \<open>\<open>NewFileStore\<close> on a path that is absolute or not, and the directory found there.\<close>

definition NewFileStore :: "bool \<Rightarrow> bool \<Rightarrow> FileStore \<Rightarrow> trust_error option \<times> FileStore" where
  "NewFileStore absolute symlink s =
     (if \<not> absolute then (Some TErrPersistence, s)
      else let (lstat, s) = call s in
        if \<not> lstat \<or> \<not> fs_dir s \<or> symlink \<or> fs_dir_perm s \<noteq> 448 then (Some TErrPersistence, s)
        else let (opened, s) = call s in
          if \<not> opened then (Some TErrPersistence, s)
          else let (stat, s) = call s in
            if \<not> stat \<or> \<not> fs_dir s \<or> fs_dir_perm s \<noteq> 448 then (Some TErrPersistence, s)
            else (None, s))"

end
