(* ===== verification/WR_Trust_Props.thy ===== *)
theory WR_Trust_Props
  imports WR_Trust
begin

text \<open>
  What the trust gate guarantees over any store that keeps its contract: no rollback, also across
  restarts and failed writes; only verified snapshots are served; a clock that moved back closes the
  gate until a newer publication. Both stores keep the contract.
\<close>

section \<open>The contract of a store\<close>

text \<open>
  \<open>content\<close> is what the store holds. A save may fail, but then holds the old content or the complete
  new one; a load never answers anything but the content.
\<close>

locale snapshot_store =
  fixes load :: "'s \<Rightarrow> (trust_error + string) \<times> 's"
    and save :: "'s \<Rightarrow> string \<Rightarrow> trust_error option \<times> 's"
    and content :: "'s \<Rightarrow> string option"
  assumes save_atomic: "raw \<noteq> [] \<Longrightarrow> save s raw = (e, s') \<Longrightarrow> content s' = content s \<or> content s' = Some raw"
    and save_ok: "raw \<noteq> [] \<Longrightarrow> save s raw = (None, s') \<Longrightarrow> content s' = Some raw"
    and load_sound: "load s = (Inr raw, s') \<Longrightarrow> content s = Some raw"
    and load_empty: "load s = (Inl TErrEmpty, s') \<Longrightarrow> content s = None"
    and load_keeps: "load s = (r, s') \<Longrightarrow> content s' = content s"

definition mem_content :: "MemoryStore \<Rightarrow> string option" where
  "mem_content s = (if s = [] then None else Some s)"

interpretation mem: snapshot_store mem_Load mem_Save mem_content
  by unfold_locales (auto simp: mem_Load_def mem_Save_def mem_content_def split: if_splits)

definition file_content :: "FileStore \<Rightarrow> string option" where
  "file_content s = map_option f_bytes (fs_snapshot s)"

lemma call_keeps [simp]:
  assumes "call s = (b, s')"
  shows "fs_snapshot s' = fs_snapshot s" and "fs_temp s' = fs_temp s"
    and "fs_dir s' = fs_dir s" and "fs_dir_perm s' = fs_dir_perm s"
  using assms by (auto simp: call_def split: list.splits)

lemma file_check_keeps:
  assumes "file_check s = (e, s')"
  shows "fs_snapshot s' = fs_snapshot s"
    and "e = Some TErrEmpty \<Longrightarrow> fs_snapshot s = None"
    and "e = None \<Longrightarrow> \<exists>f. fs_snapshot s = Some f \<and> length (f_bytes f) \<le> trust_max_bytes"
  using assms
  by (auto simp: file_check_def Let_def call_keeps split: prod.splits if_splits option.splits)

lemma file_write_content:
  assumes "file_write partial s raw = (e, s')"
  shows "fs_snapshot s' = fs_snapshot s \<or> map_option f_bytes (fs_snapshot s') = Some raw"
    and "e = None \<Longrightarrow> map_option f_bytes (fs_snapshot s') = Some raw"
  using assms
  by (auto simp: file_write_def Let_def call_keeps split: prod.splits if_splits)

lemma remove_temp_content: "fs_snapshot (snd (remove_temp (e, s))) = fs_snapshot s"
  by (auto simp: remove_temp_def Let_def call_keeps split: prod.splits)

lemma remove_temp_error [simp]: "fst (remove_temp (e, s)) = e"
  by (auto simp: remove_temp_def Let_def split: prod.splits)

lemma file_Save_content:
  assumes "file_Save partial s raw = (e, s')"
  shows "file_content s' = file_content s \<or> file_content s' = Some raw"
    and "e = None \<Longrightarrow> file_content s' = Some raw"
proof -
  obtain e1 s1 where check: "file_check s = (e1, s1)" by fastforce
  obtain b s2 where call: "call s1 = (b, s2)" by fastforce
  let ?s3 = "s2\<lparr>fs_temp := Some \<lparr>f_regular = True, f_perm = 384, f_bytes = []\<rparr>\<rparr>"
  obtain e4 s4 where wrote: "file_write partial ?s3 raw = (e4, s4)" by fastforce
  have s2: "fs_snapshot s2 = fs_snapshot s" using file_check_keeps(1) [OF check] call by simp
  obtain e5 s5 where removed: "remove_temp (e4, s4) = (e5, s5)" by fastforce
  then have s5: "e5 = e4" "fs_snapshot s5 = fs_snapshot s4"
    using remove_temp_error [of e4 s4] remove_temp_content [of e4 s4] by simp_all
  show "file_content s' = file_content s \<or> file_content s' = Some raw"
    using assms file_write_content(1) [OF wrote] s2 s5 file_check_keeps(1) [OF check]
    by (auto simp: file_Save_def file_content_def check call wrote removed Let_def split: if_splits)
  show "file_content s' = Some raw" if "e = None"
    using assms file_write_content(2) [OF wrote] s5 that
    by (auto simp: file_Save_def file_content_def check call wrote removed Let_def split: if_splits)
qed

text \<open>After a successful save the directory and the file have the modes that loading requires.\<close>

lemma file_write_ready:
  assumes "file_write partial s raw = (None, s')"
  shows "fs_dir s' = fs_dir s \<and> fs_dir_perm s' = fs_dir_perm s \<and>
    fs_snapshot s' = Some \<lparr>f_regular = True, f_perm = 384, f_bytes = raw\<rparr>"
  using assms by (auto simp: file_write_def Let_def call_keeps split: prod.splits if_splits)

lemma file_check_dir:
  assumes "file_check s = (e, s')" and "e = None \<or> e = Some TErrEmpty"
  shows "fs_dir s' \<and> fs_dir_perm s' = 448"
  using assms by (auto simp: file_check_def Let_def call_keeps split: prod.splits if_splits option.splits)

lemma file_Save_ready:
  assumes "file_Save partial s raw = (None, s')"
  shows "fs_dir s' \<and> fs_dir_perm s' = 448 \<and> length raw \<le> trust_max_bytes \<and>
    fs_snapshot s' = Some \<lparr>f_regular = True, f_perm = 384, f_bytes = raw\<rparr>"
proof -
  obtain e1 s1 where check: "file_check s = (e1, s1)" by fastforce
  obtain b s2 where call: "call s1 = (b, s2)" by fastforce
  let ?s3 = "s2\<lparr>fs_temp := Some \<lparr>f_regular = True, f_perm = 384, f_bytes = []\<rparr>\<rparr>"
  obtain e4 s4 where wrote: "file_write partial ?s3 raw = (e4, s4)" by fastforce
  obtain b' s5 where last: "call s4 = (b', s5)" by fastforce
  from assms have "e1 = None \<or> e1 = Some TErrEmpty" "e4 = None" "length raw \<le> trust_max_bytes"
    and s': "s' = s5 \<or> s' = s5\<lparr>fs_temp := None\<rparr>"
    by (auto simp: file_Save_def check call wrote remove_temp_def last Let_def split: if_splits)
  with file_check_dir [OF check] file_write_ready [of partial ?s3 raw s4] wrote call_keeps [OF call] call_keeps [OF last]
  show ?thesis by auto
qed

lemma file_Load_content:
  assumes "file_Load s = (r, s')"
  shows "file_content s' = file_content s"
    and "r = Inr raw \<Longrightarrow> file_content s = Some raw"
    and "r = Inl TErrEmpty \<Longrightarrow> file_content s = None"
proof -
  obtain e1 s1 where check: "file_check s = (e1, s1)" by fastforce
  obtain b s2 where call: "call s1 = (b, s2)" by fastforce
  obtain b' s3 where call': "call s2 = (b', s3)" by fastforce
  note keep = file_check_keeps [OF check] call_keeps(1) [OF call] call_keeps(1) [OF call']
  show "file_content s' = file_content s" "r = Inr raw \<Longrightarrow> file_content s = Some raw"
      "r = Inl TErrEmpty \<Longrightarrow> file_content s = None"
    using assms keep
    by (auto simp: file_Load_def file_content_def check call call' Let_def split: option.splits if_splits)
qed

interpretation disk: snapshot_store file_Load "file_Save partial" file_content for partial
  by unfold_locales
    (use file_Save_content file_Load_content in \<open>(blast | metis)\<close>)+

section \<open>Runs of a gate\<close>

datatype gate_op = GApply string int | GCurrent int | GRestart

fun gate_step ::
  "TrustEnv \<Rightarrow> ('s \<Rightarrow> (trust_error + string) \<times> 's) \<Rightarrow> ('s \<Rightarrow> string \<Rightarrow> trust_error option \<times> 's) \<Rightarrow>
   gate_op \<Rightarrow> 's Gate \<Rightarrow> 's Gate" where
  "gate_step env load save (GApply raw now) g = snd (applyLocked env save g raw now)"
| "gate_step env load save (GCurrent now) g = snd (currentLocked g now)"
| "gate_step env load save GRestart g =
     (case Open env load (g_keys g) (g_installation g) (g_minimum g) (g_store g) of
        (Some g', _) \<Rightarrow> g' | (None, _) \<Rightarrow> g)"

fun gate_run ::
  "TrustEnv \<Rightarrow> ('s \<Rightarrow> (trust_error + string) \<times> 's) \<Rightarrow> ('s \<Rightarrow> string \<Rightarrow> trust_error option \<times> 's) \<Rightarrow>
   gate_op list \<Rightarrow> 's Gate \<Rightarrow> 's Gate" where
  "gate_run env load save [] g = g"
| "gate_run env load save (p # ps) g = gate_run env load save ps (gate_step env load save p g)"

definition no_rollback :: "Snapshot \<Rightarrow> Snapshot \<Rightarrow> bool" where
  "no_rollback s t \<longleftrightarrow> s = t \<or> s_Generation s < s_Generation t \<and> s_Revision s \<le> s_Revision t"

lemma no_rollback_refl [simp]: "no_rollback s s"
  by (simp add: no_rollback_def)

lemma no_rollback_trans: "no_rollback a b \<Longrightarrow> no_rollback b c \<Longrightarrow> no_rollback a c"
  by (auto simp: no_rollback_def)

text \<open>What the gate's keys read in its store.\<close>

definition readable :: "TrustEnv \<Rightarrow> (string \<times> string) list \<Rightarrow> string \<Rightarrow> nat \<Rightarrow> string option \<Rightarrow> Snapshot" where
  "readable env keys installation minimum c = (case c of None \<Rightarrow> zero_Snapshot
     | Some raw \<Rightarrow> (case verify env keys installation minimum raw of Inl _ \<Rightarrow> zero_Snapshot | Inr s \<Rightarrow> s))"

definition stored :: "TrustEnv \<Rightarrow> ('s \<Rightarrow> string option) \<Rightarrow> 's Gate \<Rightarrow> Snapshot" where
  "stored env content g =
     readable env (g_keys g) (g_installation g) (g_minimum g) (content (g_store g))"

text \<open>A gate that is not latched agrees with its store.\<close>

definition gate_synced :: "TrustEnv \<Rightarrow> ('s \<Rightarrow> string option) \<Rightarrow> 's Gate \<Rightarrow> bool" where
  "gate_synced env content g \<longleftrightarrow> g_failed g \<or>
     content (g_store g) = None \<and> g_current g = zero_Snapshot \<or>
     content (g_store g) = Some (g_raw g) \<and> gate_verify env g (g_raw g) = Inr (g_current g)"

definition same_trust :: "'s Gate \<Rightarrow> 's Gate \<Rightarrow> bool" where
  "same_trust g h \<longleftrightarrow> g_keys h = g_keys g \<and> g_installation h = g_installation g \<and> g_minimum h = g_minimum g"

lemma synced_stored: "gate_synced env content g \<Longrightarrow> \<not> g_failed g \<Longrightarrow> stored env content g = g_current g"
  by (auto simp: gate_synced_def stored_def readable_def)

text \<open>Everything verification has established about an accepted envelope.\<close>

definition authentic :: "TrustEnv \<Rightarrow> (string \<times> string) list \<Rightarrow> string \<Rightarrow> nat \<Rightarrow> Snapshot \<Rightarrow> bool" where
  "authentic env keys installation minimum s \<longleftrightarrow>
     structural env s \<and> s_Installation s = installation \<and> minimum \<le> s_Generation s \<and>
     te_validate env (s_Payload s) \<and>
     (\<exists>key raw sig. map_of keys (s_Kid s) = Some key \<and> length key = 32 \<and>
        jc_Marshal (te_snapshot env) s = Some raw \<and> te_ed_Verify env key (domain @ raw) sig)"

lemma verify_sound: "verify env keys installation minimum raw = Inr s \<Longrightarrow>
    raw \<noteq> [] \<and> s_Generation s > 0 \<and> authentic env keys installation minimum s"
  by (auto simp: verify_def authentic_def strict_def structural_def Let_def
      split: if_splits option.splits prod.splits)

section \<open>The gate over any store\<close>

lemma clock_keeps:
  assumes "clock g n = (b, g')"
  shows "same_trust g g'" and "g_store g' = g_store g" and "g_current g' = g_current g"
    and "g_raw g' = g_raw g" and "g_failed g' = g_failed g"
  using assms by (auto simp: clock_def same_trust_def split: if_splits)

lemma clock_synced:
  assumes "clock g n = (b, g')"
  shows "gate_synced env content g' = gate_synced env content g"
    and "stored env content g' = stored env content g"
  using clock_keeps [OF assms] by (auto simp: gate_synced_def stored_def same_trust_def)

lemma currentLocked_keeps:
  assumes "currentLocked g now = (r, g')"
  shows "same_trust g g'" and "gate_synced env content g' = gate_synced env content g"
    and "stored env content g' = stored env content g"
    and "r = Inr s \<Longrightarrow> \<not> g_failed g \<and> s = g_current g \<and> s_IssuedAt s \<le> now \<and> now < s_ExpiresAt s \<and>
      \<not> g_clockHold g \<and> \<not> g_clockHold g' \<and> g_lastClock g \<le> now"
proof -
  obtain b h where clock: "clock g now = (b, h)" by fastforce
  note keeps = clock_keeps [OF clock] clock_synced [OF clock]
  from assms clock have g': "g' = g \<or> g' = h"
    by (auto simp: currentLocked_def Let_def split: if_splits)
  have "same_trust g g" by (simp add: same_trust_def)
  with g' keeps(1) show "same_trust g g'" by blast
  from g' keeps(6) show "gate_synced env content g' = gate_synced env content g" by blast
  from g' keeps(7) show "stored env content g' = stored env content g" by metis
  show "\<not> g_failed g \<and> s = g_current g \<and> s_IssuedAt s \<le> now \<and> now < s_ExpiresAt s \<and>
      \<not> g_clockHold g \<and> \<not> g_clockHold g' \<and> g_lastClock g \<le> now" if "r = Inr s"
    using assms that by (auto simp: currentLocked_def clock_def Let_def split: if_splits)
qed

text \<open>The ways \<open>applyLocked\<close> can end: nothing changed but the clock, a save that failed, acceptance.\<close>

lemma applyLocked_cases:
  assumes "applyLocked env save g raw now = (e, g')"
  obtains (kept) b where "g' = g \<or> clock g now = (b, g')"
  | (tried) s h e1 store' where "clock g now = (True, h)" "\<not> g_failed g" "gate_verify env g raw = Inr s"
      "s_Generation (g_current g) < s_Generation s" "s_Revision (g_current g) \<le> s_Revision s"
      "g_clockHold g \<Longrightarrow> g_recoveryAfter g \<le> s_IssuedAt s"
      "save (g_store g) raw = (e1, store')"
      "g' = (if e1 \<noteq> None
        then h\<lparr>g_store := store', g_failed := True, g_failureReason := ''snapshot_persistence''\<rparr>
        else h\<lparr>g_store := store', g_current := s, g_raw := raw, g_clockHold := False,
               g_recoveryAfter := 0, g_failureReason := []\<rparr>)"
proof -
  obtain b h where clock: "clock g now = (b, h)" by fastforce
  note keeps = clock_keeps [OF clock]
  obtain e1 store' where save: "save (g_store g) raw = (e1, store')" by fastforce
  have verify: "gate_verify env h raw = gate_verify env g raw" using keeps(1) by (simp add: same_trust_def)
  have hold: "b \<Longrightarrow> g_clockHold h = g_clockHold g \<and> g_recoveryAfter h = g_recoveryAfter g"
    using clock by (auto simp: clock_def split: if_splits)
  show ?thesis
  proof (cases "g' = g \<or> g' = h")
    case True
    with clock show ?thesis using kept by metis
  next
    case False
    with assms obtain s where s: "gate_verify env g raw = Inr s" "\<not> g_failed g" b
      by (auto simp: applyLocked_def clock verify Let_def split: if_splits sum.splits)
    with assms False have newer: "s_Generation (g_current g) < s_Generation s"
      "s_Revision (g_current g) \<le> s_Revision s"
      "\<not> (g_clockHold g \<and> s_IssuedAt s < g_recoveryAfter g)" "s_IssuedAt s \<le> now" "now < s_ExpiresAt s"
      using keeps hold by (auto simp: applyLocked_def clock verify Let_def split: if_splits)
    with assms s show ?thesis
      using tried [of h s e1 store'] clock save keeps hold
      by (auto simp: applyLocked_def verify Let_def split: if_splits)
  qed
qed

lemma Open_some:
  assumes "Open env load keys installation minimum store = (Some g, e)"
  shows "g_keys g = keys \<and> g_installation g = installation \<and> g_minimum g = minimum \<and>
    (\<exists>r. load store = (r, g_store g) \<and>
      (g_failed g \<or> r = Inl TErrEmpty \<and> g_current g = zero_Snapshot \<or>
       r = Inr (g_raw g) \<and> verify env keys installation minimum (g_raw g) = Inr (g_current g)))"
  using assms
  by (auto simp: Open_def Let_def split: if_splits prod.splits sum.splits trust_error.splits)

context snapshot_store
begin

lemma apply_step:
  assumes "gate_synced env content g"
  shows "gate_synced env content (snd (applyLocked env save g raw now)) \<and>
    no_rollback (stored env content g) (stored env content (snd (applyLocked env save g raw now))) \<and>
    same_trust g (snd (applyLocked env save g raw now))"
proof -
  obtain e g' where g': "applyLocked env save g raw now = (e, g')" by fastforce
  then show ?thesis
  proof (cases rule: applyLocked_cases)
    case (kept b)
    then show ?thesis using assms clock_synced clock_keeps(1) g' by (fastforce simp: same_trust_def)
  next
    case (tried s h e1 store')
    note h = clock_keeps [OF tried(1)]
    from verify_sound [OF tried(3)] have raw: "raw \<noteq> []" by blast
    have old: "stored env content g = g_current g" using synced_stored [OF assms tried(2)] .
    have "stored env content g' = readable env (g_keys g) (g_installation g) (g_minimum g) (content store')"
      using h(1) by (simp add: stored_def tried(8) same_trust_def)
    with save_atomic [OF raw tried(7)]
    have "stored env content g' = stored env content g \<or> stored env content g' = s"
      by (auto simp: stored_def readable_def tried(3))
    then have "no_rollback (stored env content g) (stored env content g')"
      using tried(4,5) old by (auto simp: no_rollback_def)
    moreover have "gate_synced env content g'"
      using save_ok [OF raw] tried(3,7,8) h(1) by (auto simp: gate_synced_def same_trust_def)
    moreover have "same_trust g g'" using h(1) tried(8) by (simp add: same_trust_def)
    ultimately show ?thesis using g' by simp
  qed
qed

lemma open_step:
  assumes "Open env load keys installation minimum store = (Some g, e)"
  shows "gate_synced env content g \<and> content (g_store g) = content store \<and>
    g_keys g = keys \<and> g_installation g = installation \<and> g_minimum g = minimum"
  using Open_some [OF assms] load_keeps load_sound load_empty
  by (fastforce simp: gate_synced_def)

lemma restart_step:
  assumes "gate_synced env content g"
  shows "gate_synced env content (gate_step env load save GRestart g) \<and>
    stored env content (gate_step env load save GRestart g) = stored env content g \<and>
    same_trust g (gate_step env load save GRestart g)"
proof -
  obtain h e where h: "Open env load (g_keys g) (g_installation g) (g_minimum g) (g_store g) = (h, e)"
    by fastforce
  show ?thesis
  proof (cases h)
    case (Some g')
    with h open_step [OF h [unfolded Some]]
    show ?thesis by (simp add: stored_def same_trust_def)
  qed (simp add: h assms same_trust_def)
qed

lemma run_steps:
  assumes "gate_synced env content g"
  shows "gate_synced env content (gate_run env load save ps g) \<and>
    no_rollback (stored env content g) (stored env content (gate_run env load save ps g)) \<and>
    same_trust g (gate_run env load save ps g)"
  using assms
proof (induction ps arbitrary: g)
  case (Cons p ps)
  let ?h = "gate_step env load save p g"
  have "gate_synced env content ?h \<and> no_rollback (stored env content g) (stored env content ?h) \<and> same_trust g ?h"
  proof (cases p)
    case (GApply raw now)
    with apply_step [OF Cons.prems] show ?thesis by simp
  next
    case (GCurrent now)
    then show ?thesis using Cons.prems currentLocked_keeps [of g now] by (cases "currentLocked g now") simp
  next
    case GRestart
    with restart_step [OF Cons.prems] show ?thesis by simp
  qed
  with Cons.IH [of ?h] show ?case by (auto simp: same_trust_def intro: no_rollback_trans)
qed (simp add: same_trust_def)

lemma served_in_order:
  assumes "gate_synced env content g"
    and "currentLocked g now1 = (Inr s1, g1)"
    and "currentLocked (gate_run env load save ps g1) now2 = (Inr s2, g2)"
  shows "no_rollback s1 s2 \<and> authentic env (g_keys g) (g_installation g) (g_minimum g) s2 \<and>
    s_IssuedAt s2 \<le> now2 \<and> now2 < s_ExpiresAt s2"
proof -
  let ?h = "gate_run env load save ps g1"
  note first = currentLocked_keeps [OF assms(2)]
  note second = currentLocked_keeps(4) [OF assms(3) refl]
  from first(2) [of env content] assms(1) have "gate_synced env content g1" by simp
  note run = run_steps [OF this, of ps]
  have s2: "stored env content ?h = s2" using synced_stored run second by blast
  moreover have "stored env content g1 = s1"
    using first(3) [of env content] synced_stored [OF assms(1)] first(4) [OF refl] by simp
  ultimately have "no_rollback s1 s2" using run by simp
  moreover from run s2 second obtain raw where "gate_verify env ?h raw = Inr s2"
    using assms(3) by (auto simp: gate_synced_def currentLocked_def clock_def zero_Snapshot_def Let_def split: if_splits)
  from verify_sound [OF this] run first(1)
  have "authentic env (g_keys g) (g_installation g) (g_minimum g) s2" by (simp add: same_trust_def)
  ultimately show ?thesis using second by blast
qed

end

section \<open>A concrete gate\<close>

definition demo_snapshot :: Snapshot where
  "demo_snapshot = \<lparr>s_SchemaVersion = 1, s_Installation = ''home'', s_Generation = 3, s_Revision = 2,
     s_IssuedAt = 100, s_ExpiresAt = 200, s_Kid = ''k'', s_Payload = ''{}''\<rparr>"

text \<open>Encodings of one snapshot and its envelope; every other text fails to decode.\<close>

definition demo_env :: TrustEnv where
  "demo_env = \<lparr>
     te_envelope = \<lparr>jc_Decode = \<lambda>raw. if raw = ''E'' then Some (\<lparr>e_Snapshot = ''S'', e_Signature = ''AAAA''\<rparr>, []) else None,
                    jc_Marshal = \<lambda>_. Some ''E''\<rparr>,
     te_snapshot = \<lparr>jc_Decode = \<lambda>raw. if raw = ''S'' then Some (demo_snapshot, []) else None,
                    jc_Marshal = \<lambda>_. Some ''S''\<rparr>,
     te_json_Valid = \<lambda>_. True,
     te_ed_Verify = \<lambda>key msg sig. sig = replicate 3 (CHR 0x00),
     te_ed_Sign = \<lambda>key msg. replicate 3 (CHR 0x00),
     te_sha256_hex = \<lambda>_. [], te_validate = \<lambda>_. True\<rparr>"

definition demo_keys :: "(string \<times> string) list" where
  "demo_keys = [(''k'', replicate 32 (CHR ''p''))]"

definition demo_disk :: "bool list \<Rightarrow> FileStore" where
  "demo_disk calls = \<lparr>fs_dir = True, fs_dir_perm = 448, fs_snapshot = None, fs_temp = None, fs_calls = calls\<rparr>"

lemma demo_signature: "raw_url_decode ''AAAA'' = Some (replicate 3 (CHR 0x00)) \<and>
    raw_url_encode (replicate 3 (CHR 0x00)) = ''AAAA''"
  by code_simp

lemma demo_structural: "structural demo_env demo_snapshot"
proof -
  have "safe_name ''home'' \<and> safe_name ''k''" by code_simp
  then show ?thesis by (simp add: structural_def demo_snapshot_def demo_env_def i64_id)
qed

lemma demo_verify: "verify demo_env demo_keys ''home'' 2 ''E'' = Inr demo_snapshot"
proof -
  have "strict (te_envelope demo_env) ''E'' = Some \<lparr>e_Snapshot = ''S'', e_Signature = ''AAAA''\<rparr>"
    "strict (te_snapshot demo_env) ''S'' = Some demo_snapshot"
    by (simp_all add: strict_def demo_env_def json_eof_def)
  then show ?thesis
    using demo_structural demo_signature
    by (simp add: verify_def trust_max_bytes_def demo_keys_def)
      (simp add: demo_snapshot_def demo_env_def)
qed

definition demo_gate :: "FileStore \<Rightarrow> Snapshot \<Rightarrow> string \<Rightarrow> int \<Rightarrow> FileStore Gate" where
  "demo_gate store s raw n = \<lparr>g_keys = demo_keys, g_installation = ''home'', g_minimum = 2, g_store = store,
     g_current = s, g_raw = raw, g_lastClock = n, g_clockHold = False, g_recoveryAfter = 0,
     g_failed = False, g_failureReason = []\<rparr>"

definition demo_saved :: FileStore where
  "demo_saved = (demo_disk [])\<lparr>fs_snapshot := Some \<lparr>f_regular = True, f_perm = 384, f_bytes = ''E''\<rparr>\<rparr>"

lemmas demo_file = file_Load_def file_Save_def file_check_def file_write_def remove_temp_def call_def
  demo_disk_def demo_saved_def trust_max_bytes_def Let_def

lemma demo_safe_names: "safe_name ''home'' \<and> safe_name ''k''"
  by code_simp

lemma demo_times: "s_IssuedAt demo_snapshot = 100" "s_ExpiresAt demo_snapshot = 200"
    "s_Generation demo_snapshot = 3"
  by (simp_all add: demo_snapshot_def)

lemma demo_open: "Open demo_env file_Load demo_keys ''home'' 2 (demo_disk []) =
   (Some (demo_gate (demo_disk []) zero_Snapshot [] 0), None)"
  using demo_safe_names by (simp add: Open_def demo_gate_def demo_keys_def demo_file)

lemma demo_apply:
  "applyLocked demo_env (file_Save 0) (demo_gate (demo_disk []) zero_Snapshot [] 0) ''E'' 150 =
   (None, demo_gate demo_saved demo_snapshot ''E'' 150)"
  using demo_verify demo_times
  by (simp add: applyLocked_def clock_def zero_Snapshot_def demo_gate_def demo_file)

lemma demo_restart:
  "gate_step demo_env file_Load (file_Save 0) GRestart (demo_gate demo_saved demo_snapshot ''E'' n) =
   demo_gate demo_saved demo_snapshot ''E'' 0"
  using demo_verify demo_safe_names by (simp add: Open_def demo_gate_def demo_file) (simp add: demo_keys_def)

lemma demo_current: "n \<le> now \<Longrightarrow> 100 \<le> now \<Longrightarrow> now < 200 \<Longrightarrow>
   currentLocked (demo_gate demo_saved demo_snapshot ''E'' n) now =
   (Inr demo_snapshot, demo_gate demo_saved demo_snapshot ''E'' now)"
  using demo_times by (simp add: currentLocked_def clock_def demo_gate_def)

section \<open>Properties\<close>

text \<open>
  C4 (no rollback). A gate over the file store, opened on any disk, run through any publications,
  requests, process restarts and any pattern of failing system calls: whenever it serves a snapshot
  after having served another, the later one is the same snapshot or has a strictly higher generation
  and no lower revision. What it serves carries a valid signature of a trusted key, is for this
  installation and at least the minimum generation, was accepted by the validator and is in its
  validity period.
\<close>

theorem trust_no_rollback:
  assumes "Open env file_Load keys installation minimum disk = (Some g, e)"
    and "currentLocked (gate_run env file_Load (file_Save partial) before g) now1 = (Inr s1, g1)"
    and "currentLocked (gate_run env file_Load (file_Save partial) between g1) now2 = (Inr s2, g2)"
  shows "no_rollback s1 s2 \<and> authentic env keys installation minimum s2 \<and>
    s_IssuedAt s2 \<le> now2 \<and> now2 < s_ExpiresAt s2"
proof -
  note opened = disk.open_step [OF assms(1)]
  have "gate_synced env file_content g" using opened by blast
  note run = disk.run_steps [OF this, of partial before]
  then have "gate_synced env file_content (gate_run env file_Load (file_Save partial) before g)" by blast
  from disk.served_in_order [OF this assms(2,3)] run opened show ?thesis
    by (simp add: same_trust_def)
qed

theorem trust_no_rollback_witness:
  "currentLocked (gate_run demo_env file_Load (file_Save 0) [GRestart]
     (demo_gate demo_saved demo_snapshot ''E'' 160)) 170 =
     (Inr demo_snapshot, demo_gate demo_saved demo_snapshot ''E'' 170) \<and>
   authentic demo_env demo_keys ''home'' 2 demo_snapshot"
proof -
  have "currentLocked (gate_run demo_env file_Load (file_Save 0) [GApply ''E'' 150]
      (demo_gate (demo_disk []) zero_Snapshot [] 0)) 160 =
      (Inr demo_snapshot, demo_gate demo_saved demo_snapshot ''E'' 160)"
    by (simp add: demo_apply demo_current)
  from trust_no_rollback [OF demo_open this, of "[GRestart]" 170] show ?thesis
    by (simp add: demo_restart demo_current del: gate_step.simps)
qed

text \<open>
  What holds of every later state of a process that saw its clock move back below \<open>since\<close>, having
  \<open>base\<close> as its current generation: it is still in quarantine, or one of the publications \<open>ps\<close> was
  newer than \<open>base\<close> and issued at or after \<open>since\<close>.
\<close>

definition fresh_publication :: "TrustEnv \<Rightarrow> 's Gate \<Rightarrow> int \<Rightarrow> nat \<Rightarrow> gate_op list \<Rightarrow> bool" where
  "fresh_publication env g since base ps \<longleftrightarrow> (\<exists>raw now s. GApply raw now \<in> set ps \<and>
     gate_verify env g raw = Inr s \<and> base < s_Generation s \<and> since \<le> s_IssuedAt s)"

definition quarantined :: "TrustEnv \<Rightarrow> 's Gate \<Rightarrow> int \<Rightarrow> nat \<Rightarrow> gate_op list \<Rightarrow> bool" where
  "quarantined env g since base ps \<longleftrightarrow> g_failed g \<or>
     since \<le> g_lastClock g \<and> base \<le> s_Generation (g_current g) \<and>
     (g_clockHold g \<and> since \<le> g_recoveryAfter g \<or>
      base < s_Generation (g_current g) \<and> fresh_publication env g since base ps)"

lemma fresh_publication_mono:
  "fresh_publication env g since base ps \<Longrightarrow> same_trust g h \<Longrightarrow> fresh_publication env h since base (p # ps)"
  by (auto simp: fresh_publication_def same_trust_def)

lemma quarantined_clock:
  assumes "quarantined env g since base ps" and "clock g now = (b, h)"
  shows "quarantined env h since base (p # ps)"
  using assms fresh_publication_mono [of env g since base ps h p]
  by (auto simp: quarantined_def clock_def same_trust_def split: if_splits)

lemma quarantined_Cons: "quarantined env g since base ps \<Longrightarrow> quarantined env g since base (p # ps)"
  using fresh_publication_mono [of env g since base ps g p]
  by (auto simp: quarantined_def same_trust_def)

lemma quarantined_apply:
  assumes "quarantined env g since base ps"
  shows "quarantined env (snd (applyLocked env save g raw now)) since base (GApply raw now # ps)"
proof -
  obtain e g' where g': "applyLocked env save g raw now = (e, g')" by fastforce
  then show ?thesis
  proof (cases rule: applyLocked_cases)
    case (kept b)
    then show ?thesis using assms quarantined_clock quarantined_Cons g' by fastforce
  next
    case (tried s h e1 store')
    note h = clock_keeps [OF tried(1)]
    have base: "since \<le> g_lastClock h" "base < s_Generation s"
      using assms tried(1,2,4) by (auto simp: quarantined_def clock_def split: if_splits)
    have "fresh_publication env g' since base (GApply raw now # ps)"
    proof (cases "g_clockHold g \<and> since \<le> g_recoveryAfter g")
      case True
      with tried(3,6) base(2) h(1) show ?thesis
        by (auto simp: fresh_publication_def same_trust_def tried(8))
    next
      case False
      with assms tried(2) have "fresh_publication env g since base ps" by (auto simp: quarantined_def)
      moreover have "same_trust g g'" using h(1) by (simp add: same_trust_def tried(8))
      ultimately show ?thesis by (rule fresh_publication_mono)
    qed
    then show ?thesis using base g' by (auto simp: quarantined_def tried(8))
  qed
qed

lemma apply_same_trust: "same_trust g (snd (applyLocked env save g raw now))"
proof -
  obtain e g' where g': "applyLocked env save g raw now = (e, g')" by fastforce
  then show ?thesis
  proof (cases rule: applyLocked_cases)
    case (kept b)
    then show ?thesis using clock_keeps(1) g' by (fastforce simp: same_trust_def)
  next
    case (tried s h e1 store')
    then show ?thesis using clock_keeps(1) [OF tried(1)] g' by (simp add: same_trust_def)
  qed
qed

lemma run_same_trust: "GRestart \<notin> set ps \<Longrightarrow> same_trust g (gate_run env load save ps g)"
proof (induction ps arbitrary: g)
  case (Cons p ps)
  have "same_trust g (gate_step env load save p g)"
  proof (cases p)
    case (GCurrent now)
    then show ?thesis using currentLocked_keeps(1) [of g now] by (cases "currentLocked g now") simp
  qed (use Cons.prems apply_same_trust in auto)
  with Cons.IH [of "gate_step env load save p g"] Cons.prems show ?case by (simp add: same_trust_def)
qed (simp add: same_trust_def)

lemma quarantined_run:
  assumes "quarantined env g since base past" and "GRestart \<notin> set ps"
  shows "quarantined env (gate_run env load save ps g) since base (rev ps @ past)"
  using assms
proof (induction ps arbitrary: g past)
  case (Cons p ps)
  have "quarantined env (gate_step env load save p g) since base (p # past)"
  proof (cases p)
    case (GCurrent now)
    obtain b h where clock: "clock g now = (b, h)" by fastforce
    then have "snd (currentLocked g now) = g \<or> snd (currentLocked g now) = h"
      by (auto simp: currentLocked_def Let_def)
    then show ?thesis
      using quarantined_clock [OF Cons.prems(1) clock] quarantined_Cons [OF Cons.prems(1)] GCurrent by auto
  qed (use Cons.prems quarantined_apply in auto)
  with Cons.IH [of "gate_step env load save p g" "p # past"] Cons.prems(2) show ?case by simp
qed simp

text \<open>
  C16 (clock rollback). Once a request sees the clock below a time the gate has already seen, the same
  process serves nothing more, whatever is requested or republished and however the clock catches up,
  until a publication that verifies, has a higher generation than the current one and was issued at or
  after the time seen before; what it serves then has a higher generation.
\<close>

theorem clock_rollback_quarantine:
  assumes "now < g_lastClock g" and "\<not> g_failed g" and "GRestart \<notin> set ps"
    and "currentLocked (gate_run env load save ps (snd (currentLocked g now))) later = (Inr s, g')"
  shows "s_Generation (g_current g) < s_Generation s \<and>
    fresh_publication env g (g_lastClock g) (s_Generation (g_current g)) ps"
proof -
  let ?h = "snd (currentLocked g now)"
  have h: "?h = g\<lparr>g_clockHold := True, g_recoveryAfter := g_lastClock g,
      g_failureReason := ''snapshot_clock_rollback''\<rparr>"
    using assms(1,2) by (simp add: currentLocked_def clock_def)
  then have "quarantined env ?h (g_lastClock g) (s_Generation (g_current g)) []"
    by (simp add: quarantined_def)
  from quarantined_run [OF this assms(3)]
  have "quarantined env (gate_run env load save ps ?h) (g_lastClock g) (s_Generation (g_current g)) (rev ps)"
    by simp
  moreover note currentLocked_keeps(4) [OF assms(4) refl]
  moreover have "same_trust ?h (gate_run env load save ps ?h)"
    using assms(3) by (rule run_same_trust)
  ultimately show ?thesis
    by (auto simp: quarantined_def fresh_publication_def same_trust_def h)
qed

theorem clock_rollback_quarantine_witness:
  "\<exists>s g'. currentLocked (gate_run demo_env file_Load (file_Save 0) [GApply ''E'' 150]
       (snd (currentLocked ((demo_gate (demo_disk []) zero_Snapshot [] 0)\<lparr>g_lastClock := 90\<rparr>) 80))) 160 = (Inr s, g') \<and>
     fresh_publication demo_env (demo_gate (demo_disk []) zero_Snapshot [] 90) 90 0 [GApply ''E'' 150]"
proof -
  let ?g = "demo_gate (demo_disk []) zero_Snapshot [] 90"
  have g: "(demo_gate (demo_disk []) zero_Snapshot [] 0)\<lparr>g_lastClock := 90\<rparr> = ?g" by (simp add: demo_gate_def)
  have h: "snd (currentLocked ?g 80) = ?g\<lparr>g_clockHold := True, g_recoveryAfter := 90,
      g_failureReason := ''snapshot_clock_rollback''\<rparr>"
    by (simp add: currentLocked_def clock_def demo_gate_def)
  have "gate_run demo_env file_Load (file_Save 0) [GApply ''E'' 150] (snd (currentLocked ?g 80)) =
      demo_gate demo_saved demo_snapshot ''E'' 150"
    unfolding h using demo_verify demo_times
    by (simp add: applyLocked_def clock_def zero_Snapshot_def demo_gate_def demo_file)
  then have served: "currentLocked (gate_run demo_env file_Load (file_Save 0) [GApply ''E'' 150]
      (snd (currentLocked ?g 80))) 160 = (Inr demo_snapshot, demo_gate demo_saved demo_snapshot ''E'' 160)"
    by (simp add: demo_current)
  have "g_lastClock ?g = 90" "\<not> g_failed ?g" "s_Generation (g_current ?g) = 0"
    by (simp_all add: demo_gate_def zero_Snapshot_def)
  with clock_rollback_quarantine [of 80 ?g "[GApply ''E'' 150]" demo_env file_Load "file_Save 0" 160, OF _ _ _ served]
  show ?thesis unfolding g using served by auto
qed


text \<open>The same libraries with encoders that are partial, so that they have an inverse.\<close>

definition demo_codecs :: TrustEnv where
  "demo_codecs = demo_env\<lparr>
     te_envelope := (te_envelope demo_env)\<lparr>jc_Marshal :=
       \<lambda>v. if v = \<lparr>e_Snapshot = ''S'', e_Signature = ''AAAA''\<rparr> then Some ''E'' else None\<rparr>,
     te_snapshot := (te_snapshot demo_env)\<lparr>jc_Marshal := \<lambda>v. if v = demo_snapshot then Some ''S'' else None\<rparr>\<rparr>"


text \<open>
  C25 (atomic save). Whatever system calls fail during \<open>FileStore.Save\<close>, and whatever part of the data
  a failed write left behind, the stored snapshot is afterwards the old one or the complete new one;
  when \<open>Save\<close> reports success it is the new one, and \<open>Load\<close> on a working disk returns exactly the saved
  bytes.
\<close>

theorem file_save_atomic:
  assumes "file_Save partial s raw = (e, s')"
  shows "(file_content s' = file_content s \<or> file_content s' = Some raw) \<and>
    (e = None \<longrightarrow> fst (file_Load (s'\<lparr>fs_calls := []\<rparr>)) = Inr raw)"
proof -
  have "fst (file_Load (s'\<lparr>fs_calls := []\<rparr>)) = Inr raw" if "e = None"
    using file_Save_ready [OF assms [unfolded that]]
    by (simp add: file_Load_def file_check_def call_def Let_def)
  with file_Save_content(1) [OF assms] show ?thesis by blast
qed

theorem file_save_atomic_witness:
  "file_Save 1 (demo_disk [True, True, True, False]) ''EE'' =
     (Some TErrPersistence, demo_disk []) \<and>
   fst (file_Save 1 (demo_disk []) ''EE'') = None \<and>
   fst (file_Load ((snd (file_Save 1 (demo_disk []) ''EE''))\<lparr>fs_calls := []\<rparr>)) = Inr ''EE''"
proof -
  have "file_Save 1 (demo_disk [True, True, True, False]) ''EE'' = (Some TErrPersistence, demo_disk [])"
    by (simp add: demo_file)
  moreover have ok: "fst (file_Save 1 (demo_disk []) ''EE'') = None" by (simp add: demo_file)
  ultimately show ?thesis
    using file_save_atomic [of 1 "demo_disk []" "''EE''" None "snd (file_Save 1 (demo_disk []) ''EE'')"]
    by (metis prod.collapse)
qed

end
