(* ===== verification/WR_Keys.thy ===== *)
theory WR_Keys
  imports WR_Codec
begin

text \<open>
  Keys and what they protect: admission tokens (\<open>internal/admission\<close>), the role-scoped deployment
  keyring and its sealed values (\<open>internal/keyring\<close>), and the rotation of the keyring
  (\<open>internal/localcontrol/rotation.go\<close>). Ed25519, AES-GCM, SHA-256 and JSON are parameters.
\<close>

section \<open>Admission tokens (token.go)\<close>

datatype admission_error = AErrInvalid

record Claims =
  cl_Kid :: string
  cl_Room :: string
  cl_Epoch :: nat
  cl_JTI :: string
  cl_Issued :: int
  cl_NotBefore :: int
  cl_Expires :: int
  cl_Audience :: string

record TokenLib =
  tl_claims :: "Claims JsonCodec"
  tl_ed_Sign :: "string \<Rightarrow> string \<Rightarrow> string"
  tl_ed_Verify :: "string \<Rightarrow> string \<Rightarrow> string \<Rightarrow> bool"

definition Sign :: "TokenLib \<Rightarrow> string \<Rightarrow> Claims \<Rightarrow> admission_error + string" where
  "Sign lib key c =
     (if length key \<noteq> 64 then Inl AErrInvalid
      else case jc_Marshal (tl_claims lib) c of
        None \<Rightarrow> Inl AErrInvalid
      | Some raw \<Rightarrow>
          let payload = raw_url_encode raw;
              signature = tl_ed_Sign lib key payload
          in Inr (payload @ ''.'' @ raw_url_encode signature))"

text \<open>\<open>time.Second\<close>, in nanoseconds.\<close>

definition Second :: int where "Second = 1000000000"

text \<open>\<open>now\<close> is in seconds (\<open>now.Unix()\<close>), the leeway a duration in nanoseconds.\<close>

definition claims_ok :: "Claims \<Rightarrow> string \<Rightarrow> string \<Rightarrow> string \<Rightarrow> nat \<Rightarrow> int \<Rightarrow> int \<Rightarrow> bool" where
  "claims_ok c kid room aud epoch n skew \<longleftrightarrow>
     \<not> (cl_Kid c \<noteq> kid \<or> cl_Room c \<noteq> room \<or> cl_Audience c \<noteq> aud \<or> cl_Epoch c \<noteq> epoch \<or>
        cl_JTI c = [] \<or> cl_NotBefore c \<noteq> cl_Issued c \<or> cl_Expires c \<le> cl_Issued c \<or>
        i64 (cl_Expires c - cl_Issued c) > 3600 \<or> i64 (n + skew) < cl_NotBefore c \<or>
        n \<ge> i64 (cl_Expires c + skew))"

definition Verify ::
  "TokenLib \<Rightarrow> string \<Rightarrow> string \<Rightarrow> string \<Rightarrow> string \<Rightarrow> string \<Rightarrow> nat \<Rightarrow> int \<Rightarrow> int \<Rightarrow> admission_error + Claims" where
  "Verify lib key token kid room aud epoch now leeway =
     (if length key \<noteq> 32 \<or> length token > 2048 \<or> leeway < 0 \<or> leeway > 30 * Second
      then Inl AErrInvalid
      else case split_on (CHR ''.'') token of
        [payload, signature] \<Rightarrow>
          (case raw_url_decode signature of
             None \<Rightarrow> Inl AErrInvalid
           | Some sig \<Rightarrow>
               if \<not> tl_ed_Verify lib key payload sig then Inl AErrInvalid
               else case raw_url_decode payload of
                 None \<Rightarrow> Inl AErrInvalid
               | Some raw \<Rightarrow>
                   (case jc_Decode (tl_claims lib) raw of
                      None \<Rightarrow> Inl AErrInvalid
                    | Some (c, rest) \<Rightarrow>
                        if \<not> json_eof rest then Inl AErrInvalid
                        else if \<not> claims_ok c kid room aud epoch now (leeway div Second) then Inl AErrInvalid
                        else Inr c))
      | _ \<Rightarrow> Inl AErrInvalid)"

section \<open>The keyring (keyring.go)\<close>

datatype keyring_error = KErrInvalid

definition Overlap :: int where
  "Overlap = 24 * 3600 * Second + 30 * Second"

definition Overlap_Milliseconds :: int where
  "Overlap_Milliseconds = Overlap div 1000000"

record Key =
  k_ID :: string
  k_Since :: int
  k_ConfigPublic :: string
  k_AdmissionPublic :: string
  k_ConfigPrivate :: string
  k_AdmissionPrivate :: string
  k_Replay :: string
  k_Return :: string

text \<open>The previous and the next key are pointers; \<open>None\<close> is nil. Key material is compared by length.\<close>

record Set =
  ks_Generation :: int
  ks_Phase :: string
  ks_Current :: Key
  ks_Previous :: "Key option"
  ks_Next :: "Key option"

definition is_hex :: "char \<Rightarrow> bool" where
  "is_hex c \<longleftrightarrow> is_digit c \<or> 97 \<le> byte c \<and> byte c \<le> 102"

definition idPattern :: "string \<Rightarrow> bool" where
  "idPattern s \<longleftrightarrow> s = ''v1'' \<or> length s = 32 \<and> list_all is_hex s"

definition ConfigKid :: "Key \<Rightarrow> string" where "ConfigKid k = ''config-'' @ k_ID k"
definition AdmissionKid :: "Key \<Rightarrow> string" where "AdmissionKid k = ''admission-'' @ k_ID k"
definition ReturnKid :: "Key \<Rightarrow> string" where "ReturnKid k = ''return-'' @ k_ID k"

definition Keys :: "Set \<Rightarrow> Key list" where
  "Keys s = ks_Current s #
     (case ks_Previous s of None \<Rightarrow> [] | Some k \<Rightarrow> [k]) @ (case ks_Next s of None \<Rightarrow> [] | Some k \<Rightarrow> [k])"

text \<open>
  The checks of one key. A private key is its 32-byte seed followed by the public key
  (\<open>PrivateKey.Public\<close> returns the second half); \<open>from_seed\<close> is \<open>ed25519.NewKeyFromSeed\<close>.
\<close>

definition private_ok :: "(string \<Rightarrow> string) \<Rightarrow> string \<Rightarrow> string \<Rightarrow> bool \<Rightarrow> bool" where
  "private_ok from_seed data pub want =
     (if want then \<not> (length data \<noteq> 64 \<or> drop 32 data \<noteq> pub \<or> from_seed (take 32 data) \<noteq> data)
      else length data = 0)"

definition secret_ok :: "string \<Rightarrow> bool \<Rightarrow> bool" where
  "secret_ok data want =
     (if want then \<not> (length data \<noteq> 32 \<or> data = replicate 32 (CHR 0x00)) else length data = 0)"

definition key_ok :: "(string \<Rightarrow> string) \<Rightarrow> string \<Rightarrow> Key \<Rightarrow> bool" where
  "key_ok from_seed role k \<longleftrightarrow>
     private_ok from_seed (k_ConfigPrivate k) (k_ConfigPublic k) (role = ''control'' \<or> role = ''owner'') \<and>
     private_ok from_seed (k_AdmissionPrivate k) (k_AdmissionPublic k) (role = ''coordinator'' \<or> role = ''owner'') \<and>
     secret_ok (k_Replay k) (role = ''coordinator'' \<or> role = ''owner'') \<and>
     secret_ok (k_Return k) (role = ''gateway'' \<or> role = ''owner'')"

fun keys_ok :: "(string \<Rightarrow> string) \<Rightarrow> string \<Rightarrow> string list \<Rightarrow> Key list \<Rightarrow> bool" where
  "keys_ok from_seed role seen [] = True"
| "keys_ok from_seed role seen (k # ks) =
     (if \<not> idPattern (k_ID k) \<or> k_ID k \<in> set seen \<or> k_Since k < 0 \<or> k_Since k \<ge> 9007199254740990 \<or>
         length (k_ConfigPublic k) \<noteq> 32 \<or> length (k_AdmissionPublic k) \<noteq> 32 then False
      else key_ok from_seed role k \<and> keys_ok from_seed role (k_ID k # seen) ks)"

definition Set_Validate :: "(string \<Rightarrow> string) \<Rightarrow> Set \<Rightarrow> string \<Rightarrow> keyring_error option" where
  "Set_Validate from_seed s role =
     (if ks_Generation s < 1 \<or> ks_Generation s \<ge> 9007199254740990 \<or>
         (ks_Phase s \<noteq> ''stable'' \<and> ks_Phase s \<noteq> ''staged'' \<and> ks_Phase s \<noteq> ''active'') \<or>
         (ks_Phase s = ''staged'') \<noteq> (ks_Next s \<noteq> None) \<or>
         (ks_Phase s = ''active'') \<noteq> (ks_Previous s \<noteq> None) then Some KErrInvalid
      else if \<not> keys_ok from_seed role [] (Keys s) then Some KErrInvalid
      else if (case ks_Previous s of None \<Rightarrow> False
               | Some p \<Rightarrow> k_Since (ks_Current s) \<le> k_Since p \<or> k_Since (ks_Current s) = 0)
        then Some KErrInvalid
      else if role \<noteq> ''owner'' \<and> role \<noteq> ''control'' \<and> role \<noteq> ''coordinator'' \<and> role \<noteq> ''gateway''
        then Some KErrInvalid
      else None)"

definition sanitize :: "string \<Rightarrow> Key \<Rightarrow> Key" where
  "sanitize role k =
     (let k = (if role \<noteq> ''control'' then k\<lparr>k_ConfigPrivate := []\<rparr> else k);
          k = (if role \<noteq> ''coordinator'' then k\<lparr>k_AdmissionPrivate := [], k_Replay := []\<rparr> else k)
      in if role \<noteq> ''gateway'' then k\<lparr>k_Return := []\<rparr> else k)"

definition ForRole :: "Set \<Rightarrow> string \<Rightarrow> Set" where
  "ForRole s role = s\<lparr>ks_Current := sanitize role (ks_Current s),
     ks_Previous := map_option (sanitize role) (ks_Previous s),
     ks_Next := map_option (sanitize role) (ks_Next s)\<rparr>"

definition Digest :: "(Set \<Rightarrow> string) \<Rightarrow> (string \<Rightarrow> string) \<Rightarrow> Set \<Rightarrow> string" where
  "Digest marshal sha256_hex s = sha256_hex (marshal (ForRole s []))"

text \<open>A later key with the same id would overwrite an earlier one, as in the Go map.\<close>

definition ConfigTrust :: "Set \<Rightarrow> (string \<times> string) list" where
  "ConfigTrust s = fold (\<lambda>k m. AList.update (ConfigKid k) (k_ConfigPublic k) m) (Keys s) []"

definition AdmissionAt :: "Set \<Rightarrow> int \<Rightarrow> Key" where
  "AdmissionAt s promoted =
     (case ks_Previous s of None \<Rightarrow> ks_Current s
      | Some p \<Rightarrow> if promoted < k_Since (ks_Current s) then p else ks_Current s)"

definition Set_Find :: "Set \<Rightarrow> string \<Rightarrow> Key option" where
  "Set_Find s i = find (\<lambda>k. k_ID k = i) (Keys s)"

section \<open>Sealed values (aead.go)\<close>

text \<open>AES-GCM with its 12-byte nonce and 16-byte tag; \<open>aes.NewCipher\<close> takes 16, 24 or 32 byte keys.\<close>

record GcmLib =
  gcm_Seal :: "string \<Rightarrow> string \<Rightarrow> string \<Rightarrow> string \<Rightarrow> string"
  gcm_Open :: "string \<Rightarrow> string \<Rightarrow> string \<Rightarrow> string \<Rightarrow> string option"

definition aead_ok :: "string \<Rightarrow> bool" where
  "aead_ok key \<longleftrightarrow> length key = 16 \<or> length key = 24 \<or> length key = 32"

definition purpose_key :: "Key \<Rightarrow> string \<Rightarrow> string option" where
  "purpose_key k purpose =
     (if purpose = ''return'' \<or> purpose = ''browser-join'' then Some (k_Return k)
      else if purpose \<noteq> ''replay'' then None else Some (k_Replay k))"

definition bound_aad :: "string \<Rightarrow> string \<Rightarrow> string \<Rightarrow> string" where
  "bound_aad purpose i aad = ''wr-'' @ purpose @ ''/v2/'' @ i @ ''/'' @ aad"

text \<open>\<open>nonce\<close> is what \<open>rand.Read\<close> delivered, \<open>None\<close> when it failed.\<close>

definition Seal :: "GcmLib \<Rightarrow> string option \<Rightarrow> Key \<Rightarrow> string \<Rightarrow> string \<Rightarrow> string \<Rightarrow> keyring_error + string" where
  "Seal lib nonce k purpose plain aad =
     (case purpose_key k purpose of
        None \<Rightarrow> Inl KErrInvalid
      | Some key \<Rightarrow>
          if \<not> aead_ok key then Inl KErrInvalid
          else case nonce of
            None \<Rightarrow> Inl KErrInvalid
          | Some n \<Rightarrow>
              Inr (k_ID k @ ''.'' @ raw_url_encode (n @ gcm_Seal lib key n plain (bound_aad purpose (k_ID k) aad))))"

definition Set_Open :: "GcmLib \<Rightarrow> Set \<Rightarrow> string \<Rightarrow> string \<Rightarrow> string \<Rightarrow> string \<Rightarrow> keyring_error + string" where
  "Set_Open lib s purpose sealed aad legacyAAD =
     (if length sealed > 8192 then Inl KErrInvalid
      else let (before, after, versioned) = cut_on (CHR ''.'') sealed;
               i = (if versioned then before else ''v1'');
               encoded = (if versioned then after else sealed)
        in case Set_Find s i of
            None \<Rightarrow> Inl KErrInvalid
          | Some k \<Rightarrow>
              (case purpose_key k purpose of
                 None \<Rightarrow> Inl KErrInvalid
               | Some key \<Rightarrow>
                   if \<not> aead_ok key then Inl KErrInvalid
                   else case raw_url_decode encoded of
                     None \<Rightarrow> Inl KErrInvalid
                   | Some data \<Rightarrow>
                       if length data < 12 + 16 then Inl KErrInvalid
                       else case gcm_Open lib key (take 12 data) (drop 12 data)
                              (if versioned then bound_aad purpose i aad else legacyAAD) of
                         None \<Rightarrow> Inl KErrInvalid
                       | Some plain \<Rightarrow> Inr plain))"

section \<open>Rotation (rotation.go)\<close>

record rotationDisk =
  rd_Binding :: string
  rd_Keys :: Set
  rd_Before :: string

record RotationReport =
  rep_Phase :: string
  rep_Generation :: int
  rep_Digest :: string
  rep_ActivateAt :: int
  rep_RetireAfter :: int
  rep_Acknowledged :: int
  rep_EmergencyReady :: bool

datatype rotation_error =
    RErrInvalid | RErrStageFirst | RErrRestoreJournal | RErrRetireFirst | RErrAckStaged | RErrClock
  | RErrAckActive | RErrNotReady | RErrTooEarly | RErrWrite

definition rotationReport :: "(Set \<Rightarrow> string) \<Rightarrow> Set \<Rightarrow> int \<Rightarrow> RotationReport" where
  "rotationReport digest keys acks =
     (let out = \<lparr>rep_Phase = ks_Phase keys, rep_Generation = ks_Generation keys, rep_Digest = digest keys,
                 rep_ActivateAt = 0, rep_RetireAfter = 0, rep_Acknowledged = acks, rep_EmergencyReady = False\<rparr>
      in if ks_Previous keys \<noteq> None
         then out\<lparr>rep_ActivateAt := k_Since (ks_Current keys),
                  rep_RetireAfter := i64 (k_Since (ks_Current keys) + Overlap_Milliseconds)\<rparr>
         else out)"

text \<open>
  The operation switch: the keys on disk, the fresh acknowledgements, whether an emergency reset is
  on record, the database clock in milliseconds and the key \<open>generateKey\<close> would return. The result
  is the new set and whether it changed.
\<close>

definition rotate ::
  "string \<Rightarrow> Set \<Rightarrow> int \<Rightarrow> bool \<Rightarrow> int \<Rightarrow> Key option \<Rightarrow> rotation_error + Set \<times> bool" where
  "rotate operation keys acks emergencyReady now fresh =
     (if operation = ''stage'' then
        (if ks_Phase keys = ''active'' then Inl RErrRetireFirst
         else if ks_Phase keys \<noteq> ''staged'' then
           (case fresh of None \<Rightarrow> Inl RErrWrite
            | Some k \<Rightarrow> Inr (keys\<lparr>ks_Next := Some k, ks_Generation := i64 (ks_Generation keys + 1),
                ks_Phase := ''staged''\<rparr>, True))
         else Inr (keys, False))
      else if operation = ''activate'' then
        (if ks_Phase keys \<noteq> ''active'' then
           (if ks_Phase keys \<noteq> ''staged'' \<or> acks \<noteq> 2 then Inl RErrAckStaged
            else case ks_Next keys of
              None \<Rightarrow> Inl RErrInvalid
            | Some k \<Rightarrow>
                let old = ks_Current keys; since = i64 (now + 30000) in
                if since \<le> k_Since old then Inl RErrClock
                else Inr (keys\<lparr>ks_Previous := Some old, ks_Current := k\<lparr>k_Since := since\<rparr>, ks_Next := None,
                    ks_Generation := i64 (ks_Generation keys + 1), ks_Phase := ''active''\<rparr>, True))
         else Inr (keys, False))
      else
        (if ks_Phase keys \<noteq> ''stable'' then
           (if ks_Phase keys \<noteq> ''active'' \<or> acks \<noteq> 2 then Inl RErrAckActive
            else if operation = ''revoke'' \<and> \<not> emergencyReady then Inl RErrNotReady
            else if operation \<noteq> ''revoke'' \<and> now < i64 (k_Since (ks_Current keys) + Overlap_Milliseconds)
              then Inl RErrTooEarly
            else Inr (keys\<lparr>ks_Previous := None, ks_Generation := i64 (ks_Generation keys + 1),
                ks_Phase := ''stable''\<rparr>, True))
         else Inr (keys, False)))"

end
