(* ===== verification/WR_Keys_Props.thy ===== *)
theory WR_Keys_Props
  imports WR_Keys
begin

text \<open>
  Tokens and sealed values round-trip and are bound to their context; each role gets exactly its
  share of the keyring; rotation keeps the keyring valid and never drops a key that still covers a
  live artifact.
\<close>

section \<open>Admission tokens\<close>

lemma dot_not_in_url: "CHR ''.'' \<notin> set (raw_url_encode s)"
proof -
  have "CHR ''.'' \<notin> set url_alphabet" by (simp add: url_alphabet_def)
  then show ?thesis using b64_encode_chars [OF good_alphabets(2), of False s] by auto
qed

text \<open>
  C30 (admission round trip). With Ed25519 verifying what the matching private key signed and a JSON
  codec that decodes what it encodes, a signed token of at most 2048 bytes verifies to exactly the
  signed claims whenever the claims fit the context and the time.
\<close>

theorem admission_round_trip:
  assumes "Sign lib key c = Inr token" and "length token \<le> 2048" and "length pub = 32"
    and "\<And>msg. tl_ed_Verify lib pub msg (tl_ed_Sign lib key msg)"
    and "\<And>raw. jc_Marshal (tl_claims lib) c = Some raw \<Longrightarrow> jc_Decode (tl_claims lib) raw = Some (c, [])"
    and "0 \<le> leeway" and "leeway \<le> 30 * Second"
    and "claims_ok c kid room aud epoch now (leeway div Second)"
  shows "Verify lib pub token kid room aud epoch now leeway = Inr c"
proof -
  from assms(1) obtain raw where raw: "jc_Marshal (tl_claims lib) c = Some raw"
      and token: "token = raw_url_encode raw @ CHR ''.'' # raw_url_encode (tl_ed_Sign lib key (raw_url_encode raw))"
    by (auto simp: Sign_def Let_def split: if_splits option.splits)
  have "split_on (CHR ''.'') token =
      [raw_url_encode raw, raw_url_encode (tl_ed_Sign lib key (raw_url_encode raw))]"
    unfolding token using dot_not_in_url by (simp add: split_on_append split_on_no_sep)
  with assms(2-8) assms(5) [OF raw] show ?thesis
    by (simp add: Verify_def json_eof_def)
qed

definition demo_claims :: Claims where
  "demo_claims = \<lparr>cl_Kid = ''admission-v1'', cl_Room = ''r'', cl_Epoch = 1, cl_JTI = ''j'', cl_Issued = 100,
     cl_NotBefore = 100, cl_Expires = 400, cl_Audience = ''a''\<rparr>"

definition demo_tokens :: TokenLib where
  "demo_tokens = \<lparr>tl_claims = \<lparr>jc_Decode = \<lambda>raw. if raw = ''C'' then Some (demo_claims, []) else None,
       jc_Marshal = \<lambda>c. if c = demo_claims then Some ''C'' else None\<rparr>,
     tl_ed_Sign = \<lambda>key msg. take 3 key @ msg, tl_ed_Verify = \<lambda>pub msg sig. sig = take 3 pub @ msg\<rparr>"

lemma demo_claims_ok: "claims_ok demo_claims ''admission-v1'' ''r'' ''a'' 1 350 30"
  by (simp add: claims_ok_def demo_claims_def i64_id)

theorem admission_round_trip_witness:
  "\<exists>token. Sign demo_tokens (replicate 64 (CHR ''k'')) demo_claims = Inr token \<and>
     Verify demo_tokens (replicate 32 (CHR ''k'')) token ''admission-v1'' ''r'' ''a'' 1 350 (30 * Second) =
       Inr demo_claims"
proof -
  have "length (raw_url_encode s) \<le> 4 * length s" for s
    by (induction url_alphabet False s rule: b64_encode.induct) auto
  from this [of "''C''"] this [of "''kkk'' @ raw_url_encode ''C''"]
  have len: "length (raw_url_encode ''C'' @ CHR ''.'' # raw_url_encode (''kkk'' @ raw_url_encode ''C'')) \<le> 2048"
    by simp
  have s: "Sign demo_tokens (replicate 64 (CHR ''k'')) demo_claims =
      Inr (raw_url_encode ''C'' @ CHR ''.'' # raw_url_encode (''kkk'' @ raw_url_encode ''C''))"
    by (simp add: Sign_def demo_tokens_def Let_def numeral_3_eq_3)
  have "Verify demo_tokens (replicate 32 (CHR ''k''))
      (raw_url_encode ''C'' @ CHR ''.'' # raw_url_encode (''kkk'' @ raw_url_encode ''C''))
      ''admission-v1'' ''r'' ''a'' 1 350 (30 * Second) = Inr demo_claims"
    by (rule admission_round_trip [OF s len])
      (use demo_claims_ok in \<open>auto simp: demo_tokens_def Second_def\<close>)
  with s show ?thesis by blast
qed



section \<open>Role separation\<close>

lemma Keys_ForRole: "Keys (ForRole s role) = map (sanitize role) (Keys s)"
  by (simp add: Keys_def ForRole_def split: option.splits)

lemma sanitize_fields [simp]:
  "k_ID (sanitize role k) = k_ID k" "k_Since (sanitize role k) = k_Since k"
  "k_ConfigPublic (sanitize role k) = k_ConfigPublic k"
  "k_AdmissionPublic (sanitize role k) = k_AdmissionPublic k"
  by (simp_all add: sanitize_def Let_def)

lemma sanitize_owner_key:
  assumes "key_ok from_seed ''owner'' k" and "role \<in> set [''control'', ''coordinator'', ''gateway'']"
  shows "key_ok from_seed role (sanitize role k)"
  using assms by (auto simp: key_ok_def sanitize_def private_ok_def secret_ok_def Let_def)

lemma keys_ok_sanitize:
  assumes "keys_ok from_seed ''owner'' seen ks" and "role \<in> set [''control'', ''coordinator'', ''gateway'']"
  shows "keys_ok from_seed role seen (map (sanitize role) ks)"
  using assms by (induction ks arbitrary: seen) (auto simp: sanitize_owner_key split: if_splits)

lemma keys_ok_key_ok: "keys_ok from_seed role seen ks \<Longrightarrow> k \<in> set ks \<Longrightarrow> key_ok from_seed role k"
  by (induction ks arbitrary: seen) (auto split: if_splits)

lemma keys_ok_id: "keys_ok from_seed role seen ks \<Longrightarrow> k \<in> set ks \<Longrightarrow> idPattern (k_ID k)"
  by (induction ks arbitrary: seen) (auto split: if_splits)

lemma keys_ok_distinct:
  "keys_ok from_seed role seen ks \<Longrightarrow> distinct (map k_ID ks) \<and> set seen \<inter> k_ID ` set ks = {}"
  by (induction ks arbitrary: seen) (fastforce split: if_splits)+

lemma sanitize_public: "sanitize [] (sanitize role k) = sanitize [] k"
  by (simp add: sanitize_def Let_def)

lemma ForRole_public: "ForRole (ForRole s role) [] = ForRole s []"
  by (simp add: ForRole_def option.map_comp comp_def sanitize_public)

text \<open>
  C31 (role separation). From a keyring the owner accepts, each serving role gets a keyring that is
  valid for that role; it contains exactly the private material of the role (only Control holds the
  configuration signing key, only the Coordinator the admission signing and replay keys, only the
  Gateway the return key) and the digest that the roles acknowledge is the same for all of them.
\<close>

theorem role_split:
  assumes "Set_Validate from_seed s ''owner'' = None" and "role \<in> set [''control'', ''coordinator'', ''gateway'']"
  shows "Set_Validate from_seed (ForRole s role) role = None \<and>
    Digest marshal sha (ForRole s role) = Digest marshal sha s \<and>
    (\<forall>k \<in> set (Keys (ForRole s role)).
       (length (k_ConfigPrivate k) = (if role = ''control'' then 64 else 0)) \<and>
       (length (k_AdmissionPrivate k) = (if role = ''coordinator'' then 64 else 0)) \<and>
       (length (k_Replay k) = (if role = ''coordinator'' then 32 else 0)) \<and>
       (length (k_Return k) = (if role = ''gateway'' then 32 else 0)))"
proof -
  from assms(1) have owner: "keys_ok from_seed ''owner'' [] (Keys s)"
    and rest: "1 \<le> ks_Generation s" "ks_Generation s < 9007199254740990"
      "ks_Phase s = ''stable'' \<or> ks_Phase s = ''staged'' \<or> ks_Phase s = ''active''"
      "(ks_Phase s = ''staged'') = (ks_Next s \<noteq> None)" "(ks_Phase s = ''active'') = (ks_Previous s \<noteq> None)"
      "\<And>p. ks_Previous s = Some p \<Longrightarrow> k_Since p < k_Since (ks_Current s) \<and> k_Since (ks_Current s) \<noteq> 0"
    by (auto simp: Set_Validate_def split: if_splits option.splits)
  from keys_ok_sanitize [OF owner assms(2)] have keys: "keys_ok from_seed role [] (Keys (ForRole s role))"
    by (simp add: Keys_ForRole)
  have "Set_Validate from_seed (ForRole s role) role = None"
    using keys rest assms(2)
    by (auto simp: Set_Validate_def ForRole_def split: option.splits)
  moreover have "Digest marshal sha (ForRole s role) = Digest marshal sha s"
    by (simp add: Digest_def ForRole_public)
  ultimately show ?thesis
    using keys_ok_key_ok [OF keys] assms(2)
    by (auto simp: key_ok_def private_ok_def secret_ok_def split: if_splits)
qed

definition demo_key :: "string \<Rightarrow> int \<Rightarrow> Key" where
  "demo_key i since = \<lparr>k_ID = i, k_Since = since, k_ConfigPublic = replicate 32 (CHR ''c''),
     k_AdmissionPublic = replicate 32 (CHR ''a''), k_ConfigPrivate = replicate 64 (CHR ''c''),
     k_AdmissionPrivate = replicate 64 (CHR ''a''), k_Replay = replicate 32 (CHR ''r''),
     k_Return = replicate 32 (CHR ''t'')\<rparr>"

definition demo_seed :: "string \<Rightarrow> string" where
  "demo_seed seed = seed @ seed"

definition demo_set :: Set where
  "demo_set = \<lparr>ks_Generation = 1, ks_Phase = ''stable'', ks_Current = demo_key ''v1'' 0,
     ks_Previous = None, ks_Next = None\<rparr>"

lemma demo_set_valid: "Set_Validate demo_seed demo_set ''owner'' = None"
  by (simp add: Set_Validate_def demo_set_def Keys_def demo_key_def idPattern_def key_ok_def private_ok_def
      secret_ok_def demo_seed_def flip: replicate_add)

theorem role_split_witness:
  "Set_Validate demo_seed (ForRole demo_set ''gateway'') ''gateway'' = None \<and>
   k_ConfigPrivate (ks_Current (ForRole demo_set ''gateway'')) = []"
  using role_split [OF demo_set_valid, of "''gateway''"] by (simp add: Keys_def)

section \<open>Sealed values\<close>

lemma idPattern_no_dot: "idPattern i \<Longrightarrow> CHR ''.'' \<notin> set i"
  by (auto simp: idPattern_def list_all_iff is_hex_def is_digit_def byte_def)

lemma idPattern_no_slash: "idPattern i \<Longrightarrow> CHR ''/'' \<notin> set i"
  by (auto simp: idPattern_def list_all_iff is_hex_def is_digit_def byte_def)

lemma cut_on_first: "c \<notin> set a \<Longrightarrow> cut_on c (a @ c # b) = (a, b, True)"
  by (induction a) (auto simp: cut_on_def)

lemma Set_Find_member:
  assumes "Set_Validate from_seed s role = None" and "k \<in> set (Keys s)"
  shows "Set_Find s (k_ID k) = Some k"
proof -
  from assms(1) have "keys_ok from_seed role [] (Keys s)" by (auto simp: Set_Validate_def split: if_splits)
  from keys_ok_distinct [OF this] have d: "distinct (map k_ID (Keys s))" by blast
  from find_distinct [OF this assms(2)] show ?thesis by (simp add: Set_Find_def)
qed

text \<open>
  C32 (sealed values). With AES-GCM opening what it sealed and adding 16 bytes, a value sealed under
  any key of a valid keyring opens to the sealed plaintext, under the same purpose and associated
  data, for as long as the keyring holds the key, whatever other keys it holds.
\<close>

theorem seal_open_round_trip:
  assumes "Set_Validate from_seed s role = None" and "k \<in> set (Keys s)"
    and "Seal lib (Some nonce) k purpose plain aad = Inr sealed" and "length nonce = 12"
    and "length sealed \<le> 8192"
    and "\<And>key n p a. gcm_Open lib key n (gcm_Seal lib key n p a) a = Some p"
    and "\<And>key n p a. length (gcm_Seal lib key n p a) = length p + 16"
  shows "Set_Open lib s purpose sealed aad legacy = Inr plain"
proof -
  from assms(3) obtain key where key: "purpose_key k purpose = Some key" "aead_ok key"
      and sealed: "sealed = k_ID k @ CHR ''.'' #
        raw_url_encode (nonce @ gcm_Seal lib key nonce plain (bound_aad purpose (k_ID k) aad))"
    by (auto simp: Seal_def split: option.splits if_splits)
  from assms(1,2) have "idPattern (k_ID k)"
    by (auto simp: Set_Validate_def dest: keys_ok_id split: if_splits)
  then have "cut_on (CHR ''.'') sealed = (k_ID k,
      raw_url_encode (nonce @ gcm_Seal lib key nonce plain (bound_aad purpose (k_ID k) aad)), True)"
    unfolding sealed by (intro cut_on_first idPattern_no_dot)
  with key assms(4-7) Set_Find_member [OF assms(1,2)] show ?thesis
    by (simp add: Set_Open_def Let_def)
qed

definition demo_gcm :: GcmLib where
  "demo_gcm = \<lparr>gcm_Seal = \<lambda>key n p a. p @ replicate 16 (CHR ''t''),
     gcm_Open = \<lambda>key n c a. Some (take (length c - 16) c)\<rparr>"

theorem seal_open_round_trip_witness:
  "\<exists>sealed. Seal demo_gcm (Some (replicate 12 (CHR ''n''))) (demo_key ''v1'' 0) ''return'' ''hi'' ''aad'' = Inr sealed \<and>
     Set_Open demo_gcm demo_set ''return'' sealed ''aad'' [] = Inr ''hi''"
proof -
  let ?data = "replicate 12 (CHR ''n'') @ ''hi'' @ replicate 16 (CHR ''t'')"
  have s: "Seal demo_gcm (Some (replicate 12 (CHR ''n''))) (demo_key ''v1'' 0) ''return'' ''hi'' ''aad'' =
      Inr (''v1.'' @ raw_url_encode ?data)"
    by (simp add: Seal_def purpose_key_def demo_key_def aead_ok_def demo_gcm_def)
  have "length (raw_url_encode x) \<le> 4 * length x" for x
    by (induction url_alphabet False x rule: b64_encode.induct) auto
  from this [of ?data] have "length (''v1.'' @ raw_url_encode ?data) \<le> 8192" by simp
  with seal_open_round_trip [OF demo_set_valid _ s, of "[]"]
  have "Set_Open demo_gcm demo_set ''return'' (''v1.'' @ raw_url_encode ?data) ''aad'' [] = Inr ''hi''"
    by (simp add: Keys_def demo_set_def demo_gcm_def)
  with s show ?thesis by blast
qed



section \<open>Rotation\<close>

lemma Set_ValidateD:
  assumes "Set_Validate from_seed s role = None"
  shows "keys_ok from_seed role [] (Keys s)" and "1 \<le> ks_Generation s" and "ks_Generation s < 9007199254740990"
    and "ks_Phase s = ''stable'' \<or> ks_Phase s = ''staged'' \<or> ks_Phase s = ''active''"
    and "(ks_Phase s = ''staged'') = (ks_Next s \<noteq> None)" and "(ks_Phase s = ''active'') = (ks_Previous s \<noteq> None)"
    and "ks_Previous s = Some p \<Longrightarrow> k_Since p < k_Since (ks_Current s) \<and> k_Since (ks_Current s) \<noteq> 0"
  using assms by (auto simp: Set_Validate_def split: if_splits option.splits)

lemma current_since_range:
  assumes "Set_Validate from_seed s role = None"
  shows "0 \<le> k_Since (ks_Current s) \<and> k_Since (ks_Current s) < 9007199254740990"
  using Set_ValidateD(1) [OF assms] by (auto simp: Keys_def split: if_splits)

lemma Overlap_ms: "Overlap_Milliseconds = 86430000"
  by (simp add: Overlap_Milliseconds_def Overlap_def Second_def)

text \<open>What each accepted operation does to a valid keyring.\<close>

lemma rotate_cases:
  assumes "Set_Validate from_seed keys ''owner'' = None" and "rotate operation keys acks er now fresh = Inr (keys', changed)"
    and "operation \<in> {''stage'', ''activate'', ''retire'', ''revoke''}" and "0 \<le> now" and "now < 2 ^ 62"
  obtains (same) "keys' = keys" "\<not> changed"
  | (staged) k where "operation = ''stage''" "ks_Phase keys = ''stable''" "fresh = Some k" "changed"
      "keys' = keys\<lparr>ks_Next := Some k, ks_Generation := ks_Generation keys + 1, ks_Phase := ''staged''\<rparr>"
  | (active) k where "operation = ''activate''" "ks_Phase keys = ''staged''" "ks_Next keys = Some k" "changed" "acks = 2"
      "k_Since (ks_Current keys) < now + 30000"
      "keys' = keys\<lparr>ks_Previous := Some (ks_Current keys), ks_Current := k\<lparr>k_Since := now + 30000\<rparr>, ks_Next := None,
        ks_Generation := ks_Generation keys + 1, ks_Phase := ''active''\<rparr>"
  | (retired) p where "operation = ''retire'' \<or> operation = ''revoke''" "ks_Phase keys = ''active''"
      "ks_Previous keys = Some p" "changed" "acks = 2"
      "operation = ''retire'' \<Longrightarrow> k_Since (ks_Current keys) + 86430000 \<le> now"
      "keys' = keys\<lparr>ks_Previous := None, ks_Generation := ks_Generation keys + 1, ks_Phase := ''stable''\<rparr>"
proof -
  note v = Set_ValidateD [OF assms(1)] current_since_range [OF assms(1)]
  have gen: "i64 (ks_Generation keys + 1) = ks_Generation keys + 1" using v(2,3) by (simp add: i64_id)
  have time: "i64 (now + 30000) = now + 30000" using assms(4,5) by (simp add: i64_id)
  have since: "i64 (k_Since (ks_Current keys) + Overlap_Milliseconds) = k_Since (ks_Current keys) + 86430000"
    using v(8) by (simp add: i64_id Overlap_ms)
  from assms(3) consider "operation = ''stage''" | "operation = ''activate''"
    | "operation = ''retire'' \<or> operation = ''revoke''" by blast
  then show ?thesis
  proof cases
    case 1
    with assms(2) v(4) same staged show ?thesis
      by (auto simp: rotate_def gen split: if_splits option.splits)
  next
    case 2
    with assms(2) v(4,5) same active show ?thesis
      by (auto simp: rotate_def gen time Let_def split: if_splits option.splits)
  next
    case 3
    then have op: "operation \<noteq> ''stage''" "operation \<noteq> ''activate''" by auto
    show ?thesis
    proof (cases "ks_Phase keys = ''stable''")
      case True
      with op assms(2) same show ?thesis by (simp add: rotate_def)
    next
      case False
      with op assms(2) have r: "ks_Phase keys = ''active''" "acks = 2" "changed"
          "operation \<noteq> ''revoke'' \<Longrightarrow> k_Since (ks_Current keys) + 86430000 \<le> now"
          "keys' = keys\<lparr>ks_Previous := None, ks_Generation := ks_Generation keys + 1, ks_Phase := ''stable''\<rparr>"
        by (auto simp: rotate_def gen since split: if_splits)
      moreover from r(1) v(6) obtain p where "ks_Previous keys = Some p" by auto
      ultimately show ?thesis using 3 retired [of p] by simp
    qed
  qed
qed

text \<open>
  C34 (rotation). Every accepted rotation step takes a valid owner keyring to a valid owner keyring,
  one generation up, provided a generated key is well formed with a new identifier; so the check that
  follows the step never refuses it.
\<close>

theorem rotation_keeps_valid:
  assumes "Set_Validate from_seed keys ''owner'' = None"
    and "rotate operation keys acks er now fresh = Inr (keys', changed)"
    and "operation \<in> set [''stage'', ''activate'', ''retire'', ''revoke'']"
    and "0 \<le> now" and "now < 9007199254710000" and "ks_Generation keys + 1 < 9007199254740990"
    and "\<And>k. fresh = Some k \<Longrightarrow> keys_ok from_seed ''owner'' [] [k] \<and> k_ID k \<noteq> k_ID (ks_Current keys)"
  shows "Set_Validate from_seed keys' ''owner'' = None \<and>
    ks_Generation keys' = ks_Generation keys + (if changed then 1 else 0)"
proof -
  note v = Set_ValidateD [OF assms(1)]
  have ops: "operation \<in> {''stage'', ''activate'', ''retire'', ''revoke''}" using assms(3) by auto
  have "now < 2 ^ 62" using assms(5) by simp
  with assms(1,2) ops assms(4) show ?thesis
  proof (cases rule: rotate_cases)
    case same
    with assms(1) show ?thesis by simp
  next
    case (staged k)
    then have "ks_Previous keys = None" using v(6) by auto
    with staged v(1-3) assms(6,7) show ?thesis
      by (auto simp: Set_Validate_def Keys_def split: if_splits)
  next
    case (active k)
    then have "ks_Previous keys = None" using v(6) by auto
    with active v(1-3) assms(4-6) show ?thesis
      by (auto simp: Set_Validate_def Keys_def key_ok_def split: if_splits)
  next
    case (retired p)
    then have "ks_Next keys = None" using v(5) by auto
    with retired v(1-3) assms(6) show ?thesis
      by (auto simp: Set_Validate_def Keys_def split: if_splits)
  qed
qed

theorem rotation_keeps_valid_witness:
  "\<exists>keys'. rotate ''stage'' demo_set 0 False 5 (Some (demo_key (replicate 32 (CHR ''0'')) 0)) = Inr (keys', True) \<and>
     Set_Validate demo_seed keys' ''owner'' = None"
proof -
  let ?k = "demo_key (replicate 32 (CHR ''0'')) 0"
  have hex: "is_hex (CHR ''0'')" by code_simp
  have new: "replicate 32 (CHR ''0'') \<noteq> ''v1''" by (simp add: numeral_eq_Suc)
  have ok: "keys_ok demo_seed ''owner'' [] [?k]"
    using hex by (simp add: demo_key_def idPattern_def list_all_iff key_ok_def private_ok_def secret_ok_def demo_seed_def
        flip: replicate_add)
  obtain keys' where r: "rotate ''stage'' demo_set 0 False 5 (Some ?k) = Inr (keys', True)"
    by (simp add: rotate_def demo_set_def)
  have "Set_Validate demo_seed keys' ''owner'' = None"
    using rotation_keeps_valid [OF demo_set_valid r] ok new
    by (simp add: demo_set_def demo_key_def del: keys_ok.simps)
  with r show ?thesis by blast
qed

text \<open>
  C35 (stable signers). An ordinary rotation step never changes the key that signs for a promotion
  which may still be live, that is one at most an hour and thirty seconds old and recorded by a clock
  at most thirty seconds ahead of the database: repeating a claim gives the same token before and
  after the step.
\<close>

theorem rotation_keeps_signers:
  assumes "Set_Validate from_seed keys ''owner'' = None"
    and "rotate operation keys acks er now fresh = Inr (keys', changed)"
    and "operation \<in> set [''stage'', ''activate'', ''retire'']"
    and "0 \<le> now" and "now < 2 ^ 62" and "now - 3630000 < promoted" and "promoted < now + 30000"
  shows "AdmissionAt keys' promoted = AdmissionAt keys promoted"
proof -
  have ops: "operation \<in> {''stage'', ''activate'', ''retire'', ''revoke''}" "operation \<noteq> ''revoke''"
    using assms(3) by auto
  note v = Set_ValidateD [OF assms(1)]
  from assms(1,2) ops(1) assms(4,5) show ?thesis
  proof (cases rule: rotate_cases)
    case (active k)
    then have "ks_Previous keys = None" using v(6) by auto
    with active assms(7) show ?thesis by (simp add: AdmissionAt_def)
  next
    case (retired p)
    with ops(2) assms(6) show ?thesis by (auto simp: AdmissionAt_def)
  qed (auto simp: AdmissionAt_def split: option.split)
qed

theorem rotation_keeps_signers_witness:
  "\<exists>keys'. rotate ''activate'' (demo_set\<lparr>ks_Phase := ''staged'', ks_Next := Some (demo_key (replicate 32 (CHR ''0'')) 0)\<rparr>)
       2 False 5 None = Inr (keys', True) \<and> AdmissionAt keys' 30000 = demo_key ''v1'' 0 \<and>
     AdmissionAt keys' 30005 \<noteq> demo_key ''v1'' 0"
proof -
  let ?s = "demo_set\<lparr>ks_Phase := ''staged'', ks_Next := Some (demo_key (replicate 32 (CHR ''0'')) 0)\<rparr>"
  have hex: "is_hex (CHR ''0'')" by code_simp
  have new: "replicate 32 (CHR ''0'') \<noteq> ''v1''" by (simp add: numeral_eq_Suc)
  have v: "Set_Validate demo_seed ?s ''owner'' = None"
    using hex new by (simp add: Set_Validate_def demo_set_def Keys_def demo_key_def idPattern_def key_ok_def
        private_ok_def secret_ok_def demo_seed_def list_all_iff flip: replicate_add)
  obtain keys' where r: "rotate ''activate'' ?s 2 False 5 None = Inr (keys', True)" and
      late: "AdmissionAt keys' 30005 \<noteq> demo_key ''v1'' 0"
    by (simp add: rotate_def demo_set_def demo_key_def i64_id AdmissionAt_def Let_def)
  have "AdmissionAt keys' 30000 = AdmissionAt ?s 30000"
    by (rule rotation_keeps_signers [OF v r]) auto
  with r late show ?thesis by (auto simp: AdmissionAt_def demo_set_def)
qed

end
