(* ===== verification/WR_Auth.thy ===== *)
theory WR_Auth
  imports WR_Control "HOL-Library.Word"
begin

unbundle bit_operations_syntax

text \<open>
  The Backoffice authorization primitives (\<open>internal/adminauth\<close>): roles and actions (\<open>policy.go\<close>),
  session checks (\<open>session.go\<close>), the origin and CSRF check of mutations (\<open>csrf.go\<close>), time-based one-time
  codes (\<open>totp.go\<close>), password records (\<open>password.go\<close>) and the calibration of their cost
  (\<open>calibration.go\<close>). SHA-256, HMAC-SHA1, Argon2id and the IP parser are parameters; random bytes,
  cancellation of a context and the number of busy hashing slots are inputs. Instants are integers in
  nanoseconds since 1970.
\<close>

section \<open>Roles and actions (policy.go)\<close>

type_synonym Role = string
type_synonym Action = string

abbreviation Admin :: Role where "Admin \<equiv> ''admin''"
abbreviation Operator :: Role where "Operator \<equiv> ''operator''"
abbreviation Viewer :: Role where "Viewer \<equiv> ''viewer''"

abbreviation ReadDashboard :: Action where "ReadDashboard \<equiv> ''dashboard.read''"
abbreviation ReadConfig :: Action where "ReadConfig \<equiv> ''config.read''"
abbreviation WriteConfig :: Action where "WriteConfig \<equiv> ''config.write''"
abbreviation ReadRuntime :: Action where "ReadRuntime \<equiv> ''runtime.read''"
abbreviation OperateRuntime :: Action where "OperateRuntime \<equiv> ''runtime.operate''"
abbreviation InstantOff :: Action where "InstantOff \<equiv> ''runtime.instant_off''"
abbreviation NewEpochAction :: Action where "NewEpochAction \<equiv> ''runtime.new_epoch''"
abbreviation ReadEvents :: Action where "ReadEvents \<equiv> ''events.read''"
abbreviation WriteEvents :: Action where "WriteEvents \<equiv> ''events.write''"
abbreviation ReadLab :: Action where "ReadLab \<equiv> ''lab.read''"
abbreviation RunLab :: Action where "RunLab \<equiv> ''lab.run''"
abbreviation ReadUsers :: Action where "ReadUsers \<equiv> ''users.read''"
abbreviation WriteUsers :: Action where "WriteUsers \<equiv> ''users.write''"
abbreviation ReadSecurity :: Action where "ReadSecurity \<equiv> ''security.read''"
abbreviation WriteTOTPPolicy :: Action where "WriteTOTPPolicy \<equiv> ''security.totp.write''"
abbreviation ResetUserTOTP :: Action where "ResetUserTOTP \<equiv> ''security.totp.reset''"
abbreviation RotateKeys :: Action where "RotateKeys \<equiv> ''security.keys.rotate''"
abbreviation ReadAudit :: Action where "ReadAudit \<equiv> ''audit.read''"
abbreviation ReadInstall :: Action where "ReadInstall \<equiv> ''install.read''"

record AdminCapability =
  ac_Action :: Action
  RequiresReauthentication :: bool

record rule =
  ru_action :: Action
  ru_roles :: "8 word"
  ru_reauthenticate :: bool

definition adminBit :: "8 word" where "adminBit = 1"
definition operatorBit :: "8 word" where "operatorBit = 2"
definition viewerBit :: "8 word" where "viewerBit = 4"
definition allRoles :: "8 word" where "allRoles = adminBit OR operatorBit OR viewerBit"

definition mk_rule :: "Action \<times> 8 word \<times> bool \<Rightarrow> rule" where
  "mk_rule = (\<lambda>(a, r, b). \<lparr>ru_action = a, ru_roles = r, ru_reauthenticate = b\<rparr>)"

definition rules :: "rule list" where
  "rules = map mk_rule
     [(ReadDashboard, allRoles, False), (ReadConfig, allRoles, False),
      (WriteConfig, adminBit, False), (ReadRuntime, allRoles, False),
      (OperateRuntime, adminBit OR operatorBit, False), (InstantOff, adminBit, True),
      (NewEpochAction, adminBit, True), (ReadEvents, allRoles, False),
      (WriteEvents, adminBit OR operatorBit, False), (ReadLab, allRoles, False),
      (RunLab, adminBit OR operatorBit, False), (ReadUsers, adminBit, False),
      (WriteUsers, adminBit, True), (ReadSecurity, adminBit, False),
      (WriteTOTPPolicy, adminBit, True), (ResetUserTOTP, adminBit, True),
      (RotateKeys, adminBit, True), (ReadAudit, allRoles, False), (ReadInstall, allRoles, False)]"

definition roleBit :: "Role \<Rightarrow> 8 word" where
  "roleBit role = (if role = Admin then adminBit else if role = Operator then operatorBit
     else if role = Viewer then viewerBit else 0)"

text \<open>\<open>None\<close> is the answer \<open>Capability{}, false\<close>.\<close>

definition Requirement :: "Role \<Rightarrow> Action \<Rightarrow> AdminCapability option" where
  "Requirement role action =
     (case find (\<lambda>rule. ru_action rule = action \<and> ru_roles rule AND roleBit role \<noteq> 0) rules of
        None \<Rightarrow> None
      | Some rule \<Rightarrow> Some \<lparr>ac_Action = action, RequiresReauthentication = ru_reauthenticate rule\<rparr>)"

definition AdminCapabilities :: "Role \<Rightarrow> AdminCapability list" where
  "AdminCapabilities role =
     List.map_filter (\<lambda>rule. if ru_action rule = RotateKeys then None else Requirement role (ru_action rule)) rules"

section \<open>Sessions (session.go)\<close>

datatype auth_error =
    ErrUnauthenticated | ErrForbidden | ErrReauthenticationRequired | ErrPolicyLocked | ErrInvalidPolicy
  | ErrInvalidOrReplayed | ErrAuthUnavailable

record AuthPolicy =
  po_Mode :: string
  TOTPEnabled :: bool
  po_Version :: nat

definition DefaultPolicy :: AuthPolicy where
  "DefaultPolicy = \<lparr>po_Mode = ''configurable'', TOTPEnabled = True, po_Version = 1\<rparr>"

definition AuthPolicy_Validate :: "AuthPolicy \<Rightarrow> auth_error option" where
  "AuthPolicy_Validate p =
     (if po_Version p = 0 \<or> (po_Mode p \<noteq> ''configurable'' \<and> po_Mode p \<noteq> ''forced_on'') then Some ErrInvalidPolicy
      else if po_Mode p = ''forced_on'' \<and> \<not> TOTPEnabled p then Some ErrPolicyLocked
      else None)"

record Account =
  a_ID :: string
  a_Role :: Role
  Enabled :: bool
  SessionVersion :: nat
  TOTPEnrolled :: bool

record Session =
  ss_UserID :: string
  AuthPolicyVersion :: nat
  UserSessionVersion :: nat
  MFAVerified :: bool
  ss_CreatedAt :: int
  ss_LastSeenAt :: int

definition minutes :: "int \<Rightarrow> int" where "minutes n = n * 60000000000"

definition SessionIdleTTL :: int where "SessionIdleTTL = minutes 30"
definition SessionAbsoluteTTL :: int where "SessionAbsoluteTTL = hours 8"

text \<open>The zero \<open>time.Time\<close>, the first of January of year 1.\<close>

definition zero_time :: int where "zero_time = - 62135596800000000000"

definition CheckSession :: "Account \<Rightarrow> Session \<Rightarrow> AuthPolicy \<Rightarrow> int \<Rightarrow> auth_error option" where
  "CheckSession account session policy now =
     (if AuthPolicy_Validate policy \<noteq> None \<or> a_ID account = [] \<or> \<not> Enabled account \<or> roleBit (a_Role account) = 0 \<or>
         SessionVersion account = 0 \<or> ss_UserID session \<noteq> a_ID account \<or>
         AuthPolicyVersion session \<noteq> po_Version policy \<or> UserSessionVersion session \<noteq> SessionVersion account \<or>
         ss_CreatedAt session = zero_time \<or> ss_LastSeenAt session < ss_CreatedAt session \<or> now < ss_LastSeenAt session \<or>
         \<not> now < ss_CreatedAt session + SessionAbsoluteTTL \<or> \<not> now < ss_LastSeenAt session + SessionIdleTTL
      then Some ErrUnauthenticated
      else if TOTPEnabled policy \<and> (\<not> TOTPEnrolled account \<or> \<not> MFAVerified session) then Some ErrUnauthenticated
      else None)"

definition CheckOrdinaryAction ::
  "Account \<Rightarrow> Session \<Rightarrow> AuthPolicy \<Rightarrow> Action \<Rightarrow> int \<Rightarrow> auth_error option" where
  "CheckOrdinaryAction account session policy action now =
     (case CheckSession account session policy now of
        Some e \<Rightarrow> Some e
      | None \<Rightarrow>
          (case Requirement (a_Role account) action of
             None \<Rightarrow> Some ErrForbidden
           | Some capability \<Rightarrow>
               if RequiresReauthentication capability then Some ErrReauthenticationRequired else None))"

section \<open>Origin and CSRF (csrf.go)\<close>

text \<open>
  A request as far as the services read it. Header fields are listed under their canonical names in
  the order of arrival; \<open>Values\<close> lists the values of a name, \<open>Get\<close> is the first one or empty.
\<close>

record HttpRequest =
  rq_Method :: string
  rq_Header :: "(string \<times> string) list"
  rq_RemoteAddr :: string

definition Header_Values :: "HttpRequest \<Rightarrow> string \<Rightarrow> string list" where
  "Header_Values r name = map snd (filter (\<lambda>(k, v). k = name) (rq_Header r))"

definition Header_Get :: "HttpRequest \<Rightarrow> string \<Rightarrow> string" where
  "Header_Get r name = (case Header_Values r name of [] \<Rightarrow> [] | v # _ \<Rightarrow> v)"

text \<open>
  \<open>loopback\<close> tells of a host text whether it is a literal loopback address. The byte test agrees with
  the rune test of the source, whose three conditions hold of ASCII runes only.
\<close>

definition NewOriginPolicy ::
  "(string \<Rightarrow> URL option) \<Rightarrow> (string \<Rightarrow> bool) \<Rightarrow> string \<Rightarrow> bool \<Rightarrow> auth_error + string" where
  "NewOriginPolicy parse loopback origin allowLoopbackHTTP =
     (case parse origin of
        None \<Rightarrow> Inl ErrForbidden
      | Some u \<Rightarrow>
          if u_Host u = [] \<or> u_User u \<or> u_Path u \<noteq> [] \<or> u_RawQuery u \<noteq> [] \<or> u_ForceQuery u \<or> u_Fragment u \<noteq> []
          then Inl ErrForbidden
          else if list_ex (\<lambda>c. byte c \<le> 32 \<or> byte c = 127 \<or> byte c = 92) origin then Inl ErrForbidden
          else if u_Scheme u \<noteq> ''https'' \<and>
            (u_Scheme u \<noteq> ''http'' \<or> \<not> allowLoopbackHTTP \<or> \<not> loopback (URL_Hostname u)) then Inl ErrForbidden
          else Inr origin)"

text \<open>A token and its hash, from the 32 bytes the random source gave; \<open>None\<close> when it failed.\<close>

definition NewCSRFToken :: "(string \<Rightarrow> string) \<Rightarrow> string option \<Rightarrow> (string \<times> string) option" where
  "NewCSRFToken sha random =
     (case random of None \<Rightarrow> None | Some raw \<Rightarrow> let token = raw_url_encode raw in Some (token, sha token))"

definition zero_hash :: string where "zero_hash = replicate 32 (CHR 0x00)"

definition CheckMutation :: "(string \<Rightarrow> string) \<Rightarrow> string \<Rightarrow> HttpRequest \<Rightarrow> string \<Rightarrow> auth_error option" where
  "CheckMutation sha origin r sessionTokenHash =
     (if origin = [] \<or> sessionTokenHash = zero_hash then Some ErrForbidden
      else if rq_Method r \<notin> set [''POST'', ''PUT'', ''PATCH'', ''DELETE''] then Some ErrForbidden
      else if length (Header_Values r ''Origin'') \<noteq> 1 \<or> Header_Get r ''Origin'' \<noteq> origin \<or>
              length (Header_Values r ''X-Csrf-Token'') \<noteq> 1 then Some ErrForbidden
      else
        let token = Header_Get r ''X-Csrf-Token'' in
        if length token \<noteq> 43 then Some ErrForbidden
        else case raw_url_decode_strict token of
          None \<Rightarrow> Some ErrForbidden
        | Some decoded \<Rightarrow>
            if length decoded \<noteq> 32 then Some ErrForbidden
            else if sha token \<noteq> sessionTokenHash then Some ErrForbidden else None)"

section \<open>One-time codes (totp.go)\<close>

definition totpPeriod :: int where "totpPeriod = 30"
definition totpDigits :: nat where "totpDigits = 6"

record Secret =
  sec_key :: string
  sec_valid :: bool

definition NewSecret :: "string option \<Rightarrow> Secret option" where
  "NewSecret random = map_option (\<lambda>k. \<lparr>sec_key = k, sec_valid = True\<rparr>) random"

text \<open>
  \<open>encoding/base32\<close> without padding: eight characters for five bytes. The code encodes and accepts 20
  bytes only, which are exactly four full groups.
\<close>

definition b32_alphabet :: string where
  "b32_alphabet = ''ABCDEFGHIJKLMNOPQRSTUVWXYZ234567''"

definition b32_char :: "nat \<Rightarrow> char" where
  "b32_char n = b32_alphabet ! (n mod 32)"

fun b32_encode :: "string \<Rightarrow> string" where
  "b32_encode (a # b # c # d # e # rest) =
     map b32_char [byte a div 8, byte a * 4 + byte b div 64, byte b div 2, byte b * 16 + byte c div 16,
       byte c * 2 + byte d div 128, byte d div 4, byte d * 8 + byte e div 32, byte e] @ b32_encode rest"
| "b32_encode rest = []"

definition chr_of :: "nat \<Rightarrow> char" where
  "chr_of n = char_of (n mod 256)"

fun b32_bytes :: "nat list \<Rightarrow> string" where
  "b32_bytes (a # b # c # d # e # f # g # h # rest) =
     map chr_of [a * 8 + b div 4, b * 64 + c * 2 + d div 16, d * 16 + e div 2, e * 128 + f * 4 + g div 8, g * 32 + h]
       @ b32_bytes rest"
| "b32_bytes rest = []"

text \<open>
  The decoder on a text of 32 characters: a line break is skipped and leaves fewer than 32 digits,
  hence fewer than 20 bytes, and every other foreign character is an error, so both are refused.
\<close>

definition b32_decode20 :: "string \<Rightarrow> string option" where
  "b32_decode20 s =
     (if length s = 32 \<and> list_all (\<lambda>c. c \<in> set b32_alphabet) s
      then Some (b32_bytes (map (\<lambda>c. the (index_of b32_alphabet c)) s)) else None)"

definition to_upper :: "char \<Rightarrow> char" where
  "to_upper c = (if is_lower c then char_of (byte c - 32) else c)"

definition ProvisioningBase32 :: "Secret \<Rightarrow> auth_error + string" where
  "ProvisioningBase32 s = (if \<not> sec_valid s then Inl ErrInvalidOrReplayed else Inr (b32_encode (sec_key s)))"

text \<open>
  \<open>strings.ToUpper\<close> differs from the bytewise map on non-ASCII text only, where it leaves foreign
  characters or shortens the text; both are refused either way.
\<close>

definition ParseSecret :: "string \<Rightarrow> auth_error + Secret" where
  "ParseSecret value =
     (if length value \<noteq> 32 then Inl ErrInvalidOrReplayed
      else case b32_decode20 (map to_upper value) of
        None \<Rightarrow> Inl ErrInvalidOrReplayed
      | Some decoded \<Rightarrow> Inr \<lparr>sec_key = decoded, sec_valid = True\<rparr>)"

record CredentialRef =
  cf_UserID :: string
  cf_Version :: nat

definition CredentialRef_valid :: "CredentialRef \<Rightarrow> bool" where
  "CredentialRef_valid r \<longleftrightarrow> \<not> (length (cf_UserID r) = 0 \<or> length (cf_UserID r) > 128 \<or> cf_Version r = 0) \<and>
     list_all (\<lambda>c. is_alnum c \<or> c = CHR ''-'' \<or> c = CHR ''_'') (cf_UserID r)"

definition be64 :: "nat \<Rightarrow> string" where
  "be64 n = map (\<lambda>i. chr_of (n div 256 ^ i)) [7, 6, 5, 4, 3, 2, 1, 0]"

text \<open>\<open>%0*d\<close>: decimal text filled with zeros on the left up to a width.\<close>

definition pad_dec :: "nat \<Rightarrow> nat \<Rightarrow> string" where
  "pad_dec width n = replicate (width - length (dec n)) (CHR ''0'') @ dec n"

definition hotp :: "(string \<Rightarrow> string \<Rightarrow> string) \<Rightarrow> string \<Rightarrow> nat \<Rightarrow> nat \<Rightarrow> string" where
  "hotp hmac key counter digits =
     (let digest = hmac key (be64 counter);
          offset = byte (last digest) mod 16;
          value = be32 (take 4 (drop offset digest)) mod 2 ^ 31;
          modulus = (if digits = 8 then 100000000 else 1000000)
      in pad_dec digits (value mod modulus))"

definition unix :: "int \<Rightarrow> int" where "unix t = t div 1000000000"

text \<open>
  The code of every step in the window is compared; the newest matching counter is kept. The
  counters are far below the range of \<open>int64\<close>.
\<close>

definition matchCounter :: "(string \<Rightarrow> string \<Rightarrow> string) \<Rightarrow> Secret \<Rightarrow> string \<Rightarrow> int \<Rightarrow> nat option" where
  "matchCounter hmac secret code now =
     (if \<not> sec_valid secret \<or> length code \<noteq> totpDigits \<or> unix now < 0 then None
      else if \<not> list_all is_digit code then None
      else
        let current = unix now div totpPeriod in
        fold (\<lambda>delta matched.
            if current = 0 \<and> delta = -1 then matched
            else
              let counter = nat (current + delta) in
              if hotp hmac (sec_key secret) counter totpDigits = code then Some counter else matched)
          [-1, 0, 1] None)"

text \<open>
  \<open>VerifyAndConsume\<close> over the operation of a counter store: it changes the state of the store and
  answers an error, or whether the counter was accepted.
\<close>

definition VerifyAndConsume ::
  "(string \<Rightarrow> string \<Rightarrow> string) \<Rightarrow> bool \<Rightarrow> CredentialRef \<Rightarrow> Secret \<Rightarrow> string \<Rightarrow> int \<Rightarrow>
   (CredentialRef \<Rightarrow> nat \<Rightarrow> 's \<Rightarrow> ('e + bool) \<times> 's) \<Rightarrow> 's \<Rightarrow> auth_error option \<times> 's" where
  "VerifyAndConsume hmac cancelled ref secret code now ConsumeCounter s =
     (if cancelled then (Some ErrAuthUnavailable, s)
      else if \<not> CredentialRef_valid ref then (Some ErrInvalidOrReplayed, s)
      else case matchCounter hmac secret code now of
        None \<Rightarrow> (Some ErrInvalidOrReplayed, s)
      | Some counter \<Rightarrow>
          (case ConsumeCounter ref counter s of
             (Inl _, s') \<Rightarrow> (Some ErrAuthUnavailable, s')
           | (Inr accepted, s') \<Rightarrow> (if \<not> accepted then Some ErrInvalidOrReplayed else None, s')))"

section \<open>Passwords (password.go)\<close>

definition PasswordMemoryKiB :: nat where "PasswordMemoryKiB = 64 * 1024"
definition MaxPasswordBytes :: nat where "MaxPasswordBytes = 1024"

text \<open>
  What a derivation meets: cancellation of the context before and after it, and the number of the two
  slots of the process that are taken.
\<close>

record Derivation =
  dv_cancelled :: bool
  dv_busy :: nat
  dv_cancelled_after :: bool

text \<open>\<open>argon2.IDKey\<close> as a parameter: password, salt, iterations, memory, threads, length.\<close>

type_synonym argon = "string \<Rightarrow> string \<Rightarrow> nat \<Rightarrow> nat \<Rightarrow> nat \<Rightarrow> nat \<Rightarrow> string"

definition ValidLoginPassword :: "string \<Rightarrow> bool" where
  "ValidLoginPassword password \<longleftrightarrow>
     length password > 0 \<and> length password \<le> MaxPasswordBytes \<and> utf8_valid password"

definition derivePassword :: "argon \<Rightarrow> Derivation \<Rightarrow> string \<Rightarrow> string \<Rightarrow> nat \<Rightarrow> auth_error + string" where
  "derivePassword IDKey dv password salt iterations =
     (if dv_cancelled dv then Inl ErrAuthUnavailable
      else if dv_busy dv \<ge> 2 then Inl ErrAuthUnavailable
      else
        let result = IDKey password salt iterations PasswordMemoryKiB 1 32 in
        if dv_cancelled_after dv then Inl ErrAuthUnavailable else Inr result)"

definition passwordEncoding :: "nat \<Rightarrow> string \<Rightarrow> string \<Rightarrow> string" where
  "passwordEncoding iterations salt hash =
     ''wrp1$argon2id$v=19$m=65536,t='' @ dec iterations @ '',p=1$'' @ raw_std_encode salt @ ''$'' @ raw_std_encode hash"

text \<open>\<open>strconv.ParseUint(n, 10, 32)\<close>.\<close>

definition parse_uint32 :: "string \<Rightarrow> nat option" where
  "parse_uint32 s = (if s \<noteq> [] \<and> list_all is_digit s \<and> undec s < 2 ^ 32 then Some (undec s) else None)"

definition parsePassword :: "string \<Rightarrow> (nat \<times> string \<times> string) option" where
  "parsePassword value =
     (if length value > 160 then None
      else case split_on (CHR ''$'') value of
        [p0, p1, p2, p3, p4, p5] \<Rightarrow>
          if p0 \<noteq> ''wrp1'' \<or> p1 \<noteq> ''argon2id'' \<or> p2 \<noteq> ''v=19'' then None
          else (case parse_uint32 (trim_suffix (trim_prefix p3 ''m=65536,t='') '',p=1'') of
              None \<Rightarrow> None
            | Some parsed \<Rightarrow>
                if parsed < 2 \<or> parsed > 10 then None
                else (case raw_std_decode_strict p4 of
                    None \<Rightarrow> None
                  | Some salt \<Rightarrow>
                      if length salt \<noteq> 16 then None
                      else (case raw_std_decode_strict p5 of
                          None \<Rightarrow> None
                        | Some key \<Rightarrow>
                            if length key \<noteq> 32 then None
                            else if passwordEncoding parsed salt key \<noteq> value then None
                            else Some (parsed, salt, key))))
      | _ \<Rightarrow> None)"

record PasswordHasher =
  ph_iterations :: nat
  ph_dummy :: string

text \<open>
  \<open>Hash\<close> and \<open>Verify\<close> of a hasher with fixed parameters; a nil hasher has iterations 0 here, which
  both refuse the same way.
\<close>

definition Hash :: "argon \<Rightarrow> Derivation \<Rightarrow> string option \<Rightarrow> PasswordHasher \<Rightarrow> string \<Rightarrow> auth_error + string" where
  "Hash IDKey dv random h password =
     (if ph_iterations h < 2 \<or> ph_iterations h > 10 then Inl ErrAuthUnavailable
      else if \<not> ValidLoginPassword password \<or> length (the (utf8_runes password)) < 15 then Inl ErrUnauthenticated
      else case random of
        None \<Rightarrow> Inl ErrAuthUnavailable
      | Some salt \<Rightarrow>
          (case derivePassword IDKey dv password salt (ph_iterations h) of
             Inl e \<Rightarrow> Inl e
           | Inr key \<Rightarrow> Inr (passwordEncoding (ph_iterations h) salt key)))"

definition NewPasswordHasher ::
  "argon \<Rightarrow> Derivation \<Rightarrow> string option \<Rightarrow> string option \<Rightarrow> nat \<Rightarrow> auth_error + PasswordHasher" where
  "NewPasswordHasher IDKey dv random salt iterations =
     (if iterations < 2 \<or> iterations > 10 then Inl ErrAuthUnavailable
      else case random of
        None \<Rightarrow> Inl ErrAuthUnavailable
      | Some raw \<Rightarrow>
          (case Hash IDKey dv salt \<lparr>ph_iterations = iterations, ph_dummy = []\<rparr> (raw_url_encode raw) of
             Inl e \<Rightarrow> Inl e
           | Inr dummy \<Rightarrow> Inr \<lparr>ph_iterations = iterations, ph_dummy = dummy\<rparr>))"

text \<open>
  The second component is the cost of the derivation that was run, as the arguments Argon2 was called
  with, and \<open>None\<close> when it was not reached.
\<close>

definition password_Verify ::
  "argon \<Rightarrow> Derivation \<Rightarrow> PasswordHasher \<Rightarrow> string \<Rightarrow> string \<Rightarrow> (auth_error + bool) \<times> nat option" where
  "password_Verify IDKey dv h password stored =
     (if ph_iterations h < 2 \<or> ph_iterations h > 10 \<or> ph_dummy h = [] then (Inl ErrAuthUnavailable, None)
      else if \<not> ValidLoginPassword password then (Inl ErrUnauthenticated, None)
      else
        let parsed = parsePassword stored;
            valid = (case parsed of None \<Rightarrow> False | Some (n, _, _) \<Rightarrow> n = ph_iterations h);
            (iterations, salt, key) =
              (if valid then the parsed
               else case parsePassword (ph_dummy h) of None \<Rightarrow> (0, [], []) | Some d \<Rightarrow> d)
        in case derivePassword IDKey dv password salt iterations of
             Inl e \<Rightarrow> (Inl e, Some iterations)
           | Inr actual \<Rightarrow>
               (if stored \<noteq> [] \<and> \<not> valid then Inl ErrAuthUnavailable else Inr (valid \<and> actual = key),
                Some iterations))"

text \<open>
  \<open>configured\<close>: a hasher over durable parameters keeps the last fixed hasher and builds another one
  when the iterations changed. The arguments are the answer of the source and the inputs of a new
  hasher; the second result is the hasher kept. A failed construction leaves \<open>nil\<close> there.
\<close>

definition configured ::
  "argon \<Rightarrow> Derivation \<Rightarrow> string option \<Rightarrow> string option \<Rightarrow> nat option \<Rightarrow> PasswordHasher option \<Rightarrow>
   (auth_error + PasswordHasher) \<times> PasswordHasher option" where
  "configured IDKey dv random salt source current =
     (case source of
        None \<Rightarrow> (Inl ErrAuthUnavailable, current)
      | Some n \<Rightarrow>
          if n < 2 \<or> n > 10 then (Inl ErrAuthUnavailable, current)
          else (case current of
              Some h \<Rightarrow>
                if ph_iterations h = n then (Inr h, current)
                else (case NewPasswordHasher IDKey dv random salt n of
                    Inl e \<Rightarrow> (Inl e, None) | Inr h' \<Rightarrow> (Inr h', Some h'))
            | None \<Rightarrow>
                (case NewPasswordHasher IDKey dv random salt n of
                   Inl e \<Rightarrow> (Inl e, None) | Inr h' \<Rightarrow> (Inr h', Some h'))))"

section \<open>Calibration (calibration.go)\<close>

record CalibrationSample =
  cs_Iterations :: nat
  MedianMS :: int

record Calibration =
  ca_Version :: int
  ca_MemoryKiB :: nat
  ca_Parallelism :: int
  ca_Iterations :: nat
  TargetMet :: bool
  Samples :: "CalibrationSample list"

definition milliseconds :: "int \<Rightarrow> int" where "milliseconds n = n * 1000000"

text \<open>
  \<open>meas k n\<close> is the outcome of the \<open>k\<close>-th measurement of the run, with \<open>n\<close> iterations;
  \<open>expired k\<close> tells whether the context has ended before it. Durations are non-negative, so \<open>div\<close> is the truncation of
  \<open>Milliseconds\<close>.
\<close>

fun three_times ::
  "(nat \<Rightarrow> nat \<Rightarrow> auth_error + int) \<Rightarrow> (nat \<Rightarrow> bool) \<Rightarrow> nat \<Rightarrow> nat \<Rightarrow> nat \<Rightarrow> auth_error + int list" where
  "three_times meas expired k n 0 = Inr []"
| "three_times meas expired k n (Suc i) =
     (if expired k then Inl ErrAuthUnavailable
      else case meas k n of
        Inl e \<Rightarrow> Inl e
      | Inr t \<Rightarrow>
          (case three_times meas expired (Suc k) n i of Inl e \<Rightarrow> Inl e | Inr ts \<Rightarrow> Inr (t # ts)))"

function calibrate_from ::
  "(nat \<Rightarrow> nat \<Rightarrow> auth_error + int) \<Rightarrow> (nat \<Rightarrow> bool) \<Rightarrow> nat \<Rightarrow> nat \<Rightarrow> Calibration \<Rightarrow> auth_error + Calibration" where
  "calibrate_from meas expired k n out =
     (if n > 10 then Inr out
      else case meas k n of
        Inl e \<Rightarrow> Inl e
      | Inr _ \<Rightarrow>
          (case three_times meas expired (Suc k) n 3 of
             Inl e \<Rightarrow> Inl e
           | Inr ts \<Rightarrow>
               let median = sort ts ! 1;
                   out = out\<lparr>Samples := Samples out @ [\<lparr>cs_Iterations = n, MedianMS = median div 1000000\<rparr>]\<rparr>
               in if median \<ge> milliseconds 250 \<and> median \<le> milliseconds 500
                  then Inr (out\<lparr>ca_Iterations := n, TargetMet := True\<rparr>)
                  else if median > milliseconds 500 then Inr out
                  else calibrate_from meas expired (k + 4) (n + 1) out))"
  by pat_completeness auto
termination by (relation "measure (\<lambda>(m, e, k, n, out). 11 - n)") auto

definition calibratePassword ::
  "(nat \<Rightarrow> nat \<Rightarrow> auth_error + int) \<Rightarrow> (nat \<Rightarrow> bool) \<Rightarrow> auth_error + Calibration" where
  "calibratePassword meas expired =
     calibrate_from meas expired 0 2
       \<lparr>ca_Version = 1, ca_MemoryKiB = PasswordMemoryKiB, ca_Parallelism = 1, ca_Iterations = 0,
        TargetMet = False, Samples = []\<rparr>"

declare calibrate_from.simps [simp del]

end
