(* ===== verification/WR_Auth_Props.thy ===== *)
theory WR_Auth_Props
  imports WR_Auth
begin

text \<open>
  What the authorization primitives guarantee: the shape of the role table, when a session is live,
  which one-time codes are accepted and that none is accepted twice, the round trip and the canonical
  form of password records, and the bounds of calibration.
\<close>

section \<open>Roles\<close>

lemma roleBit_cases:
  "roleBit r \<noteq> 0 \<Longrightarrow> r = Admin \<or> r = Operator \<or> r = Viewer"
  by (auto simp: roleBit_def split: if_splits)

lemma Requirement_role: "Requirement r a \<noteq> None \<Longrightarrow> r = Admin \<or> r = Operator \<or> r = Viewer"
  by (rule roleBit_cases) (auto simp: Requirement_def find_Some_iff split: option.splits)

lemmas rule_table = Requirement_def rules_def mk_rule_def roleBit_def adminBit_def operatorBit_def
  viewerBit_def allRoles_def

text \<open>The actions of the table, as an enumeration a proof can go through.\<close>

lemma Requirement_action: "Requirement r a \<noteq> None \<Longrightarrow> a \<in> set (map ru_action rules)"
  by (auto simp: Requirement_def find_Some_iff split: option.splits)

definition requirement_ok :: "Action \<Rightarrow> bool" where
  "requirement_ok a \<longleftrightarrow>
     (Requirement Viewer a = None \<or> Requirement Operator a = Requirement Viewer a) \<and>
     (Requirement Operator a = None \<or> Requirement Admin a = Requirement Operator a) \<and>
     (case Requirement Operator a of None \<Rightarrow> True | Some c \<Rightarrow> \<not> RequiresReauthentication c) \<and>
     (Requirement Viewer a = None \<or> has_suffix a ''.read'') \<and> Requirement Admin a \<noteq> None"

lemma requirement_table: "list_all requirement_ok (map ru_action rules)"
  by code_simp


lemma Requirement_cases:
  assumes "Requirement r a = Some c"
  shows "requirement_ok a" and "ac_Action c = a" and "r \<in> {Admin, Operator, Viewer}"
proof -
  show "requirement_ok a"
    using requirement_table Requirement_action [of r a] assms by (auto simp: list_all_iff)
  show "ac_Action c = a" using assms by (auto simp: Requirement_def split: option.splits)
  show "r \<in> {Admin, Operator, Viewer}" using Requirement_role [of r a] assms by auto
qed

text \<open>
  C36 (authority of ordinary actions). When an ordinary action passes, its session belongs to the
  enabled account, carries the current policy and account versions, is less than eight hours old and
  was used within the last thirty minutes, and is MFA-verified whenever the policy asks for it; the
  action needs no reauthentication, an administrator may do it too, and a viewer only reads.
\<close>

theorem ordinary_action_authority:
  assumes "CheckOrdinaryAction account session policy action now = None"
  shows "Enabled account \<and> ss_UserID session = a_ID account \<and>
    AuthPolicyVersion session = po_Version policy \<and> UserSessionVersion session = SessionVersion account \<and>
    ss_CreatedAt session \<le> now \<and> now < ss_CreatedAt session + hours 8 \<and> now < ss_LastSeenAt session + minutes 30 \<and>
    (TOTPEnabled policy \<longrightarrow> TOTPEnrolled account \<and> MFAVerified session) \<and>
    (\<exists>c. Requirement (a_Role account) action = Some c \<and> \<not> RequiresReauthentication c \<and>
       Requirement Admin action = Some c) \<and>
    (a_Role account = Viewer \<longrightarrow> has_suffix action ''.read'')"
proof -
  from assms have session: "CheckSession account session policy now = None"
    by (simp add: CheckOrdinaryAction_def split: option.splits)
  from assms session obtain c where c: "Requirement (a_Role account) action = Some c" "\<not> RequiresReauthentication c"
    by (auto simp: CheckOrdinaryAction_def split: option.splits if_splits)
  note ok = Requirement_cases [OF c(1)]
  have "Requirement Admin action = Some c" "a_Role account = Viewer \<longrightarrow> has_suffix action ''.read''"
    using ok(1,3) c(1) by (auto simp: requirement_ok_def)
  with c session show ?thesis
    by (auto simp: CheckSession_def SessionAbsoluteTTL_def SessionIdleTTL_def split: if_splits)
qed

theorem ordinary_action_authority_witness:
  "\<exists>account session. CheckOrdinaryAction account session DefaultPolicy ReadAudit (hours 1) = None \<and>
     a_Role account = Viewer \<and> MFAVerified session \<and> Requirement Admin ReadAudit \<noteq> None"
proof -
  define account where "account = \<lparr>a_ID = ''v'', a_Role = Viewer, Enabled = True, SessionVersion = 3, TOTPEnrolled = True\<rparr>"
  define session where "session = \<lparr>ss_UserID = ''v'', AuthPolicyVersion = 1, UserSessionVersion = 3, MFAVerified = True,
     ss_CreatedAt = 0, ss_LastSeenAt = hours 1 - minutes 5\<rparr>"
  have reads: "Requirement Viewer ReadAudit = Some \<lparr>ac_Action = ReadAudit, RequiresReauthentication = False\<rparr>"
    by code_simp
  have "roleBit Viewer \<noteq> 0" by code_simp
  then have ok: "CheckOrdinaryAction account session DefaultPolicy ReadAudit (hours 1) = None"
    using reads by (simp add: CheckOrdinaryAction_def CheckSession_def account_def session_def DefaultPolicy_def
        AuthPolicy_Validate_def SessionAbsoluteTTL_def SessionIdleTTL_def hours_def minutes_def zero_time_def)
  from ordinary_action_authority [OF ok] have "Requirement Admin ReadAudit \<noteq> None" "MFAVerified session"
    by (auto simp: DefaultPolicy_def)
  with ok show ?thesis by (intro exI [of _ account] exI [of _ session]) (simp add: account_def)
qed

section \<open>One-time codes\<close>

lemma length_dec: "n < 10 ^ k \<Longrightarrow> 0 < k \<Longrightarrow> length (dec n) \<le> k"
proof (induction n arbitrary: k rule: dec.induct)
  case (1 n)
  show ?case
  proof (cases "n < 10")
    case False
    with "1.prems" obtain j where k: "k = Suc j" "0 < j" by (cases k; cases "k - 1") auto
    with "1.prems" have "n div 10 < 10 ^ j" by (simp add: less_mult_imp_div_less mult.commute)
    with "1.IH" [OF False] k False show ?thesis by (simp add: dec.simps [of n])
  qed (use "1.prems" in \<open>simp add: dec.simps [of n]\<close>)
qed

lemma hotp_six_digits: "length (hotp hmac key c 6) = 6" "list_all is_digit (hotp hmac key c 6)"
proof -
  have pad: "length (pad_dec 6 n) = 6" if "n < 1000000" for n
    using length_dec [of n 6] that by (simp add: pad_dec_def)
  show "length (hotp hmac key c 6) = 6" by (simp add: hotp_def Let_def pad)
  have "is_digit (CHR ''0'')" by code_simp
  then show "list_all is_digit (hotp hmac key c 6)"
    using dec_digits by (auto simp: hotp_def Let_def pad_dec_def list_all_iff)
qed

lemma matchCounter_six:
  assumes "sec_valid secret" and "unix now div 30 = int cur" and "length code = 6" and "list_all is_digit code"
  shows "matchCounter hmac secret code now =
    (if hotp hmac (sec_key secret) (cur + 1) 6 = code then Some (cur + 1)
     else if hotp hmac (sec_key secret) cur 6 = code then Some cur
     else if cur \<noteq> 0 \<and> hotp hmac (sec_key secret) (cur - 1) 6 = code then Some (cur - 1) else None)"
proof -
  have nats: "nat (int cur - 1) = cur - 1" "nat (int cur + 1) = cur + 1" by simp_all
  have "\<not> unix now < 0" using assms(2) pos_imp_zdiv_neg_iff [of 30 "unix now"] by simp
  with assms show ?thesis by (simp add: matchCounter_def totpDigits_def totpPeriod_def nats Let_def)
qed

text \<open>
  C37 (accepted codes). A valid secret accepts a code exactly when it is the code of the current
  thirty-second step, the one before or the one after; the counter that will be consumed is the newest
  such step, so a code that two adjacent steps share cannot be used once for each.
\<close>

theorem totp_window:
  assumes "sec_valid secret" and "0 \<le> now"
  shows "matchCounter hmac secret code now = Some c \<longleftrightarrow>
    hotp hmac (sec_key secret) c 6 = code \<and> \<bar>int c - unix now div 30\<bar> \<le> 1 \<and>
    (\<forall>c' > c. \<bar>int c' - unix now div 30\<bar> \<le> 1 \<longrightarrow> hotp hmac (sec_key secret) c' 6 \<noteq> code)"
proof -
  define cur where "cur = nat (unix now div 30)"
  have cur: "unix now div 30 = int cur" and un: "\<not> unix now < 0"
    using assms(2) by (simp_all add: cur_def unix_def div_int_pos_iff pos_imp_zdiv_nonneg_iff)
  let ?h = "\<lambda>c. hotp hmac (sec_key secret) c 6"
  show ?thesis
  proof (cases "length code = 6 \<and> list_all is_digit code")
    case False
    then have "?h c \<noteq> code" for c using hotp_six_digits by blast
    with False show ?thesis by (auto simp: matchCounter_def totpDigits_def)
  next
    case True
    have near: "\<bar>int c - int cur\<bar> \<le> 1 \<longleftrightarrow> c = cur + 1 \<or> c = cur \<or> (cur \<noteq> 0 \<and> c = cur - 1)" for c by linarith
    have "matchCounter hmac secret code now =
        (if ?h (cur + 1) = code then Some (cur + 1) else if ?h cur = code then Some cur
         else if cur \<noteq> 0 \<and> ?h (cur - 1) = code then Some (cur - 1) else None)"
      using True assms(1) cur by (simp add: matchCounter_six)
    then show ?thesis unfolding cur near by (auto intro!: gr0I dest: spec [of _ "Suc cur"])
  qed
qed

theorem totp_window_witness:
  "\<exists>hmac code. matchCounter hmac \<lparr>sec_key = ''k'', sec_valid = True\<rparr> code 90000000000 = Some 4 \<and>
     hotp hmac ''k'' 4 6 = code"
proof -
  define hmac :: "string \<Rightarrow> string \<Rightarrow> string" where "hmac = (\<lambda>key msg. replicate 20 (CHR 0x00))"
  have same: "hotp hmac ''k'' c 6 = hotp hmac ''k'' 4 6" for c by (simp add: hotp_def hmac_def)
  have "\<not> \<bar>int c' - unix 90000000000 div 30\<bar> \<le> 1" if "4 < c'" for c' using that by (simp add: unix_def)
  then have "matchCounter hmac \<lparr>sec_key = ''k'', sec_valid = True\<rparr> (hotp hmac ''k'' 4 6) 90000000000 = Some 4"
    using totp_window [of "\<lparr>sec_key = ''k'', sec_valid = True\<rparr>" 90000000000 hmac "hotp hmac ''k'' 4 6" 4]
    by (auto simp: unix_def)
  then show ?thesis by blast
qed


section \<open>Password records\<close>

lemma dollar_free: "CHR ''$'' \<notin> set (raw_std_encode s)" "CHR ''$'' \<notin> set (dec n)"
proof -
  have "CHR ''$'' \<notin> set std_alphabet" by (simp add: std_alphabet_def)
  then show "CHR ''$'' \<notin> set (raw_std_encode s)" using b64_encode_chars [OF good_alphabets(1), of False s] by auto
  have "\<not> is_digit (CHR ''$'')" by code_simp
  then show "CHR ''$'' \<notin> set (dec n)" using dec_digits [of n] by (auto simp: list_all_iff)
qed

lemma raw_length: "length (b64_encode al False s) \<le> 4 * ((length s + 2) div 3)"
proof -
  have "length (b64_encode al False s) \<le> length (b64_encode al True s)"
    by (induction al "False" s rule: b64_encode.induct) (simp_all add: Let_def)
  then show ?thesis by (simp add: b64_length)
qed

lemma parse_uint32_dec: "n < 2 ^ 32 \<Longrightarrow> parse_uint32 (dec n) = Some n"
  by (simp add: parse_uint32_def dec_digits)

lemma parse_encoding:
  assumes "2 \<le> n" and "n \<le> 10" and "length salt = 16" and "length key = 32"
  shows "parsePassword (passwordEncoding n salt key) = Some (n, salt, key)"
proof -
  have "length (dec n) \<le> 2" using assms(2) by (intro length_dec) simp_all
  then have "length (passwordEncoding n salt key) \<le> 160"
    using raw_length [of std_alphabet salt] raw_length [of std_alphabet key] assms(3,4)
    by (simp add: passwordEncoding_def)
  moreover have "split_on (CHR ''$'') (passwordEncoding n salt key) =
      [''wrp1'', ''argon2id'', ''v=19'', ''m=65536,t='' @ dec n @ '',p=1'', raw_std_encode salt, raw_std_encode key]"
  proof -
    have "passwordEncoding n salt key = ''wrp1'' @ CHR ''$'' # ''argon2id'' @ CHR ''$'' # ''v=19'' @ CHR ''$'' #
        (''m=65536,t='' @ dec n @ '',p=1'') @ CHR ''$'' # raw_std_encode salt @ CHR ''$'' # raw_std_encode key"
      by (simp add: passwordEncoding_def)
    moreover have "CHR ''$'' \<notin> set ''wrp1''" "CHR ''$'' \<notin> set ''argon2id''" "CHR ''$'' \<notin> set ''v=19''"
        "CHR ''$'' \<notin> set (''m=65536,t='' @ dec n @ '',p=1'')"
      using dollar_free by simp_all
    ultimately show ?thesis by (simp only: split_on_append split_on_no_sep dollar_free not_False_eq_True)
  qed
  moreover have "trim_suffix (trim_prefix (''m=65536,t='' @ dec n @ '',p=1'') ''m=65536,t='') '',p=1'' = dec n"
    by (simp add: trim_prefix_def has_prefix_def)
  ultimately show ?thesis using assms by (simp add: parsePassword_def parse_uint32_dec)
qed


lemma derivePassword_Inr:
  "derivePassword IDKey dv password salt n = Inr key \<Longrightarrow> key = IDKey password salt n PasswordMemoryKiB 1 32"
  by (simp add: derivePassword_def Let_def split: if_splits)

lemma Hash_Inr:
  assumes "Hash IDKey dv (Some salt) h password = Inr stored"
  shows "2 \<le> ph_iterations h" and "ph_iterations h \<le> 10" and "ValidLoginPassword password"
    and "stored = passwordEncoding (ph_iterations h) salt (IDKey password salt (ph_iterations h) PasswordMemoryKiB 1 32)"
  using assms by (auto simp: Hash_def dest!: derivePassword_Inr split: if_splits sum.splits)

lemma Hash_parses:
  assumes "Hash IDKey dv (Some salt) h password = Inr stored" and "length salt = 16"
    and "\<And>p s n m t. length (IDKey p s n m t 32) = 32"
  shows "parsePassword stored =
    Some (ph_iterations h, salt, IDKey password salt (ph_iterations h) PasswordMemoryKiB 1 32)"
  using Hash_Inr [OF assms(1)] assms(2,3) by (simp add: parse_encoding)

text \<open>
  C38 (password round trip). With a 16-byte salt and a key derivation that gives 32 bytes, a stored
  record verifies against a password exactly when the password derives the same key under the stored
  salt; in particular the password it was made from verifies.
\<close>

theorem password_round_trip:
  assumes "Hash IDKey dv (Some salt) h password = Inr stored" and "length salt = 16"
    and "\<And>p s n m t. length (IDKey p s n m t 32) = 32"
    and "ph_dummy h \<noteq> []" and "ValidLoginPassword attempt"
    and "derivePassword IDKey dv' attempt salt (ph_iterations h) = Inr actual"
  shows "fst (password_Verify IDKey dv' h attempt stored) =
      Inr (IDKey attempt salt (ph_iterations h) PasswordMemoryKiB 1 32 = IDKey password salt (ph_iterations h) PasswordMemoryKiB 1 32)"
  using Hash_Inr(1-3) [OF assms(1)] Hash_parses [OF assms(1-3)] assms(4-6) derivePassword_Inr [OF assms(6)]
  by (simp add: password_Verify_def Let_def)

definition idle_slots :: Derivation where
  "idle_slots = \<lparr>dv_cancelled = False, dv_busy = 0, dv_cancelled_after = False\<rparr>"

definition demo_hasher :: PasswordHasher where
  "demo_hasher = \<lparr>ph_iterations = 2, ph_dummy = passwordEncoding 2 (replicate 16 (CHR ''s'')) (replicate 32 (CHR ''d''))\<rparr>"

definition fixed_argon :: argon where
  "fixed_argon p s n m t l = replicate l (CHR ''k'')"

lemma ascii_runes: "list_all (\<lambda>c. byte c < 128) s \<Longrightarrow> utf8_runes s = Some (map byte s)"
  by (induction s) (simp_all add: utf8_runes_def)

lemma ascii_password:
  assumes "list_all (\<lambda>c. byte c < 128) s" and "15 \<le> length s" and "length s \<le> 1024"
  shows "ValidLoginPassword s" and "15 \<le> length (the (utf8_runes s))"
  using assms by (auto simp: ValidLoginPassword_def MaxPasswordBytes_def utf8_valid_def ascii_runes)

lemma demo_password: "ValidLoginPassword ''correct horse battery''" "15 \<le> length (the (utf8_runes ''correct horse battery''))"
  by (rule ascii_password; (code_simp | simp))+

theorem password_round_trip_witness:
  "\<exists>stored. Hash fixed_argon idle_slots (Some (replicate 16 (CHR ''s''))) demo_hasher ''correct horse battery'' = Inr stored \<and>
     fst (password_Verify fixed_argon idle_slots demo_hasher ''correct horse battery'' stored) = Inr True"
proof -
  obtain stored where h: "Hash fixed_argon idle_slots (Some (replicate 16 (CHR ''s''))) demo_hasher ''correct horse battery'' = Inr stored"
    using demo_password by (simp add: Hash_def demo_hasher_def idle_slots_def derivePassword_def Let_def)
  have "fst (password_Verify fixed_argon idle_slots demo_hasher ''correct horse battery'' stored) = Inr True"
    by (subst password_round_trip [OF h])
      (use demo_password in \<open>simp_all add: fixed_argon_def demo_hasher_def passwordEncoding_def derivePassword_def idle_slots_def Let_def\<close>)
  with h show ?thesis by blast
qed




section \<open>Calibration\<close>

lemma calibrate_from_result:
  assumes "calibrate_from meas expired k n out = Inr c" and "2 \<le> n"
    and "\<not> TargetMet out" and "ca_Iterations out = 0" and "map cs_Iterations (Samples out) = [2..<n]"
    and "n \<le> 11"
  shows "(\<exists>m \<le> 11. map cs_Iterations (Samples c) = [2..<m]) \<and> ca_MemoryKiB c = ca_MemoryKiB out \<and>
    (if TargetMet c then Samples c \<noteq> [] \<and> ca_Iterations c = cs_Iterations (last (Samples c)) \<and>
       250 \<le> MedianMS (last (Samples c)) \<and> MedianMS (last (Samples c)) \<le> 500
     else ca_Iterations c = 0)"
  using assms
proof (induction meas expired k n out rule: calibrate_from.induct)
  case (1 meas expired k n out)
  note step = calibrate_from.simps [of meas expired k n out]
  have upto: "[2..<Suc n] = [2..<n] @ [n]" using "1.prems" by simp
  show ?case
  proof (cases "n > 10")
    case True
    then have "c = out" using "1.prems"(1) by (simp add: step)
    with "1.prems"(3-6) show ?thesis by auto
  next
    case False
    obtain t ts where t: "meas k n = Inr t" "three_times meas expired (Suc k) n 3 = Inr ts"
      using "1.prems"(1) False unfolding step
      by (cases "meas k n"; cases "three_times meas expired (Suc k) n 3") simp_all
    define median where "median = sort ts ! 1"
    define out' where "out' = out\<lparr>Samples := Samples out @ [\<lparr>cs_Iterations = n, MedianMS = median div 1000000\<rparr>]\<rparr>"
    have samples: "map cs_Iterations (Samples out') = [2..<Suc n]"
      using "1.prems"(5) upto by (simp add: out'_def)
    have go: "calibrate_from meas expired k n out =
        (if median \<ge> milliseconds 250 \<and> median \<le> milliseconds 500 then Inr (out'\<lparr>ca_Iterations := n, TargetMet := True\<rparr>)
         else if median > milliseconds 500 then Inr out' else calibrate_from meas expired (k + 4) (n + 1) out')"
      by (subst step) (use False t in \<open>simp only: if_False sum.case not_False_eq_True median_def out'_def Let_def\<close>)
    consider (hit) "milliseconds 250 \<le> median \<and> median \<le> milliseconds 500" "c = out'\<lparr>ca_Iterations := n, TargetMet := True\<rparr>"
      | (over) "c = out'" | (under) "calibrate_from meas expired (k + 4) (n + 1) out' = Inr c" "median < milliseconds 250"
      using "1.prems"(1) unfolding go
      by (cases "milliseconds 250 \<le> median"; cases "median \<le> milliseconds 500") (simp_all add: not_le)
    then show ?thesis
    proof cases
      case hit
      then have "250 \<le> median div 1000000" "median div 1000000 \<le> 500"
        by (auto simp: milliseconds_def intro: zdiv_mono1 [where b = 1000000, simplified])
      with hit samples False show ?thesis by (auto simp: out'_def intro!: exI [of _ "Suc n"])
    next
      case over
      with samples False "1.prems" show ?thesis by (auto simp: out'_def intro!: exI [of _ "Suc n"])
    next
      case under
      have "(\<exists>m \<le> 11. map cs_Iterations (Samples c) = [2..<m]) \<and> ca_MemoryKiB c = ca_MemoryKiB out' \<and>
          (if TargetMet c then Samples c \<noteq> [] \<and> ca_Iterations c = cs_Iterations (last (Samples c)) \<and>
             250 \<le> MedianMS (last (Samples c)) \<and> MedianMS (last (Samples c)) \<le> 500 else ca_Iterations c = 0)"
        by (rule "1.IH" [OF False t(1) t(2) median_def out'_def])
          (use under samples False "1.prems" in \<open>auto simp: out'_def milliseconds_def\<close>)
      then show ?thesis by (simp add: out'_def)
    qed
  qed
qed




section \<open>Counter stores\<close>

text \<open>
  What \<open>CounterStore\<close> promises its callers: an accepted counter was above the last one known of the
  credential and is the last one afterwards, and a last counter never decreases.
\<close>

locale counter_store =
  fixes consume :: "CredentialRef \<Rightarrow> nat \<Rightarrow> 's \<Rightarrow> ('e + bool) \<times> 's"
    and last_counter :: "'s \<Rightarrow> CredentialRef \<Rightarrow> int option"
  assumes accepts: "consume ref c s = (Inr True, s') \<Longrightarrow>
      last_counter s' ref = Some (int c) \<and> (\<forall>l. last_counter s ref = Some l \<longrightarrow> l < int c)"
    and advances: "consume ref c s = (r, s') \<Longrightarrow> last_counter s ref' = Some l \<Longrightarrow>
      \<exists>l' \<ge> l. last_counter s' ref' = Some l'"
begin

lemma verified_code:
  assumes "VerifyAndConsume hmac cancelled ref secret code now consume s = (None, s')"
  obtains c where "matchCounter hmac secret code now = Some c" "last_counter s' ref = Some (int c)"
    "\<And>l. last_counter s ref = Some l \<Longrightarrow> l < int c"
proof -
  from assms obtain c where c: "matchCounter hmac secret code now = Some c" "consume ref c s = (Inr True, s')"
    by (auto simp: VerifyAndConsume_def split: if_splits option.splits prod.splits sum.splits)
  from accepts [OF c(2)] c(1) that show ?thesis by blast
qed

lemma code_once:
  assumes "last_counter s ref = Some l" and "matchCounter hmac secret code now = Some c" and "int c \<le> l"
  shows "fst (VerifyAndConsume hmac cancelled ref secret code now consume s) \<noteq> None"
proof
  assume none: "fst (VerifyAndConsume hmac cancelled ref secret code now consume s) = None"
  obtain r s' where rs: "VerifyAndConsume hmac cancelled ref secret code now consume s = (r, s')" by fastforce
  with none have "VerifyAndConsume hmac cancelled ref secret code now consume s = (None, s')" by simp
  then show False by (rule verified_code) (use assms in auto)
qed

end


section \<open>Secrets as text\<close>

lemma mod_split: "r < k \<Longrightarrow> (x * k + r) mod (k * m) = (x mod m) * k + r" for x k r m :: nat
  by (simp add: mod_mult2_eq)

lemma b32_group:
  fixes a b c d e :: nat
  assumes "a < 256" "b < 256" "c < 256" "d < 256" "e < 256"
  shows "((a div 8) mod 32 * 8 + ((a * 4 + b div 64) mod 32) div 4) mod 256 = a"
    and "(((a * 4 + b div 64) mod 32) * 64 + ((b div 2) mod 32) * 2 + ((b * 16 + c div 16) mod 32) div 16) mod 256 = b"
    and "(((b * 16 + c div 16) mod 32) * 16 + ((c * 2 + d div 128) mod 32) div 2) mod 256 = c"
    and "(((c * 2 + d div 128) mod 32) * 128 + ((d div 4) mod 32) * 4 + ((d * 8 + e div 32) mod 32) div 8) mod 256 = d"
    and "(((d * 8 + e div 32) mod 32) * 32 + e mod 32) mod 256 = e"
proof -
  have s: "(a * 4 + b div 64) mod 32 = (a mod 8) * 4 + b div 64" "(b * 16 + c div 16) mod 32 = (b mod 2) * 16 + c div 16"
      "(c * 2 + d div 128) mod 32 = (c mod 16) * 2 + d div 128" "(d * 8 + e div 32) mod 32 = (d mod 4) * 8 + e div 32"
    using assms mod_split [of "b div 64" 4 a 8] mod_split [of "c div 16" 16 b 2]
      mod_split [of "d div 128" 2 c 16] mod_split [of "e div 32" 8 d 4] by simp_all
  have q: "((a mod 8) * 4 + b div 64) div 4 = a mod 8" "((b mod 2) * 16 + c div 16) div 16 = b mod 2"
      "((c mod 16) * 2 + d div 128) div 2 = c mod 16" "((d mod 4) * 8 + e div 32) div 8 = d mod 4"
    using assms by simp_all
  have t: "(x * 256 + y) mod 256 = y" if "y < 256" for x y :: nat using that by simp
  have p1: "b div 64 * 64 + (b div 2) mod 32 * 2 + b mod 2 = b"
  proof -
    have "b div 64 = b div 2 div 32" using div_mult2_eq [of b 2 32] by simp
    then show ?thesis using div_mult_mod_eq [of "b div 2" 32] div_mult_mod_eq [of b 2] by linarith
  qed
  have p2: "c div 16 * 16 + c mod 16 = c" by (rule div_mult_mod_eq)
  have p3: "d div 128 * 128 + (d div 4) mod 32 * 4 + d mod 4 = d"
  proof -
    have "d div 128 = d div 4 div 32" using div_mult2_eq [of d 4 32] by simp
    then show ?thesis using div_mult_mod_eq [of "d div 4" 32] div_mult_mod_eq [of d 4] by linarith
  qed
  have p4: "e div 32 * 32 + e mod 32 = e" by (rule div_mult_mod_eq)
  show "((a div 8) mod 32 * 8 + ((a * 4 + b div 64) mod 32) div 4) mod 256 = a"
    unfolding s q using assms by simp
  have "((a mod 8) * 4 + b div 64) * 64 + (b div 2) mod 32 * 2 + b mod 2 = (a mod 8) * 256 + b"
    using p1 by (simp add: algebra_simps)
  then show "(((a * 4 + b div 64) mod 32) * 64 + ((b div 2) mod 32) * 2 + ((b * 16 + c div 16) mod 32) div 16) mod 256 = b"
    unfolding s q using t assms by metis
  have "((b mod 2) * 16 + c div 16) * 16 + c mod 16 = (b mod 2) * 256 + c" using p2 by (simp add: algebra_simps)
  then show "(((b * 16 + c div 16) mod 32) * 16 + ((c * 2 + d div 128) mod 32) div 2) mod 256 = c"
    unfolding s q using t assms by metis
  have "((c mod 16) * 2 + d div 128) * 128 + (d div 4) mod 32 * 4 + d mod 4 = (c mod 16) * 256 + d"
    using p3 by (simp add: algebra_simps)
  then show "(((c * 2 + d div 128) mod 32) * 128 + ((d div 4) mod 32) * 4 + ((d * 8 + e div 32) mod 32) div 8) mod 256 = d"
    unfolding s q using t assms by metis
  have "((d mod 4) * 8 + e div 32) * 32 + e mod 32 = (d mod 4) * 256 + e" using p4 by (simp add: algebra_simps)
  then show "(((d * 8 + e div 32) mod 32) * 32 + e mod 32) mod 256 = e" unfolding s using t assms by metis
qed

lemma b32_alphabet_facts: "length b32_alphabet = 32" "distinct b32_alphabet"
    "list_all (\<lambda>c. to_upper c = c) b32_alphabet"
  by code_simp+

lemma index_b32_char: "index_of b32_alphabet (b32_char n) = Some (n mod 32)"
  using b32_alphabet_facts(1,2) by (simp add: b32_char_def index_of_nth)

lemma b32_char_in: "b32_char n \<in> set b32_alphabet"
  using b32_alphabet_facts(1) by (simp add: b32_char_def)

lemma b32_encode_chars: "set (b32_encode s) \<subseteq> set b32_alphabet"
  by (induction s rule: b32_encode.induct) (auto simp: b32_char_in)

lemma chr_of_byte: "n mod 256 = byte c \<Longrightarrow> chr_of n = c"
  by (simp add: chr_of_def)

lemma b32_bytes_encode:
  "length s mod 5 = 0 \<Longrightarrow> b32_bytes (map (\<lambda>c. the (index_of b32_alphabet c)) (b32_encode s)) = s"
proof (induction s rule: b32_encode.induct)
  case (1 a b c d e rest)
  have "length rest mod 5 = 0" using 1(2) by simp
  with 1(1) have "b32_bytes (map (\<lambda>c. the (index_of b32_alphabet c)) (b32_encode rest)) = rest" .
  then show ?case
    by (simp add: index_b32_char)
      (intro conjI chr_of_byte b32_group [OF byte_bound [of a] byte_bound [of b] byte_bound [of c] byte_bound [of d] byte_bound [of e]])
qed auto

lemma length_b32: "length s mod 5 = 0 \<Longrightarrow> length (b32_encode s) = length s div 5 * 8"
  by (induction s rule: b32_encode.induct) auto

lemma secret_round_trip:
  assumes "length key = 20"
  shows "ParseSecret (b32_encode key) = Inr \<lparr>sec_key = key, sec_valid = True\<rparr>"
proof -
  have upper: "map to_upper (b32_encode key) = b32_encode key"
    using b32_encode_chars [of key] b32_alphabet_facts(3) by (auto simp: list_all_iff intro!: map_idI)
  have "list_all (\<lambda>c. c \<in> set b32_alphabet) (b32_encode key)" using b32_encode_chars by (auto simp: list_all_iff)
  with assms upper show ?thesis by (simp add: ParseSecret_def b32_decode20_def length_b32 b32_bytes_encode)
qed

end
