(* ===== verification/WR_Tx.thy ===== *)
theory WR_Tx
  imports WR_Auth
begin

text \<open>
  Database transactions as the Go services use them through \<open>pgx\<close>, over any type of databases.

  A service runs in a state that holds the durable database, the view of the open transaction and a
  counter of the calls made. Every call to the database can fail; the outcomes, the readings of the
  database clock and the random bytes are arbitrary functions of the call number. After a failed
  statement the transaction is aborted and refuses everything up to the next \<open>begin\<close>. A commit makes
  the view durable; its reply can be lost after it took effect. A transaction that is not committed
  leaves no trace: that is the deferred \<open>rollback\<close>.

  The rows a transaction works on are locked by its first statements in a fixed order, so transactions
  run one after the other in this model.
\<close>

section \<open>States\<close>

datatype outcome = Ok | Refused | Lost

record World =
  w_call :: "nat \<Rightarrow> outcome"
  w_clock :: "nat \<Rightarrow> int"
  w_rand :: "nat \<Rightarrow> nat \<Rightarrow> string option"

record 'd Pg =
  pg_world :: World
  pg_step :: nat
  pg_db :: 'd
  pg_tx :: 'd
  pg_aborted :: bool

text \<open>The errors of the services that work on the database; \<open>Panicked\<close> is a run-time panic.\<close>

datatype pg_error =
    AuthErr auth_error | ControlErr control_error | ErrLogoutConflict | ErrLogoutInvalid | ErrSetupConflict
  | ErrSetupReview | ErrAuthHTTPRateLimit | ErrInput | Panicked

abbreviation Unavailable :: pg_error where "Unavailable \<equiv> AuthErr ErrAuthUnavailable"
abbreviation Unauthenticated :: pg_error where "Unauthenticated \<equiv> AuthErr ErrUnauthenticated"
abbreviation Forbidden :: pg_error where "Forbidden \<equiv> AuthErr ErrForbidden"
abbreviation InvalidOrReplayed :: pg_error where "InvalidOrReplayed \<equiv> AuthErr ErrInvalidOrReplayed"

type_synonym ('d, 'a) tx = "'d Pg \<Rightarrow> (pg_error + 'a) \<times> 'd Pg"

definition tick :: "'d Pg \<Rightarrow> 'd Pg" where
  "tick s = s\<lparr>pg_step := Suc (pg_step s)\<rparr>"

definition failed :: "'d Pg \<Rightarrow> 'd Pg" where
  "failed s = (tick s)\<lparr>pg_aborted := True\<rparr>"

definition call_ok :: "'d Pg \<Rightarrow> bool" where
  "call_ok s \<longleftrightarrow> \<not> pg_aborted s \<and> w_call (pg_world s) (pg_step s) = Ok"

definition clock_of :: "'d Pg \<Rightarrow> int" where
  "clock_of s = w_clock (pg_world s) (pg_step s)"

lemma tick_simps [simp]:
  "pg_world (tick s) = pg_world s" "pg_db (tick s) = pg_db s" "pg_tx (tick s) = pg_tx s"
  "pg_aborted (tick s) = pg_aborted s" "pg_step (tick s) = Suc (pg_step s)"
  by (simp_all add: tick_def)

lemma failed_simps [simp]:
  "pg_world (failed s) = pg_world s" "pg_db (failed s) = pg_db s" "pg_tx (failed s) = pg_tx s"
  "pg_aborted (failed s)" "pg_step (failed s) = Suc (pg_step s)"
  by (simp_all add: failed_def)

section \<open>Operations\<close>

definition ret :: "'a \<Rightarrow> ('d, 'a) tx" where
  "ret x s = (Inr x, s)"

definition throw :: "pg_error \<Rightarrow> ('d, 'a) tx" where
  "throw e s = (Inl e, s)"

definition seq :: "('d, 'a) tx \<Rightarrow> ('a \<Rightarrow> ('d, 'b) tx) \<Rightarrow> ('d, 'b) tx" where
  "seq m f s = (case m s of (Inl e, s') \<Rightarrow> (Inl e, s') | (Inr x, s') \<Rightarrow> f x s')"

text \<open>\<open>if cond { return err }\<close> and \<open>if err := f(); err != nil { return err }\<close>.\<close>

definition refuse_if :: "bool \<Rightarrow> pg_error \<Rightarrow> ('d, unit) tx" where
  "refuse_if c e = (if c then throw e else ret ())"

definition check :: "pg_error option \<Rightarrow> ('d, unit) tx" where
  "check r = (case r of None \<Rightarrow> ret () | Some e \<Rightarrow> throw e)"

definition of_sum :: "pg_error + 'a \<Rightarrow> ('d, 'a) tx" where
  "of_sum r = (case r of Inl e \<Rightarrow> throw e | Inr x \<Rightarrow> ret x)"

text \<open>The outcome of a step as a value, for callers that look at the error.\<close>

definition attempt :: "('d, 'a) tx \<Rightarrow> ('d, pg_error + 'a) tx" where
  "attempt m s = (case m s of (r, s') \<Rightarrow> (Inr r, s'))"

definition begin_tx :: "pg_error \<Rightarrow> ('d, unit) tx" where
  "begin_tx e s =
     (if w_call (pg_world s) (pg_step s) = Ok then (Inr (), (tick s)\<lparr>pg_tx := pg_db s, pg_aborted := False\<rparr>)
      else (Inl e, failed s))"

text \<open>
  A statement that reads and writes the view; \<open>None\<close> is a violated constraint. The second form passes
  the reading of the clock that the statement makes.
\<close>

definition exec :: "pg_error \<Rightarrow> ('d \<Rightarrow> ('a \<times> 'd) option) \<Rightarrow> ('d, 'a) tx" where
  "exec e f s =
     (if \<not> call_ok s then (Inl e, failed s)
      else case f (pg_tx s) of
        None \<Rightarrow> (Inl e, failed s)
      | Some (x, db) \<Rightarrow> (Inr x, (tick s)\<lparr>pg_tx := db\<rparr>))"

definition exec_at :: "pg_error \<Rightarrow> (int \<Rightarrow> 'd \<Rightarrow> ('a \<times> 'd) option) \<Rightarrow> ('d, 'a) tx" where
  "exec_at e f s = exec e (f (clock_of s)) s"

text \<open>A query for one row: \<open>none\<close> is the error for no row, \<open>e\<close> for a failed call.\<close>

definition query :: "pg_error \<Rightarrow> pg_error \<Rightarrow> ('d \<Rightarrow> 'a option) \<Rightarrow> ('d, 'a) tx" where
  "query none e f s =
     (if \<not> call_ok s then (Inl e, failed s)
      else case f (pg_tx s) of None \<Rightarrow> (Inl none, tick s) | Some x \<Rightarrow> (Inr x, tick s))"

definition query_at :: "pg_error \<Rightarrow> pg_error \<Rightarrow> (int \<Rightarrow> 'd \<Rightarrow> 'a option) \<Rightarrow> ('d, 'a) tx" where
  "query_at none e f s = query none e (f (clock_of s)) s"

abbreviation read_clock :: "pg_error \<Rightarrow> ('d, int) tx" where
  "read_clock e \<equiv> query_at e e (\<lambda>now db. Some now)"

text \<open>A query outside any transaction reads the durable database.\<close>

definition pool_query :: "pg_error \<Rightarrow> pg_error \<Rightarrow> (int \<Rightarrow> 'd \<Rightarrow> 'a option) \<Rightarrow> ('d, 'a) tx" where
  "pool_query none e f s =
     (if w_call (pg_world s) (pg_step s) \<noteq> Ok then (Inl e, tick s)
      else case f (clock_of s) (pg_db s) of None \<Rightarrow> (Inl none, tick s) | Some x \<Rightarrow> (Inr x, tick s))"

text \<open>A statement outside any transaction commits at once.\<close>

definition pool_exec :: "pg_error \<Rightarrow> (int \<Rightarrow> 'd \<Rightarrow> ('a \<times> 'd) option) \<Rightarrow> ('d, 'a) tx" where
  "pool_exec e f s =
     (case w_call (pg_world s) (pg_step s) of
        Refused \<Rightarrow> (Inl e, tick s)
      | outcome \<Rightarrow>
          (case f (clock_of s) (pg_db s) of
             None \<Rightarrow> (Inl e, tick s)
           | Some (x, db) \<Rightarrow> (if outcome = Ok then Inr x else Inl e, (tick s)\<lparr>pg_db := db\<rparr>)))"

definition commit :: "pg_error \<Rightarrow> ('d, unit) tx" where
  "commit e s =
     (if pg_aborted s then (Inl e, tick s)
      else case w_call (pg_world s) (pg_step s) of
        Ok \<Rightarrow> (Inr (), (tick s)\<lparr>pg_db := pg_tx s\<rparr>)
      | Refused \<Rightarrow> (Inl e, tick s)
      | Lost \<Rightarrow> (Inl e, (tick s)\<lparr>pg_db := pg_tx s\<rparr>))"

text \<open>\<open>rand.Read\<close> into \<open>n\<close> bytes.\<close>

definition random :: "pg_error \<Rightarrow> nat \<Rightarrow> ('d, string) tx" where
  "random e n s = (case w_rand (pg_world s) (pg_step s) n of None \<Rightarrow> (Inl e, tick s) | Some r \<Rightarrow> (Inr r, tick s))"

lemmas tx_defs = ret_def throw_def seq_def refuse_if_def check_def of_sum_def attempt_def begin_tx_def
  exec_def exec_at_def query_def query_at_def pool_query_def pool_exec_def commit_def random_def

section \<open>Weakest preconditions\<close>

text \<open>
  \<open>wp m Q E s\<close>: started in \<open>s\<close>, the step ends in a state and result that satisfy \<open>Q\<close> or, for an error,
  \<open>E\<close>. The rules of the collection decompose it along the operations.
\<close>

definition wp :: "('d, 'a) tx \<Rightarrow> ('a \<Rightarrow> 'd Pg \<Rightarrow> bool) \<Rightarrow> (pg_error \<Rightarrow> 'd Pg \<Rightarrow> bool) \<Rightarrow> 'd Pg \<Rightarrow> bool" where
  "wp m Q E s \<longleftrightarrow> (case m s of (Inl e, s') \<Rightarrow> E e s' | (Inr x, s') \<Rightarrow> Q x s')"

named_theorems tx_wp \<open>introduction rules for weakest preconditions\<close>

lemma wp_conseq:
  assumes "wp m Q E s" and "\<And>x s'. Q x s' \<Longrightarrow> Q' x s'" and "\<And>e s'. E e s' \<Longrightarrow> E' e s'"
  shows "wp m Q' E' s"
  using assms by (auto simp: wp_def split: prod.splits sum.splits)

lemma wp_ret [tx_wp]: "Q x s \<Longrightarrow> wp (ret x) Q E s"
  by (simp add: wp_def ret_def)

lemma wp_throw [tx_wp]: "E e s \<Longrightarrow> wp (throw e) Q E s"
  by (simp add: wp_def throw_def)

lemma wp_seq [tx_wp]: "wp m (\<lambda>x. wp (f x) Q E) E s \<Longrightarrow> wp (seq m f) Q E s"
  by (auto simp: wp_def seq_def split: prod.splits sum.splits)

lemma wp_refuse_if [tx_wp]: "(c \<Longrightarrow> E e s) \<Longrightarrow> (\<not> c \<Longrightarrow> Q () s) \<Longrightarrow> wp (refuse_if c e) Q E s"
  by (simp add: refuse_if_def wp_throw wp_ret)

lemma wp_check [tx_wp]: "(\<And>e. r = Some e \<Longrightarrow> E e s) \<Longrightarrow> (r = None \<Longrightarrow> Q () s) \<Longrightarrow> wp (check r) Q E s"
  by (cases r) (simp_all add: check_def wp_throw wp_ret)

lemma wp_of_sum [tx_wp]: "(\<And>e. r = Inl e \<Longrightarrow> E e s) \<Longrightarrow> (\<And>x. r = Inr x \<Longrightarrow> Q x s) \<Longrightarrow> wp (of_sum r) Q E s"
  by (cases r) (simp_all add: of_sum_def wp_throw wp_ret)

lemma wp_attempt [tx_wp]: "wp m (\<lambda>x. Q (Inr x)) (\<lambda>e. Q (Inl e)) s \<Longrightarrow> wp (attempt m) Q E s"
  by (auto simp: wp_def attempt_def split: prod.splits sum.splits)

lemma wp_begin_tx [tx_wp]:
  "E e (failed s) \<Longrightarrow> Q () ((tick s)\<lparr>pg_tx := pg_db s, pg_aborted := False\<rparr>) \<Longrightarrow> wp (begin_tx e) Q E s"
  by (simp add: wp_def begin_tx_def)

lemma wp_exec [tx_wp]:
  "E e (failed s) \<Longrightarrow> (\<And>x db. f (pg_tx s) = Some (x, db) \<Longrightarrow> Q x ((tick s)\<lparr>pg_tx := db\<rparr>)) \<Longrightarrow> wp (exec e f) Q E s"
  by (auto simp: wp_def exec_def split: option.splits)

lemma wp_exec_at [tx_wp]:
  "E e (failed s) \<Longrightarrow> (\<And>x db. f (clock_of s) (pg_tx s) = Some (x, db) \<Longrightarrow> Q x ((tick s)\<lparr>pg_tx := db\<rparr>)) \<Longrightarrow>
   wp (exec_at e f) Q E s"
  by (auto simp: wp_def exec_def exec_at_def split: option.splits)

lemma wp_query [tx_wp]:
  "E e (failed s) \<Longrightarrow> (f (pg_tx s) = None \<Longrightarrow> E none (tick s)) \<Longrightarrow> (\<And>x. f (pg_tx s) = Some x \<Longrightarrow> Q x (tick s)) \<Longrightarrow>
   wp (query none e f) Q E s"
  by (auto simp: wp_def query_def split: option.splits)

lemma wp_query_at [tx_wp]:
  "E e (failed s) \<Longrightarrow> (f (clock_of s) (pg_tx s) = None \<Longrightarrow> E none (tick s)) \<Longrightarrow>
   (\<And>x. f (clock_of s) (pg_tx s) = Some x \<Longrightarrow> Q x (tick s)) \<Longrightarrow> wp (query_at none e f) Q E s"
  by (auto simp: wp_def query_def query_at_def split: option.splits)

lemma wp_pool_query [tx_wp]:
  "E e (tick s) \<Longrightarrow> (f (clock_of s) (pg_db s) = None \<Longrightarrow> E none (tick s)) \<Longrightarrow>
   (\<And>x. f (clock_of s) (pg_db s) = Some x \<Longrightarrow> Q x (tick s)) \<Longrightarrow> wp (pool_query none e f) Q E s"
  by (auto simp: wp_def pool_query_def split: option.splits)

lemma wp_commit [tx_wp]:
  "E e (tick s) \<Longrightarrow> (\<not> pg_aborted s \<Longrightarrow> E e ((tick s)\<lparr>pg_db := pg_tx s\<rparr>)) \<Longrightarrow>
   (\<not> pg_aborted s \<Longrightarrow> Q () ((tick s)\<lparr>pg_db := pg_tx s\<rparr>)) \<Longrightarrow> wp (commit e) Q E s"
  by (auto simp: wp_def commit_def split: outcome.splits)

lemma wp_random [tx_wp]:
  "E e (tick s) \<Longrightarrow> (\<And>r. w_rand (pg_world s) (pg_step s) n = Some r \<Longrightarrow> Q r (tick s)) \<Longrightarrow> wp (random e n) Q E s"
  by (auto simp: wp_def random_def split: option.splits)

lemma wp_if [tx_wp]: "(b \<Longrightarrow> wp m Q E s) \<Longrightarrow> (\<not> b \<Longrightarrow> wp n Q E s) \<Longrightarrow> wp (if b then m else n) Q E s"
  by simp

lemma wp_option [tx_wp]:
  "(r = None \<Longrightarrow> wp m Q E s) \<Longrightarrow> (\<And>x. r = Some x \<Longrightarrow> wp (f x) Q E s) \<Longrightarrow>
   wp (case r of None \<Rightarrow> m | Some x \<Rightarrow> f x) Q E s"
  by (cases r) simp_all

lemma wp_sum [tx_wp]:
  "(\<And>x. r = Inl x \<Longrightarrow> wp (f x) Q E s) \<Longrightarrow> (\<And>y. r = Inr y \<Longrightarrow> wp (g y) Q E s) \<Longrightarrow>
   wp (case r of Inl x \<Rightarrow> f x | Inr y \<Rightarrow> g y) Q E s"
  by (cases r) simp_all

lemma wp_prod [tx_wp]: "(\<And>x y. r = (x, y) \<Longrightarrow> wp (f x y) Q E s) \<Longrightarrow> wp (case r of (x, y) \<Rightarrow> f x y) Q E s"
  by (cases r) simp

lemma wp_let [tx_wp]: "(\<And>x. x = v \<Longrightarrow> wp (f x) Q E s) \<Longrightarrow> wp (let x = v in f x) Q E s"
  by simp

text \<open>How a triple is used: what holds of every run, and of every successful one.\<close>

lemma wp_run: "wp m Q E s \<Longrightarrow> m s = (r, s') \<Longrightarrow> (case r of Inl e \<Rightarrow> E e s' | Inr x \<Rightarrow> Q x s')"
  by (auto simp: wp_def split: sum.splits)

lemma wp_success: "wp m Q E s \<Longrightarrow> m s = (Inr x, s') \<Longrightarrow> Q x s'"
  by (simp add: wp_def)

section \<open>Relations between the durable states\<close>

text \<open>
  A step \<^emph>\<open>keeps\<close> a relation when the view it leaves is related to the one it found, whatever the
  outcome, and the durable database is either untouched or such a view. For a preorder the property
  composes, so that it holds of a service as soon as it holds of its statements.
\<close>

definition keeps :: "('d \<Rightarrow> 'd \<Rightarrow> bool) \<Rightarrow> ('d, 'a) tx \<Rightarrow> bool" where
  "keeps R m \<longleftrightarrow> (\<forall>s d. R d (pg_db s) \<longrightarrow> R d (pg_tx s) \<longrightarrow>
     (case m s of (r, s') \<Rightarrow> R d (pg_db s') \<and> R d (pg_tx s')))"

named_theorems tx_keeps \<open>steps that keep a relation\<close>

lemma keepsD:
  "keeps R m \<Longrightarrow> m s = (r, s') \<Longrightarrow> R d (pg_db s) \<Longrightarrow> R d (pg_tx s) \<Longrightarrow> R d (pg_db s') \<and> R d (pg_tx s')"
  by (auto simp: keeps_def dest!: spec [of _ s] spec [of _ d])

lemma keeps_ret [tx_keeps]: "keeps R (ret x)"
  by (simp add: keeps_def ret_def)

lemma keeps_throw [tx_keeps]: "keeps R (throw e)"
  by (simp add: keeps_def throw_def)

lemma keepsI:
  assumes "\<And>s d r s'. R d (pg_db s) \<Longrightarrow> R d (pg_tx s) \<Longrightarrow> m s = (r, s') \<Longrightarrow> R d (pg_db s') \<and> R d (pg_tx s')"
  shows "keeps R m"
  unfolding keeps_def by (intro allI impI) (split prod.split, intro allI impI, rule assms)

lemma keeps_seq [tx_keeps]:
  assumes "keeps R m" and "\<And>x. keeps R (f x)"
  shows "keeps R (seq m f)"
proof (rule keepsI)
  fix s d r s'
  assume d: "R d (pg_db s)" "R d (pg_tx s)" and run: "seq m f s = (r, s')"
  obtain q t where mid: "m s = (q, t)" by fastforce
  note kept = keepsD [OF assms(1) mid d]
  show "R d (pg_db s') \<and> R d (pg_tx s')"
  proof (cases q)
    case (Inl e)
    with run mid kept show ?thesis by (simp add: seq_def)
  next
    case (Inr x)
    with run mid have "f x t = (r, s')" by (simp add: seq_def)
    with kept show ?thesis using keepsD [OF assms(2)] by blast
  qed
qed

lemma keeps_refuse_if [tx_keeps]: "keeps R (refuse_if c e)"
  by (simp add: refuse_if_def keeps_ret keeps_throw)

lemma keeps_check [tx_keeps]: "keeps R (check r)"
  by (cases r) (simp_all add: check_def keeps_ret keeps_throw)

lemma keeps_of_sum [tx_keeps]: "keeps R (of_sum r)"
  by (cases r) (simp_all add: of_sum_def keeps_ret keeps_throw)

lemma keeps_attempt [tx_keeps]: "keeps R m \<Longrightarrow> keeps R (attempt m)"
  by (rule keepsI) (auto simp: attempt_def split: prod.splits dest: keepsD)

lemma keeps_begin_tx [tx_keeps]: "keeps R (begin_tx e)"
  by (simp add: keeps_def begin_tx_def)

lemma keeps_exec:
  "(\<And>d db x db'. f db = Some (x, db') \<Longrightarrow> R d db \<Longrightarrow> R d db') \<Longrightarrow> keeps R (exec e f)"
  by (auto simp: keeps_def exec_def split: option.splits)

lemma keeps_exec_at:
  "(\<And>d now db x db'. f now db = Some (x, db') \<Longrightarrow> R d db \<Longrightarrow> R d db') \<Longrightarrow> keeps R (exec_at e f)"
  by (auto simp: keeps_def exec_def exec_at_def split: option.splits)

lemma keeps_query [tx_keeps]: "keeps R (query none e f)"
  by (auto simp: keeps_def query_def split: option.splits)

lemma keeps_query_at [tx_keeps]: "keeps R (query_at none e f)"
  by (auto simp: keeps_def query_def query_at_def split: option.splits)

lemma keeps_pool_query [tx_keeps]: "keeps R (pool_query none e f)"
  by (auto simp: keeps_def pool_query_def split: option.splits)

lemma keeps_pool_exec:
  "(\<And>d now db x db'. f now db = Some (x, db') \<Longrightarrow> R d db \<Longrightarrow> R d db') \<Longrightarrow> keeps R (pool_exec e f)"
  by (auto simp: keeps_def pool_exec_def split: option.splits outcome.splits)

lemma keeps_commit [tx_keeps]: "keeps R (commit e)"
  by (auto simp: keeps_def commit_def split: outcome.splits)

lemma keeps_random [tx_keeps]: "keeps R (random e n)"
  by (auto simp: keeps_def random_def split: option.splits)

lemma keeps_if [tx_keeps]: "(b \<Longrightarrow> keeps R m) \<Longrightarrow> (\<not> b \<Longrightarrow> keeps R n) \<Longrightarrow> keeps R (if b then m else n)"
  by simp

lemma keeps_option [tx_keeps]:
  "(r = None \<Longrightarrow> keeps R m) \<Longrightarrow> (\<And>x. r = Some x \<Longrightarrow> keeps R (f x)) \<Longrightarrow> keeps R (case r of None \<Rightarrow> m | Some x \<Rightarrow> f x)"
  by (cases r) simp_all

lemma keeps_sum [tx_keeps]:
  "(\<And>x. r = Inl x \<Longrightarrow> keeps R (f x)) \<Longrightarrow> (\<And>y. r = Inr y \<Longrightarrow> keeps R (g y)) \<Longrightarrow>
   keeps R (case r of Inl x \<Rightarrow> f x | Inr y \<Rightarrow> g y)"
  by (cases r) simp_all

lemma keeps_prod [tx_keeps]: "(\<And>x y. r = (x, y) \<Longrightarrow> keeps R (f x y)) \<Longrightarrow> keeps R (case r of (x, y) \<Rightarrow> f x y)"
  by (cases r) simp

lemma keeps_let [tx_keeps]: "(\<And>x. x = v \<Longrightarrow> keeps R (f x)) \<Longrightarrow> keeps R (let x = v in f x)"
  by simp


section \<open>Successful runs\<close>

text \<open>Equations that unfold a successful run into the calls it made, and the elimination rules they give.\<close>

lemma seq_success:
  "seq m f s = (Inr y, s') \<longleftrightarrow> (\<exists>x t. m s = (Inr x, t) \<and> f x t = (Inr y, s'))"
  by (auto simp: seq_def split: prod.splits sum.splits)

lemma ret_success: "ret x s = (Inr y, s') \<longleftrightarrow> y = x \<and> s' = s"
  by (auto simp: ret_def)

lemma throw_success: "throw e s = (Inr y, s') \<longleftrightarrow> False"
  by (simp add: throw_def)

lemma refuse_if_success: "refuse_if c e s = (Inr y, s') \<longleftrightarrow> \<not> c \<and> s' = s"
  by (auto simp: refuse_if_def ret_def throw_def)

lemma check_success: "check r s = (Inr y, s') \<longleftrightarrow> r = None \<and> s' = s"
  by (cases r) (auto simp: check_def ret_def throw_def)

lemma of_sum_success: "of_sum r s = (Inr y, s') \<longleftrightarrow> r = Inr y \<and> s' = s"
  by (cases r) (auto simp: of_sum_def ret_def throw_def)

lemma attempt_success: "attempt m s = (Inr r, s') \<longleftrightarrow> m s = (r, s')"
  by (auto simp: attempt_def split: prod.splits)

lemma begin_tx_success:
  "begin_tx e s = (Inr y, s') \<longleftrightarrow>
     w_call (pg_world s) (pg_step s) = Ok \<and> s' = (tick s)\<lparr>pg_tx := pg_db s, pg_aborted := False\<rparr>"
  by (auto simp: begin_tx_def)

lemma exec_success:
  "exec e f s = (Inr x, s') \<longleftrightarrow> call_ok s \<and> (\<exists>db. f (pg_tx s) = Some (x, db) \<and> s' = (tick s)\<lparr>pg_tx := db\<rparr>)"
  by (auto simp: exec_def split: option.splits)

lemma exec_at_success:
  "exec_at e f s = (Inr x, s') \<longleftrightarrow>
     call_ok s \<and> (\<exists>db. f (clock_of s) (pg_tx s) = Some (x, db) \<and> s' = (tick s)\<lparr>pg_tx := db\<rparr>)"
  by (simp add: exec_at_def exec_success)

lemma query_success:
  "query n e f s = (Inr x, s') \<longleftrightarrow> call_ok s \<and> f (pg_tx s) = Some x \<and> s' = tick s"
  by (auto simp: query_def split: option.splits)

lemma query_at_success:
  "query_at n e f s = (Inr x, s') \<longleftrightarrow> call_ok s \<and> f (clock_of s) (pg_tx s) = Some x \<and> s' = tick s"
  by (simp add: query_at_def query_success)

lemma pool_query_success:
  "pool_query n e f s = (Inr x, s') \<longleftrightarrow>
     w_call (pg_world s) (pg_step s) = Ok \<and> f (clock_of s) (pg_db s) = Some x \<and> s' = tick s"
  by (auto simp: pool_query_def split: option.splits)

lemma pool_exec_success:
  "pool_exec e f s = (Inr x, s') \<longleftrightarrow>
     w_call (pg_world s) (pg_step s) = Ok \<and> (\<exists>db. f (clock_of s) (pg_db s) = Some (x, db) \<and> s' = (tick s)\<lparr>pg_db := db\<rparr>)"
  by (auto simp: pool_exec_def split: option.splits outcome.splits)

lemma commit_success:
  "commit e s = (Inr y, s') \<longleftrightarrow> call_ok s \<and> s' = (tick s)\<lparr>pg_db := pg_tx s\<rparr>"
  by (auto simp: commit_def call_ok_def split: outcome.splits)

lemma random_success:
  "random e n s = (Inr r, s') \<longleftrightarrow> w_rand (pg_world s) (pg_step s) n = Some r \<and> s' = tick s"
  by (auto simp: random_def split: option.splits)

lemmas tx_success = seq_success ret_success throw_success refuse_if_success check_success of_sum_success
  attempt_success begin_tx_success exec_success exec_at_success query_success query_at_success
  pool_query_success pool_exec_success commit_success random_success

lemma seqE:
  assumes "seq m f s = (Inr y, s')"
  obtains x t where "m s = (Inr x, t)" "f x t = (Inr y, s')"
  using assms by (auto simp: seq_success)

lemma throwE: "throw e s = (Inr y, s') \<Longrightarrow> P"
  by (simp add: throw_success)

lemma execE:
  assumes "exec e f s = (Inr x, s')"
  obtains db where "call_ok s" "f (pg_tx s) = Some (x, db)" "s' = (tick s)\<lparr>pg_tx := db\<rparr>"
  using assms by (auto simp: exec_success)

lemma exec_atE:
  assumes "exec_at e f s = (Inr x, s')"
  obtains db where "call_ok s" "f (clock_of s) (pg_tx s) = Some (x, db)" "s' = (tick s)\<lparr>pg_tx := db\<rparr>"
  using assms by (auto simp: exec_at_success)

lemma tx_ifE:
  assumes "(if b then m else n) s = (Inr y, s')"
  obtains (T) b "m s = (Inr y, s')" | (F) "\<not> b" "n s = (Inr y, s')"
  using assms by (auto split: if_splits)

lemma tx_prodE:
  assumes "(case r of (x, y) \<Rightarrow> f x y) s = (Inr z, s')"
  obtains x y where "r = (x, y)" "f x y s = (Inr z, s')"
  using assms by (cases r) auto

lemma tx_optionE:
  assumes "(case r of None \<Rightarrow> m | Some x \<Rightarrow> f x) s = (Inr z, s')"
  obtains (None) "r = None" "m s = (Inr z, s')" | (Some) x where "r = Some x" "f x s = (Inr z, s')"
  using assms by (cases r) auto

lemma tx_sumE:
  assumes "(case r of Inl x \<Rightarrow> f x | Inr y \<Rightarrow> g y) s = (Inr z, s')"
  obtains (Inl) x where "r = Inl x" "f x s = (Inr z, s')" | (Inr) y where "r = Inr y" "g y s = (Inr z, s')"
  using assms by (cases r) auto

lemma tx_letE:
  assumes "(let x = v in f x) s = (Inr z, s')"
  obtains "f v s = (Inr z, s')"
  using assms by simp

lemmas tx_elims = seqE throwE execE exec_atE tx_ifE tx_prodE tx_optionE tx_sumE tx_letE
  iffD1 [OF ret_success, elim_format] iffD1 [OF refuse_if_success, elim_format]
  iffD1 [OF check_success, elim_format] iffD1 [OF of_sum_success, elim_format]
  iffD1 [OF attempt_success, elim_format] iffD1 [OF begin_tx_success, elim_format]
  iffD1 [OF query_success, elim_format] iffD1 [OF query_at_success, elim_format]
  iffD1 [OF pool_query_success, elim_format] iffD1 [OF pool_exec_success, elim_format] iffD1 [OF commit_success, elim_format]
  iffD1 [OF random_success, elim_format]

end
