(* ===== verification/WR_Db.thy ===== *)
theory WR_Db
  imports WR_Tx WR_Keys
begin

text \<open>
  The Backoffice database (\<open>internal/adminauth/pgstore\<close>): its tables as the migrations declare them,
  the store's helpers (\<open>store.go\<close>, \<open>auth_audit.go\<close>), the vault of TOTP secrets (\<open>vault.go\<close>), session
  services (\<open>sessions.go\<close>) and the logout with replay (\<open>logout.go\<close>). Each SQL statement of the source is
  a function on the tables; a constraint that a statement can violate makes it fail. SHA-256 and
  AES-GCM are parameters.
\<close>

section \<open>Tables\<close>

record AccountRow =
  ar_role :: Role
  ar_enabled :: bool
  ar_session_version :: nat
  ar_deleted :: bool

record TotpRow =
  tr_version :: nat
  tr_key_id :: string
  tr_sealed :: string
  tr_last_counter :: int

record ChallengeRow =
  ch_user :: string
  ch_credential_version :: nat
  ch_policy_version :: nat
  ch_user_version :: nat
  ch_created :: int
  ch_expires :: int
  ch_attempts :: nat
  ch_consumed :: bool

record SessionRow =
  sr_csrf :: string
  sr_user :: string
  sr_policy_version :: nat
  sr_user_version :: nat
  sr_mfa :: bool
  sr_created :: int
  sr_last_seen :: int

record PasswordRow =
  pr_version :: nat
  pr_hash :: string

record BucketRow =
  bk_started :: int
  bk_expires :: int
  bk_used :: int

record EnrollmentRow =
  en_user :: string
  en_policy_version :: nat
  en_user_version :: nat
  en_created :: int
  en_expires :: int
  en_consumed :: bool
  en_attempts :: nat
  en_secret :: "(string \<times> string) option"

record ProofRow =
  pf_session :: string
  pf_action :: string
  pf_target :: string
  pf_digest :: string
  pf_created :: int
  pf_expires :: int
  pf_consumed :: bool

record LogoutRow =
  lo_csrf :: string
  lo_key :: string
  lo_created :: int
  lo_expires :: int

record ConfigRow =
  co_revision :: int
  co_document :: string

record CommandRow =
  cm_request_hash :: string
  cm_created :: int
  cm_expires :: int
  cm_status :: int
  cm_response :: string
  cm_etag :: string

record AuditEvent =
  ae_ID :: int
  ae_OccurredAt :: int
  ae_ActorID :: string
  ae_ActorRole :: Role
  ae_Action :: string
  ae_TargetID :: string
  ae_BeforeDigest :: string
  ae_AfterDigest :: string
  ae_Result :: string
  ae_RequestID :: string
  ae_Revision :: int

record DeliveryRow =
  dl_generation :: int
  dl_document :: string
  dl_signed :: "(string \<times> int \<times> int) option"

record NodeRow =
  nd_generation :: int
  nd_digest :: string
  nd_observed :: int
  nd_metrics :: string

record KeyAckRow =
  ka_generation :: int
  ka_digest :: string
  ka_observed :: int

record RecoveryRow =
  rc_hash :: string
  rc_consumed :: bool

record BootstrapRow =
  bt_completed :: bool
  bt_generation :: int
  bt_token :: "(string \<times> int) option"

record SetupRow =
  su_iterations :: nat
  su_calibration :: "(string \<times> string \<times> int \<times> int) option"
  su_report :: "(string \<times> int) option"

text \<open>Tables with a primary key are association lists; tables with one row are options.\<close>

record DB =
  auth_policy :: "AuthPolicy option"
  auth_accounts :: "(string \<times> AccountRow) list"
  auth_totp_credentials :: "(string \<times> TotpRow) list"
  auth_totp_challenges :: "(string \<times> ChallengeRow) list"
  auth_sessions :: "(string \<times> SessionRow) list"
  auth_password_credentials :: "(string \<times> PasswordRow) list"
  auth_login_buckets :: "(string \<times> BucketRow) list"
  auth_enrollment_challenges :: "(string \<times> EnrollmentRow) list"
  auth_policy_enrollments :: "(string \<times> string) list"
  auth_recovery_codes :: "((string \<times> nat \<times> nat) \<times> RecoveryRow) list"
  auth_bootstrap :: "BootstrapRow option"
  auth_reauth_proofs :: "(string \<times> ProofRow) list"
  auth_logout_replays :: "(string \<times> LogoutRow) list"
  control_config :: "ConfigRow option"
  control_commands :: "((string \<times> string) \<times> CommandRow) list"
  control_audit :: "AuditEvent list"
  control_delivery :: "DeliveryRow option"
  control_nodes :: "(string \<times> NodeRow) list"
  control_events :: "Event list"
  control_key_acks :: "(string \<times> KeyAckRow) list"
  installation_setup :: "SetupRow option"

type_synonym 'a pg = "(DB, 'a) tx"

section \<open>The store (store.go, auth_audit.go)\<close>

text \<open>
  What a service is constructed with: the hash function, the AEAD, the keys of the vault, the audit
  switch of the store and the pinned origin.
\<close>

record PgEnv =
  pe_sha :: "string \<Rightarrow> string"
  pe_gcm :: GcmLib
  pe_keys :: "(string \<times> string) list"
  pe_audit :: bool
  pe_origin :: string

definition tokenHash :: "('z PgEnv_scheme) \<Rightarrow> string \<Rightarrow> string option" where
  "tokenHash env raw =
     (if length raw \<noteq> 43 then None
      else case raw_url_decode_strict raw of
        None \<Rightarrow> None
      | Some decoded \<Rightarrow> if length decoded \<noteq> 32 then None else Some (pe_sha env raw))"

definition hex_digit :: "nat \<Rightarrow> char" where
  "hex_digit n = ''0123456789abcdef'' ! (n mod 16)"

definition hex_encode :: "string \<Rightarrow> string" where
  "hex_encode s = concat (map (\<lambda>c. [hex_digit (byte c div 16), hex_digit (byte c)]) s)"

definition is_digest :: "string \<Rightarrow> bool" where
  "is_digest s \<longleftrightarrow> length s = 64 \<and> list_all (\<lambda>c. is_hex c) s"

definition digest :: "('z PgEnv_scheme) \<Rightarrow> string \<Rightarrow> string" where
  "digest env raw = hex_encode (pe_sha env raw)"

definition authTx :: "'a PgEnv_scheme \<Rightarrow> unit pg" where
  "authTx env = seq (begin_tx Unavailable) (\<lambda>_. exec Unavailable (\<lambda>db. Some ((), db)))"

definition new_token :: "('z PgEnv_scheme) \<Rightarrow> pg_error \<Rightarrow> (string \<times> string) pg" where
  "new_token env e = seq (random e 32) (\<lambda>raw. ret (the (NewCSRFToken (pe_sha env) (Some raw))))"

text \<open>
  \<open>INSERT INTO control_audit\<close> with the checks of the table. The identity column counts the rows; gaps
  that a rollback leaves are not modelled.
\<close>

definition ins_audit ::
  "string \<Rightarrow> Role \<Rightarrow> string \<Rightarrow> string \<Rightarrow> string \<Rightarrow> string \<Rightarrow> string \<Rightarrow> string \<Rightarrow> int \<Rightarrow> int \<Rightarrow> DB \<Rightarrow> (unit \<times> DB) option" where
  "ins_audit actor role action target before after result requestID revision now db =
     (if role \<notin> set [''admin'', ''operator'', ''viewer'', ''system''] \<or> \<not> is_digest before \<or> \<not> is_digest after \<or> revision < 0
      then None
      else Some ((), db\<lparr>control_audit := control_audit db @
        [\<lparr>ae_ID = int (length (control_audit db)) + 1, ae_OccurredAt = now, ae_ActorID = actor, ae_ActorRole = role,
          ae_Action = action, ae_TargetID = target, ae_BeforeDigest = before, ae_AfterDigest = after,
          ae_Result = result, ae_RequestID = requestID, ae_Revision = revision\<rparr>]\<rparr>))"

definition auth_actions :: "string list" where
  "auth_actions = [''auth.bootstrap'', ''auth.login'', ''auth.lockout'', ''auth.logout'', ''auth.totp.enroll'', ''auth.totp.recover'']"

definition auth_results :: "string list" where
  "auth_results = [''admin_created'', ''authenticated'', ''rejected'', ''locked'', ''logged_out'', ''enrolled'',
     ''challenge_required'', ''enrollment_required'']"

definition auditAuth :: "('z PgEnv_scheme) \<Rightarrow> string \<Rightarrow> string \<Rightarrow> string \<Rightarrow> unit pg" where
  "auditAuth env user action result =
     (if \<not> pe_audit env then ret ()
      else if action \<notin> set auth_actions then throw Unavailable
      else if result \<notin> set auth_results then throw Unavailable
      else
        seq (new_token env Unavailable) (\<lambda>(requestID, _).
        let before = digest env ''wr-auth-audit/v1:transition'';
            after = digest env (''wr-auth-audit/v1:'' @ action @ '':'' @ result)
        in seq (exec_at Unavailable (\<lambda>now db.
             if user = [] then
               map_option (\<lambda>(_, db'). (1::nat, db')) (ins_audit ''system:authentication'' ''system'' action ''authentication''
                 before after result requestID 0 now db)
             else case map_of (auth_accounts db) user of
               None \<Rightarrow> Some (0, db)
             | Some a \<Rightarrow>
                 map_option (\<lambda>(_, db'). (1, db')) (ins_audit user (ar_role a) action ''authentication''
                   before after result requestID 0 now db)))
           (\<lambda>rows. refuse_if (rows \<noteq> 1) Unavailable)))"

definition auditRejectedPassword :: "('z PgEnv_scheme) \<Rightarrow> unit pg" where
  "auditRejectedPassword env =
     (if \<not> pe_audit env then ret ()
      else seq (authTx env) (\<lambda>_. seq (auditAuth env [] ''auth.login'' ''rejected'') (\<lambda>_. commit Unavailable)))"

section \<open>The vault (vault.go)\<close>

definition safe_chars :: "string \<Rightarrow> bool" where
  "safe_chars s \<longleftrightarrow> list_all (\<lambda>c. is_alnum c \<or> c = CHR ''_'' \<or> c = CHR ''-'') s"

definition safeID :: "string \<Rightarrow> bool" where
  "safeID s \<longleftrightarrow> 1 \<le> length s \<and> length s \<le> 128 \<and> safe_chars s"

definition safeKeyID :: "string \<Rightarrow> bool" where
  "safeKeyID s \<longleftrightarrow> 1 \<le> length s \<and> length s \<le> 64 \<and> safe_chars s"

text \<open>\<open>NewVault\<close> accepts these keys; \<open>aes.NewCipher\<close> and \<open>cipher.NewGCM\<close> succeed on 32 bytes.\<close>

definition NewVault :: "(string \<times> string) list \<Rightarrow> auth_error + (string \<times> string) list" where
  "NewVault keys =
     (if keys = [] then Inl ErrAuthUnavailable
      else if list_ex (\<lambda>(i, key). \<not> safeKeyID i \<or> length key \<noteq> 32) keys then Inl ErrAuthUnavailable
      else Inr keys)"

definition associatedData :: "CredentialRef \<Rightarrow> string \<Rightarrow> pg_error + string" where
  "associatedData ref kid =
     (if \<not> safeID (cf_UserID ref) \<or> cf_Version ref = 0 \<or> \<not> safeKeyID kid then Inl Unavailable
      else Inr (''wr/admin/totp/v1:'' @ cf_UserID ref @ '':'' @ dec (cf_Version ref) @ '':'' @ kid))"

definition sealAAD :: "('z PgEnv_scheme) \<Rightarrow> string \<Rightarrow> string \<Rightarrow> Secret \<Rightarrow> string option \<Rightarrow> pg_error + string" where
  "sealAAD env aad kid secret nonce =
     (case map_of (pe_keys env) kid of
        None \<Rightarrow> Inl Unavailable
      | Some key \<Rightarrow>
          (case ProvisioningBase32 secret of
             Inl _ \<Rightarrow> Inl Unavailable
           | Inr raw \<Rightarrow>
               (case nonce of
                  None \<Rightarrow> Inl Unavailable
                | Some n \<Rightarrow> Inr (n @ gcm_Seal (pe_gcm env) key n raw aad))))"

definition openAAD :: "('z PgEnv_scheme) \<Rightarrow> string \<Rightarrow> string \<Rightarrow> string \<Rightarrow> pg_error + Secret" where
  "openAAD env aad kid sealed =
     (case map_of (pe_keys env) kid of
        None \<Rightarrow> Inl Unavailable
      | Some key \<Rightarrow>
          if length sealed \<noteq> 60 then Inl Unavailable
          else case gcm_Open (pe_gcm env) key (take 12 sealed) (drop 12 sealed) aad of
            None \<Rightarrow> Inl Unavailable
          | Some raw \<Rightarrow> (case ParseSecret raw of Inl _ \<Rightarrow> Inl Unavailable | Inr secret \<Rightarrow> Inr secret))"

definition vault_Seal :: "('z PgEnv_scheme) \<Rightarrow> CredentialRef \<Rightarrow> string \<Rightarrow> Secret \<Rightarrow> string option \<Rightarrow> pg_error + string" where
  "vault_Seal env ref kid secret nonce =
     (case associatedData ref kid of Inl e \<Rightarrow> Inl e | Inr aad \<Rightarrow> sealAAD env aad kid secret nonce)"

definition vault_open :: "('z PgEnv_scheme) \<Rightarrow> CredentialRef \<Rightarrow> string \<Rightarrow> string \<Rightarrow> pg_error + Secret" where
  "vault_open env ref kid sealed =
     (case associatedData ref kid of Inl e \<Rightarrow> Inl e | Inr aad \<Rightarrow> openAAD env aad kid sealed)"

definition enrollment_aad :: "string \<Rightarrow> string \<Rightarrow> string" where
  "enrollment_aad aad token = aad @ '':enrollment:'' @ hex_encode token"

definition sealEnrollment ::
  "('z PgEnv_scheme) \<Rightarrow> CredentialRef \<Rightarrow> string \<Rightarrow> string \<Rightarrow> Secret \<Rightarrow> string option \<Rightarrow> pg_error + string" where
  "sealEnrollment env ref kid token secret nonce =
     (case associatedData ref kid of Inl e \<Rightarrow> Inl e | Inr aad \<Rightarrow> sealAAD env (enrollment_aad aad token) kid secret nonce)"

definition openEnrollment ::
  "('z PgEnv_scheme) \<Rightarrow> CredentialRef \<Rightarrow> string \<Rightarrow> string \<Rightarrow> string \<Rightarrow> pg_error + Secret" where
  "openEnrollment env ref kid token sealed =
     (case associatedData ref kid of Inl e \<Rightarrow> Inl e | Inr aad \<Rightarrow> openAAD env (enrollment_aad aad token) kid sealed)"

section \<open>Sessions (sessions.go)\<close>

record sessionSnapshot =
  sn_account :: Account
  sn_session :: Session
  sn_policy :: AuthPolicy
  sn_csrf :: string
  sn_now :: int

record SessionView =
  sv_UserID :: string
  sv_Role :: Role
  sv_MFAVerified :: bool
  sv_TOTPEnrolled :: bool
  sv_CapabilityVersion :: int
  sv_Capabilities :: "AdminCapability list"
  sv_CreatedAt :: int
  sv_LastSeenAt :: int
  IdleExpiresAt :: int
  AbsoluteExpiresAt :: int

definition session_view :: "sessionSnapshot \<Rightarrow> SessionView" where
  "session_view s =
     (let absolute = ss_CreatedAt (sn_session s) + SessionAbsoluteTTL;
          idle = ss_LastSeenAt (sn_session s) + SessionIdleTTL;
          idle = (if absolute < idle then absolute else idle)
      in \<lparr>sv_UserID = a_ID (sn_account s), sv_Role = a_Role (sn_account s),
          sv_MFAVerified = MFAVerified (sn_session s), sv_TOTPEnrolled = TOTPEnrolled (sn_account s),
          sv_CapabilityVersion = 1, sv_Capabilities = AdminCapabilities (a_Role (sn_account s)),
          sv_CreatedAt = ss_CreatedAt (sn_session s), sv_LastSeenAt = ss_LastSeenAt (sn_session s),
          IdleExpiresAt = idle, AbsoluteExpiresAt = absolute\<rparr>)"

definition account_of :: "string \<Rightarrow> AccountRow \<Rightarrow> bool \<Rightarrow> Account" where
  "account_of user a enrolled = \<lparr>a_ID = user, a_Role = ar_role a, Enabled = ar_enabled a,
     SessionVersion = ar_session_version a, TOTPEnrolled = enrolled\<rparr>"

definition session_of :: "SessionRow \<Rightarrow> Session" where
  "session_of r = \<lparr>ss_UserID = sr_user r, AuthPolicyVersion = sr_policy_version r, UserSessionVersion = sr_user_version r,
     MFAVerified = sr_mfa r, ss_CreatedAt = sr_created r, ss_LastSeenAt = sr_last_seen r\<rparr>"

text \<open>The argument \<open>mutate\<close> of the source only chooses the strength of the row lock.\<close>

definition loadSession :: "string \<Rightarrow> sessionSnapshot pg" where
  "loadSession hash =
     seq (query Unavailable Unavailable auth_policy) (\<lambda>policy.
     seq (refuse_if (AuthPolicy_Validate policy \<noteq> None) Unavailable) (\<lambda>_.
     seq (query Unauthenticated Unavailable (\<lambda>db. map_option sr_user (map_of (auth_sessions db) hash))) (\<lambda>user.
     seq (query Unauthenticated Unavailable (\<lambda>db. map_of (auth_accounts db) user)) (\<lambda>a.
     seq (query Unavailable Unavailable (\<lambda>db. Some (map_of (auth_totp_credentials db) user \<noteq> None))) (\<lambda>enrolled.
     seq (query Unauthenticated Unavailable (\<lambda>db. map_of (auth_sessions db) hash)) (\<lambda>row.
     seq (refuse_if (length (sr_csrf row) \<noteq> 32) Unavailable) (\<lambda>_.
     seq (read_clock Unavailable) (\<lambda>now.
     seq (check (map_option AuthErr (CheckSession (account_of user a enrolled) (session_of row) policy now))) (\<lambda>_.
     ret \<lparr>sn_account = account_of user a enrolled, sn_session = session_of row, sn_policy = policy,
          sn_csrf = sr_csrf row, sn_now = now\<rparr>)))))))))"

text \<open>Deleting sessions also deletes the proofs and the enrollment permissions that refer to them.\<close>

definition del_sessions :: "(string \<times> SessionRow \<Rightarrow> bool) \<Rightarrow> DB \<Rightarrow> DB" where
  "del_sessions P db =
     (let gone = map fst (filter P (auth_sessions db))
      in db\<lparr>auth_sessions := filter (\<lambda>r. \<not> P r) (auth_sessions db),
            auth_reauth_proofs := filter (\<lambda>(k, p). pf_session p \<notin> set gone) (auth_reauth_proofs db),
            auth_policy_enrollments := filter (\<lambda>(k, h). h \<notin> set gone) (auth_policy_enrollments db)\<rparr>)"

definition del_session :: "string \<Rightarrow> DB \<Rightarrow> DB" where
  "del_session hash = del_sessions (\<lambda>(k, r). k = hash)"

definition touch_session :: "string \<Rightarrow> int \<Rightarrow> DB \<Rightarrow> int option \<times> DB" where
  "touch_session hash now db =
     (case map_of (auth_sessions db) hash of
        None \<Rightarrow> (None, db)
      | Some r \<Rightarrow>
          if sr_created r \<le> now \<and> sr_last_seen r \<le> now \<and> sr_created r + hours 8 > now \<and> sr_last_seen r + minutes 30 > now
          then (Some now, db\<lparr>auth_sessions := AList.update hash (r\<lparr>sr_last_seen := now\<rparr>) (auth_sessions db)\<rparr>)
          else (None, db))"

definition check_mutation :: "('z PgEnv_scheme) \<Rightarrow> HttpRequest \<Rightarrow> string \<Rightarrow> unit pg" where
  "check_mutation env r csrf = check (map_option AuthErr (CheckMutation (pe_sha env) (pe_origin env) r csrf))"

text \<open>
  The context deadlines of the services are failed calls in this model. \<open>request\<close> is only read by the
  two mutations; a read passes none.
\<close>

definition session_run ::
  "('z PgEnv_scheme) \<Rightarrow> string \<Rightarrow> HttpRequest option \<Rightarrow> string \<Rightarrow> SessionView pg" where
  "session_run env token request operation =
     (case tokenHash env token of
        None \<Rightarrow> throw Unauthenticated
      | Some hash \<Rightarrow>
          let mutate = operation \<noteq> ''read'' in
          if mutate \<and> (case request of None \<Rightarrow> True | Some r \<Rightarrow> rq_Method r \<noteq> ''POST'') then throw Forbidden
          else
            seq (authTx env) (\<lambda>_.
            seq (loadSession hash) (\<lambda>state.
            seq (if \<not> mutate then ret state
                 else
                   seq (check_mutation env (the request) (sn_csrf state)) (\<lambda>_.
                   if operation = ''logout'' then
                     seq (exec Unavailable (\<lambda>db. Some ((), del_session hash db))) (\<lambda>_.
                     seq (auditAuth env (a_ID (sn_account state)) ''auth.logout'' ''logged_out'') (\<lambda>_. ret state))
                   else
                     seq (exec_at Unavailable (\<lambda>now db. Some (touch_session hash now db))) (\<lambda>seen.
                     case seen of
                       None \<Rightarrow> throw Unauthenticated
                     | Some t \<Rightarrow> ret (state\<lparr>sn_session := (sn_session state)\<lparr>ss_LastSeenAt := t\<rparr>\<rparr>))))
              (\<lambda>state.
            seq (commit Unavailable) (\<lambda>_. ret (session_view state))))))"

definition Me :: "('z PgEnv_scheme) \<Rightarrow> string \<Rightarrow> SessionView pg" where
  "Me env token = session_run env token None ''read''"

definition Touch :: "('z PgEnv_scheme) \<Rightarrow> string \<Rightarrow> HttpRequest option \<Rightarrow> SessionView pg" where
  "Touch env token request = session_run env token request ''touch''"

definition Logout :: "('z PgEnv_scheme) \<Rightarrow> string \<Rightarrow> HttpRequest option \<Rightarrow> unit pg" where
  "Logout env token request = seq (session_run env token request ''logout'') (\<lambda>_. ret ())"

section \<open>Logout with replay (logout.go)\<close>

definition safeCommandKey :: "string \<Rightarrow> bool" where
  "safeCommandKey key \<longleftrightarrow> 16 \<le> length key \<and> length key \<le> 128 \<and> list_all (\<lambda>c. 33 \<le> byte c \<and> byte c \<le> 126) key"

definition logout_replay :: "('z PgEnv_scheme) \<Rightarrow> string \<Rightarrow> HttpRequest \<Rightarrow> string \<Rightarrow> bool pg" where
  "logout_replay env hash request key =
     seq (query_at Unavailable Unavailable (\<lambda>now db. Some (case map_of (auth_logout_replays db) hash of
         None \<Rightarrow> None
       | Some r \<Rightarrow> if lo_created r \<le> now \<and> lo_expires r > now then Some r else None))) (\<lambda>row.
     case row of
       None \<Rightarrow> ret False
     | Some r \<Rightarrow>
         seq (refuse_if (length (lo_csrf r) \<noteq> 32) Unavailable) (\<lambda>_.
         seq (check_mutation env request (lo_csrf r)) (\<lambda>_.
         seq (refuse_if (lo_key r \<noteq> key) ErrLogoutConflict) (\<lambda>_. ret True))))"

text \<open>The 128 rows that expired first; rows that expired at the same instant go in table order.\<close>

definition expired_first :: "('r \<Rightarrow> int) \<Rightarrow> int \<Rightarrow> ('k \<times> 'r) list \<Rightarrow> 'k list" where
  "expired_first expiry now rows =
     map fst (take 128 (sort_key (\<lambda>(k, r). expiry r) (filter (\<lambda>(k, r). expiry r \<le> now) rows)))"

definition prune :: "('r \<Rightarrow> int) \<Rightarrow> int \<Rightarrow> ('k \<times> 'r) list \<Rightarrow> ('k \<times> 'r) list" where
  "prune expiry now rows = filter (\<lambda>(k, r). k \<notin> set (expired_first expiry now rows)) rows"

definition ins_logout :: "string \<Rightarrow> string \<Rightarrow> string \<Rightarrow> int \<Rightarrow> DB \<Rightarrow> (unit \<times> DB) option" where
  "ins_logout hash csrf key now db =
     (if length hash \<noteq> 32 \<or> length csrf \<noteq> 32 \<or> length key \<noteq> 32 \<or> map_of (auth_logout_replays db) hash \<noteq> None then None
      else Some ((), db\<lparr>auth_logout_replays := auth_logout_replays db @
        [(hash, \<lparr>lo_csrf = csrf, lo_key = key, lo_created = now, lo_expires = now + hours 24\<rparr>)]\<rparr>))"

definition LogoutReplay :: "('z PgEnv_scheme) \<Rightarrow> string \<Rightarrow> HttpRequest option \<Rightarrow> bool pg" where
  "LogoutReplay env token request =
     (case request of
        None \<Rightarrow> throw Forbidden
      | Some r \<Rightarrow>
          if rq_Method r \<noteq> ''POST'' then throw Forbidden
          else if length (Header_Values r ''Idempotency-Key'') = 0
            then seq (Logout env token (Some r)) (\<lambda>_. ret False)
          else if length (Header_Values r ''Idempotency-Key'') \<noteq> 1 \<or> \<not> safeCommandKey (Header_Get r ''Idempotency-Key'')
            then throw ErrLogoutInvalid
          else case tokenHash env token of
            None \<Rightarrow> throw Unauthenticated
          | Some hash \<Rightarrow>
              seq (authTx env) (\<lambda>_.
              let key = pe_sha env (Header_Get r ''Idempotency-Key'') in
              seq (logout_replay env hash r key) (\<lambda>found.
              if found then ret True
              else
                seq (attempt (loadSession hash)) (\<lambda>loaded.
                case loaded of
                  Inl err \<Rightarrow>
                    if err = Unauthenticated
                    then seq (logout_replay env hash r key) (\<lambda>found. if found then ret True else throw err)
                    else throw err
                | Inr state \<Rightarrow>
                    seq (check_mutation env r (sn_csrf state)) (\<lambda>_.
                    seq (exec_at Unavailable (\<lambda>now db. Some ((), db\<lparr>auth_logout_replays := prune lo_expires now (auth_logout_replays db)\<rparr>))) (\<lambda>_.
                    seq (exec Unavailable (\<lambda>db. Some ((), db))) (\<lambda>_.
                    seq (query Unavailable Unavailable (\<lambda>db. Some (length (auth_logout_replays db)))) (\<lambda>count.
                    seq (refuse_if (count \<ge> 10000) Unavailable) (\<lambda>_.
                    seq (exec_at Unavailable (ins_logout hash (sn_csrf state) key)) (\<lambda>_.
                    seq (exec Unavailable (\<lambda>db. Some ((), del_session hash db))) (\<lambda>_.
                    seq (auditAuth env (a_ID (sn_account state)) ''auth.logout'' ''logged_out'') (\<lambda>_.
                    seq (commit Unavailable) (\<lambda>_. ret False)))))))))))))"

end
