(* ===== verification/WR_Login.thy ===== *)
theory WR_Login
  imports WR_Db
begin

text \<open>
  Login (\<open>internal/adminauth/pgstore\<close>): the reservation of attempts and the password step (\<open>login.go\<close>),
  the sessions and enrollment tokens it issues (\<open>bootstrap.go\<close>), the second factor (\<open>CompleteTOTP\<close> in
  \<open>store.go\<close>) and the first registration of a second factor (\<open>enrollment.go\<close>). HMAC, Argon2id and the
  canonical text of a peer address are parameters or inputs.
\<close>

record LoginEnv = PgEnv +
  le_hmac256 :: "string \<Rightarrow> string \<Rightarrow> string"
  le_hmac1 :: "string \<Rightarrow> string \<Rightarrow> string"
  le_argon :: argon
  le_hasher :: PasswordHasher
  le_fingerprintKey :: string

section \<open>Attempt limits (login.go)\<close>

definition LoginAccountLimit :: int where "LoginAccountLimit = 5"
definition LoginSourceLimit :: int where "LoginSourceLimit = 20"
definition LoginInstallationLimit :: int where "LoginInstallationLimit = 60"

definition fingerprint :: "'z LoginEnv_scheme \<Rightarrow> string \<Rightarrow> string \<Rightarrow> string" where
  "fingerprint env domain value = hex_encode (le_hmac256 env (le_fingerprintKey env) (domain @ '':'' @ value))"

definition bucket_key :: "'z LoginEnv_scheme \<Rightarrow> string \<Rightarrow> int \<Rightarrow> string \<Rightarrow> string \<Rightarrow> string" where
  "bucket_key env kind now user source =
     (if kind = ''source''
      then kind @ '':'' @ fingerprint env (''source/'' @ itoa (unix now div 86400)) source
      else kind @ '':'' @ fingerprint env ''account'' user)"

text \<open>\<open>INSERT ... ON CONFLICT DO NOTHING\<close>: whether a row was inserted.\<close>

definition ins_bucket :: "string \<Rightarrow> int \<Rightarrow> DB \<Rightarrow> (bool \<times> DB) option" where
  "ins_bucket key now db =
     (if map_of (auth_login_buckets db) key \<noteq> None then Some (False, db)
      else if length key < 1 \<or> length key > 80 then None
      else Some (True, db\<lparr>auth_login_buckets := auth_login_buckets db @
        [(key, \<lparr>bk_started = now, bk_expires = now + minutes 1, bk_used = 1\<rparr>)]\<rparr>))"

definition set_bucket :: "string \<Rightarrow> BucketRow \<Rightarrow> DB \<Rightarrow> (unit \<times> DB) option" where
  "set_bucket key b db = Some ((), db\<lparr>auth_login_buckets := AList.update key b (auth_login_buckets db)\<rparr>)"

fun reserve_loop :: "'z LoginEnv_scheme \<Rightarrow> string \<Rightarrow> string \<Rightarrow> (string \<times> int) list \<Rightarrow> bool pg" where
  "reserve_loop env user source [] = ret True"
| "reserve_loop env user source ((kind, limit) # rest) =
     seq (if kind = ''installation'' then ret kind
          else seq (read_clock Unavailable) (\<lambda>now. ret (bucket_key env kind now user source))) (\<lambda>key.
     seq (exec_at Unavailable (ins_bucket key)) (\<lambda>inserted.
     if inserted then reserve_loop env user source rest
     else
       seq (query Unavailable Unavailable (\<lambda>db. map_of (auth_login_buckets db) key)) (\<lambda>b.
       seq (read_clock Unavailable) (\<lambda>now.
       if now < bk_started b \<or> now < bk_expires b \<and> bk_used b \<ge> limit then
         (if bk_used b \<le> limit then
            seq (exec Unavailable (set_bucket key (b\<lparr>bk_used := limit + 1\<rparr>))) (\<lambda>_.
            seq (auditAuth env [] ''auth.lockout'' ''locked'') (\<lambda>_. ret False))
          else ret False)
       else
         seq (exec Unavailable (set_bucket key
           (if \<not> now < bk_expires b then \<lparr>bk_started = now, bk_expires = now + minutes 1, bk_used = 1\<rparr>
            else b\<lparr>bk_used := bk_used b + 1\<rparr>))) (\<lambda>_.
         reserve_loop env user source rest)))))"

definition login_limits :: "(string \<times> int) list" where
  "login_limits = [(''installation'', LoginInstallationLimit), (''source'', LoginSourceLimit), (''account'', LoginAccountLimit)]"

definition del_buckets :: "int \<Rightarrow> DB \<Rightarrow> (unit \<times> DB) option" where
  "del_buckets now db = Some ((), db\<lparr>auth_login_buckets := filter (\<lambda>(k, b).
     \<not> (bk_expires b \<le> now \<and> k \<noteq> ''installation'' \<and> \<not> has_prefix k ''http-'')) (auth_login_buckets db)\<rparr>)"

definition reserveAttempt :: "'z LoginEnv_scheme \<Rightarrow> string \<Rightarrow> string \<Rightarrow> unit pg" where
  "reserveAttempt env user source =
     seq (authTx env) (\<lambda>_.
     seq (reserve_loop env user source login_limits) (\<lambda>allowed.
     seq (if allowed then exec_at Unavailable del_buckets else ret ()) (\<lambda>_.
     seq (commit Unavailable) (\<lambda>_.
     refuse_if (\<not> allowed) Unauthenticated))))"

section \<open>Issued sessions and tokens (bootstrap.go)\<close>

definition ins_session :: "string \<Rightarrow> SessionRow \<Rightarrow> DB \<Rightarrow> (unit \<times> DB) option" where
  "ins_session hash r db =
     (if length hash \<noteq> 32 \<or> length (sr_csrf r) \<noteq> 32 \<or> map_of (auth_sessions db) hash \<noteq> None \<or>
         map_of (auth_accounts db) (sr_user r) = None \<or> sr_policy_version r = 0 \<or> sr_user_version r = 0 \<or>
         sr_last_seen r < sr_created r then None
      else Some ((), db\<lparr>auth_sessions := auth_sessions db @ [(hash, r)]\<rparr>))"

record Grant =
  gr_session :: string
  gr_csrf :: string

definition no_grant :: Grant where "no_grant = \<lparr>gr_session = [], gr_csrf = []\<rparr>"

definition issuePasswordSession :: "'z LoginEnv_scheme \<Rightarrow> string \<Rightarrow> nat \<Rightarrow> nat \<Rightarrow> Grant pg" where
  "issuePasswordSession env user policyVersion userVersion =
     seq (new_token env Unavailable) (\<lambda>(session, sh).
     seq (new_token env Unavailable) (\<lambda>(csrf, ch).
     seq (exec_at Unavailable (\<lambda>t. ins_session sh \<lparr>sr_csrf = ch, sr_user = user, sr_policy_version = policyVersion,
        sr_user_version = userVersion, sr_mfa = False, sr_created = t, sr_last_seen = t\<rparr>)) (\<lambda>_.
     ret \<lparr>gr_session = session, gr_csrf = csrf\<rparr>)))"

definition consume_enrollments :: "(EnrollmentRow \<Rightarrow> bool) \<Rightarrow> DB \<Rightarrow> DB" where
  "consume_enrollments P db = db\<lparr>auth_enrollment_challenges := map (\<lambda>(k, r).
     (k, if P r then r\<lparr>en_consumed := True, en_secret := None\<rparr> else r)) (auth_enrollment_challenges db)\<rparr>"

definition ins_enrollment :: "string \<Rightarrow> EnrollmentRow \<Rightarrow> DB \<Rightarrow> (int \<times> DB) option" where
  "ins_enrollment hash r db =
     (if length hash \<noteq> 32 \<or> map_of (auth_enrollment_challenges db) hash \<noteq> None \<or>
         map_of (auth_accounts db) (en_user r) = None \<or> en_policy_version r = 0 \<or> en_user_version r = 0 then None
      else Some (en_expires r, db\<lparr>auth_enrollment_challenges := auth_enrollment_challenges db @ [(hash, r)]\<rparr>))"

definition issueEnrollment :: "'z LoginEnv_scheme \<Rightarrow> string \<Rightarrow> nat \<Rightarrow> nat \<Rightarrow> (string \<times> int) pg" where
  "issueEnrollment env user policyVersion userVersion =
     seq (new_token env Unavailable) (\<lambda>(raw, hash).
     seq (exec Unavailable (\<lambda>db. Some ((), consume_enrollments (\<lambda>r. en_user r = user \<and> \<not> en_consumed r) db))) (\<lambda>_.
     seq (exec_at Unavailable (\<lambda>t. ins_enrollment hash \<lparr>en_user = user, en_policy_version = policyVersion,
        en_user_version = userVersion, en_created = t, en_expires = t + minutes 5, en_consumed = False,
        en_attempts = 0, en_secret = None\<rparr>)) (\<lambda>expires.
     ret (raw, expires))))"

section \<open>The password step (login.go)\<close>

record passwordSnapshot =
  ps_user :: string
  ps_role :: Role
  ps_hash :: string
  ps_userVersion :: nat
  ps_passwordVersion :: nat
  ps_policyVersion :: nat
  ps_enabled :: bool
  ps_totp :: bool
  ps_mode :: string

definition snapshot_row :: "string \<Rightarrow> DB \<Rightarrow> passwordSnapshot option" where
  "snapshot_row user db =
     (case (map_of (auth_accounts db) user, map_of (auth_password_credentials db) user, auth_policy db) of
        (Some a, Some c, Some p) \<Rightarrow>
          Some \<lparr>ps_user = user, ps_role = ar_role a, ps_hash = pr_hash c, ps_userVersion = ar_session_version a,
                ps_passwordVersion = pr_version c, ps_policyVersion = po_Version p, ps_enabled = ar_enabled a,
                ps_totp = TOTPEnabled p, ps_mode = po_Mode p\<rparr>
      | _ \<Rightarrow> None)"

text \<open>\<open>none\<close> is the error for a missing account.\<close>

definition login_snapshot :: "pg_error \<Rightarrow> string \<Rightarrow> passwordSnapshot pg" where
  "login_snapshot none user = pool_query none Unavailable (\<lambda>now. snapshot_row user)"

record LoginResult =
  lr_challenge :: string
  lr_enrollment :: string
  lr_grant :: Grant
  lr_expiresAt :: int

definition no_login :: LoginResult where
  "no_login = \<lparr>lr_challenge = [], lr_enrollment = [], lr_grant = no_grant, lr_expiresAt = zero_time\<rparr>"

definition consume_challenges :: "string \<Rightarrow> DB \<Rightarrow> DB" where
  "consume_challenges user db = db\<lparr>auth_totp_challenges := map (\<lambda>(k, r).
     (k, if ch_user r = user \<and> \<not> ch_consumed r then r\<lparr>ch_consumed := True\<rparr> else r)) (auth_totp_challenges db)\<rparr>"

definition ins_challenge :: "string \<Rightarrow> ChallengeRow \<Rightarrow> DB \<Rightarrow> (int \<times> DB) option" where
  "ins_challenge hash r db =
     (if length hash \<noteq> 32 \<or> map_of (auth_totp_challenges db) hash \<noteq> None \<or> map_of (auth_accounts db) (ch_user r) = None \<or>
         ch_credential_version r = 0 \<or> ch_policy_version r = 0 \<or> ch_user_version r = 0 then None
      else Some (ch_expires r, db\<lparr>auth_totp_challenges := auth_totp_challenges db @ [(hash, r)]\<rparr>))"

definition finishPassword :: "'z LoginEnv_scheme \<Rightarrow> passwordSnapshot \<Rightarrow> LoginResult pg" where
  "finishPassword env before =
     seq (authTx env) (\<lambda>_.
     seq (query Unavailable Unavailable auth_policy) (\<lambda>policy.
     seq (refuse_if (AuthPolicy_Validate policy \<noteq> None) Unavailable) (\<lambda>_.
     seq (query Unauthenticated Unavailable (\<lambda>db. map_of (auth_accounts db) (ps_user before))) (\<lambda>a.
     seq (query Unauthenticated Unavailable (\<lambda>db. map_of (auth_password_credentials db) (ps_user before))) (\<lambda>c.
     seq (refuse_if (\<not> ar_enabled a \<or> ar_role a \<noteq> ps_role before \<or> ar_session_version a \<noteq> ps_userVersion before \<or>
        pr_version c \<noteq> ps_passwordVersion before \<or> pr_hash c \<noteq> ps_hash before \<or> po_Version policy \<noteq> ps_policyVersion before \<or>
        po_Mode policy \<noteq> ps_mode before \<or> TOTPEnabled policy \<noteq> ps_totp before) Unauthenticated) (\<lambda>_.
     if TOTPEnabled policy then
       seq (query Unavailable Unavailable (\<lambda>db. Some (map_of (auth_totp_credentials db) (ps_user before)))) (\<lambda>credential.
       case credential of
         None \<Rightarrow>
           seq (issueEnrollment env (ps_user before) (po_Version policy) (ar_session_version a)) (\<lambda>(enrollment, expires).
           seq (auditAuth env (ps_user before) ''auth.login'' ''enrollment_required'') (\<lambda>_.
           seq (commit Unavailable) (\<lambda>_. ret (no_login\<lparr>lr_enrollment := enrollment, lr_expiresAt := expires\<rparr>))))
       | Some t \<Rightarrow>
           seq (new_token env Unavailable) (\<lambda>(raw, hash).
           seq (exec Unavailable (\<lambda>db. Some ((), consume_challenges (ps_user before) db))) (\<lambda>_.
           seq (exec_at Unavailable (\<lambda>now. ins_challenge hash \<lparr>ch_user = ps_user before,
              ch_credential_version = tr_version t, ch_policy_version = po_Version policy,
              ch_user_version = ar_session_version a, ch_created = now, ch_expires = now + minutes 5,
              ch_attempts = 0, ch_consumed = False\<rparr>)) (\<lambda>expires.
           seq (auditAuth env (ps_user before) ''auth.login'' ''challenge_required'') (\<lambda>_.
           seq (commit Unavailable) (\<lambda>_. ret (no_login\<lparr>lr_challenge := raw, lr_expiresAt := expires\<rparr>)))))))
     else
       seq (issuePasswordSession env (ps_user before) (po_Version policy) (ar_session_version a)) (\<lambda>grant.
       seq (auditAuth env (ps_user before) ''auth.login'' ''authenticated'') (\<lambda>_.
       seq (commit Unavailable) (\<lambda>_. ret (no_login\<lparr>lr_grant := grant\<rparr>))))))))))"

text \<open>
  \<open>source\<close> is the answer of \<open>sourceValue\<close> for the peer, \<open>dv\<close> what the key derivation meets. A missing
  account runs the same steps with an empty stored hash.
\<close>

definition Login :: "'z LoginEnv_scheme \<Rightarrow> Derivation \<Rightarrow> string \<Rightarrow> string \<Rightarrow> string option \<Rightarrow> LoginResult pg" where
  "Login env dv user password source =
     (case source of
        None \<Rightarrow> throw Unauthenticated
      | Some src \<Rightarrow>
          if \<not> safeID user \<or> \<not> ValidLoginPassword password then throw Unauthenticated
          else
            seq (reserveAttempt env user src) (\<lambda>_.
            seq (pool_query Unavailable Unavailable (\<lambda>now db. Some (snapshot_row user db))) (\<lambda>found.
            let stored = (case found of None \<Rightarrow> [] | Some s \<Rightarrow> if ps_enabled s then ps_hash s else []) in
            seq (of_sum (case fst (password_Verify (le_argon env) dv (le_hasher env) password stored) of
                Inl e \<Rightarrow> Inl (AuthErr e) | Inr v \<Rightarrow> Inr v)) (\<lambda>valid.
            case found of
              Some before \<Rightarrow>
                if \<not> valid \<or> \<not> ps_enabled before
                then seq (auditRejectedPassword env) (\<lambda>_. throw Unauthenticated)
                else finishPassword env before
            | None \<Rightarrow> seq (auditRejectedPassword env) (\<lambda>_. throw Unauthenticated)))))"

section \<open>The second factor (store.go)\<close>

text \<open>The update of a counter: the number of rows it changed.\<close>

definition advance_counter :: "CredentialRef \<Rightarrow> nat \<Rightarrow> DB \<Rightarrow> (nat \<times> DB) option" where
  "advance_counter ref counter db =
     Some (case map_of (auth_totp_credentials db) (cf_UserID ref) of
        None \<Rightarrow> (0, db)
      | Some t \<Rightarrow>
          if tr_version t = cf_Version ref \<and> tr_last_counter t < int counter
          then (1, db\<lparr>auth_totp_credentials :=
                 AList.update (cf_UserID ref) (t\<lparr>tr_last_counter := int counter\<rparr>) (auth_totp_credentials db)\<rparr>)
          else (0, db))"

definition consume_challenge :: "string \<Rightarrow> int \<Rightarrow> DB \<Rightarrow> (nat \<times> DB) option" where
  "consume_challenge hash now db =
     Some (case map_of (auth_totp_challenges db) hash of
        None \<Rightarrow> (0, db)
      | Some r \<Rightarrow>
          if \<not> ch_consumed r \<and> ch_attempts r < 5 \<and> ch_created r \<le> now \<and> ch_expires r > now
          then (1, db\<lparr>auth_totp_challenges := AList.update hash (r\<lparr>ch_consumed := True\<rparr>) (auth_totp_challenges db)\<rparr>)
          else (0, db))"

record loginConsumer =
  lc_ref :: CredentialRef
  lc_challengeHash :: string
  lc_sessionHash :: string
  lc_csrfHash :: string
  lc_policy :: nat
  lc_userVersion :: nat

definition login_consume :: "'z LoginEnv_scheme \<Rightarrow> loginConsumer \<Rightarrow> CredentialRef \<Rightarrow> nat \<Rightarrow> bool pg" where
  "login_consume env c ref counter =
     (if ref \<noteq> lc_ref c \<or> int counter > 9223372036854775807 then ret False
      else
        seq (exec Unavailable (advance_counter ref counter)) (\<lambda>rows.
        if rows \<noteq> 1 then ret False
        else
          seq (exec_at Unavailable (consume_challenge (lc_challengeHash c))) (\<lambda>rows.
          seq (refuse_if (rows \<noteq> 1) Unavailable) (\<lambda>_.
          seq (exec_at Unavailable (\<lambda>t. ins_session (lc_sessionHash c) \<lparr>sr_csrf = lc_csrfHash c, sr_user = cf_UserID ref,
             sr_policy_version = lc_policy c, sr_user_version = lc_userVersion c, sr_mfa = True, sr_created = t,
             sr_last_seen = t\<rparr>)) (\<lambda>_.
          seq (auditAuth env (cf_UserID ref) ''auth.login'' ''authenticated'') (\<lambda>_.
          seq (commit Unavailable) (\<lambda>_. ret True)))))))"

text \<open>\<open>VerifyAndConsume\<close> as a step of a service; a context that has ended is a failing call.\<close>

definition verify_code ::
  "'z LoginEnv_scheme \<Rightarrow> CredentialRef \<Rightarrow> Secret \<Rightarrow> string \<Rightarrow> int \<Rightarrow> (CredentialRef \<Rightarrow> nat \<Rightarrow> bool pg) \<Rightarrow> unit pg" where
  "verify_code env ref secret code now consume s =
     (case VerifyAndConsume (le_hmac1 env) False ref secret code now consume s of
        (None, s') \<Rightarrow> (Inr (), s') | (Some e, s') \<Rightarrow> (Inl (AuthErr e), s'))"

definition count_attempt :: "string \<Rightarrow> DB \<Rightarrow> (unit \<times> DB) option" where
  "count_attempt hash db =
     (case map_of (auth_totp_challenges db) hash of
        None \<Rightarrow> Some ((), db)
      | Some r \<Rightarrow>
          if ch_attempts r + 1 > 5 then None
          else Some ((), db\<lparr>auth_totp_challenges := AList.update hash
             (r\<lparr>ch_attempts := ch_attempts r + 1, ch_consumed := ch_attempts r + 1 \<ge> 5\<rparr>) (auth_totp_challenges db)\<rparr>))"

text \<open>The rows a pending challenge refers to, locked and checked against each other.\<close>

record totpState =
  ts_policy :: AuthPolicy
  ts_account :: AccountRow
  ts_credential :: TotpRow
  ts_challenge :: ChallengeRow
  ts_now :: int

definition load_challenge :: "string \<Rightarrow> totpState pg" where
  "load_challenge hash =
     seq (query Unavailable Unavailable auth_policy) (\<lambda>p.
     seq (refuse_if (AuthPolicy_Validate p \<noteq> None) Unavailable) (\<lambda>_.
     seq (refuse_if (\<not> TOTPEnabled p) InvalidOrReplayed) (\<lambda>_.
     seq (query InvalidOrReplayed Unavailable (\<lambda>db. map_option ch_user (map_of (auth_totp_challenges db) hash))) (\<lambda>user.
     seq (query InvalidOrReplayed Unavailable (\<lambda>db. map_of (auth_accounts db) user)) (\<lambda>a.
     seq (refuse_if (\<not> ar_enabled a \<or> AdminCapabilities (ar_role a) = []) InvalidOrReplayed) (\<lambda>_.
     seq (query InvalidOrReplayed Unavailable (\<lambda>db. map_of (auth_totp_credentials db) user)) (\<lambda>t.
     seq (query InvalidOrReplayed Unavailable (\<lambda>db. map_of (auth_totp_challenges db) hash)) (\<lambda>ch.
     seq (read_clock Unavailable) (\<lambda>now.
     seq (refuse_if (ch_user ch \<noteq> user \<or> ch_credential_version ch \<noteq> tr_version t \<or> ch_policy_version ch \<noteq> po_Version p \<or>
        ch_user_version ch \<noteq> ar_session_version a \<or> ch_consumed ch \<or> ch_attempts ch \<ge> 5 \<or> now < ch_created ch \<or>
        \<not> now < ch_expires ch) InvalidOrReplayed) (\<lambda>_.
     ret \<lparr>ts_policy = p, ts_account = a, ts_credential = t, ts_challenge = ch, ts_now = now\<rparr>))))))))))"

definition CompleteTOTP :: "'z LoginEnv_scheme \<Rightarrow> string \<Rightarrow> string \<Rightarrow> Grant pg" where
  "CompleteTOTP env challenge code =
     (case tokenHash env challenge of
        None \<Rightarrow> throw InvalidOrReplayed
      | Some hash \<Rightarrow>
          seq (begin_tx Unavailable) (\<lambda>_.
          seq (exec Unavailable (\<lambda>db. Some ((), db))) (\<lambda>_.
          seq (exec Unavailable (\<lambda>db. Some ((), db))) (\<lambda>_.
          seq (load_challenge hash) (\<lambda>st.
          let user = ch_user (ts_challenge st);
              t = ts_credential st;
              ref = \<lparr>cf_UserID = user, cf_Version = tr_version t\<rparr> in
          seq (of_sum (case vault_open env ref (tr_key_id t) (tr_sealed t) of Inl _ \<Rightarrow> Inl Unavailable | Inr s \<Rightarrow> Inr s)) (\<lambda>secret.
          seq (new_token env Unavailable) (\<lambda>(session, sh).
          seq (new_token env Unavailable) (\<lambda>(csrf, csh).
          seq (attempt (verify_code env ref secret code (ts_now st) (login_consume env
             \<lparr>lc_ref = ref, lc_challengeHash = hash, lc_sessionHash = sh, lc_csrfHash = csh,
              lc_policy = po_Version (ts_policy st), lc_userVersion = ar_session_version (ts_account st)\<rparr>))) (\<lambda>verified.
          case verified of
            Inr _ \<Rightarrow> ret \<lparr>gr_session = session, gr_csrf = csrf\<rparr>
          | Inl err \<Rightarrow>
              if err \<noteq> InvalidOrReplayed then throw Unavailable
              else
                seq (exec Unavailable (count_attempt hash)) (\<lambda>_.
                seq (if ch_attempts (ts_challenge st) + 1 \<ge> 5 then auditAuth env user ''auth.lockout'' ''locked''
                     else auditAuth env user ''auth.login'' ''rejected'') (\<lambda>_.
                seq (commit Unavailable) (\<lambda>_. throw InvalidOrReplayed))))))))))))"

end
