(* ===== verification/WR_Command.thy ===== *)
theory WR_Command
  imports WR_Login
begin

text \<open>
  Operator commands (\<open>internal/adminauth/pgstore\<close>): authorization of a request, the draft
  configuration and its optimistic update, the audit log (\<open>control.go\<close>), the frame shared by all other
  commands with its durable replay (\<open>commands.go\<close>) and the consumption of reauthentication proofs
  (\<open>reauth.go\<close>). The exact JSON decoders, the encoders and the normal form in which the database
  returns a JSON document are parameters.
\<close>

section \<open>Replies\<close>

record ControlReply =
  rp_Status :: int
  rp_Body :: string
  rp_ETag :: string
  rp_Replay :: bool
  rp_RotatedGrant :: Grant

definition reply :: "int \<Rightarrow> string \<Rightarrow> string \<Rightarrow> ControlReply" where
  "reply status body etag = \<lparr>rp_Status = status, rp_Body = body, rp_ETag = etag, rp_Replay = False, rp_RotatedGrant = no_grant\<rparr>"

text \<open>What the services are constructed with, beyond the login services.\<close>

record CtlEnv = LoginEnv +
  ce_parse :: "string \<Rightarrow> URL option"
  ce_images :: ImageLib
  ce_decode_config :: "string \<Rightarrow> Config option"
  ce_config_bytes :: "Config \<Rightarrow> string"
  ce_delivery_bytes :: "Delivery \<Rightarrow> string"
  ce_widest_envelope :: "string \<Rightarrow> string"
  ce_jsonb :: "string \<Rightarrow> string"
  ce_problem :: "int \<Rightarrow> string \<Rightarrow> string \<Rightarrow> string"

text \<open>The request identifier stays empty when the random source fails; the reply is given all the same.\<close>

definition replyProblem :: "'z CtlEnv_scheme \<Rightarrow> int \<Rightarrow> string \<Rightarrow> ControlReply pg" where
  "replyProblem env status code =
     seq (attempt (new_token env Unavailable)) (\<lambda>r.
     ret (reply status (ce_problem env status code (case r of Inl _ \<Rightarrow> [] | Inr (i, _) \<Rightarrow> i)) []))"

definition configETag :: "int \<Rightarrow> string" where
  "configETag revision = [CHR 34] @ ''config-'' @ itoa revision @ [CHR 34]"

section \<open>Authorization of a command (control.go)\<close>

definition lock_policy :: "unit pg" where
  "lock_policy = exec Unavailable (\<lambda>db. Some ((), db))"

definition beginCommand ::
  "'z CtlEnv_scheme \<Rightarrow> string \<Rightarrow> Action \<Rightarrow> HttpRequest option \<Rightarrow> bool \<Rightarrow> sessionSnapshot pg" where
  "beginCommand env token action request sensitive =
     (case tokenHash env token of
        None \<Rightarrow> throw Unauthenticated
      | Some hash \<Rightarrow>
          seq (authTx env) (\<lambda>_.
          seq (if sensitive then lock_policy else ret ()) (\<lambda>_.
          seq (loadSession hash) (\<lambda>state.
          seq (refuse_if (case Requirement (a_Role (sn_account state)) action of
               None \<Rightarrow> True | Some req \<Rightarrow> RequiresReauthentication req \<and> \<not> sensitive) Forbidden) (\<lambda>_.
          seq (case request of None \<Rightarrow> ret () | Some r \<Rightarrow> check_mutation env r (sn_csrf state)) (\<lambda>_.
          ret state))))))"

definition begin_read :: "'z CtlEnv_scheme \<Rightarrow> string \<Rightarrow> Action \<Rightarrow> HttpRequest option \<Rightarrow> sessionSnapshot pg" where
  "begin_read env token action request = beginCommand env token action request False"

definition readConfig :: "'z CtlEnv_scheme \<Rightarrow> Config pg" where
  "readConfig env =
     seq (query Unavailable Unavailable control_config) (\<lambda>row.
     case ce_decode_config env (co_document row) of
       None \<Rightarrow> throw Unavailable
     | Some c \<Rightarrow>
         if Config_Validate (ce_parse env) (ce_images env) c \<noteq> None \<or> cfg_Revision c \<noteq> co_revision row
         then throw Unavailable else ret c)"

text \<open>\<open>InitializeControl\<close> writes the first draft and never overwrites one.\<close>

definition InitializeControl :: "'z CtlEnv_scheme \<Rightarrow> string \<Rightarrow> string \<Rightarrow> unit pg" where
  "InitializeControl env profile region =
     (let c = \<lparr>cfg_SchemaVersion = 1, cfg_Revision = 0, Profile = profile, RegionID = region, Rooms = Some []\<rparr> in
      if Config_Validate (ce_parse env) (ce_images env) c \<noteq> None then throw (ControlErr CErrInvalid)
      else pool_exec Unavailable (\<lambda>now db. case control_config db of
          Some _ \<Rightarrow> None
        | None \<Rightarrow> Some ((), db\<lparr>control_config := Some \<lparr>co_revision = 0, co_document = ce_jsonb env (ce_config_bytes env c)\<rparr>\<rparr>)))"

definition Config_read :: "'z CtlEnv_scheme \<Rightarrow> string \<Rightarrow> ControlReply pg" where
  "Config_read env token =
     seq (begin_read env token ReadConfig None) (\<lambda>_.
     seq (readConfig env) (\<lambda>c.
     seq (commit Unavailable) (\<lambda>_.
     ret (reply 200 (ce_config_bytes env c) (configETag (cfg_Revision c))))))"

section \<open>Durable replay\<close>

definition maxControlCommands :: nat where "maxControlCommands = 10000"

definition ins_command :: "string \<Rightarrow> string \<Rightarrow> CommandRow \<Rightarrow> DB \<Rightarrow> (unit \<times> DB) option" where
  "ins_command actor key row db =
     (if map_of (auth_accounts db) actor = None \<or> length key \<noteq> 32 \<or> length (cm_request_hash row) \<noteq> 32 \<or>
         cm_status row < 200 \<or> cm_status row > 599 \<or> length (cm_response row) < 1 \<or> length (cm_response row) > MaxConfigBytes \<or>
         map_of (control_commands db) (actor, key) \<noteq> None then None
      else Some ((), db\<lparr>control_commands := control_commands db @ [((actor, key), row)]\<rparr>))"

definition del_command :: "string \<Rightarrow> string \<Rightarrow> DB \<Rightarrow> (unit \<times> DB) option" where
  "del_command actor key db = Some ((), db\<lparr>control_commands := AList.delete (actor, key) (control_commands db)\<rparr>)"

definition prune_commands :: "int \<Rightarrow> DB \<Rightarrow> (unit \<times> DB) option" where
  "prune_commands now db = Some ((), db\<lparr>control_commands := prune cm_expires now (control_commands db)\<rparr>)"

definition see_session :: "string \<Rightarrow> int \<Rightarrow> DB \<Rightarrow> (unit \<times> DB) option" where
  "see_session hash now db =
     (case map_of (auth_sessions db) hash of
        None \<Rightarrow> Some ((), db)
      | Some r \<Rightarrow>
          if now < sr_created r then None
          else Some ((), db\<lparr>auth_sessions := AList.update hash (r\<lparr>sr_last_seen := now\<rparr>) (auth_sessions db)\<rparr>))"

text \<open>
  The lookup of an earlier execution: a recorded reply, a refusal, or nothing recorded (expired rows
  are removed on the way).
\<close>

datatype replay = Recorded ControlReply | Refused_reply ControlReply | Fresh

definition find_replay :: "'z CtlEnv_scheme \<Rightarrow> string \<Rightarrow> string \<Rightarrow> string \<Rightarrow> int \<Rightarrow> replay pg" where
  "find_replay env actor key fprint now =
     seq (query Unavailable Unavailable (\<lambda>db. Some (map_of (control_commands db) (actor, key)))) (\<lambda>row.
     seq (case row of
            None \<Rightarrow> ret Fresh
          | Some old \<Rightarrow>
              if now < cm_created old then throw Unavailable
              else if now < cm_expires old then
                (if cm_request_hash old \<noteq> fprint
                 then seq (replyProblem env 409 ''IDEMPOTENCY_CONFLICT'') (\<lambda>r. ret (Refused_reply r))
                 else seq (commit Unavailable) (\<lambda>_.
                   ret (Recorded \<lparr>rp_Status = cm_status old, rp_Body = cm_response old, rp_ETag = cm_etag old, rp_Replay = True,
                     rp_RotatedGrant = no_grant\<rparr>)))
              else seq (exec Unavailable (del_command actor key)) (\<lambda>_. ret Fresh)) (\<lambda>found.
     case found of
       Fresh \<Rightarrow>
         seq (exec Unavailable (prune_commands now)) (\<lambda>_.
         seq (attempt (query Unavailable Unavailable (\<lambda>db. Some (length (control_commands db))))) (\<lambda>count.
         if (case count of Inl _ \<Rightarrow> True | Inr n \<Rightarrow> n \<ge> maxControlCommands)
         then seq (replyProblem env 503 ''COMMAND_CAPACITY_EXCEEDED'') (\<lambda>r. ret (Refused_reply r))
         else ret Fresh))
     | _ \<Rightarrow> ret found))"

text \<open>The end of a command: audit row, recorded reply, activity of the session, commit.\<close>

definition record_command ::
  "'z CtlEnv_scheme \<Rightarrow> sessionSnapshot \<Rightarrow> string \<Rightarrow> string \<Rightarrow> string \<Rightarrow> string \<Rightarrow> string \<Rightarrow> string \<Rightarrow> string \<Rightarrow> string \<Rightarrow>
   int \<Rightarrow> ControlReply \<Rightarrow> unit pg" where
  "record_command env state token action target before after outcome key fprint revision r =
     seq (new_token env Unavailable) (\<lambda>(requestID, _).
     seq (exec_at Unavailable (ins_audit (a_ID (sn_account state)) (a_Role (sn_account state)) action target before after
        outcome requestID revision)) (\<lambda>_.
     seq (exec Unavailable (ins_command (a_ID (sn_account state)) key
        \<lparr>cm_request_hash = fprint, cm_created = sn_now state, cm_expires = sn_now state + hours 24,
         cm_status = rp_Status r, cm_response = rp_Body r, cm_etag = rp_ETag r\<rparr>)) (\<lambda>_.
     seq (exec Unavailable (see_session (case tokenHash env token of None \<Rightarrow> zero_hash | Some h \<Rightarrow> h) (sn_now state))) (\<lambda>_.
     commit Unavailable))))"

section \<open>Replacing the draft (control.go)\<close>

text \<open>
  The decision on a draft, in the order of the source: the reply of a refusal, or the normalized next
  configuration.
\<close>

definition judge_draft :: "'z CtlEnv_scheme \<Rightarrow> Config \<Rightarrow> string \<Rightarrow> string \<Rightarrow> (ControlReply + Config) pg" where
  "judge_draft env current ifMatch raw =
     (let refuse = (\<lambda>status code. seq (replyProblem env status code) (\<lambda>r. ret (Inl r))) in
      if ifMatch \<noteq> configETag (cfg_Revision current) then refuse 412 ''REVISION_MISMATCH''
      else case ce_decode_config env raw of
        None \<Rightarrow> refuse 400 ''INVALID_REQUEST''
      | Some next \<Rightarrow>
          if cfg_Revision next \<noteq> cfg_Revision current \<or> Profile next \<noteq> Profile current \<or> RegionID next \<noteq> RegionID current
          then refuse 422 ''UNSUPPORTED_CAPABILITY''
          else (case NormalizeThemeImages (ce_images env) next of
              (Some _, _) \<Rightarrow> refuse 422 ''INVALID_THEME_IMAGE''
            | (None, next) \<Rightarrow>
                (case Config_Validate (ce_parse env) (ce_images env) next of
                   Some CErrConflict \<Rightarrow> refuse 409 ''ROUTE_CONFLICT''
                 | Some CErrInvalid \<Rightarrow> refuse 422 ''INVALID_CONFIG''
                 | None \<Rightarrow>
                     if \<not> FitsDeliveryBudget (ce_delivery_bytes env) (ce_widest_envelope env) next
                     then refuse 422 ''CONFIG_CAPACITY_EXCEEDED'' else ret (Inr next))))"

definition upd_config :: "'z CtlEnv_scheme \<Rightarrow> int \<Rightarrow> string \<Rightarrow> DB \<Rightarrow> (unit \<times> DB) option" where
  "upd_config env revision body db =
     (case control_config db of
        None \<Rightarrow> Some ((), db)
      | Some row \<Rightarrow>
          if revision < 0 \<or> revision \<ge> 9007199254740990 then None
          else Some ((), db\<lparr>control_config := Some \<lparr>co_revision = revision, co_document = ce_jsonb env body\<rparr>\<rparr>))"

text \<open>The header checks of \<open>ReplaceDraft\<close>: the problem they answer, if any.\<close>

definition draft_problem :: "HttpRequest option \<Rightarrow> string \<Rightarrow> (int \<times> string) option" where
  "draft_problem request raw =
     (case request of
        None \<Rightarrow> Some (400, ''INVALID_REQUEST'')
      | Some r \<Rightarrow>
          if rq_Method r \<noteq> ''PUT'' \<or> length raw > MaxConfigBytes then Some (400, ''INVALID_REQUEST'')
          else if length (Header_Values r ''Idempotency-Key'') \<noteq> 1 \<or> \<not> safeCommandKey (Header_Get r ''Idempotency-Key'')
            then Some (400, ''INVALID_REQUEST'')
          else if length (Header_Values r ''If-Match'') = 0 then Some (428, ''PRECONDITION_REQUIRED'')
          else if length (Header_Values r ''If-Match'') \<noteq> 1 \<or> length (Header_Get r ''If-Match'') > 64
            then Some (400, ''INVALID_REQUEST'')
          else None)"

text \<open>A second look at the session, at the time after the configuration row was locked.\<close>

definition recheck_session :: "sessionSnapshot \<Rightarrow> sessionSnapshot pg" where
  "recheck_session state =
     seq (read_clock Unavailable) (\<lambda>now.
     seq (check (map_option AuthErr (CheckSession (sn_account state) (sn_session state) (sn_policy state) now))) (\<lambda>_.
     ret (state\<lparr>sn_now := now\<rparr>)))"

text \<open>
  The opening that \<open>ReplaceDraft\<close> and \<open>command\<close> share: authorization, the locked configuration, the second
  look at the session and the recorded executions.
\<close>

definition open_command ::
  "'z CtlEnv_scheme \<Rightarrow> string \<Rightarrow> Action \<Rightarrow> HttpRequest option \<Rightarrow> bool \<Rightarrow> string \<Rightarrow> string \<Rightarrow> (sessionSnapshot \<times> Config \<times> replay) pg" where
  "open_command env token action request sensitive key fprint =
     seq (beginCommand env token action request sensitive) (\<lambda>state.
     seq (readConfig env) (\<lambda>current.
     seq (recheck_session state) (\<lambda>state.
     seq (find_replay env (a_ID (sn_account state)) key fprint (sn_now state)) (\<lambda>found.
     ret (state, current, found)))))"

definition unless_recorded ::
  "(sessionSnapshot \<times> Config \<times> replay) pg \<Rightarrow> (sessionSnapshot \<Rightarrow> Config \<Rightarrow> ControlReply pg) \<Rightarrow> ControlReply pg" where
  "unless_recorded opened fresh =
     seq opened (\<lambda>(state, current, found).
     case found of
       Recorded old \<Rightarrow> ret old
     | Refused_reply problem \<Rightarrow> ret problem
     | Fresh \<Rightarrow> fresh state current)"

definition save_draft ::
  "'z CtlEnv_scheme \<Rightarrow> sessionSnapshot \<Rightarrow> string \<Rightarrow> string \<Rightarrow> string \<Rightarrow> Config \<Rightarrow> (ControlReply + Config) \<Rightarrow> ControlReply pg" where
  "save_draft env state token key fprint current judged =
     (let before = digest env (ce_config_bytes env current);
          finish = record_command env state token ''config.save_draft'' ''installation''
      in case judged of
           Inl problem \<Rightarrow>
             seq (finish before before ''rejected'' key fprint (cfg_Revision current) problem) (\<lambda>_. ret problem)
         | Inr next \<Rightarrow>
             let next = next\<lparr>cfg_Revision := i64 (cfg_Revision next + 1)\<rparr>;
                 body = ce_config_bytes env next;
                 result = reply 200 body (configETag (cfg_Revision next))
             in if length body > MaxConfigBytes then replyProblem env 422 ''INVALID_CONFIG''
                else
                  seq (exec Unavailable (upd_config env (cfg_Revision next) body)) (\<lambda>_.
                  seq (finish before (digest env body) ''saved_draft'' key fprint (cfg_Revision next) result) (\<lambda>_.
                  ret result)))"

definition ReplaceDraft :: "'z CtlEnv_scheme \<Rightarrow> string \<Rightarrow> HttpRequest option \<Rightarrow> string \<Rightarrow> ControlReply pg" where
  "ReplaceDraft env token request raw =
     (case draft_problem request raw of
        Some (status, code) \<Rightarrow> replyProblem env status code
      | None \<Rightarrow>
          let r = the request;
              key = pe_sha env (Header_Get r ''Idempotency-Key'');
              fprint = pe_sha env (''control.replace-draft.v1'' @ [CHR 0x00] @ Header_Get r ''If-Match'' @ [CHR 0x00] @ raw)
          in
          unless_recorded (open_command env token WriteConfig request False key fprint) (\<lambda>state current.
          seq (judge_draft env current (Header_Get r ''If-Match'') raw) (\<lambda>judged.
          save_draft env state token key fprint current judged)))"

definition AuditPage :: "'z CtlEnv_scheme \<Rightarrow> string \<Rightarrow> int \<Rightarrow> int \<Rightarrow> AuditEvent list pg" where
  "AuditPage env token before limit =
     (if before < 0 \<or> limit < 1 \<or> limit > 100 then throw (ControlErr CErrInvalid)
      else
        seq (begin_read env token ReadAudit None) (\<lambda>_.
        seq (query Unavailable Unavailable (\<lambda>db. Some (take (nat limit)
           (rev (sort_key ae_ID (filter (\<lambda>a. before > 0 \<longrightarrow> ae_ID a < before) (control_audit db))))))) (\<lambda>rows.
        seq (commit Unavailable) (\<lambda>_. ret rows))))"

section \<open>Reauthentication proofs (reauth.go)\<close>

definition ActionRequestDigest :: "'z CtlEnv_scheme \<Rightarrow> string \<Rightarrow> string \<Rightarrow> string \<Rightarrow> string \<Rightarrow> string" where
  "ActionRequestDigest env rmethod target etag raw =
     digest env (''wr-action/v1'' @ [CHR 0x0A] @ rmethod @ [CHR 0x0A] @ target @ [CHR 0x0A] @ etag @ [CHR 0x0A] @ raw)"

definition consume_proof :: "string \<Rightarrow> string \<Rightarrow> string \<Rightarrow> string \<Rightarrow> string \<Rightarrow> int \<Rightarrow> DB \<Rightarrow> (nat \<times> DB) option" where
  "consume_proof hash session action target request now db =
     Some (case map_of (auth_reauth_proofs db) hash of
        None \<Rightarrow> (0, db)
      | Some p \<Rightarrow>
          if pf_session p = session \<and> pf_action p = action \<and> pf_target p = target \<and> pf_digest p = request \<and>
             \<not> pf_consumed p \<and> pf_created p \<le> now \<and> pf_expires p > now
          then (1, db\<lparr>auth_reauth_proofs := AList.update hash (p\<lparr>pf_consumed := True\<rparr>) (auth_reauth_proofs db)\<rparr>)
          else (0, db))"

definition consumeReauth ::
  "'z CtlEnv_scheme \<Rightarrow> string \<Rightarrow> HttpRequest \<Rightarrow> Action \<Rightarrow> string \<Rightarrow> string \<Rightarrow> unit pg" where
  "consumeReauth env token r action target raw =
     (if length (Header_Values r ''X-Reauth-Token'') \<noteq> 1 then throw Forbidden
      else case tokenHash env (Header_Get r ''X-Reauth-Token'') of
        None \<Rightarrow> throw Forbidden
      | Some hash \<Rightarrow>
          let session = (case tokenHash env token of None \<Rightarrow> zero_hash | Some h \<Rightarrow> h) in
          seq (exec_at Unavailable (consume_proof hash session action target
             (ActionRequestDigest env (rq_Method r) target (Header_Get r ''If-Match'') raw))) (\<lambda>rows.
          refuse_if (rows \<noteq> 1) Forbidden))"

section \<open>The frame of a command (commands.go)\<close>

record commandResult =
  cd_reply :: ControlReply
  cd_before :: string
  cd_after :: string
  cd_revision :: int

definition refused :: "ControlReply \<Rightarrow> string \<Rightarrow> commandResult" where
  "refused r before = \<lparr>cd_reply = r, cd_before = before, cd_after = [], cd_revision = 0\<rparr>"

definition command_problem :: "HttpRequest option \<Rightarrow> string \<Rightarrow> bool \<Rightarrow> (int \<times> string) option" where
  "command_problem request raw etag =
     (case request of
        None \<Rightarrow> Some (400, ''INVALID_REQUEST'')
      | Some r \<Rightarrow>
          if length raw > MaxConfigBytes \<or> length (Header_Values r ''Idempotency-Key'') \<noteq> 1 \<or>
             \<not> safeCommandKey (Header_Get r ''Idempotency-Key'') then Some (400, ''INVALID_REQUEST'')
          else if etag \<and> length (Header_Values r ''If-Match'') = 0 then Some (428, ''PRECONDITION_REQUIRED'')
          else if length (Header_Values r ''If-Match'') > 1 \<or> length (Header_Get r ''If-Match'') > 64
            then Some (400, ''INVALID_REQUEST'')
          else None)"

definition requires_reauth :: "Action \<Rightarrow> bool" where
  "requires_reauth action = (case Requirement Admin action of None \<Rightarrow> False | Some q \<Rightarrow> RequiresReauthentication q)"

definition fingerprint_of :: "'z CtlEnv_scheme \<Rightarrow> HttpRequest \<Rightarrow> Action \<Rightarrow> string \<Rightarrow> string \<Rightarrow> string" where
  "fingerprint_of env r action target raw =
     pe_sha env (''control.command.v1'' @ [CHR 0x00] @ rq_Method r @ [CHR 0x00] @ action @ [CHR 0x00] @ target @ [CHR 0x00] @
       Header_Get r ''If-Match'' @ [CHR 0x00] @ raw)"

definition finish_command ::
  "'z CtlEnv_scheme \<Rightarrow> sessionSnapshot \<Rightarrow> string \<Rightarrow> Action \<Rightarrow> string \<Rightarrow> string \<Rightarrow> string \<Rightarrow> Config \<Rightarrow> commandResult \<Rightarrow>
   ControlReply pg" where
  "finish_command env state token action target key fprint current result =
     (let before = (if cd_before result = [] then digest env (ce_config_bytes env current) else cd_before result);
          after = (if cd_after result = [] then before else cd_after result);
          revision = (if cd_revision result = 0 then cfg_Revision current else cd_revision result);
          r = cd_reply result
      in
      seq (refuse_if (rp_Status r < 200 \<or> length (rp_Body r) = 0 \<or> length (rp_Body r) > MaxConfigBytes) Unavailable) (\<lambda>_.
      seq (record_command env state token action target before after
         (if rp_Status r \<ge> 400 then ''rejected'' else ''accepted'') key fprint revision r) (\<lambda>_.
      ret r)))"

text \<open>The execution of a command that was not executed before.\<close>

definition execute_command ::
  "'z CtlEnv_scheme \<Rightarrow> string \<Rightarrow> HttpRequest \<Rightarrow> string \<Rightarrow> Action \<Rightarrow> string \<Rightarrow> string \<Rightarrow> string \<Rightarrow>
   (sessionSnapshot \<Rightarrow> Config \<Rightarrow> commandResult pg) \<Rightarrow> sessionSnapshot \<Rightarrow> Config \<Rightarrow> ControlReply pg" where
  "execute_command env token r raw action target key fprint body state current =
     seq (if requires_reauth action then consumeReauth env token r action target raw else ret ()) (\<lambda>_.
     seq (body state current) (\<lambda>result.
     finish_command env state token action target key fprint current result))"

definition control_command ::
  "'z CtlEnv_scheme \<Rightarrow> string \<Rightarrow> HttpRequest option \<Rightarrow> string \<Rightarrow> Action \<Rightarrow> string \<Rightarrow> bool \<Rightarrow>
   (sessionSnapshot \<Rightarrow> Config \<Rightarrow> commandResult pg) \<Rightarrow> ControlReply pg" where
  "control_command env token request raw action target etag body =
     (case command_problem request raw etag of
        Some (status, code) \<Rightarrow> replyProblem env status code
      | None \<Rightarrow>
          let r = the request;
              key = pe_sha env (Header_Get r ''Idempotency-Key'');
              fprint = fingerprint_of env r action target raw
          in
          unless_recorded (open_command env token action request (requires_reauth action) key fprint)
            (execute_command env token r raw action target key fprint body))"

end
