(* ===== verification/WR_Publish.thy ===== *)
theory WR_Publish
  imports WR_Command WR_Trust WR_Keys
begin

text \<open>
  Publication of the desired state (\<open>internal/adminauth/pgstore\<close>): the signed delivery, publishing a
  draft, operating a room, refreshing the signature (\<open>publication.go\<close>), the view of the data nodes and
  their acknowledgements (\<open>delivery.go\<close>, \<open>recovery_audit.go\<close>), recovery of a node's clock
  (\<open>clock_recovery.go\<close>), the route check (\<open>route_check.go\<close>) and the deployment keys
  (\<open>key_rotation.go\<close>).
\<close>

section \<open>Data\<close>

record RuntimeCommand =
  rc_Action :: string
  rc_Limits :: "Limits option"
  rc_Scope :: string
  rc_Generation :: "int option"

record RoomMetrics =
  rm_RoomID :: string
  rm_Revision :: int
  rm_Epoch :: nat
  rm_Mode :: string
  rm_Waiting :: int
  rm_Ready :: int
  rm_Leases :: int
  rm_Rate :: int
  rm_OriginHealthy :: bool
  rm_ArrivalWindowReady :: bool
  rm_ArrivalsFiveMinutes :: int
  rm_HTTP5xxLastMinute :: "int option"
  rm_HTTP5xxWindowReady :: bool
  rm_RecoveryUntil :: int
  rm_RecoveryFence :: nat
  rm_RecoveryReason :: string
  rm_RecoveryValidation :: string

definition zero_RoomMetrics :: RoomMetrics where
  "zero_RoomMetrics = \<lparr>rm_RoomID = [], rm_Revision = 0, rm_Epoch = 0, rm_Mode = [], rm_Waiting = 0, rm_Ready = 0,
     rm_Leases = 0, rm_Rate = 0, rm_OriginHealthy = False, rm_ArrivalWindowReady = False, rm_ArrivalsFiveMinutes = 0,
     rm_HTTP5xxLastMinute = None, rm_HTTP5xxWindowReady = False, rm_RecoveryUntil = 0, rm_RecoveryFence = 0,
     rm_RecoveryReason = [], rm_RecoveryValidation = []\<rparr>"

record NodeAck =
  na_KeyGeneration :: int
  na_KeyDigest :: string
  na_Generation :: int
  na_Digest :: string
  na_Rooms :: "RoomMetrics list"

record NodeView =
  nv_ID :: string
  nv_Generation :: int
  nv_ObservedAt :: int
  nv_Fresh :: bool
  nv_Rooms :: "RoomMetrics list"

record DeliveryView =
  dv_Generation :: int
  dv_Revision :: int
  dv_State :: string
  dv_Config :: Config
  dv_Runtimes :: "RoomRuntime list"
  dv_Nodes :: "NodeView list"

record RouteCheckInput =
  ri_Source :: string
  ri_URL :: string

record RouteCheckResult =
  rs_Source :: string
  rs_Scope :: string
  rs_Revision :: int
  rs_Generation :: int
  rs_Match :: Match
  rs_Mode :: string

record recoveryObservation =
  ro_RoomID :: string
  ro_Epoch :: nat
  ro_Fence :: nat
  ro_Hold :: bool
  ro_Until :: int
  ro_Reason :: string
  ro_Validation :: string

text \<open>The values the services encode as JSON.\<close>

datatype reply_value =
    VRuntime Runtime | VPublished int int | VEvent Event | VEvents "Event list" | VView DeliveryView
  | VRouteCheck RouteCheckResult

record PubEnv = CtlEnv +
  pb_decode_delivery :: "string \<Rightarrow> Delivery option"
  pb_decode_command :: "string \<Rightarrow> RuntimeCommand option"
  pb_decode_event :: "string \<Rightarrow> EventInput option"
  pb_decode_empty :: "string \<Rightarrow> bool"
  pb_decode_route :: "string \<Rightarrow> RouteCheckInput option"
  pb_envelope_kid :: "string \<Rightarrow> string option"
  pb_json :: "reply_value \<Rightarrow> string"
  pb_metrics_bytes :: "RoomMetrics list \<Rightarrow> string"
  pb_decode_metrics :: "string \<Rightarrow> RoomMetrics list option"
  pb_observation_bytes :: "recoveryObservation \<Rightarrow> string"
  pb_event_bytes :: "Event \<Rightarrow> string"
  pb_clock_bytes :: "ClockRecovery \<Rightarrow> string"
  pb_trust :: TrustEnv
  pb_kid :: string
  pb_key :: string
  pb_keyGeneration :: int
  pb_keyDigest :: string
  pb_installation :: string

definition jsonReply :: "'z PubEnv_scheme \<Rightarrow> int \<Rightarrow> reply_value \<Rightarrow> string \<Rightarrow> ControlReply" where
  "jsonReply env status v etag = reply status (pb_json env v) etag"

definition valid_delivery :: "'z PubEnv_scheme \<Rightarrow> Delivery \<Rightarrow> bool" where
  "valid_delivery env d \<longleftrightarrow> Delivery_Validate (ce_parse env) (ce_images env) d = None"

section \<open>Reading and signing (publication.go)\<close>

definition readDelivery :: "'z PubEnv_scheme \<Rightarrow> (Delivery \<times> int) pg" where
  "readDelivery env =
     seq (query Unavailable Unavailable control_delivery) (\<lambda>row.
     case pb_decode_delivery env (dl_document row) of
       None \<Rightarrow> throw Unavailable
     | Some d \<Rightarrow> if \<not> valid_delivery env d then throw Unavailable else ret (d, dl_generation row))"

definition upd_delivery :: "string \<Rightarrow> int \<Rightarrow> string \<Rightarrow> int \<Rightarrow> int \<Rightarrow> DB \<Rightarrow> (unit \<times> DB) option" where
  "upd_delivery document generation envelope issued expires db =
     (case control_delivery db of
        None \<Rightarrow> Some ((), db)
      | Some row \<Rightarrow>
          if generation < 0 \<or> generation \<ge> 9007199254740990 \<or> length envelope < 1 \<or> length envelope > 65536 then None
          else Some ((), db\<lparr>control_delivery := Some \<lparr>dl_generation = generation, dl_document = document,
                 dl_signed = Some (envelope, issued, expires)\<rparr>\<rparr>))"

text \<open>The conversion \<open>uint64(x)\<close> of a signed integer.\<close>

definition uint64 :: "int \<Rightarrow> nat" where "uint64 x = nat (x mod 2 ^ 64)"

definition next_snapshot :: "'z PubEnv_scheme \<Rightarrow> Delivery \<Rightarrow> int \<Rightarrow> int \<Rightarrow> Snapshot" where
  "next_snapshot env d generation now =
     \<lparr>s_SchemaVersion = 1, s_Installation = pb_installation env, s_Generation = uint64 (i64 (generation + 1)),
      s_Revision = uint64 (cfg_Revision (d_Config d)), s_IssuedAt = unix now, s_ExpiresAt = unix (now + hours 24),
      s_Kid = pb_kid env, s_Payload = ce_delivery_bytes env d\<rparr>"

definition sign :: "'z PubEnv_scheme \<Rightarrow> Delivery \<Rightarrow> int \<Rightarrow> int \<Rightarrow> unit pg" where
  "sign env d generation now =
     (if \<not> valid_delivery env d then throw (ControlErr CErrInvalid)
      else case Sign_snapshot (pb_trust env) (pb_key env) (next_snapshot env d generation now) of
        Inl _ \<Rightarrow> throw (ControlErr CErrInvalid)
      | Inr raw \<Rightarrow>
          exec Unavailable (upd_delivery (ce_jsonb env (ce_delivery_bytes env d)) (i64 (generation + 1)) raw now (now + hours 24)))"

text \<open>\<open>Delivery.Find\<close> as a step: it panics when a room has no runtime at its place.\<close>

definition find_in :: "Delivery \<Rightarrow> string \<Rightarrow> (Room \<times> Runtime) option pg" where
  "find_in d i = (case Delivery_Find d i of None \<Rightarrow> throw Panicked | Some r \<Rightarrow> ret r)"

section \<open>Publishing a draft (publication.go)\<close>

text \<open>A room that is already published keeps its public identifier and is not removed.\<close>

fun kept_rooms :: "Room list \<Rightarrow> Room list \<Rightarrow> (int \<times> string) option" where
  "kept_rooms current [] = None"
| "kept_rooms current (old # rest) =
     (let same = filter (\<lambda>room. r_ID room = r_ID old) current in
      if list_ex (\<lambda>room. PublicID room \<noteq> PublicID old) same then Some (409, ''ROUTE_CONFLICT'')
      else if same = [] then Some (409, ''ROOM_REMOVAL_REQUIRES_ARCHIVE'')
      else kept_rooms current rest)"

definition fresh_runtime :: "Delivery \<Rightarrow> Room \<Rightarrow> Runtime" where
  "fresh_runtime previous room =
     (case d_Runtimes previous of
        [] \<Rightarrow> InitialRuntime room
      | first # _ \<Rightarrow> (InitialRuntime room)\<lparr>rt_Epoch := rt_Epoch (rr_Runtime first),
          RecoveryUntil := RecoveryUntil (rr_Runtime first)\<rparr>)"

definition needs_drain :: "Room \<Rightarrow> Runtime \<Rightarrow> Room \<Rightarrow> bool" where
  "needs_drain old prior room \<longleftrightarrow> rt_Mode prior \<noteq> ''OFF'' \<and>
     (\<not> Active room \<or> Origin old \<noteq> Origin room \<or> Hostname old \<noteq> Hostname room \<or> r_QueuePolicy old \<noteq> r_QueuePolicy room \<or>
      ProtectPrefixes old \<noteq> ProtectPrefixes room \<or> excludes_of old \<noteq> excludes_of room)"

definition carried_runtime :: "Room \<Rightarrow> Runtime \<Rightarrow> Room \<Rightarrow> Runtime" where
  "carried_runtime old prior room =
     (let r = prior\<lparr>rt_Revision := i64 (rt_Revision prior + 1), rt_Limits := r_Limits room\<rparr>;
          r = (if \<not> Active old \<and> Active room then r\<lparr>rt_Mode := ''HOLD''\<rparr> else r)
      in if \<not> Active room then r\<lparr>rt_Mode := ''OFF''\<rparr> else r)"

fun publish_rooms :: "Delivery \<Rightarrow> Room list \<Rightarrow> ((int \<times> string) + RoomRuntime list) pg" where
  "publish_rooms previous [] = ret (Inr [])"
| "publish_rooms previous (room # rest) =
     seq (find_in previous (r_ID room)) (\<lambda>found.
     case found of
       Some (old, prior) \<Rightarrow>
         if needs_drain old prior room then ret (Inl (409, ''ACTIVE_ROOM_CHANGE_REQUIRES_DRAIN''))
         else seq (publish_rooms previous rest) (\<lambda>r. ret (case r of Inl p \<Rightarrow> Inl p
             | Inr rs \<Rightarrow> Inr (\<lparr>rr_RoomID = r_ID room, rr_Runtime = carried_runtime old prior room\<rparr> # rs)))
     | None \<Rightarrow>
         seq (publish_rooms previous rest) (\<lambda>r. ret (case r of Inl p \<Rightarrow> Inl p
             | Inr rs \<Rightarrow> Inr (\<lparr>rr_RoomID = r_ID room, rr_Runtime = fresh_runtime previous room\<rparr> # rs))))"

definition refuse_command :: "'z PubEnv_scheme \<Rightarrow> string \<Rightarrow> int \<Rightarrow> string \<Rightarrow> commandResult pg" where
  "refuse_command env before status code = seq (replyProblem env status code) (\<lambda>r. ret (refused r before))"

text \<open>The draft \<open>current\<close> over the delivery published so far.\<close>

definition publish_over ::
  "'z PubEnv_scheme \<Rightarrow> sessionSnapshot \<Rightarrow> Config \<Rightarrow> Delivery \<Rightarrow> int \<Rightarrow> commandResult pg" where
  "publish_over env state current previous generation =
     (let before = digest env (ce_delivery_bytes env previous) in
      case kept_rooms (rooms_of current) (rooms_of (d_Config previous)) of
        Some (status, code) \<Rightarrow> refuse_command env before status code
      | None \<Rightarrow>
          seq (publish_rooms previous (rooms_of current)) (\<lambda>built.
          case built of
            Inl (status, code) \<Rightarrow> refuse_command env before status code
          | Inr runtimes \<Rightarrow>
              let next = \<lparr>d_Config = current, d_Runtimes = runtimes\<rparr> in
              seq (attempt (sign env next generation (sn_now state))) (\<lambda>signed.
              case signed of
                Inl e \<Rightarrow>
                  if e = ControlErr CErrInvalid then refuse_command env before 422 ''INVALID_CONFIG'' else throw e
              | Inr _ \<Rightarrow>
                  ret \<lparr>cd_reply = jsonReply env 202 (VPublished (i64 (generation + 1)) (cfg_Revision current)) (configETag (cfg_Revision current)),
                       cd_before = before, cd_after = digest env (ce_delivery_bytes env next), cd_revision = cfg_Revision current\<rparr>)))"

definition publish_body ::
  "'z PubEnv_scheme \<Rightarrow> HttpRequest \<Rightarrow> string \<Rightarrow> sessionSnapshot \<Rightarrow> Config \<Rightarrow> commandResult pg" where
  "publish_body env r raw state current =
     (if rq_Method r \<noteq> ''POST'' \<or> raw \<noteq> ''{}'' then refuse_command env [] 400 ''INVALID_REQUEST''
      else if Header_Get r ''If-Match'' \<noteq> configETag (cfg_Revision current) then refuse_command env [] 412 ''REVISION_MISMATCH''
      else seq (readDelivery env) (\<lambda>(previous, generation). publish_over env state current previous generation))"

definition Publish :: "'z PubEnv_scheme \<Rightarrow> string \<Rightarrow> HttpRequest option \<Rightarrow> string \<Rightarrow> ControlReply pg" where
  "Publish env token request raw =
     control_command env token request raw WriteConfig ''config.publish'' True (publish_body env (the request) raw)"

definition Runtime_read :: "'z PubEnv_scheme \<Rightarrow> string \<Rightarrow> string \<Rightarrow> ControlReply pg" where
  "Runtime_read env token i =
     seq (begin_read env token ReadRuntime None) (\<lambda>_.
     seq (readDelivery env) (\<lambda>(d, _).
     seq (find_in d i) (\<lambda>found.
     case found of
       None \<Rightarrow> replyProblem env 404 ''NOT_FOUND''
     | Some (_, runtime) \<Rightarrow>
         seq (commit Unavailable) (\<lambda>_. ret (jsonReply env 200 (VRuntime runtime) (runtime_ETag runtime))))))"

section \<open>Operating a room (publication.go)\<close>

definition pause_events :: "(Event \<Rightarrow> bool) \<Rightarrow> DB \<Rightarrow> (nat \<times> DB) option" where
  "pause_events P db =
     (let hit = (\<lambda>e. P e \<and> (ev_State e = ''scheduled'' \<or> ev_State e = ''running'')) in
      Some (length (filter hit (control_events db)), db\<lparr>control_events := map (\<lambda>e.
        if hit e then e\<lparr>ev_State := ''paused_by_override''\<rparr> else e) (control_events db)\<rparr>))"

definition set_runtime :: "Delivery \<Rightarrow> string \<Rightarrow> Runtime \<Rightarrow> Delivery" where
  "set_runtime d i runtime = d\<lparr>d_Runtimes := map (\<lambda>rr. if rr_RoomID rr = i then rr\<lparr>rr_Runtime := runtime\<rparr> else rr) (d_Runtimes d)\<rparr>"

definition epoch_runtime :: "int \<Rightarrow> Room \<times> RoomRuntime \<Rightarrow> RoomRuntime" where
  "epoch_runtime until = (\<lambda>(room, rr).
     let r = rr_Runtime rr in
     rr\<lparr>rr_Runtime := r\<lparr>rt_Epoch := rt_Epoch r + 1, rt_Revision := i64 (rt_Revision r + 1), RecoveryUntil := until,
        rt_Mode := (if Active room then ''HOLD'' else ''OFF''),
        EventState := (if EventState r = ''scheduled'' \<or> EventState r = ''running'' then ''paused_by_override'' else EventState r)\<rparr>\<rparr>)"

definition epoch_delivery :: "int \<Rightarrow> Delivery \<Rightarrow> Delivery" where
  "epoch_delivery until d =
     d\<lparr>d_Runtimes := map (epoch_runtime until) (zip (rooms_of (d_Config d)) (d_Runtimes d))\<rparr>"

text \<open>The command of one room: the mode or the limits it sets, or the problem it answers.\<close>

definition room_command :: "string \<Rightarrow> RuntimeCommand \<Rightarrow> Runtime \<Rightarrow> (int \<times> string) + Runtime" where
  "room_command profile c runtime =
     (if rc_Action c = ''instant-off'' then Inr (runtime\<lparr>rt_Mode := ''OFF''\<rparr>)
      else if rc_Action c = ''auto'' then Inr (runtime\<lparr>rt_Mode := ''AUTO''\<rparr>)
      else if rc_Action c = ''hold'' then Inr (runtime\<lparr>rt_Mode := ''HOLD''\<rparr>)
      else if rc_Action c = ''safe-drain'' then Inr (runtime\<lparr>rt_Mode := ''DRAINING''\<rparr>)
      else if rc_Action c = ''set-limits'' then
        (case rc_Limits c of
           None \<Rightarrow> Inl (422, ''INVALID_CONFIG'')
         | Some l \<Rightarrow> if Limits_Validate l profile \<noteq> None then Inl (422, ''INVALID_CONFIG'') else Inr (runtime\<lparr>rt_Limits := l\<rparr>))
      else Inl (403, ''FORBIDDEN''))"

definition zero_Runtime :: Runtime where
  "zero_Runtime = \<lparr>rt_Revision = 0, rt_Mode = [], rt_Limits = \<lparr>MaxActiveAdmissionLeases = 0, AdmissionsPerMinute = 0,
     AdmissionTTLSeconds = 0\<rparr>, rt_Epoch = 0, EventState = [], RecoveryUntil = 0\<rparr>"

definition new_epoch_body ::
  "'z PubEnv_scheme \<Rightarrow> string \<Rightarrow> RuntimeCommand \<Rightarrow> sessionSnapshot \<Rightarrow> Delivery \<Rightarrow> int \<Rightarrow> string \<Rightarrow> Runtime \<Rightarrow> commandResult pg" where
  "new_epoch_body env i c state d generation before runtime =
     (if rc_Scope c \<noteq> ''installation'' \<or> rc_Limits c \<noteq> None \<or> (case rc_Generation c of None \<Rightarrow> True | Some g \<Rightarrow> g < 1)
      then refuse_command env before 400 ''INVALID_REQUEST''
      else if rc_Generation c \<noteq> Some generation then refuse_command env before 412 ''REVISION_MISMATCH''
      else if list_ex (\<lambda>item. rt_Epoch (rr_Runtime item) \<noteq> rt_Epoch runtime) (d_Runtimes d) then throw Unavailable
      else if rt_Epoch runtime \<ge> 9007199254740989 then refuse_command env before 409 ''REVISION_MISMATCH''
      else
        seq (exec Unavailable (pause_events (\<lambda>_. True))) (\<lambda>_.
        let d' = epoch_delivery ((sn_now state + 3630000000000) div 1000000) d in
        seq (sign env d' generation (sn_now state)) (\<lambda>_.
        seq (find_in d' i) (\<lambda>found.
        let runtime' = (case found of None \<Rightarrow> zero_Runtime | Some (_, q) \<Rightarrow> q) in
        ret \<lparr>cd_reply = jsonReply env 200 (VRuntime runtime') (runtime_ETag runtime'), cd_before = before,
             cd_after = digest env (ce_delivery_bytes env d'), cd_revision = rt_Revision runtime'\<rparr>))))"

text \<open>A command for an active room: its new runtime, events of the room paused, signed.\<close>

definition apply_command ::
  "'z PubEnv_scheme \<Rightarrow> string \<Rightarrow> RuntimeCommand \<Rightarrow> sessionSnapshot \<Rightarrow> Config \<Rightarrow> Delivery \<Rightarrow> int \<Rightarrow> string \<Rightarrow> Runtime \<Rightarrow> commandResult pg" where
  "apply_command env i c state current d generation before runtime =
     (case room_command (Profile current) c runtime of
        Inl (status, code) \<Rightarrow> refuse_command env before status code
      | Inr changed \<Rightarrow>
          seq (exec Unavailable (pause_events (\<lambda>e. ev_RoomID e = i))) (\<lambda>rows.
          let changed = (if rows > 0 then changed\<lparr>EventState := ''paused_by_override''\<rparr> else changed);
              changed = changed\<lparr>rt_Revision := i64 (rt_Revision changed + 1)\<rparr>;
              d' = set_runtime d i changed in
          seq (sign env d' generation (sn_now state)) (\<lambda>_.
          ret \<lparr>cd_reply = jsonReply env 200 (VRuntime changed) (runtime_ETag changed), cd_before = before,
               cd_after = digest env (ce_delivery_bytes env d'), cd_revision = rt_Revision changed\<rparr>)))"

definition operate_on ::
  "'z PubEnv_scheme \<Rightarrow> string \<Rightarrow> HttpRequest \<Rightarrow> RuntimeCommand \<Rightarrow> sessionSnapshot \<Rightarrow> Config \<Rightarrow> Delivery \<Rightarrow> int \<Rightarrow> commandResult pg" where
  "operate_on env i r c state current d generation =
     (let before = digest env (ce_delivery_bytes env d) in
      seq (find_in d i) (\<lambda>found.
      case found of
        None \<Rightarrow> refuse_command env before 404 ''NOT_FOUND''
      | Some (room, runtime) \<Rightarrow>
          if Header_Get r ''If-Match'' \<noteq> runtime_ETag runtime then refuse_command env before 412 ''REVISION_MISMATCH''
          else if rc_Action c = ''new-epoch'' then new_epoch_body env i c state d generation before runtime
          else if rc_Scope c \<noteq> [] \<or> rc_Generation c \<noteq> None then refuse_command env before 400 ''INVALID_REQUEST''
          else if \<not> Active room then refuse_command env before 409 ''ROOM_INACTIVE''
          else if rc_Action c \<noteq> ''set-limits'' \<and> rc_Limits c \<noteq> None then refuse_command env before 400 ''INVALID_REQUEST''
          else apply_command env i c state current d generation before runtime))"

definition operate_body ::
  "'z PubEnv_scheme \<Rightarrow> string \<Rightarrow> HttpRequest \<Rightarrow> string \<Rightarrow> sessionSnapshot \<Rightarrow> Config \<Rightarrow> commandResult pg" where
  "operate_body env i r raw state current =
     (case pb_decode_command env raw of
        None \<Rightarrow> refuse_command env [] 400 ''INVALID_REQUEST''
      | Some c \<Rightarrow>
          if rq_Method r \<noteq> ''PATCH'' then refuse_command env [] 400 ''INVALID_REQUEST''
          else seq (readDelivery env) (\<lambda>(d, generation). operate_on env i r c state current d generation))"

definition operate_action :: "RuntimeCommand \<Rightarrow> Action" where
  "operate_action c = (if rc_Action c = ''new-epoch'' then NewEpochAction
     else if rc_Action c = ''instant-off'' then InstantOff else OperateRuntime)"

definition Operate :: "'z PubEnv_scheme \<Rightarrow> string \<Rightarrow> string \<Rightarrow> HttpRequest option \<Rightarrow> string \<Rightarrow> ControlReply pg" where
  "Operate env token i request raw =
     (case (request, pb_decode_command env raw) of
        (Some r, Some input) \<Rightarrow>
          if rq_Method r \<noteq> ''PATCH'' then replyProblem env 400 ''INVALID_REQUEST''
          else control_command env token request raw (operate_action input) i True (operate_body env i r raw)
      | _ \<Rightarrow> replyProblem env 400 ''INVALID_REQUEST'')"

section \<open>Refreshing the signature (publication.go)\<close>

definition Refresh :: "'z PubEnv_scheme \<Rightarrow> unit pg" where
  "Refresh env =
     seq (authTx env) (\<lambda>_.
     seq (readConfig env) (\<lambda>_.
     seq (readDelivery env) (\<lambda>(d, generation).
     seq (query_at Unavailable Unavailable (\<lambda>now db. map_option (\<lambda>row. (now, map_option (\<lambda>(_, issued, _). issued) (dl_signed row))) (control_delivery db))) (\<lambda>(now, issued).
     seq (case issued of
            None \<Rightarrow> ret False
          | Some t \<Rightarrow>
              if now < t then throw Unavailable
              else
                seq (query Unavailable Unavailable (\<lambda>db. Option.bind (control_delivery db) (\<lambda>row. map_option fst (dl_signed row)))) (\<lambda>envelope.
                case pb_envelope_kid env envelope of
                  None \<Rightarrow> throw Unavailable
                | Some kid \<Rightarrow> ret (now - t < minutes 5 \<and> kid = pb_kid env))) (\<lambda>fresh.
     if fresh then commit Unavailable
     else seq (sign env d generation now) (\<lambda>_. commit Unavailable))))))"

definition Envelope :: "'z PubEnv_scheme \<Rightarrow> string pg" where
  "Envelope env =
     seq (pool_query Unavailable Unavailable (\<lambda>now db. Option.bind (control_delivery db) (\<lambda>row.
       case dl_signed row of
         Some (raw, issued, expires) \<Rightarrow> if expires > now \<and> issued \<le> now then Some raw else None
       | None \<Rightarrow> None))) (\<lambda>raw.
     seq (refuse_if (raw = []) Unavailable) (\<lambda>_. ret raw))"

section \<open>The nodes (delivery.go)\<close>

fun node_views :: "'z PubEnv_scheme \<Rightarrow> int \<Rightarrow> (string \<times> NodeRow) list \<Rightarrow> NodeView list option" where
  "node_views env now [] = Some []"
| "node_views env now ((i, row) # rest) =
     (case (pb_decode_metrics env (nd_metrics row), node_views env now rest) of
        (Some rooms, Some vs) \<Rightarrow>
          Some (\<lparr>nv_ID = i, nv_Generation = nd_generation row, nv_ObservedAt = nd_observed row,
                 nv_Fresh = (nd_observed row > now - 15000000000 \<and> nd_observed row \<le> now), nv_Rooms = rooms\<rparr> # vs)
      | _ \<Rightarrow> None)"

definition view_state :: "int \<Rightarrow> NodeView list \<Rightarrow> string" where
  "view_state generation nodes =
     (if length nodes = 2 \<and> generation > 0 then
        (if list_ex (\<lambda>n. nv_Generation n \<noteq> generation \<or> \<not> nv_Fresh n) nodes then ''pending'' else ''applied'')
      else ''pending'')"

definition deliveryView :: "'z PubEnv_scheme \<Rightarrow> Delivery \<Rightarrow> int \<Rightarrow> DeliveryView pg" where
  "deliveryView env d generation =
     seq (query_at Unavailable Unavailable (\<lambda>now db. node_views env now (sort_key fst (control_nodes db)))) (\<lambda>nodes.
     ret \<lparr>dv_Generation = generation, dv_Revision = cfg_Revision (d_Config d), dv_State = view_state generation nodes,
          dv_Config = d_Config d, dv_Runtimes = d_Runtimes d, dv_Nodes = nodes\<rparr>)"

definition View :: "'z PubEnv_scheme \<Rightarrow> string \<Rightarrow> ControlReply pg" where
  "View env token =
     seq (begin_read env token ReadDashboard None) (\<lambda>_.
     seq (readDelivery env) (\<lambda>(d, generation).
     seq (deliveryView env d generation) (\<lambda>v.
     seq (commit Unavailable) (\<lambda>_. ret (jsonReply env 200 (VView v) (configETag (cfg_Revision (d_Config d))))))))"

definition validHTTPErrorMetrics :: "string \<Rightarrow> RoomMetrics \<Rightarrow> bool" where
  "validHTTPErrorMetrics nodeID m =
     (case rm_HTTP5xxLastMinute m of
        None \<Rightarrow> \<not> rm_HTTP5xxWindowReady m
      | Some n \<Rightarrow> nodeID = ''gateway'' \<and> n \<ge> 0 \<and> n \<le> 9007199254740989)"

definition recoveryReason :: "string \<Rightarrow> bool" where
  "recoveryReason s \<longleftrightarrow> s \<in> set ['''', ''schema_migration'', ''epoch_reset'', ''primary_changed'', ''uncertain_write'',
     ''state_uncertain'', ''clock_rollback'', ''initialization_uncertainty'']"

definition recoveryValidation :: "string \<Rightarrow> bool" where
  "recoveryValidation s \<longleftrightarrow> s \<in> set ['''', ''room_schema'', ''room_cardinality'', ''ticket_shape'', ''waiting_index'',
     ''admission_state'', ''lease_index'', ''expiry_owner_index'', ''ticket_state'', ''reservation_cardinality'',
     ''idempotency_index'', ''rate_window'', ''validation_phase'', ''installation_metadata'', ''installation_cardinality'']"

definition metrics_bounded :: "RoomMetrics \<Rightarrow> bool" where
  "metrics_bounded m \<longleftrightarrow> \<not> (rm_Waiting m < 0 \<or> rm_Ready m < 0 \<or> rm_Leases m < 0 \<or> rm_Rate m < 0 \<or> rm_Waiting m > 100000 \<or>
     rm_Ready m > 100000 \<or> rm_Leases m > 100000 \<or> rm_Rate m > 60000 \<or> rm_ArrivalsFiveMinutes m < 0 \<or>
     rm_ArrivalsFiveMinutes m > 100000000 \<or> rm_RecoveryUntil m < 0)"

text \<open>One reported room at position \<open>i\<close> of the acknowledgement.\<close>

definition metrics_ok :: "string \<Rightarrow> Delivery \<Rightarrow> Room \<times> RoomMetrics \<Rightarrow> bool pg" where
  "metrics_ok nodeID d = (\<lambda>(at, m).
     if \<not> validHTTPErrorMetrics nodeID m then ret False
     else
       seq (find_in d (rm_RoomID m)) (\<lambda>found.
       ret (case found of
          None \<Rightarrow> False
        | Some (room, runtime) \<Rightarrow>
            rm_RoomID m = r_ID at \<and> rm_Revision m = rt_Revision runtime \<and> rm_Epoch m = rt_Epoch runtime \<and> metrics_bounded m \<and>
            (rm_Mode m = rt_Mode runtime \<or> rm_Mode m = ''RECOVERY_HOLD'') \<and>
            (Active room \<or> rm_Mode m = ''OFF'' \<or> rm_Mode m = ''RECOVERY_HOLD'') \<and>
            rm_RecoveryFence m < 9007199254740990 \<and> recoveryReason (rm_RecoveryReason m) \<and>
            recoveryValidation (rm_RecoveryValidation m))))"

fun all_metrics_ok :: "string \<Rightarrow> Delivery \<Rightarrow> (Room \<times> RoomMetrics) list \<Rightarrow> unit pg" where
  "all_metrics_ok nodeID d [] = ret ()"
| "all_metrics_ok nodeID d (m # ms) =
     seq (metrics_ok nodeID d m) (\<lambda>ok.
     seq (refuse_if (\<not> ok) (ControlErr CErrInvalid)) (\<lambda>_. all_metrics_ok nodeID d ms))"

section \<open>Recovery in the audit log (recovery_audit.go)\<close>

definition recoveryObserved :: "RoomMetrics \<Rightarrow> recoveryObservation" where
  "recoveryObserved m = \<lparr>ro_RoomID = rm_RoomID m, ro_Epoch = rm_Epoch m, ro_Fence = rm_RecoveryFence m,
     ro_Hold = (rm_Mode m = ''RECOVERY_HOLD''), ro_Until = rm_RecoveryUntil m, ro_Reason = rm_RecoveryReason m,
     ro_Validation = rm_RecoveryValidation m\<rparr>"

definition unseen_recovery :: "recoveryObservation \<Rightarrow> recoveryObservation \<Rightarrow> bool" where
  "unseen_recovery before after \<longleftrightarrow> \<not> ro_Hold before \<and> \<not> ro_Hold after \<and> ro_Fence after > ro_Fence before \<and> ro_Reason after \<noteq> []"

definition recovery_outcome :: "recoveryObservation \<Rightarrow> recoveryObservation \<Rightarrow> string option" where
  "recovery_outcome before after =
     (if before = after \<or> (\<not> ro_Hold before \<and> \<not> ro_Hold after \<and> ro_Validation before = ro_Validation after \<and>
          \<not> unseen_recovery before after) then None
      else Some (if ro_Validation after \<noteq> [] then ''validation_failed''
                 else if ro_Hold after then ''held''
                 else if unseen_recovery before after then ''recovered_before_observation''
                 else ''resumed''))"

fun audit_rooms :: "'z PubEnv_scheme \<Rightarrow> RoomMetrics list \<Rightarrow> RoomMetrics list \<Rightarrow> unit pg" where
  "audit_rooms env old [] = ret ()"
| "audit_rooms env old (m # ms) =
     (let previous = (case find (\<lambda>p. rm_RoomID p = rm_RoomID m) (rev old) of None \<Rightarrow> zero_RoomMetrics | Some p \<Rightarrow> p);
          before = recoveryObserved previous;
          after = recoveryObserved m
      in case recovery_outcome before after of
           None \<Rightarrow> audit_rooms env old ms
         | Some outcome \<Rightarrow>
             seq (new_token env Unavailable) (\<lambda>(requestID, _).
             seq (exec_at Unavailable (ins_audit ''system:coordinator'' ''system'' ''runtime.recovery'' (rm_RoomID m)
                (digest env (pb_observation_bytes env before)) (digest env (pb_observation_bytes env after)) outcome requestID (rm_Revision m))) (\<lambda>_.
             audit_rooms env old ms)))"

definition auditRecovery :: "'z PubEnv_scheme \<Rightarrow> string \<Rightarrow> RoomMetrics list \<Rightarrow> unit pg" where
  "auditRecovery env node rooms =
     (if node \<noteq> ''coordinator'' then ret ()
      else
        seq (query Unavailable Unavailable (\<lambda>db. Some (map_of (control_nodes db) node))) (\<lambda>row.
        case row of
          None \<Rightarrow> audit_rooms env [] rooms
        | Some r \<Rightarrow>
            if nd_metrics r = [] then audit_rooms env [] rooms
            else (case pb_decode_metrics env (nd_metrics r) of
                None \<Rightarrow> throw Unavailable
              | Some old \<Rightarrow> audit_rooms env old rooms)))"

section \<open>Acknowledgements (delivery.go)\<close>

definition put_node :: "string \<Rightarrow> int \<Rightarrow> string \<Rightarrow> string \<Rightarrow> int \<Rightarrow> DB \<Rightarrow> (unit \<times> DB) option" where
  "put_node node generation envelope metrics now db =
     (if generation \<le> 0 \<or> \<not> is_digest envelope then None
      else
        let row = \<lparr>nd_generation = generation, nd_digest = envelope, nd_observed = now, nd_metrics = metrics\<rparr> in
        case map_of (control_nodes db) node of
          None \<Rightarrow> Some ((), db\<lparr>control_nodes := control_nodes db @ [(node, row)]\<rparr>)
        | Some old \<Rightarrow>
            if nd_generation old \<le> generation
            then Some ((), db\<lparr>control_nodes := AList.update node row (control_nodes db)\<rparr>) else Some ((), db))"

definition put_key_ack :: "string \<Rightarrow> int \<Rightarrow> string \<Rightarrow> int \<Rightarrow> DB \<Rightarrow> (unit \<times> DB) option" where
  "put_key_ack node generation keys now db =
     (if generation \<le> 0 \<or> generation \<ge> 9007199254740990 \<or> \<not> is_digest keys \<or> map_of (control_nodes db) node = None then None
      else
        let row = \<lparr>ka_generation = generation, ka_digest = keys, ka_observed = now\<rparr> in
        case map_of (control_key_acks db) node of
          None \<Rightarrow> Some ((), db\<lparr>control_key_acks := control_key_acks db @ [(node, row)]\<rparr>)
        | Some old \<Rightarrow>
            if ka_generation old \<le> generation
            then Some ((), db\<lparr>control_key_acks := AList.update node row (control_key_acks db)\<rparr>) else Some ((), db))"

definition acknowledge_in :: "'z PubEnv_scheme \<Rightarrow> string \<Rightarrow> NodeAck \<Rightarrow> unit pg" where
  "acknowledge_in env nodeID ack =
     seq (exec Unavailable (\<lambda>db. Some ((), db))) (\<lambda>_.
     seq (readDelivery env) (\<lambda>(d, generation).
     seq (query_at Unavailable Unavailable (\<lambda>now db. Option.bind (control_delivery db) (\<lambda>row.
         case dl_signed row of
           Some (raw, issued, expires) \<Rightarrow> if expires > now \<and> issued \<le> now then Some raw else None
         | None \<Rightarrow> None))) (\<lambda>envelope.
     seq (refuse_if (generation \<noteq> na_Generation ack \<or> digest env envelope \<noteq> na_Digest ack \<or>
        length (na_Rooms ack) \<noteq> length (rooms_of (d_Config d))) (ControlErr CErrConflict)) (\<lambda>_.
     seq (all_metrics_ok nodeID d (zip (rooms_of (d_Config d)) (na_Rooms ack))) (\<lambda>_.
     seq (auditRecovery env nodeID (na_Rooms ack)) (\<lambda>_.
     seq (exec_at Unavailable (put_node nodeID generation (na_Digest ack) (ce_jsonb env (pb_metrics_bytes env (na_Rooms ack))))) (\<lambda>_.
     seq (if na_KeyGeneration ack > 0 then exec_at Unavailable (put_key_ack nodeID (na_KeyGeneration ack) (na_KeyDigest ack)) else ret ()) (\<lambda>_.
     commit Unavailable))))))))"

definition Acknowledge :: "'z PubEnv_scheme \<Rightarrow> string \<Rightarrow> NodeAck \<Rightarrow> unit pg" where
  "Acknowledge env nodeID ack =
     (if na_KeyGeneration ack \<noteq> pb_keyGeneration env \<or> na_KeyDigest ack \<noteq> pb_keyDigest env then throw (ControlErr CErrConflict)
      else if nodeID \<noteq> ''gateway'' \<and> nodeID \<noteq> ''coordinator'' then throw Forbidden
      else seq (authTx env) (\<lambda>_. acknowledge_in env nodeID ack))"

section \<open>Recovery of a node's clock (clock_recovery.go)\<close>

definition recover_from :: "'z PubEnv_scheme \<Rightarrow> string \<Rightarrow> ClockRecovery \<Rightarrow> Delivery \<Rightarrow> int \<Rightarrow> string pg" where
  "recover_from env node req d generation =
     seq (query_at Unavailable Unavailable (\<lambda>now db. Option.bind (control_delivery db) (\<lambda>row.
         map_option (\<lambda>(raw, issued, expires). (now, issued, expires, raw)) (dl_signed row)))) (\<lambda>(now, issued, expires, raw).
     if unix now < cr_NotBefore req \<or> now < issued \<or> \<not> now < expires \<or> uint64 generation < cr_Generation req
     then throw (ControlErr CErrConflict)
     else if uint64 generation > cr_Generation req \<and> unix issued \<ge> cr_NotBefore req
     then seq (commit Unavailable) (\<lambda>_. ret raw)
     else if (uint64 generation = cr_Generation req \<and> digest env raw \<noteq> cr_Digest req) \<or> cr_NotBefore req < unix issued
     then throw (ControlErr CErrConflict)
     else
       seq (sign env d generation now) (\<lambda>_.
       seq (query Unavailable Unavailable (\<lambda>db. Option.bind (control_delivery db) (\<lambda>row. map_option fst (dl_signed row)))) (\<lambda>signed.
       seq (exec_at Unavailable (ins_audit (''system:'' @ node) ''system'' ''config.clock_recovery'' ''installation'' (digest env raw)
          (digest env signed) ''accepted'' (digest env (pb_clock_bytes env req)) (cfg_Revision (d_Config d)))) (\<lambda>_.
       seq (commit Unavailable) (\<lambda>_. ret signed)))))"

definition RecoverClock :: "'z PubEnv_scheme \<Rightarrow> string \<Rightarrow> ClockRecovery \<Rightarrow> string pg" where
  "RecoverClock env node req =
     (if node \<noteq> ''gateway'' \<and> node \<noteq> ''coordinator'' then throw Forbidden
      else if cr_Generation req = 0 \<or> int (cr_Generation req) \<ge> 9007199254740990 \<or> cr_NotBefore req \<le> 0 \<or>
        cr_NotBefore req > 253402214399 \<or> \<not> is_digest (cr_Digest req) then throw (ControlErr CErrInvalid)
      else
        seq (authTx env) (\<lambda>_.
        seq (readConfig env) (\<lambda>_.
        seq (readDelivery env) (\<lambda>(d, generation). recover_from env node req d generation))))"

section \<open>Route check (route_check.go)\<close>

definition MaxRouteCheckBytes :: nat where "MaxRouteCheckBytes = 8192"

text \<open>The answer for a decoded question: the saved draft or the published delivery is consulted.\<close>

definition route_answer :: "'z PubEnv_scheme \<Rightarrow> RouteCheckInput \<Rightarrow> RouteCheckResult pg" where
  "route_answer env inp =
     (if ri_Source inp = ''draft'' then
        seq (readConfig env) (\<lambda>c.
        ret \<lparr>rs_Source = ri_Source inp, rs_Scope = ''configuration-only'', rs_Revision = cfg_Revision c, rs_Generation = 0,
             rs_Match = CheckRoute (ce_parse env) c (ri_URL inp), rs_Mode = []\<rparr>)
      else
        seq (readDelivery env) (\<lambda>(d, generation).
        seq (refuse_if (generation < 0) Unavailable) (\<lambda>_.
        let m = CheckRoute (ce_parse env) (d_Config d) (ri_URL inp) in
        seq (if RoomID m = [] then ret None else find_in d (RoomID m)) (\<lambda>found.
        ret \<lparr>rs_Source = ri_Source inp, rs_Scope = ''configuration-only'', rs_Revision = cfg_Revision (d_Config d),
             rs_Generation = generation, rs_Match = m, rs_Mode = (case found of None \<Rightarrow> [] | Some (_, q) \<Rightarrow> rt_Mode q)\<rparr>))))"

definition RouteCheck :: "'z PubEnv_scheme \<Rightarrow> string \<Rightarrow> HttpRequest option \<Rightarrow> string \<Rightarrow> ControlReply pg" where
  "RouteCheck env token request raw =
     (case request of
        None \<Rightarrow> replyProblem env 400 ''INVALID_REQUEST''
      | Some r \<Rightarrow>
          if rq_Method r \<noteq> ''POST'' \<or> length raw > MaxRouteCheckBytes then replyProblem env 400 ''INVALID_REQUEST''
          else
            seq (begin_read env token ReadConfig None) (\<lambda>state.
            seq (check_mutation env r (sn_csrf state)) (\<lambda>_.
            case pb_decode_route env raw of
              None \<Rightarrow> replyProblem env 400 ''INVALID_REQUEST''
            | Some inp \<Rightarrow>
                if (ri_Source inp \<noteq> ''draft'' \<and> ri_Source inp \<noteq> ''published'') \<or> length (ri_URL inp) = 0 \<or>
                   length (ri_URL inp) > MaxRouteURLBytes then replyProblem env 400 ''INVALID_REQUEST''
                else
                  seq (route_answer env inp) (\<lambda>out.
                  seq (commit Unavailable) (\<lambda>_. ret (jsonReply env 200 (VRouteCheck out) []))))))"

section \<open>Deployment keys (key_rotation.go)\<close>

definition WithDeploymentKeys ::
  "(string \<Rightarrow> string) \<Rightarrow> (Set \<Rightarrow> string) \<Rightarrow> (string \<Rightarrow> string) \<Rightarrow> Set option \<Rightarrow> PubEnv \<Rightarrow> keyring_error option \<times> PubEnv" where
  "WithDeploymentKeys from_seed marshal sha keys env =
     (case keys of
        None \<Rightarrow> (None, env)
      | Some ks \<Rightarrow>
          if Set_Validate from_seed ks ''control'' \<noteq> None then (Some KErrInvalid, env)
          else (None, env\<lparr>pb_kid := ConfigKid (ks_Current ks), pb_key := k_ConfigPrivate (ks_Current ks),
                  pb_keyGeneration := ks_Generation ks, pb_keyDigest := Digest marshal sha ks\<rparr>))"

end
