(* ===== verification/WR_Events.thy ===== *)
theory WR_Events
  imports WR_Publish
begin

text \<open>
  Scheduled events of a room (\<open>internal/adminauth/pgstore/events.go\<close>): listing and changing them, the
  scheduler's tick, and the condition for switching a draining room off.
\<close>

section \<open>Reading events\<close>

text \<open>Events come in the order of their start and, for equal starts, of their identifiers.\<close>

definition event_le :: "Event \<Rightarrow> Event \<Rightarrow> bool" where
  "event_le a b \<longleftrightarrow> ev_PrequeueAt a < ev_PrequeueAt b \<or> (ev_PrequeueAt a = ev_PrequeueAt b \<and> ev_ID a \<le> ev_ID b)"

fun insert_event :: "Event \<Rightarrow> Event list \<Rightarrow> Event list" where
  "insert_event e [] = [e]"
| "insert_event e (x # xs) = (if event_le e x then e # x # xs else x # insert_event e xs)"

definition events_of :: "string \<Rightarrow> DB \<Rightarrow> Event list" where
  "events_of room db = foldr insert_event (filter (\<lambda>e. ev_RoomID e = room) (control_events db)) []"

definition readEvents :: "string \<Rightarrow> Event list pg" where
  "readEvents room =
     seq (query Unavailable Unavailable (\<lambda>db. Some (take 1001 (events_of room db)))) (\<lambda>result.
     if length result > 1000 then throw Unavailable else ret result)"

definition Events :: "'z PubEnv_scheme \<Rightarrow> string \<Rightarrow> string \<Rightarrow> ControlReply pg" where
  "Events env token room =
     seq (begin_read env token ReadEvents None) (\<lambda>_.
     seq (readDelivery env) (\<lambda>(d, _).
     seq (find_in d room) (\<lambda>found.
     case found of
       None \<Rightarrow> replyProblem env 404 ''NOT_FOUND''
     | Some (_, runtime) \<Rightarrow>
         seq (readEvents room) (\<lambda>events.
         seq (commit Unavailable) (\<lambda>_. ret (jsonReply env 200 (VEvents events) (runtime_ETag runtime)))))))"

section \<open>Changing an event\<close>

definition event_states :: "string list" where
  "event_states = [''scheduled'', ''running'', ''completed'', ''cancelled'', ''paused_by_override'']"

definition put_event :: "Event \<Rightarrow> DB \<Rightarrow> (unit \<times> DB) option" where
  "put_event e db =
     (if \<not> (ev_PrequeueAt e < ev_AdmitAt e \<and> ev_AdmitAt e < ev_DrainAt e) \<or> ev_State e \<notin> set event_states \<or>
        ev_ID e = [] \<or> length (ev_ID e) > 80 \<or> \<not> safe_chars (ev_ID e) then None
      else if list_ex (\<lambda>x. ev_ID x = ev_ID e) (control_events db)
      then Some ((), db\<lparr>control_events := map (\<lambda>x. if ev_ID x = ev_ID e then e\<lparr>ev_RoomID := ev_RoomID x\<rparr> else x) (control_events db)\<rparr>)
      else Some ((), db\<lparr>control_events := control_events db @ [e]\<rparr>))"

definition event_method :: "string \<Rightarrow> string \<Rightarrow> bool" where
  "event_method eventID m = (if eventID = [] then m = ''POST'' else m = ''PUT'' \<or> m = ''DELETE'' \<or> m = ''POST'')"

text \<open>The event a request asks for: a cancelled one, a resumed one, or one with new times.\<close>

definition resume_event :: "'z PubEnv_scheme \<Rightarrow> string \<Rightarrow> int \<Rightarrow> Event \<Rightarrow> (int \<times> string) + Event" where
  "resume_event env raw now e =
     (if \<not> pb_decode_empty env raw then Inl (400, ''INVALID_REQUEST'')
      else if ev_State e \<noteq> ''paused_by_override'' \<or> \<not> now < ev_DrainAt e then Inl (409, ''EVENT_INACTIVE'')
      else Inr (e\<lparr>ev_State := ''scheduled''\<rparr>))"

definition schedule_event ::
  "'z PubEnv_scheme \<Rightarrow> string \<Rightarrow> string \<Rightarrow> string \<Rightarrow> int \<Rightarrow> Event list \<Rightarrow> ((int \<times> string) + Event) pg" where
  "schedule_event env roomID eventID raw now events =
     (case pb_decode_event env raw of
        None \<Rightarrow> ret (Inl (400, ''INVALID_REQUEST''))
      | Some inp \<Rightarrow>
          if EventInput_Validate inp now \<noteq> None then ret (Inl (422, ''INVALID_EVENT''))
          else if list_ex (\<lambda>e. ev_ID e \<noteq> eventID \<and> Overlaps e inp) events then ret (Inl (409, ''EVENT_OVERLAP''))
          else if eventID = [] \<and> length events \<ge> 1000 then ret (Inl (422, ''EVENT_CAPACITY_EXCEEDED''))
          else
            seq (if eventID = [] then seq (new_token env Unavailable) (\<lambda>(i, _). ret i) else ret eventID) (\<lambda>i.
            ret (Inr \<lparr>ev_ID = i, ev_RoomID = roomID, ev_PrequeueAt = ei_PrequeueAt inp, ev_AdmitAt = ei_AdmitAt inp,
                      ev_DrainAt = ei_DrainAt inp, ev_State = ''scheduled''\<rparr>)))"

definition zero_Event :: Event where
  "zero_Event = \<lparr>ev_ID = [], ev_RoomID = [], ev_PrequeueAt = 0, ev_AdmitAt = 0, ev_DrainAt = 0, ev_State = []\<rparr>"

definition requested_event ::
  "'z PubEnv_scheme \<Rightarrow> HttpRequest \<Rightarrow> string \<Rightarrow> string \<Rightarrow> string \<Rightarrow> int \<Rightarrow> Room \<Rightarrow> Event list \<Rightarrow> ((int \<times> string) + Event) pg" where
  "requested_event env r roomID eventID raw now room events =
     (let found = find (\<lambda>e. ev_ID e = eventID) (rev events);
          this = (case found of None \<Rightarrow> zero_Event | Some e \<Rightarrow> e) in
      if eventID \<noteq> [] \<and> (found = None \<or> ev_State this = ''cancelled'' \<or> ev_State this = ''completed'')
      then ret (Inl (409, ''EVENT_INACTIVE''))
      else if rq_Method r = ''DELETE'' then
        ret (if length raw \<noteq> 0 \<and> \<not> pb_decode_empty env raw then Inl (400, ''INVALID_REQUEST'')
             else Inr (this\<lparr>ev_State := ''cancelled''\<rparr>))
      else if \<not> Active room then ret (Inl (409, ''ROOM_INACTIVE''))
      else if eventID \<noteq> [] \<and> rq_Method r = ''POST'' then ret (resume_event env raw now this)
      else schedule_event env roomID eventID raw now events)"

text \<open>The event state of a room: paused or running where an event is, else scheduled where one is, else none.\<close>

fun event_state :: "string \<Rightarrow> Event list \<Rightarrow> string" where
  "event_state s [] = s"
| "event_state s (e # es) =
     (if ev_State e = ''paused_by_override'' then ''paused_by_override''
      else if ev_State e = ''running'' then ''running''
      else event_state (if ev_State e = ''scheduled'' then ''scheduled'' else s) es)"

definition store_event ::
  "'z PubEnv_scheme \<Rightarrow> string \<Rightarrow> int \<Rightarrow> Delivery \<Rightarrow> int \<Rightarrow> string \<Rightarrow> Runtime \<Rightarrow> Event \<Rightarrow> commandResult pg" where
  "store_event env roomID now d generation before runtime e =
     seq (exec Unavailable (put_event e)) (\<lambda>_.
     seq (readEvents roomID) (\<lambda>events.
     let changed = runtime\<lparr>EventState := event_state ''none'' events, rt_Revision := i64 (rt_Revision runtime + 1)\<rparr>;
         d' = set_runtime d roomID changed in
     seq (sign env d' generation now) (\<lambda>_.
     ret \<lparr>cd_reply = jsonReply env 200 (VEvent e) (runtime_ETag changed), cd_before = before,
          cd_after = digest env (ce_delivery_bytes env d' @ pb_event_bytes env e), cd_revision = rt_Revision changed\<rparr>)))"

definition event_room :: "string \<Rightarrow> string \<Rightarrow> string option pg" where
  "event_room roomID eventID =
     (if eventID = [] then ret (Some roomID)
      else
        seq (attempt (query Unavailable Unavailable (\<lambda>db. map_option ev_RoomID (find (\<lambda>e. ev_ID e = eventID) (control_events db))))) (\<lambda>r.
        ret (case r of Inl _ \<Rightarrow> None | Inr room \<Rightarrow> Some room)))"

definition change_event_in ::
  "'z PubEnv_scheme \<Rightarrow> string \<Rightarrow> string \<Rightarrow> HttpRequest \<Rightarrow> string \<Rightarrow> sessionSnapshot \<Rightarrow> Delivery \<Rightarrow> int \<Rightarrow> commandResult pg" where
  "change_event_in env roomID eventID r raw state d generation =
     (let before = digest env (ce_delivery_bytes env d) in
      seq (event_room roomID eventID) (\<lambda>known.
      case known of
        None \<Rightarrow> refuse_command env before 404 ''NOT_FOUND''
      | Some rid \<Rightarrow>
          seq (find_in d rid) (\<lambda>found.
          case found of
            None \<Rightarrow> refuse_command env before 404 ''NOT_FOUND''
          | Some (room, runtime) \<Rightarrow>
              if Header_Get r ''If-Match'' \<noteq> runtime_ETag runtime then refuse_command env before 412 ''REVISION_MISMATCH''
              else
                seq (readEvents rid) (\<lambda>events.
                seq (requested_event env r rid eventID raw (sn_now state) room events) (\<lambda>wanted.
                case wanted of
                  Inl (status, code) \<Rightarrow> refuse_command env before status code
                | Inr e \<Rightarrow> store_event env rid (sn_now state) d generation before runtime e)))))"

definition change_event_body ::
  "'z PubEnv_scheme \<Rightarrow> string \<Rightarrow> string \<Rightarrow> HttpRequest \<Rightarrow> string \<Rightarrow> sessionSnapshot \<Rightarrow> Config \<Rightarrow> commandResult pg" where
  "change_event_body env roomID eventID r raw state current =
     (if \<not> event_method eventID (rq_Method r) then refuse_command env [] 405 ''INVALID_REQUEST''
      else seq (readDelivery env) (\<lambda>(d, generation). change_event_in env roomID eventID r raw state d generation))"

definition ChangeEvent ::
  "'z PubEnv_scheme \<Rightarrow> string \<Rightarrow> string \<Rightarrow> string \<Rightarrow> HttpRequest option \<Rightarrow> string \<Rightarrow> ControlReply pg" where
  "ChangeEvent env token roomID eventID request raw =
     control_command env token request raw WriteEvents
       (if eventID = [] then roomID @ ''/events'' else ''events/'' @ eventID) True
       (change_event_body env roomID eventID (the request) raw)"

section \<open>Safe drain\<close>

text \<open>The two flags after all reports: what the coordinator and the gateway reported last for the room.\<close>

definition drain_report :: "string \<Rightarrow> Runtime \<Rightarrow> string \<times> RoomMetrics \<Rightarrow> bool \<times> bool \<Rightarrow> bool \<times> bool" where
  "drain_report room runtime = (\<lambda>(node, m) (queueOK, originOK).
     if rm_RoomID m \<noteq> room \<or> rm_Mode m \<noteq> ''DRAINING'' \<or> rm_Revision m \<noteq> rt_Revision runtime \<or> rm_Epoch m \<noteq> rt_Epoch runtime
     then (queueOK, originOK)
     else
       (if node = ''coordinator'' then rm_Waiting m = 0 \<and> rm_Ready m = 0 \<and> rm_RecoveryUntil m = 0 else queueOK,
        if node = ''gateway'' then rm_OriginHealthy m \<and> rm_ArrivalWindowReady m \<and>
          rm_ArrivalsFiveMinutes m \<le> i64 (AdmissionsPerMinute (rt_Limits runtime) * 5) else originOK))"

definition safeDrain :: "DeliveryView \<Rightarrow> string \<Rightarrow> Runtime \<Rightarrow> bool" where
  "safeDrain view room runtime =
     (if dv_State view \<noteq> ''applied'' then False
      else
        let (queueOK, originOK) = fold (drain_report room runtime)
              (concat (map (\<lambda>node. map (\<lambda>m. (nv_ID node, m)) (nv_Rooms node)) (dv_Nodes view))) (False, False)
        in queueOK \<and> originOK)"

section \<open>The scheduler\<close>

definition set_event_state :: "string \<Rightarrow> string \<Rightarrow> DB \<Rightarrow> (unit \<times> DB) option" where
  "set_event_state s i db =
     (if s \<notin> set event_states then None
      else Some ((), db\<lparr>control_events := map (\<lambda>e. if ev_ID e = i then e\<lparr>ev_State := s\<rparr> else e) (control_events db)\<rparr>))"

definition active_event :: "Event list \<Rightarrow> Event option" where
  "active_event = find (\<lambda>e. ev_State e \<noteq> ''cancelled'' \<and> ev_State e \<noteq> ''completed'')"

text \<open>Advance the runtime along its active event; the stored event follows.\<close>

definition advance_event :: "int \<Rightarrow> Event option \<Rightarrow> Runtime \<Rightarrow> Runtime pg" where
  "advance_event now active runtime =
     (case active of
        None \<Rightarrow> ret runtime
      | Some e \<Rightarrow>
          let (mode, state) = NextEventMode e now in
          if mode \<noteq> [] \<and> (mode \<noteq> rt_Mode runtime \<or> ev_State e \<noteq> state \<or> EventState runtime \<noteq> state)
          then seq (exec Unavailable (set_event_state state (ev_ID e))) (\<lambda>_.
               ret (runtime\<lparr>rt_Mode := mode, EventState := state\<rparr>))
          else ret runtime)"

definition finish_drain :: "DeliveryView \<Rightarrow> string \<Rightarrow> Event option \<Rightarrow> Runtime \<Rightarrow> Runtime pg" where
  "finish_drain v room active runtime =
     (if rt_Mode runtime = ''DRAINING'' \<and> safeDrain v room runtime then
        (case active of
           None \<Rightarrow> ret (runtime\<lparr>rt_Mode := ''OFF'', EventState := ''none''\<rparr>)
         | Some e \<Rightarrow>
             if ev_State e = ''paused_by_override'' then ret (runtime\<lparr>rt_Mode := ''OFF'', EventState := ''paused_by_override''\<rparr>)
             else seq (exec Unavailable (set_event_state ''completed'' (ev_ID e))) (\<lambda>_.
                  ret (runtime\<lparr>rt_Mode := ''OFF'', EventState := ''none''\<rparr>)))
      else ret runtime)"

definition tick_room :: "'z PubEnv_scheme \<Rightarrow> int \<Rightarrow> DeliveryView \<Rightarrow> nat \<Rightarrow> Room \<Rightarrow> Delivery \<Rightarrow> (Delivery \<times> bool) pg" where
  "tick_room env now v i room d =
     (if \<not> Active room then ret (d, False)
      else
        let rr = d_Runtimes d ! i; before = digest env (ce_delivery_bytes env d) in
        seq (readEvents (r_ID room)) (\<lambda>events.
        seq (advance_event now (active_event events) (rr_Runtime rr)) (\<lambda>advanced.
        seq (finish_drain v (r_ID room) (active_event events) advanced) (\<lambda>runtime.
        if runtime = rr_Runtime rr then ret (d, False)
        else
          let runtime = runtime\<lparr>rt_Revision := i64 (rt_Revision runtime + 1)\<rparr>;
              d' = d\<lparr>d_Runtimes := (d_Runtimes d)[i := rr\<lparr>rr_Runtime := runtime\<rparr>]\<rparr> in
          seq (new_token env Unavailable) (\<lambda>(requestID, _).
          seq (exec_at Unavailable (ins_audit ''system:scheduler'' ''system'' ''events.transition'' (r_ID room) before
             (digest env (ce_delivery_bytes env d')) ''accepted'' requestID (rt_Revision runtime))) (\<lambda>_.
          ret (d', True)))))))"

fun tick_rooms :: "'z PubEnv_scheme \<Rightarrow> int \<Rightarrow> DeliveryView \<Rightarrow> nat \<Rightarrow> Room list \<Rightarrow> Delivery \<Rightarrow> bool \<Rightarrow> (Delivery \<times> bool) pg" where
  "tick_rooms env now v i [] d changed = ret (d, changed)"
| "tick_rooms env now v i (room # rest) d changed =
     seq (tick_room env now v i room d) (\<lambda>(d', c). tick_rooms env now v (Suc i) rest d' (changed \<or> c))"

definition Tick :: "'z PubEnv_scheme \<Rightarrow> unit pg" where
  "Tick env =
     seq (authTx env) (\<lambda>_.
     seq (readConfig env) (\<lambda>_.
     seq (readDelivery env) (\<lambda>(d, generation).
     seq (read_clock Unavailable) (\<lambda>now.
     seq (deliveryView env d generation) (\<lambda>v.
     seq (tick_rooms env now v 0 (rooms_of (d_Config d)) d False) (\<lambda>(d', changed).
     seq (if changed then sign env d' generation now else ret ()) (\<lambda>_.
     commit Unavailable)))))))"

end
