(* ===== verification/WR_Frames.thy ===== *)
theory WR_Frames
  imports WR_Tx
begin

text \<open>
  Frame reasoning for database steps: steps that leave the durable database alone, steps that leave a
  part of the view alone, and how a run is peeled along a sequence of quiet steps whatever its outcome.
\<close>

section \<open>Quiet steps\<close>

text \<open>A quiet step does not change the durable database, whether it fails or not.\<close>

definition quiet :: "('d, 'a) tx \<Rightarrow> bool" where
  "quiet m \<longleftrightarrow> (\<forall>s. pg_db (snd (m s)) = pg_db s)"

named_theorems tx_quiet \<open>steps that leave the durable database alone\<close>

lemma quietD: "quiet m \<Longrightarrow> m s = (r, s') \<Longrightarrow> pg_db s' = pg_db s"
  by (metis quiet_def snd_conv)

lemma quiet_basic [tx_quiet]:
  "quiet (ret x)" "quiet (throw e)" "quiet (refuse_if c e)" "quiet (check o1)" "quiet (of_sum v)"
  "quiet (begin_tx e)" "quiet (exec e f)" "quiet (exec_at e g)" "quiet (query n e h)" "quiet (query_at n e k)"
  "quiet (pool_query n e k)" "quiet (random e len)"
  by (auto simp: quiet_def tx_defs split: option.splits sum.splits prod.splits)

lemma quiet_seq [tx_quiet]: "quiet m \<Longrightarrow> (\<And>x. quiet (f x)) \<Longrightarrow> quiet (seq m f)"
  by (auto simp: quiet_def seq_def split: prod.splits sum.splits) (metis snd_conv)+

lemma quiet_attempt [tx_quiet]: "quiet m \<Longrightarrow> quiet (attempt m)"
  by (auto simp: quiet_def attempt_def split: prod.splits) (metis snd_conv)

lemma quiet_if [tx_quiet]: "(b \<Longrightarrow> quiet m) \<Longrightarrow> (\<not> b \<Longrightarrow> quiet n) \<Longrightarrow> quiet (if b then m else n)"
  by simp

lemma quiet_option [tx_quiet]:
  "(v = None \<Longrightarrow> quiet m) \<Longrightarrow> (\<And>x. v = Some x \<Longrightarrow> quiet (f x)) \<Longrightarrow> quiet (case v of None \<Rightarrow> m | Some x \<Rightarrow> f x)"
  by (cases v) simp_all

lemma quiet_sum [tx_quiet]:
  "(\<And>x. v = Inl x \<Longrightarrow> quiet (f x)) \<Longrightarrow> (\<And>y. v = Inr y \<Longrightarrow> quiet (g y)) \<Longrightarrow>
   quiet (case v of Inl x \<Rightarrow> f x | Inr y \<Rightarrow> g y)"
  by (cases v) simp_all

lemma quiet_prod [tx_quiet]: "(\<And>x y. v = (x, y) \<Longrightarrow> quiet (f x y)) \<Longrightarrow> quiet (case v of (x, y) \<Rightarrow> f x y)"
  by (cases v) simp

lemma quiet_let [tx_quiet]: "(\<And>x. x = v \<Longrightarrow> quiet (f x)) \<Longrightarrow> quiet (let x = v in f x)"
  by simp

section \<open>Parts of the view\<close>

text \<open>\<open>leaves p m\<close>: the step does not change the part \<open>p\<close> of the view.\<close>

definition leaves :: "('d \<Rightarrow> 'p) \<Rightarrow> ('d, 'a) tx \<Rightarrow> bool" where
  "leaves p m \<longleftrightarrow> (\<forall>s. p (pg_tx (snd (m s))) = p (pg_tx s))"

named_theorems tx_leaves \<open>steps that leave a part of the view alone\<close>

lemma leavesD: "leaves p m \<Longrightarrow> m s = (r, s') \<Longrightarrow> p (pg_tx s') = p (pg_tx s)"
  by (metis leaves_def snd_conv)

lemma leaves_basic [tx_leaves]:
  "leaves p (ret x)" "leaves p (throw e)" "leaves p (refuse_if c e)" "leaves p (check o1)" "leaves p (of_sum v)"
  "leaves p (query n e h)" "leaves p (query_at n e k)" "leaves p (pool_query n e k)" "leaves p (random e len)"
  "leaves p (commit e)"
  by (auto simp: leaves_def tx_defs split: option.splits sum.splits prod.splits outcome.splits)

lemma leaves_exec [tx_leaves]:
  "(\<And>db x db'. f db = Some (x, db') \<Longrightarrow> p db' = p db) \<Longrightarrow> leaves p (exec e f)"
  by (auto simp: leaves_def exec_def split: option.splits)

lemma leaves_exec_at [tx_leaves]:
  "(\<And>now db x db'. f now db = Some (x, db') \<Longrightarrow> p db' = p db) \<Longrightarrow> leaves p (exec_at e f)"
  by (auto simp: leaves_def exec_def exec_at_def split: option.splits)

lemma leaves_seq [tx_leaves]: "leaves p m \<Longrightarrow> (\<And>x. leaves p (f x)) \<Longrightarrow> leaves p (seq m f)"
  by (auto simp: leaves_def seq_def split: prod.splits sum.splits) (metis snd_conv)+

lemma leaves_attempt [tx_leaves]: "leaves p m \<Longrightarrow> leaves p (attempt m)"
  by (auto simp: leaves_def attempt_def split: prod.splits) (metis snd_conv)

lemma leaves_if [tx_leaves]: "(b \<Longrightarrow> leaves p m) \<Longrightarrow> (\<not> b \<Longrightarrow> leaves p n) \<Longrightarrow> leaves p (if b then m else n)"
  by simp

lemma leaves_option [tx_leaves]:
  "(v = None \<Longrightarrow> leaves p m) \<Longrightarrow> (\<And>x. v = Some x \<Longrightarrow> leaves p (f x)) \<Longrightarrow> leaves p (case v of None \<Rightarrow> m | Some x \<Rightarrow> f x)"
  by (cases v) simp_all

lemma leaves_sum [tx_leaves]:
  "(\<And>x. v = Inl x \<Longrightarrow> leaves p (f x)) \<Longrightarrow> (\<And>y. v = Inr y \<Longrightarrow> leaves p (g y)) \<Longrightarrow>
   leaves p (case v of Inl x \<Rightarrow> f x | Inr y \<Rightarrow> g y)"
  by (cases v) simp_all

lemma leaves_prod [tx_leaves]: "(\<And>x y. v = (x, y) \<Longrightarrow> leaves p (f x y)) \<Longrightarrow> leaves p (case v of (x, y) \<Rightarrow> f x y)"
  by (cases v) simp

lemma leaves_let [tx_leaves]: "(\<And>x. x = v \<Longrightarrow> leaves p (f x)) \<Longrightarrow> leaves p (let x = v in f x)"
  by simp

section \<open>Peeling a run\<close>

text \<open>A run with a durable effect gets past every quiet step.\<close>

lemma seq_effectE:
  assumes "seq m f s = (r, s')" and "pg_db s' \<noteq> pg_db s" and "quiet m"
  obtains x t where "m s = (Inr x, t)" "f x t = (r, s')" "pg_db t = pg_db s" "pg_db s' \<noteq> pg_db t"
proof -
  obtain v t where m: "m s = (v, t)" by fastforce
  have t: "pg_db t = pg_db s" using quietD [OF assms(3) m] .
  show ?thesis
  proof (cases v)
    case (Inl e)
    with assms m t show ?thesis by (simp add: seq_def)
  next
    case (Inr x)
    with assms m t that show ?thesis by (auto simp: seq_def)
  qed
qed

lemma seq_runE:
  assumes "seq m f s = (r, s')"
  obtains (Stop) e where "m s = (Inl e, s')" "r = Inl e" | (Go) x t where "m s = (Inr x, t)" "f x t = (r, s')"
  using assms by (auto simp: seq_def split: prod.splits sum.splits)

lemma quiet_no_effect: "m s = (r, s') \<Longrightarrow> pg_db s' \<noteq> pg_db s \<Longrightarrow> quiet m \<Longrightarrow> P"
  using quietD by metis

lemma commit_effect: "commit e s = (r, s') \<Longrightarrow> pg_db s' \<noteq> pg_db s \<Longrightarrow> pg_db s' = pg_tx s \<and> pg_tx s' = pg_tx s"
  by (auto simp: commit_def split: if_splits outcome.splits)

section \<open>The world\<close>

text \<open>The world of a run does not change; only the position in it does.\<close>

definition same_world :: "('d, 'a) tx \<Rightarrow> bool" where
  "same_world m \<longleftrightarrow> (\<forall>s. pg_world (snd (m s)) = pg_world s)"

named_theorems tx_world \<open>steps that stay in their world\<close>

lemma same_worldD: "same_world m \<Longrightarrow> m s = (r, s') \<Longrightarrow> pg_world s' = pg_world s"
  by (metis same_world_def snd_conv)

lemma same_world_basic [tx_world]:
  "same_world (ret x)" "same_world (throw e)" "same_world (refuse_if c e)" "same_world (check o1)" "same_world (of_sum v)"
  "same_world (begin_tx e)" "same_world (exec e f)" "same_world (exec_at e g)" "same_world (query n e h)"
  "same_world (query_at n e k)" "same_world (pool_query n e k)" "same_world (random e len)" "same_world (commit e)"
  by (auto simp: same_world_def tx_defs split: option.splits sum.splits prod.splits outcome.splits)

lemma same_world_seq [tx_world]: "same_world m \<Longrightarrow> (\<And>x. same_world (f x)) \<Longrightarrow> same_world (seq m f)"
  by (auto simp: same_world_def seq_def split: prod.splits sum.splits) (metis snd_conv)+

lemma same_world_attempt [tx_world]: "same_world m \<Longrightarrow> same_world (attempt m)"
  by (auto simp: same_world_def attempt_def split: prod.splits) (metis snd_conv)

lemma same_world_if [tx_world]: "(b \<Longrightarrow> same_world m) \<Longrightarrow> (\<not> b \<Longrightarrow> same_world n) \<Longrightarrow> same_world (if b then m else n)"
  by simp

lemma same_world_option [tx_world]:
  "(v = None \<Longrightarrow> same_world m) \<Longrightarrow> (\<And>x. v = Some x \<Longrightarrow> same_world (f x)) \<Longrightarrow>
   same_world (case v of None \<Rightarrow> m | Some x \<Rightarrow> f x)"
  by (cases v) simp_all

end
