(* ===== verification/WR_Login_Props.thy ===== *)
theory WR_Login_Props
  imports WR_Login WR_Auth_Props
begin

text \<open>
  What the login services guarantee of the durable database, whatever calls fail: counters of second
  factors only grow, a grant consumes a fresh counter and its challenge, attempts are limited, and a
  logout ends a session.
\<close>

section \<open>Counters only grow\<close>

text \<open>Every credential is still there, in the same version, with a counter that is not smaller.\<close>

definition counters_le :: "DB \<Rightarrow> DB \<Rightarrow> bool" where
  "counters_le d db \<longleftrightarrow> (\<forall>u t. map_of (auth_totp_credentials d) u = Some t \<longrightarrow>
     (\<exists>t'. map_of (auth_totp_credentials db) u = Some t' \<and> tr_version t' = tr_version t \<and>
        tr_last_counter t \<le> tr_last_counter t'))"

lemma counters_le_refl [simp]: "counters_le d d"
  by (simp add: counters_le_def)

lemma counters_le_trans: "counters_le a b \<Longrightarrow> counters_le b c \<Longrightarrow> counters_le a c"
  unfolding counters_le_def by (metis order_trans)

lemma counters_le_same: "auth_totp_credentials db' = auth_totp_credentials db \<Longrightarrow> counters_le d db' = counters_le d db"
  by (simp add: counters_le_def)

lemma advance_counter_le: "advance_counter ref c db = Some (n, db') \<Longrightarrow> counters_le db db'"
  by (auto simp: advance_counter_def counters_le_def update_conv' split: option.splits if_splits)

text \<open>The statements that leave the credentials alone.\<close>

named_theorems db_frames \<open>what a statement does not touch\<close>

abbreviation creds :: "DB \<Rightarrow> (string \<times> TotpRow) list" where
  "creds \<equiv> auth_totp_credentials"

lemma creds_frames [db_frames]:
  "ins_audit a r ac t b af re ri rv now db = Some (x, db') \<Longrightarrow> creds db' = creds db"
  "ins_bucket k now db = Some (y, db') \<Longrightarrow> creds db' = creds db"
  "set_bucket k bk db = Some (x, db') \<Longrightarrow> creds db' = creds db"
  "del_buckets now db = Some (x, db') \<Longrightarrow> creds db' = creds db"
  "ins_session h row db = Some (x, db') \<Longrightarrow> creds db' = creds db"
  "ins_enrollment h en db = Some (z, db') \<Longrightarrow> creds db' = creds db"
  "ins_challenge h ch db = Some (z, db') \<Longrightarrow> creds db' = creds db"
  "consume_challenge h now db = Some (n, db') \<Longrightarrow> creds db' = creds db"
  "count_attempt h db = Some (x, db') \<Longrightarrow> creds db' = creds db"
  "ins_logout h c k now db = Some (x, db') \<Longrightarrow> creds db' = creds db"
  "touch_session h now db = (o', db') \<Longrightarrow> creds db' = creds db"
  by (auto simp: ins_audit_def ins_bucket_def set_bucket_def del_buckets_def ins_session_def ins_enrollment_def
      ins_challenge_def consume_challenge_def count_attempt_def ins_logout_def touch_session_def
      split: if_splits option.splits)

lemma creds_simps [simp]:
  "creds (del_sessions P db) = creds db" "creds (del_session h db) = creds db"
  "creds (consume_enrollments Q db) = creds db" "creds (consume_challenges u db) = creds db"
  by (simp_all add: del_session_def del_sessions_def consume_enrollments_def consume_challenges_def Let_def)

lemma keeps_counters_frame [tx_keeps]:
  assumes "\<And>db x db'. f db = Some (x, db') \<Longrightarrow> creds db' = creds db"
  shows "keeps counters_le (exec e f)"
  by (rule keeps_exec) (use assms counters_le_same in blast)

lemma keeps_counters_frame_at [tx_keeps]:
  assumes "\<And>now db x db'. f now db = Some (x, db') \<Longrightarrow> creds db' = creds db"
  shows "keeps counters_le (exec_at e f)"
  by (rule keeps_exec_at) (use assms counters_le_same in blast)

lemma keeps_advance: "keeps counters_le (exec e (advance_counter ref c))"
  by (rule keeps_exec) (blast intro: counters_le_trans advance_counter_le)

lemma keeps_auditAuth [tx_keeps]: "keeps counters_le (auditAuth env u a r)"
  unfolding auditAuth_def new_token_def
  by (intro tx_keeps) (auto split: if_splits option.splits dest: db_frames)

lemma keeps_authTx [tx_keeps]: "keeps counters_le (authTx env)"
  unfolding authTx_def by (intro tx_keeps) auto

lemma keeps_new_token [tx_keeps]: "keeps counters_le (new_token env e)"
  unfolding new_token_def by (intro tx_keeps)

lemma keeps_login_consume [tx_keeps]: "keeps counters_le (login_consume env c ref k)"
  unfolding login_consume_def by (intro tx_keeps keeps_advance) (auto dest: db_frames)


lemma keeps_verify_code [tx_keeps]:
  assumes "\<And>ref c. keeps R (consume ref c)"
  shows "keeps R (verify_code env ref secret code now consume)"
proof (rule keepsI)
  fix s d r s'
  assume d: "R d (pg_db s)" "R d (pg_tx s)" and run: "verify_code env ref secret code now consume s = (r, s')"
  have "s' = s \<or> (\<exists>c q. consume ref c s = (q, s'))"
    using run by (auto simp: verify_code_def VerifyAndConsume_def split: if_splits option.splits prod.splits sum.splits)
  then show "R d (pg_db s') \<and> R d (pg_tx s')" using d keepsD [OF assms] by blast
qed

lemma keeps_reserve_loop [tx_keeps]: "keeps counters_le (reserve_loop env user source limits)"
proof (induction env user source limits rule: reserve_loop.induct)
  case (2 env user source kind limit rest)
  show ?case unfolding reserve_loop.simps
    by (intro tx_keeps 2) (auto dest: db_frames)
qed (simp add: keeps_ret)

lemma keeps_reserveAttempt [tx_keeps]: "keeps counters_le (reserveAttempt env user source)"
  unfolding reserveAttempt_def by (intro tx_keeps) (auto dest: db_frames)

lemma keeps_issue [tx_keeps]:
  "keeps counters_le (issuePasswordSession env u pv uv)" "keeps counters_le (issueEnrollment env u pv uv)"
  unfolding issuePasswordSession_def issueEnrollment_def by (intro tx_keeps; auto dest: db_frames)+

lemma keeps_finishPassword [tx_keeps]: "keeps counters_le (finishPassword env before)"
  unfolding finishPassword_def by (intro tx_keeps) (auto dest: db_frames)

lemma keeps_Login: "keeps counters_le (Login env dv user password source)"
  unfolding Login_def auditRejectedPassword_def by (intro tx_keeps)

lemma keeps_load_challenge [tx_keeps]: "keeps R (load_challenge hash)"
  unfolding load_challenge_def by (intro tx_keeps)

lemma keeps_CompleteTOTP: "keeps counters_le (CompleteTOTP env challenge code)"
  unfolding CompleteTOTP_def by (intro tx_keeps) (auto dest: db_frames)

lemma keeps_loadSession [tx_keeps]: "keeps R (loadSession hash)"
  unfolding loadSession_def by (intro tx_keeps)

lemma keeps_session_run [tx_keeps]: "keeps counters_le (session_run env token request operation)"
  unfolding session_run_def check_mutation_def by (intro tx_keeps) (auto dest: db_frames)

lemma keeps_LogoutReplay: "keeps counters_le (LogoutReplay env token request)"
  unfolding LogoutReplay_def Logout_def logout_replay_def check_mutation_def
  by (intro tx_keeps) (auto dest: db_frames)


section \<open>The consumer is a counter store\<close>

text \<open>The counter that the durable database and the open view guarantee both.\<close>

definition counter_in :: "DB \<Rightarrow> CredentialRef \<Rightarrow> int option" where
  "counter_in db ref = (case map_of (creds db) (cf_UserID ref) of
      None \<Rightarrow> None
    | Some t \<Rightarrow> if tr_version t = cf_Version ref then Some (tr_last_counter t) else None)"

definition guaranteed_counter :: "DB Pg \<Rightarrow> CredentialRef \<Rightarrow> int option" where
  "guaranteed_counter s ref =
     (case (counter_in (pg_db s) ref, counter_in (pg_tx s) ref) of
        (Some a, Some b) \<Rightarrow> Some (min a b) | _ \<Rightarrow> None)"

lemma counters_le_in: "counters_le d db \<Longrightarrow> counter_in d ref = Some l \<Longrightarrow> \<exists>l' \<ge> l. counter_in db ref = Some l'"
  by (fastforce simp: counter_in_def counters_le_def split: option.splits if_splits)

lemma keeps_guaranteed:
  assumes "keeps counters_le m" and "m s = (r, s')" and "guaranteed_counter s ref = Some l"
  shows "\<exists>l' \<ge> l. guaranteed_counter s' ref = Some l'"
proof -
  define d where "d = (undefined :: DB)\<lparr>auth_totp_credentials := [(cf_UserID ref,
      \<lparr>tr_version = cf_Version ref, tr_key_id = [], tr_sealed = [], tr_last_counter = l\<rparr>)]\<rparr>"
  have le: "counters_le d db \<longleftrightarrow> (\<exists>l' \<ge> l. counter_in db ref = Some l')" for db
    by (auto simp: counters_le_def counter_in_def d_def split: option.splits)
  from assms(3) have "counters_le d (pg_db s)" "counters_le d (pg_tx s)"
    unfolding le by (auto simp: guaranteed_counter_def split: option.splits)
  from keepsD [OF assms(1,2) this] show ?thesis
    unfolding le by (auto simp: guaranteed_counter_def)
qed

lemma ins_audit_effect:
  "ins_audit a r ac t b af re ri rv now db = Some (x, db') \<Longrightarrow> \<exists>rows. db' = db\<lparr>control_audit := rows\<rparr>"
  by (auto simp: ins_audit_def split: if_splits)

lemma auditAuth_effect:
  assumes "auditAuth env u a r s = (Inr x, s')"
  obtains rows where "pg_tx s' = (pg_tx s)\<lparr>control_audit := rows\<rparr>" "pg_db s' = pg_db s"
proof -
  have "\<exists>rows. pg_tx s' = (pg_tx s)\<lparr>control_audit := rows\<rparr> \<and> pg_db s' = pg_db s"
    using assms
    by (auto simp: auditAuth_def new_token_def Let_def tx_success split: if_splits option.splits prod.splits
        dest: ins_audit_effect intro: exI [of _ "control_audit (pg_tx s)"])
  with that show ?thesis by blast
qed

lemma login_consume_effect:
  assumes "login_consume env k ref c s = (Inr True, s')"
  shows "\<exists>t row now. map_of (creds (pg_tx s)) (cf_UserID ref) = Some t \<and> tr_version t = cf_Version ref \<and>
      tr_last_counter t < int c \<and> creds (pg_tx s') = AList.update (cf_UserID ref) (t\<lparr>tr_last_counter := int c\<rparr>) (creds (pg_tx s)) \<and>
      map_of (auth_totp_challenges (pg_tx s)) (lc_challengeHash k) = Some row \<and> \<not> ch_consumed row \<and>
      map_of (auth_totp_challenges (pg_tx s')) (lc_challengeHash k) = Some (row\<lparr>ch_consumed := True\<rparr>) \<and>
      map_of (auth_sessions (pg_tx s)) (lc_sessionHash k) = None \<and>
      auth_sessions (pg_tx s') = auth_sessions (pg_tx s) @ [(lc_sessionHash k, \<lparr>sr_csrf = lc_csrfHash k, sr_user = cf_UserID ref,
         sr_policy_version = lc_policy k, sr_user_version = lc_userVersion k, sr_mfa = True, sr_created = now, sr_last_seen = now\<rparr>)] \<and>
      pg_db s' = pg_tx s'"
  using assms
  by (auto simp: login_consume_def tx_success advance_counter_def consume_challenge_def ins_session_def update_conv'
      split: if_splits option.splits elim!: auditAuth_effect)

lemma login_consume_accepts:
  assumes "login_consume env k ref c s = (Inr True, s')"
  shows "\<exists>t. map_of (creds (pg_tx s)) (cf_UserID ref) = Some t \<and> tr_version t = cf_Version ref \<and>
      tr_last_counter t < int c \<and>
      map_of (creds (pg_tx s')) (cf_UserID ref) = Some (t\<lparr>tr_last_counter := int c\<rparr>) \<and> pg_db s' = pg_tx s'"
  using login_consume_effect [OF assms] by (auto simp: update_conv')

interpretation login_counters: counter_store "login_consume env k" guaranteed_counter for env k
proof
  fix ref c s s'
  assume run: "login_consume env k ref c s = (Inr True, s')"
  obtain t where t: "map_of (creds (pg_tx s)) (cf_UserID ref) = Some t" "tr_version t = cf_Version ref"
      "tr_last_counter t < int c" "map_of (creds (pg_tx s')) (cf_UserID ref) = Some (t\<lparr>tr_last_counter := int c\<rparr>)"
      "pg_db s' = pg_tx s'"
    using login_consume_accepts [OF run] by blast
  then show "guaranteed_counter s' ref = Some (int c) \<and> (\<forall>l. guaranteed_counter s ref = Some l \<longrightarrow> l < int c)"
    by (auto simp: guaranteed_counter_def counter_in_def split: option.splits if_splits)
next
  fix ref ref' c s r s' l
  assume "login_consume env k ref c s = (r, s')" and "guaranteed_counter s ref' = Some l"
  then show "\<exists>l'\<ge>l. guaranteed_counter s' ref' = Some l'"
    using keeps_guaranteed keeps_login_consume by blast
qed


lemma verify_code_success:
  assumes "verify_code env ref secret code now consume s = (Inr x, s')"
  obtains c where "matchCounter (le_hmac1 env) secret code now = Some c" "consume ref c s = (Inr True, s')"
  using assms by (auto simp: verify_code_def VerifyAndConsume_def split: if_splits option.splits prod.splits sum.splits)

lemma load_challenge_success:
  assumes "load_challenge hash s = (Inr st, s')"
  obtains "map_of (auth_totp_challenges (pg_tx s)) hash = Some (ts_challenge st)" "\<not> ch_consumed (ts_challenge st)"
    "ch_attempts (ts_challenge st) < 5" "ch_created (ts_challenge st) \<le> ts_now st" "ts_now st < ch_expires (ts_challenge st)"
    "map_of (creds (pg_tx s)) (ch_user (ts_challenge st)) = Some (ts_credential st)"
    "tr_version (ts_credential st) = ch_credential_version (ts_challenge st)"
    "pg_db s' = pg_db s" "pg_tx s' = pg_tx s"
  using assms unfolding load_challenge_def by (elim tx_elims conjE) (simp add: not_le)

lemma CompleteTOTP_success:
  assumes "CompleteTOTP env challenge code s = (Inr g, s')"
  obtains hash st secret s1 s2 s3 where "tokenHash env challenge = Some hash"
    "load_challenge hash s1 = (Inr st, s2)" "pg_tx s1 = pg_db s" "pg_db s1 = pg_db s" "pg_tx s3 = pg_tx s2" "pg_db s3 = pg_db s2"
    "vault_open env \<lparr>cf_UserID = ch_user (ts_challenge st), cf_Version = tr_version (ts_credential st)\<rparr>
       (tr_key_id (ts_credential st)) (tr_sealed (ts_credential st)) = Inr secret"
    "verify_code env \<lparr>cf_UserID = ch_user (ts_challenge st), cf_Version = tr_version (ts_credential st)\<rparr> secret code (ts_now st)
       (login_consume env \<lparr>lc_ref = \<lparr>cf_UserID = ch_user (ts_challenge st), cf_Version = tr_version (ts_credential st)\<rparr>,
          lc_challengeHash = hash, lc_sessionHash = pe_sha env (gr_session g), lc_csrfHash = pe_sha env (gr_csrf g),
          lc_policy = po_Version (ts_policy st), lc_userVersion = ar_session_version (ts_account st)\<rparr>) s3 = (Inr (), s')"
proof -
  from assms obtain hash where hash: "tokenHash env challenge = Some hash"
    by (auto simp: CompleteTOTP_def throw_def split: option.splits)
  show ?thesis
    using assms unfolding CompleteTOTP_def hash option.case new_token_def NewCSRFToken_def Let_def
    by (elim tx_elims conjE) (rule that [OF hash], assumption, auto split: sum.splits)
qed

text \<open>
  C9 (second factor). A grant of the second step is given only for a pending challenge with fewer than
  five failed attempts, of the current credential, and a code that matches a step of the present
  window above every step used before; the durable database then holds the used step, the consumed
  challenge and a new MFA session under the hash of the token that was handed out.
\<close>

theorem second_factor:
  assumes "CompleteTOTP env challenge code s = (Inr g, s')"
  shows "\<exists>hash ch t secret now c row. tokenHash env challenge = Some hash \<and>
    map_of (auth_totp_challenges (pg_db s)) hash = Some ch \<and> \<not> ch_consumed ch \<and> ch_attempts ch < 5 \<and>
    ch_created ch \<le> now \<and> now < ch_expires ch \<and>
    map_of (creds (pg_db s)) (ch_user ch) = Some t \<and> tr_version t = ch_credential_version ch \<and>
    vault_open env \<lparr>cf_UserID = ch_user ch, cf_Version = tr_version t\<rparr> (tr_key_id t) (tr_sealed t) = Inr secret \<and>
    matchCounter (le_hmac1 env) secret code now = Some c \<and> tr_last_counter t < int c \<and>
    map_of (creds (pg_db s')) (ch_user ch) = Some (t\<lparr>tr_last_counter := int c\<rparr>) \<and>
    map_of (auth_totp_challenges (pg_db s')) hash = Some (ch\<lparr>ch_consumed := True\<rparr>) \<and>
    map_of (auth_sessions (pg_db s)) (pe_sha env (gr_session g)) = None \<and>
    map_of (auth_sessions (pg_db s')) (pe_sha env (gr_session g)) = Some row \<and> sr_mfa row \<and> sr_user row = ch_user ch \<and>
    sr_csrf row = pe_sha env (gr_csrf g)"
proof (rule CompleteTOTP_success [OF assms])
  fix hash secret s1 s2 s3 and st :: totpState
  let ?ref = "\<lparr>cf_UserID = ch_user (ts_challenge st), cf_Version = tr_version (ts_credential st)\<rparr>"
  let ?k = "\<lparr>lc_ref = ?ref, lc_challengeHash = hash, lc_sessionHash = pe_sha env (gr_session g), lc_csrfHash = pe_sha env (gr_csrf g),
      lc_policy = po_Version (ts_policy st), lc_userVersion = ar_session_version (ts_account st)\<rparr>"
  assume h: "tokenHash env challenge = Some hash" and load: "load_challenge hash s1 = (Inr st, s2)"
    and s: "pg_tx s1 = pg_db s" "pg_db s1 = pg_db s" "pg_tx s3 = pg_tx s2" "pg_db s3 = pg_db s2"
    and secret: "vault_open env ?ref (tr_key_id (ts_credential st)) (tr_sealed (ts_credential st)) = Inr secret"
    and verify: "verify_code env ?ref secret code (ts_now st) (login_consume env ?k) s3 = (Inr (), s')"
  obtain c where c: "matchCounter (le_hmac1 env) secret code (ts_now st) = Some c" "login_consume env ?k ?ref c s3 = (Inr True, s')"
    using verify by (rule verify_code_success)
  from load show ?thesis
  proof (rule load_challenge_success)
    assume "map_of (auth_totp_challenges (pg_tx s1)) hash = Some (ts_challenge st)" "\<not> ch_consumed (ts_challenge st)"
      "ch_attempts (ts_challenge st) < 5" "ch_created (ts_challenge st) \<le> ts_now st" "ts_now st < ch_expires (ts_challenge st)"
      "map_of (creds (pg_tx s1)) (ch_user (ts_challenge st)) = Some (ts_credential st)"
      "tr_version (ts_credential st) = ch_credential_version (ts_challenge st)" "pg_db s2 = pg_db s1" "pg_tx s2 = pg_tx s1"
    with login_consume_effect [OF c(2)] h s secret c(1) show ?thesis
      by (auto simp: update_conv' map_add_def intro!: exI [of _ hash] exI [of _ "ts_now st"] exI [of _ c])
  qed
qed


subsection \<open>An example installation\<close>

definition demo_hash :: string where "demo_hash = replicate 32 (CHR ''h'')"
definition demo_key32 :: string where "demo_key32 = replicate 32 (CHR ''k'')"
definition demo_token :: string where "demo_token = raw_url_encode demo_key32"
definition demo_totp_key :: string where "demo_totp_key = replicate 20 (CHR ''A'')"

definition demo_login :: LoginEnv where
  "demo_login = \<lparr>pe_sha = \<lambda>_. demo_hash,
     pe_gcm = \<lparr>gcm_Seal = \<lambda>k n p a. p @ demo_totp_key, gcm_Open = \<lambda>k n c a. Some (b32_encode demo_totp_key)\<rparr>,
     pe_keys = [(''k'', demo_key32)], pe_audit = False, pe_origin = ''https://admin.example'',
     le_hmac256 = \<lambda>k m. demo_hash, le_hmac1 = \<lambda>k m. replicate 20 (CHR 0x00),
     le_argon = fixed_argon, le_hasher = demo_hasher, le_fingerprintKey = demo_key32\<rparr>"

definition demo_world :: World where
  "demo_world = \<lparr>w_call = \<lambda>_. Ok, w_clock = \<lambda>_. 90000000000, w_rand = \<lambda>_ n. Some (replicate n (CHR ''r''))\<rparr>"

definition demo_db :: DB where
  "demo_db = \<lparr>auth_policy = Some DefaultPolicy,
     auth_accounts = [(''u'', \<lparr>ar_role = Admin, ar_enabled = True, ar_session_version = 2, ar_deleted = False\<rparr>)],
     auth_totp_credentials = [(''u'', \<lparr>tr_version = 2, tr_key_id = ''k'', tr_sealed = replicate 60 (CHR ''z''), tr_last_counter = -1\<rparr>)],
     auth_totp_challenges = [(demo_hash, \<lparr>ch_user = ''u'', ch_credential_version = 2, ch_policy_version = 1,
        ch_user_version = 2, ch_created = 0, ch_expires = minutes 5, ch_attempts = 0, ch_consumed = False\<rparr>)],
     auth_sessions = [], auth_password_credentials = [], auth_login_buckets = [], auth_enrollment_challenges = [],
     auth_policy_enrollments = [], auth_recovery_codes = [], auth_bootstrap = None, auth_reauth_proofs = [],
     auth_logout_replays = [], control_config = None, control_commands = [], control_audit = [],
     control_delivery = None, control_nodes = [], control_events = [], control_key_acks = [], installation_setup = None\<rparr>"

definition demo_pg :: "DB \<Rightarrow> DB Pg" where
  "demo_pg db = \<lparr>pg_world = demo_world, pg_step = 0, pg_db = db, pg_tx = db, pg_aborted = False\<rparr>"

lemma demo_tokenHash: "tokenHash demo_login demo_token = Some demo_hash"
proof -
  have "length demo_token = 43" "length demo_key32 = 32" by code_simp+
  then show ?thesis by (simp add: tokenHash_def demo_token_def demo_login_def)
qed

lemma demo_secret:
  "vault_open demo_login \<lparr>cf_UserID = ''u'', cf_Version = 2\<rparr> ''k'' (replicate 60 (CHR ''z'')) =
     Inr \<lparr>sec_key = demo_totp_key, sec_valid = True\<rparr>"
proof -
  have "safeID ''u''" "safeKeyID ''k''" by code_simp+
  then show ?thesis
    by (simp add: vault_open_def associatedData_def openAAD_def demo_login_def secret_round_trip demo_totp_key_def)
qed

lemma demo_code: "matchCounter (le_hmac1 demo_login) \<lparr>sec_key = demo_totp_key, sec_valid = True\<rparr>
    (hotp (le_hmac1 demo_login) demo_totp_key 4 6) 90000000000 = Some 4"
proof -
  let ?h = "\<lambda>c. hotp (le_hmac1 demo_login) demo_totp_key c 6"
  have "le_hmac1 demo_login k m = replicate 20 (CHR 0x00)" for k m by (simp add: demo_login_def)
  then have same: "?h c = ?h 4" for c unfolding hotp_def by presburger
  have "matchCounter (le_hmac1 demo_login) \<lparr>sec_key = demo_totp_key, sec_valid = True\<rparr> (?h 4) 90000000000 =
      (if ?h (3 + 1) = ?h 4 then Some (3 + 1) else if ?h 3 = ?h 4 then Some 3
       else if 3 \<noteq> (0::nat) \<and> ?h (3 - 1) = ?h 4 then Some (3 - 1) else None)"
    by (subst matchCounter_six [where cur = 3]) (simp_all only: hotp_six_digits, simp_all add: unix_def)
  then show ?thesis using same [of "3 + 1"] by (simp only: if_True) simp
qed

lemma demo_login_simps [simp]:
  "pe_sha demo_login x = demo_hash" "length demo_hash = 32" "auditAuth demo_login u a r = ret ()"
  by (simp_all add: demo_login_def demo_hash_def auditAuth_def)

lemma demo_run:
  "\<exists>g s'. CompleteTOTP demo_login demo_token (hotp (le_hmac1 demo_login) demo_totp_key 4 6) (demo_pg demo_db) = (Inr g, s')"
proof -
  have admin: "AdminCapabilities Admin \<noteq> []" by code_simp
  have ref: "CredentialRef_valid \<lparr>cf_UserID = ''u'', cf_Version = 2\<rparr>" by code_simp
  show ?thesis
    by (simp add: CompleteTOTP_def demo_tokenHash)
      (simp add: load_challenge_def tx_defs demo_pg_def demo_world_def demo_db_def
        DefaultPolicy_def AuthPolicy_Validate_def admin call_ok_def tick_def clock_of_def minutes_def demo_secret Let_def
        new_token_def NewCSRFToken_def verify_code_def VerifyAndConsume_def ref demo_code login_consume_def
        advance_counter_def consume_challenge_def ins_session_def)
qed


theorem second_factor_witness:
  "\<exists>g s'. CompleteTOTP demo_login demo_token (hotp (le_hmac1 demo_login) demo_totp_key 4 6) (demo_pg demo_db) = (Inr g, s') \<and>
     (\<exists>row. map_of (auth_sessions (pg_db s')) (pe_sha demo_login (gr_session g)) = Some row \<and> sr_mfa row)"
proof -
  obtain g s' where run: "CompleteTOTP demo_login demo_token (hotp (le_hmac1 demo_login) demo_totp_key 4 6) (demo_pg demo_db) = (Inr g, s')"
    using demo_run by blast
  from second_factor [OF run] run show ?thesis by blast
qed

end
