(* ===== verification/WR_Command_Props.thy ===== *)
theory WR_Command_Props
  imports WR_Command WR_Frames WR_Login_Props
begin

text \<open>
  What the frame of the operator commands guarantees: only an authorized request reaches the durable
  database, it is executed at most once per idempotency key, a sensitive one uses up a proof for
  exactly its bytes, and a draft is replaced only over the revision the operator saw.
\<close>

section \<open>Steps of a command\<close>

lemma quiet_steps [tx_quiet]:
  "quiet (new_token env e)" "quiet (replyProblem cenv status code)" "quiet (authTx env)" "quiet (loadSession hash)"
  "quiet (check_mutation env r csrf)" "quiet lock_policy" "quiet (beginCommand cenv token action request sensitive)"
  "quiet (begin_read cenv token action request)"
  "quiet (readConfig cenv)" "quiet (recheck_session state)" "quiet (consumeReauth cenv token rq action target raw)"
  "quiet (judge_draft cenv current ifMatch raw)"
  unfolding new_token_def replyProblem_def authTx_def loadSession_def check_mutation_def lock_policy_def begin_read_def
    beginCommand_def readConfig_def recheck_session_def consumeReauth_def judge_draft_def Let_def
  by (intro tx_quiet; simp split: prod.splits control_error.splits; intro tx_quiet conjI allI impI)+

lemma leaves_steps [tx_leaves]:
  "leaves p (new_token env e)" "leaves p (replyProblem cenv status code)" "leaves p (loadSession hash)"
  "leaves p (check_mutation env r csrf)" "leaves p lock_policy"
  "leaves p (readConfig cenv)" "leaves p (recheck_session state)" "leaves p (judge_draft cenv current ifMatch raw)"
  unfolding new_token_def replyProblem_def loadSession_def check_mutation_def lock_policy_def
    readConfig_def recheck_session_def judge_draft_def Let_def
  by (intro tx_leaves; simp split: prod.splits control_error.splits; intro tx_leaves conjI allI impI)+


lemma authTx_view: "authTx env s = (Inr x, t) \<Longrightarrow> pg_tx t = pg_db s \<and> pg_db t = pg_db s"
  unfolding authTx_def by (elim tx_elims conjE) auto

lemma loadSession_success:
  assumes "loadSession hash s = (Inr st, s')"
  obtains row a where "map_of (auth_sessions (pg_tx s)) hash = Some row"
    "map_of (auth_accounts (pg_tx s)) (sr_user row) = Some a"
    "auth_policy (pg_tx s) = Some (sn_policy st)" "AuthPolicy_Validate (sn_policy st) = None"
    "sn_account st = account_of (sr_user row) a (map_of (auth_totp_credentials (pg_tx s)) (sr_user row) \<noteq> None)"
    "sn_session st = session_of row" "sn_csrf st = sr_csrf row"
    "CheckSession (sn_account st) (sn_session st) (sn_policy st) (sn_now st) = None"
    "pg_tx s' = pg_tx s" "pg_db s' = pg_db s"
  using assms unfolding loadSession_def by (elim tx_elims conjE) auto

text \<open>Who may run a command: a live session of an account whose role has the action.\<close>

definition authorized :: "'z CtlEnv_scheme \<Rightarrow> string \<Rightarrow> Action \<Rightarrow> HttpRequest option \<Rightarrow> bool \<Rightarrow> DB \<Rightarrow> sessionSnapshot \<Rightarrow> bool" where
  "authorized env token action request sensitive db st \<longleftrightarrow>
     (\<exists>hash row a req. tokenHash env token = Some hash \<and> map_of (auth_sessions db) hash = Some row \<and>
        map_of (auth_accounts db) (sr_user row) = Some a \<and> auth_policy db = Some (sn_policy st) \<and>
        sn_account st = account_of (sr_user row) a (map_of (auth_totp_credentials db) (sr_user row) \<noteq> None) \<and>
        sn_session st = session_of row \<and> sn_csrf st = sr_csrf row \<and>
        CheckSession (sn_account st) (sn_session st) (sn_policy st) (sn_now st) = None \<and>
        Requirement (a_Role (sn_account st)) action = Some req \<and> (RequiresReauthentication req \<longrightarrow> sensitive) \<and>
        (\<forall>r. request = Some r \<longrightarrow> CheckMutation (pe_sha env) (pe_origin env) r (sn_csrf st) = None))"

lemma check_mutation_success:
  "check_mutation env r csrf s = (Inr x, t) \<longleftrightarrow> CheckMutation (pe_sha env) (pe_origin env) r csrf = None \<and> t = s"
  by (simp add: check_mutation_def check_success)

lemma lock_success: "lock_policy s = (Inr x, t) \<Longrightarrow> pg_tx t = pg_tx s \<and> pg_db t = pg_db s"
  unfolding lock_policy_def by (elim tx_elims) auto

lemma beginCommand_success:
  assumes "beginCommand env token action request sensitive s = (Inr st, t)"
  shows "pg_tx t = pg_db s \<and> pg_db t = pg_db s \<and> authorized env token action request sensitive (pg_db s) st"
proof -
  obtain hash where hash: "tokenHash env token = Some hash"
    using assms by (auto simp: beginCommand_def throw_def split: option.splits)
  from assms obtain x1 t1 x2 t2 st' t3 t4 x5 where
      steps: "authTx env s = (Inr x1, t1)" "(if sensitive then lock_policy else ret ()) t1 = (Inr x2, t2)"
      "loadSession hash t2 = (Inr st', t3)" and
      allowed: "refuse_if (case Requirement (a_Role (sn_account st')) action of
         None \<Rightarrow> True | Some req \<Rightarrow> RequiresReauthentication req \<and> \<not> sensitive) Forbidden t3 = (Inr x5, t4)" and
      rest: "(case request of None \<Rightarrow> ret () | Some r \<Rightarrow> check_mutation env r (sn_csrf st')) t4 = (Inr x1, t)" "st = st'"
    unfolding beginCommand_def hash option.case by (auto simp: seq_success ret_success)
  note view = authTx_view [OF steps(1)]
  have t2: "pg_tx t2 = pg_tx t1" "pg_db t2 = pg_db t1" using steps(2) by (auto simp: ret_success dest: lock_success split: if_splits)
  from allowed obtain req where req: "Requirement (a_Role (sn_account st')) action = Some req"
      "RequiresReauthentication req \<longrightarrow> sensitive" "t4 = t3"
    by (auto simp: refuse_if_success split: option.splits)
  have t: "t = t4" "\<forall>r. request = Some r \<longrightarrow> CheckMutation (pe_sha env) (pe_origin env) r (sn_csrf st') = None"
    using rest(1) by (auto simp: ret_success check_mutation_success split: option.splits)
  from steps(3) show ?thesis
    by (rule loadSession_success) (use view t2 req t hash rest(2) in \<open>auto simp: authorized_def\<close>)
qed


text \<open>Looking for a recorded execution changes nothing durable: its only commit closes an unchanged view.\<close>

lemma commit_unchanged: "pg_tx s = pg_db s \<Longrightarrow> commit e s = (r, s') \<Longrightarrow> pg_db s' = pg_db s"
  by (auto simp: commit_def split: if_splits outcome.splits)

lemma replay_row_durable:
  assumes "pg_tx s = pg_db s"
    and "(case row of
            None \<Rightarrow> ret Fresh
          | Some old \<Rightarrow>
              if now < cm_created old then throw Unavailable
              else if now < cm_expires old then
                (if cm_request_hash old \<noteq> fprint
                 then seq (replyProblem env 409 code) (\<lambda>r. ret (Refused_reply r))
                 else seq (commit Unavailable) (\<lambda>_. ret (Recorded (g old))))
              else seq (exec Unavailable (del_command actor key)) (\<lambda>_. ret Fresh)) s = (r, s')"
  shows "pg_db s' = pg_db s"
proof (cases row)
  case None
  with assms show ?thesis by (simp add: ret_def)
next
  case (Some old)
  show ?thesis
  proof (cases "now \<ge> cm_created old \<and> now < cm_expires old \<and> cm_request_hash old = fprint")
    case True
    with assms Some have "seq (commit Unavailable) (\<lambda>_. ret (Recorded (g old))) s = (r, s')" by simp
    then show ?thesis
      by (cases rule: seq_runE) (use commit_unchanged assms(1) in \<open>auto simp: ret_def\<close>)
  next
    case False
    then have "quiet (if now < cm_created old then throw Unavailable
              else if now < cm_expires old then
                (if cm_request_hash old \<noteq> fprint
                 then seq (replyProblem env 409 code) (\<lambda>r. ret (Refused_reply r))
                 else seq (commit Unavailable) (\<lambda>_. ret (Recorded (g old))))
              else seq (exec Unavailable (del_command actor key)) (\<lambda>_. ret Fresh))"
      by (intro tx_quiet) auto
    from quietD [OF this] assms Some show ?thesis by simp
  qed
qed

lemma find_replay_durable:
  assumes "find_replay env actor key fprint now s = (r, s')" and "pg_tx s = pg_db s"
  shows "pg_db s' = pg_db s"
  using assms(1) unfolding find_replay_def
proof (cases rule: seq_runE)
  case (Go row t)
  from Go(1) assms(2) have t: "pg_tx t = pg_db t" "pg_db t = pg_db s" by (auto simp: query_success)
  have tail: "quiet (case found of Fresh \<Rightarrow>
         seq (exec Unavailable (prune_commands now)) (\<lambda>_.
         seq (attempt (query Unavailable Unavailable (\<lambda>db. Some (length (control_commands db))))) (\<lambda>count.
         if (case count of Inl _ \<Rightarrow> True | Inr n \<Rightarrow> n \<ge> maxControlCommands)
         then seq (replyProblem env 503 ''COMMAND_CAPACITY_EXCEEDED'') (\<lambda>r. ret (Refused_reply r))
         else ret Fresh))
     | _ \<Rightarrow> ret found)" for found
    by (cases found) (simp_all, (intro tx_quiet)+)
  from Go(2) show ?thesis
  proof (cases rule: seq_runE)
    case (Stop e)
    from replay_row_durable [OF t(1) Stop(1)] t show ?thesis by simp
  next
    case (Go found u)
    from replay_row_durable [OF t(1) Go(1)] quietD [OF tail Go(2)] t show ?thesis by simp
  qed
qed (use quietD quiet_basic in metis)

lemma find_replay_fresh:
  assumes "find_replay env actor key fprint now s = (Inr Fresh, s')"
  shows "pg_db s' = pg_db s \<and> (\<exists>rows. pg_tx s' = (pg_tx s)\<lparr>control_commands := rows\<rparr>)"
  using assms unfolding find_replay_def
  by (elim seqE) (auto simp: query_success seq_success ret_success throw_success exec_success del_command_def
      prune_commands_def attempt_success query_def replyProblem_def
      split: replay.splits option.splits if_splits sum.splits)

lemma find_replay_recorded:
  assumes "find_replay env actor key fprint now s = (Inr x, s')"
    and "map_of (control_commands (pg_tx s)) (actor, key) = Some old"
    and "cm_request_hash old = fprint" "cm_created old \<le> now" "now < cm_expires old"
  shows "x = Recorded \<lparr>rp_Status = cm_status old, rp_Body = cm_response old, rp_ETag = cm_etag old, rp_Replay = True, rp_RotatedGrant = no_grant\<rparr>"
  using assms unfolding find_replay_def
  by (auto simp: query_success seq_success ret_success commit_success)


lemma readConfig_success:
  assumes "readConfig env s = (Inr c, t)"
  obtains row where "control_config (pg_tx s) = Some row" "ce_decode_config env (co_document row) = Some c"
    "Config_Validate (ce_parse env) (ce_images env) c = None" "cfg_Revision c = co_revision row"
    "pg_tx t = pg_tx s" "pg_db t = pg_db s"
  using assms unfolding readConfig_def by (elim tx_elims conjE) (auto split: if_splits)

lemma recheck_success:
  assumes "recheck_session st0 s = (Inr st, t)"
  obtains now where "st = st0\<lparr>sn_now := now\<rparr>" "CheckSession (sn_account st0) (sn_session st0) (sn_policy st0) now = None"
    "now = clock_of s" "pg_tx t = pg_tx s" "pg_db t = pg_db s"
  using assms unfolding recheck_session_def by (elim tx_elims conjE) auto

text \<open>The state of an opened command: who runs it, on which configuration, and what was recorded.\<close>

lemma open_command_durable [tx_quiet]: "quiet (open_command env token action request sensitive key fprint)"
proof -
  have "pg_db s' = pg_db s" if run: "open_command env token action request sensitive key fprint s = (r, s')" for s r s'
    using run unfolding open_command_def
  proof (cases rule: seq_runE)
    case (Go st t1)
    have t1: "pg_tx t1 = pg_db s" "pg_db t1 = pg_db s" using beginCommand_success [OF Go(1)] by auto
    from Go(2) show ?thesis
    proof (cases rule: seq_runE)
      case (Go c t2)
      have t2: "pg_tx t2 = pg_db s" "pg_db t2 = pg_db s" using Go(1) t1 by (auto elim!: readConfig_success)
      from Go(2) show ?thesis
      proof (cases rule: seq_runE)
        case (Go st' t3)
        have t3: "pg_tx t3 = pg_db s" "pg_db t3 = pg_db s" using Go(1) t2 by (auto elim!: recheck_success)
        have same: "pg_tx t3 = pg_db t3" using t3 by simp
        from Go(2) show ?thesis
          by (cases rule: seq_runE) (use t3 in \<open>auto simp: ret_def dest!: find_replay_durable [OF _ same]\<close>)
      qed (use t2 quietD quiet_steps in metis)
    qed (use t1 quietD quiet_steps in metis)
  qed (use quietD quiet_steps in metis)
  then show ?thesis by (simp add: quiet_def) (metis prod.collapse)
qed

lemma open_command_success:
  assumes "open_command env token action request sensitive key fprint s = (Inr (st, current, found), t)"
  obtains st0 t3 where "authorized env token action request sensitive (pg_db s) st0" "st = st0\<lparr>sn_now := sn_now st\<rparr>"
    "CheckSession (sn_account st) (sn_session st) (sn_policy st) (sn_now st) = None"
    "\<exists>row. control_config (pg_db s) = Some row \<and> ce_decode_config env (co_document row) = Some current \<and>
       Config_Validate (ce_parse env) (ce_images env) current = None \<and> cfg_Revision current = co_revision row"
    "pg_tx t3 = pg_db s" "pg_db t3 = pg_db s" "find_replay env (a_ID (sn_account st)) key fprint (sn_now st) t3 = (Inr found, t)"
  using assms unfolding open_command_def
proof (elim tx_elims)
  fix st0 t1 c t2 st' t3 f t4
  assume b: "beginCommand env token action request sensitive s = (Inr st0, t1)" and c: "readConfig env t1 = (Inr c, t2)"
    and st: "recheck_session st0 t2 = (Inr st', t3)"
    and f: "find_replay env (a_ID (sn_account st')) key fprint (sn_now st') t3 = (Inr f, t4)"
    and eq: "(st, current, found) = (st', c, f) \<and> t = t4"
  note b' = beginCommand_success [OF b]
  from c show ?thesis
  proof (rule readConfig_success)
    fix row
    assume row: "control_config (pg_tx t1) = Some row" "ce_decode_config env (co_document row) = Some c"
      "Config_Validate (ce_parse env) (ce_images env) c = None" "cfg_Revision c = co_revision row"
      and t2: "pg_tx t2 = pg_tx t1" "pg_db t2 = pg_db t1"
    from st show ?thesis
      by (rule recheck_success) (rule that [of st0 t3], use b' row t2 f eq in auto)
  qed
qed

section \<open>The durable effect of a command\<close>

text \<open>What a command writes last: an audit row, the recorded reply and the activity of the session.\<close>

definition recorded_row :: "sessionSnapshot \<Rightarrow> string \<Rightarrow> ControlReply \<Rightarrow> CommandRow" where
  "recorded_row state fprint r = \<lparr>cm_request_hash = fprint, cm_created = sn_now state, cm_expires = sn_now state + hours 24,
     cm_status = rp_Status r, cm_response = rp_Body r, cm_etag = rp_ETag r\<rparr>"

definition recorded :: "sessionSnapshot \<Rightarrow> string \<Rightarrow> string \<Rightarrow> DB \<Rightarrow> pg_error + ControlReply \<Rightarrow> bool" where
  "recorded st key fprint db r \<longleftrightarrow> (\<exists>rep. map_of (control_commands db) (a_ID (sn_account st), key) = Some (recorded_row st fprint rep) \<and>
     (\<forall>x. r = Inr x \<longrightarrow> x = rep))"

lemma see_session_frame:
  "see_session h now db = Some (x, db') \<Longrightarrow> \<exists>rows. db' = db\<lparr>auth_sessions := rows\<rparr>"
  by (auto simp: see_session_def split: option.splits if_splits intro: exI [of _ "auth_sessions db"])

lemma ins_command_effect:
  "ins_command actor key row db = Some (x, db') \<Longrightarrow>
     map_of (control_commands db) (actor, key) = None \<and> db' = db\<lparr>control_commands := control_commands db @ [((actor, key), row)]\<rparr>"
  by (auto simp: ins_command_def split: if_splits)

lemma record_command_effect:
  assumes "record_command env state token action target before after outcome key fprint revision r s = (x, s')"
    and "pg_db s' \<noteq> pg_db s"
  obtains audit sessions where "pg_db s' = (pg_tx s)\<lparr>control_audit := audit,
      control_commands := control_commands (pg_tx s) @ [((a_ID (sn_account state), key), recorded_row state fprint r)],
      auth_sessions := sessions\<rparr>"
    "map_of (control_commands (pg_tx s)) (a_ID (sn_account state), key) = None"
proof -
  let ?P = "\<lambda>s'. pg_db s' \<noteq> pg_db s \<longrightarrow> (\<exists>audit sessions. pg_db s' = (pg_tx s)\<lparr>control_audit := audit,
      control_commands := control_commands (pg_tx s) @ [((a_ID (sn_account state), key), recorded_row state fprint r)],
      auth_sessions := sessions\<rparr> \<and> map_of (control_commands (pg_tx s)) (a_ID (sn_account state), key) = None)"
  have "wp (record_command env state token action target before after outcome key fprint revision r) (\<lambda>_. ?P) (\<lambda>_. ?P) s"
    unfolding record_command_def new_token_def recorded_row_def [symmetric]
    by (intro tx_wp) (auto intro!: exI dest!: ins_audit_effect ins_command_effect see_session_frame)
  from wp_run [OF this assms(1)] assms(2) that show ?thesis by (auto split: sum.splits)
qed

lemma record_command_error:
  "record_command env state token action target before after outcome key fprint revision r s = (Inl e, s') \<Longrightarrow> e = Unavailable"
proof -
  have "wp (record_command env state token action target before after outcome key fprint revision r)
     (\<lambda>_ _. True) (\<lambda>e _. e = Unavailable) s"
    unfolding record_command_def new_token_def by (intro tx_wp) auto
  then show "record_command env state token action target before after outcome key fprint revision r s = (Inl e, s') \<Longrightarrow> e = Unavailable"
    by (auto dest: wp_run)
qed

lemma finish_command_effect:
  assumes "finish_command env state token action target key fprint current result s = (x, s')"
    and "pg_db s' \<noteq> pg_db s"
  obtains audit sessions where "pg_db s' = (pg_tx s)\<lparr>control_audit := audit, control_commands := control_commands (pg_tx s) @
        [((a_ID (sn_account state), key), recorded_row state fprint (cd_reply result))], auth_sessions := sessions\<rparr>"
    "map_of (control_commands (pg_tx s)) (a_ID (sn_account state), key) = None"
    "x = Inl Unavailable \<or> x = Inr (cd_reply result)"
proof -
  let ?rec = "record_command env state token action target
         (if cd_before result = [] then digest env (ce_config_bytes env current) else cd_before result)
         (if cd_after result = [] then if cd_before result = [] then digest env (ce_config_bytes env current) else cd_before result
          else cd_after result)
         (if rp_Status (cd_reply result) \<ge> 400 then ''rejected'' else ''accepted'') key fprint
         (if cd_revision result = 0 then cfg_Revision current else cd_revision result) (cd_reply result)"
  from assms obtain y t where t: "pg_db t = pg_db s" "pg_tx t = pg_tx s" "seq ?rec (\<lambda>_. ret (cd_reply result)) t = (x, s')"
    unfolding finish_command_def Let_def
    by (elim seq_effectE [OF _ _ quiet_basic(3)]) (auto simp: refuse_if_success)
  then obtain z where rec: "?rec t = (z, s')" and x: "x = (case z of Inl e \<Rightarrow> Inl e | Inr _ \<Rightarrow> Inr (cd_reply result))"
    by (auto simp: seq_def ret_def split: prod.splits sum.splits)
  have "pg_db s' \<noteq> pg_db t" using assms(2) t by simp
  have "x = Inl Unavailable \<or> x = Inr (cd_reply result)"
    using x record_command_error rec by (cases z) auto
  moreover note record_command_effect [OF rec \<open>pg_db s' \<noteq> pg_db t\<close>]
  ultimately show ?thesis using that t(2) by metis
qed

text \<open>A request with a durable effect was executed; one that is recorded is answered from the record.\<close>

lemma opened_effect:
  assumes "unless_recorded (open_command env token action request sensitive key fprint) fresh s = (r, s')" and "pg_db s' \<noteq> pg_db s"
  obtains st current t where "open_command env token action request sensitive key fprint s = (Inr (st, current, Fresh), t)"
    "pg_db t = pg_db s" "pg_db s' \<noteq> pg_db t" "fresh st current t = (r, s')"
  using assms(1) unfolding unless_recorded_def
proof (rule seq_effectE [OF _ assms(2) open_command_durable])
  fix v t
  assume o: "open_command env token action request sensitive key fprint s = (Inr v, t)" "pg_db t = pg_db s" "pg_db s' \<noteq> pg_db t"
    and run: "(case v of (state, current, found) \<Rightarrow> case found of Recorded old \<Rightarrow> ret old | Refused_reply problem \<Rightarrow> ret problem
        | Fresh \<Rightarrow> fresh state current) t = (r, s')"
  obtain st current found where v: "v = (st, current, found)" by (cases v) auto
  have "found = Fresh" using run o(3) v by (auto simp: ret_def split: replay.splits)
  with that o run v show ?thesis by simp
qed

lemma control_command_effect:
  assumes "control_command env token request raw action target etag body s = (r, s')"
    and "pg_db s' \<noteq> pg_db s" and "\<And>st c. quiet (body st c)"
  obtains rq st current s1 s2 result s3 where "request = Some rq" "command_problem request raw etag = None"
    "open_command env token action request (requires_reauth action) (pe_sha env (Header_Get rq ''Idempotency-Key''))
       (fingerprint_of env rq action target raw) s = (Inr (st, current, Fresh), s1)" 
    "(if requires_reauth action then consumeReauth env token rq action target raw else ret ()) s1 = (Inr (), s2)"
    "body st current s2 = (Inr result, s3)"
    "finish_command env st token action target (pe_sha env (Header_Get rq ''Idempotency-Key''))
       (fingerprint_of env rq action target raw) current result s3 = (r, s')" "pg_db s3 = pg_db s"
proof -
  have none: "command_problem request raw etag = None"
  proof (rule ccontr)
    assume "\<not> ?thesis"
    then obtain status code where "control_command env token request raw action target etag body = replyProblem env status code"
      by (auto simp: control_command_def)
    with assms(1,2) quietD [OF quiet_steps(2)] show False by metis
  qed
  then obtain rq where rq: "request = Some rq" by (auto simp: command_problem_def split: option.splits)
  let ?key = "pe_sha env (Header_Get rq ''Idempotency-Key'')" and ?fp = "fingerprint_of env rq action target raw"
  have "unless_recorded (open_command env token action request (requires_reauth action) ?key ?fp)
      (execute_command env token rq raw action target ?key ?fp body) s = (r, s')"
    using assms(1) none rq by (simp add: control_command_def Let_def)
  from this assms(2) obtain st current t where o: "open_command env token action request (requires_reauth action) ?key ?fp s = (Inr (st, current, Fresh), t)"
      "pg_db t = pg_db s" and ne: "pg_db s' \<noteq> pg_db t"
      and exec: "execute_command env token rq raw action target ?key ?fp body st current t = (r, s')"
    by (rule opened_effect)
  have q: "quiet (if requires_reauth action then consumeReauth env token rq action target raw else ret ())"
    by (intro tx_quiet)
  from exec [unfolded execute_command_def] ne q obtain x t1 where
      c: "(if requires_reauth action then consumeReauth env token rq action target raw else ret ()) t = (Inr x, t1)"
      "pg_db t1 = pg_db t" "pg_db s' \<noteq> pg_db t1" and
      b: "seq (body st current) (\<lambda>result. finish_command env st token action target ?key ?fp current result) t1 = (r, s')"
    by (rule seq_effectE)
  from b c(3) assms(3) obtain result t2 where "body st current t1 = (Inr result, t2)" "pg_db t2 = pg_db t1"
      "finish_command env st token action target ?key ?fp current result t2 = (r, s')"
    by (rule seq_effectE)
  with c o rq none show ?thesis by (intro that [of rq st current t t1 result t2]) auto
qed


lemma finish_command_recorded:
  assumes "finish_command env st token action target key fprint current result s = (r, s')" and "pg_db s' \<noteq> pg_db s"
  shows "recorded st key fprint (pg_db s') r"
  using assms by (rule finish_command_effect) (auto simp: recorded_def map_add_def)

section \<open>Repeated requests\<close>

lemma same_world_steps [tx_world]:
  "same_world (authTx env)" "same_world (loadSession hash)" "same_world (check_mutation env r csrf)" "same_world lock_policy"
  unfolding authTx_def loadSession_def check_mutation_def lock_policy_def by (intro tx_world)+

lemma same_world_begin [tx_world]: "same_world (beginCommand env token action request sensitive)" "same_world (readConfig env)"
  unfolding beginCommand_def readConfig_def by (intro tx_world; simp)+

lemma open_command_at:
  assumes "open_command env token action request sensitive key fprint s = (Inr (st, current, found), t)"
  obtains hash row n where "tokenHash env token = Some hash" "map_of (auth_sessions (pg_db s)) hash = Some row"
    "a_ID (sn_account st) = sr_user row" "sn_now st = w_clock (pg_world s) n"
proof -
  from assms have "\<exists>n. sn_now st = w_clock (pg_world s) n"
    unfolding open_command_def
    by (elim tx_elims)
      (auto elim!: recheck_success dest!: same_worldD [OF same_world_begin(1)] same_worldD [OF same_world_begin(2)] simp: clock_of_def)
  moreover from assms have "\<exists>hash row. tokenHash env token = Some hash \<and> map_of (auth_sessions (pg_db s)) hash = Some row \<and>
      a_ID (sn_account st) = sr_user row"
  proof (rule open_command_success)
    fix st0
    assume "authorized env token action request sensitive (pg_db s) st0" "st = st0\<lparr>sn_now := sn_now st\<rparr>"
    then show ?thesis by (cases st, cases st0) (auto simp: authorized_def account_of_def)
  qed
  ultimately show ?thesis using that by blast
qed

text \<open>The recorded reply, marked as a replay.\<close>

definition replay_of :: "CommandRow \<Rightarrow> ControlReply" where
  "replay_of old = \<lparr>rp_Status = cm_status old, rp_Body = cm_response old, rp_ETag = cm_etag old, rp_Replay = True, rp_RotatedGrant = no_grant\<rparr>"

lemma open_command_replay:
  assumes "open_command env token action request sensitive key fprint s = (Inr (st, current, found), t)"
    and "map_of (control_commands (pg_db s)) (a_ID (sn_account st), key) = Some old"
    and "cm_request_hash old = fprint" "cm_created old \<le> sn_now st" "sn_now st < cm_expires old"
  shows "found = Recorded (replay_of old)"
  using assms(1)
proof (rule open_command_success)
  fix t3
  assume "find_replay env (a_ID (sn_account st)) key fprint (sn_now st) t3 = (Inr found, t)" "pg_tx t3 = pg_db s"
  with assms(2-) show ?thesis unfolding replay_of_def by (intro find_replay_recorded) auto
qed

text \<open>
  The contract of a command with a durable replay. \<open>ok\<close> says that the request passes the checks made
  before the database is asked, \<open>user\<close> is the token of the session, \<open>key\<close> and \<open>fprint\<close> identify the request.
\<close>

locale recorded_command =
  fixes run :: "ControlReply pg" and user :: "string option" and key fprint :: string and ok :: bool
  assumes records: "run s = (r, s') \<Longrightarrow> pg_db s' \<noteq> pg_db s \<Longrightarrow> ok \<and>
      (\<exists>st hash row n. user = Some hash \<and> map_of (auth_sessions (pg_db s)) hash = Some row \<and> a_ID (sn_account st) = sr_user row \<and>
        sn_now st = w_clock (pg_world s) n \<and> recorded st key fprint (pg_db s') r)"
    and replays: "run s = (r, s') \<Longrightarrow> ok \<Longrightarrow> user = Some hash \<Longrightarrow> map_of (auth_sessions (pg_db s)) hash = Some row \<Longrightarrow>
      map_of (control_commands (pg_db s)) (sr_user row, key) = Some old \<Longrightarrow> cm_request_hash old = fprint \<Longrightarrow>
      (\<And>n. cm_created old \<le> w_clock (pg_world s) n \<and> w_clock (pg_world s) n < cm_expires old) \<Longrightarrow>
      pg_db s' = pg_db s \<and> (\<forall>x. r = Inr x \<longrightarrow> x = replay_of old)"
begin

text \<open>A repetition within a day, by the same account, finds the first execution: it changes nothing.\<close>

lemma executed_once:
  assumes first: "run s = (r, s1)" and effect: "pg_db s1 \<noteq> pg_db s" and again: "run t = (r', t1)"
    and kept: "\<And>k. map_of (control_commands (pg_db t)) k = map_of (control_commands (pg_db s1)) k"
    and same: "\<And>h. map_option sr_user (map_of (auth_sessions (pg_db t)) h) = map_option sr_user (map_of (auth_sessions (pg_db s)) h)"
    and day: "\<And>m n. w_clock (pg_world s) m \<le> w_clock (pg_world t) n \<and> w_clock (pg_world t) n < w_clock (pg_world s) m + hours 24"
  shows "pg_db t1 = pg_db t \<and> (\<forall>x. r' = Inr x \<longrightarrow> rp_Replay x \<and>
      (\<forall>y. r = Inr y \<longrightarrow> rp_Status x = rp_Status y \<and> rp_Body x = rp_Body y \<and> rp_ETag x = rp_ETag y))"
proof -
  from records [OF first effect] obtain st hash row n rep where ok: ok and u: "user = Some hash"
      "map_of (auth_sessions (pg_db s)) hash = Some row" "a_ID (sn_account st) = sr_user row" "sn_now st = w_clock (pg_world s) n"
      and rec: "map_of (control_commands (pg_db s1)) (sr_user row, key) = Some (recorded_row st fprint rep)" "\<forall>x. r = Inr x \<longrightarrow> x = rep"
    by (auto simp: recorded_def)
  obtain row' where row': "map_of (auth_sessions (pg_db t)) hash = Some row'" "sr_user row' = sr_user row"
    using same [of hash] u by auto
  have "pg_db t1 = pg_db t \<and> (\<forall>x. r' = Inr x \<longrightarrow> x = replay_of (recorded_row st fprint rep))"
    by (rule replays [OF again ok u(1) row'(1)]) (use kept rec row' day [of n] u in \<open>simp_all add: recorded_row_def\<close>)
  with rec(2) show ?thesis by (auto simp: replay_of_def recorded_row_def)
qed

end

lemma control_command_recorded:
  assumes "control_command env token (Some rq) raw action target etag body s = (r, s')"
    and "pg_db s' \<noteq> pg_db s" and "\<And>st c. quiet (body st c)"
  shows "command_problem (Some rq) raw etag = None \<and>
    (\<exists>st hash row n. tokenHash env token = Some hash \<and> map_of (auth_sessions (pg_db s)) hash = Some row \<and>
       a_ID (sn_account st) = sr_user row \<and> sn_now st = w_clock (pg_world s) n \<and>
       recorded st (pe_sha env (Header_Get rq ''Idempotency-Key'')) (fingerprint_of env rq action target raw) (pg_db s') r)"
  using assms
proof (rule control_command_effect)
  fix rq' st current s1 s2 result s3
  assume rq': "Some rq = Some rq'" "command_problem (Some rq) raw etag = None"
    and o: "open_command env token action (Some rq) (requires_reauth action) (pe_sha env (Header_Get rq' ''Idempotency-Key''))
       (fingerprint_of env rq' action target raw) s = (Inr (st, current, Fresh), s1)"
    and f: "finish_command env st token action target (pe_sha env (Header_Get rq' ''Idempotency-Key''))
       (fingerprint_of env rq' action target raw) current result s3 = (r, s')" and db: "pg_db s3 = pg_db s"
  have "pg_db s' \<noteq> pg_db s3" using assms(2) db by simp
  from finish_command_recorded [OF f this] open_command_at [OF o] rq' show ?thesis by (simp, metis)
qed

lemma opened_replay:
  assumes "unless_recorded (open_command env token action request sensitive key fprint) fresh s = (r, s')"
    and "tokenHash env token = Some hash" and "map_of (auth_sessions (pg_db s)) hash = Some row"
    and "map_of (control_commands (pg_db s)) (sr_user row, key) = Some old" and "cm_request_hash old = fprint"
    and "\<And>n. cm_created old \<le> w_clock (pg_world s) n \<and> w_clock (pg_world s) n < cm_expires old"
  shows "pg_db s' = pg_db s \<and> (\<forall>x. r = Inr x \<longrightarrow> x = replay_of old)"
  using assms(1) unfolding unless_recorded_def
proof (cases rule: seq_runE)
  case (Stop e)
  then show ?thesis using quietD [OF open_command_durable] by auto
next
  case (Go v t)
  obtain st current found where v: "v = (st, current, found)" by (cases v) auto
  note o = Go(1) [unfolded v]
  from o obtain n where now: "sn_now st = w_clock (pg_world s) n" and actor: "a_ID (sn_account st) = sr_user row"
    by (rule open_command_at) (use assms(2,3) in auto)
  have "found = Recorded (replay_of old)"
    by (rule open_command_replay [OF o]) (use assms(4-) now actor in auto)
  with Go(2) v quietD [OF open_command_durable Go(1)] show ?thesis by (auto simp: ret_def)
qed

lemma control_command_replayed:
  assumes "control_command env token (Some rq) raw action target etag body s = (r, s')"
    and "command_problem (Some rq) raw etag = None" and "tokenHash env token = Some hash"
    and "map_of (auth_sessions (pg_db s)) hash = Some row"
    and "map_of (control_commands (pg_db s)) (sr_user row, pe_sha env (Header_Get rq ''Idempotency-Key'')) = Some old"
    and "cm_request_hash old = fingerprint_of env rq action target raw"
    and "\<And>n. cm_created old \<le> w_clock (pg_world s) n \<and> w_clock (pg_world s) n < cm_expires old"
  shows "pg_db s' = pg_db s \<and> (\<forall>x. r = Inr x \<longrightarrow> x = replay_of old)"
  by (rule opened_replay [OF _ assms(3-)]) (use assms(1,2) in \<open>simp add: control_command_def Let_def\<close>)

section \<open>Replacing the draft\<close>

lemma judge_draft_success:
  assumes "judge_draft env current ifMatch raw s = (Inr (Inr nx), t)"
  obtains c where "ifMatch = configETag (cfg_Revision current)" "ce_decode_config env raw = Some c"
    "cfg_Revision c = cfg_Revision current" "Profile c = Profile current" "RegionID c = RegionID current"
    "NormalizeThemeImages (ce_images env) c = (None, nx)" "Config_Validate (ce_parse env) (ce_images env) nx = None"
    "FitsDeliveryBudget (ce_delivery_bytes env) (ce_widest_envelope env) nx" "t = s"
  using assms
  by (auto simp: judge_draft_def Let_def seq_success ret_success split: if_splits option.splits prod.splits control_error.splits)

lemma upd_config_effect:
  "upd_config env revision body db = Some (x, db') \<Longrightarrow> control_config db = Some row \<Longrightarrow>
     0 \<le> revision \<and> revision < 9007199254740990 \<and>
     db' = db\<lparr>control_config := Some \<lparr>co_revision = revision, co_document = ce_jsonb env body\<rparr>\<rparr>"
  by (auto simp: upd_config_def split: if_splits)

text \<open>A saved draft with the next revision.\<close>

definition draft_row :: "'z CtlEnv_scheme \<Rightarrow> Config \<Rightarrow> ConfigRow" where
  "draft_row env c = (let n = c\<lparr>cfg_Revision := i64 (cfg_Revision c + 1)\<rparr>
     in \<lparr>co_revision = cfg_Revision n, co_document = ce_jsonb env (ce_config_bytes env n)\<rparr>)"

lemma save_draft_effect:
  assumes "save_draft env st token key fprint current judged s = (r, s')" and "pg_db s' \<noteq> pg_db s"
    and "control_config (pg_tx s) = Some row"
  obtains (Rejected) problem where "judged = Inl problem" "control_config (pg_db s') = control_config (pg_tx s)"
      "control_delivery (pg_db s') = control_delivery (pg_tx s)" "recorded st key fprint (pg_db s') r"
  | (Saved) nx where "judged = Inr nx" "control_config (pg_db s') = Some (draft_row env nx)"
      "0 \<le> co_revision (draft_row env nx)" "co_revision (draft_row env nx) < 9007199254740990"
      "control_delivery (pg_db s') = control_delivery (pg_tx s)" "recorded st key fprint (pg_db s') r"
proof (cases judged)
  case (Inl problem)
  with assms(1) obtain z where "record_command env st token ''config.save_draft'' ''installation''
      (digest env (ce_config_bytes env current)) (digest env (ce_config_bytes env current)) ''rejected'' key fprint
      (cfg_Revision current) problem s = (z, s')" and "\<forall>x. r = Inr x \<longrightarrow> x = problem"
    by (auto simp: save_draft_def Let_def elim!: seq_runE simp: ret_def)
  from this(1) show ?thesis
    by (rule record_command_effect [OF _ assms(2)])
      (rule Rejected [OF Inl], use \<open>\<forall>x. r = Inr x \<longrightarrow> x = problem\<close> in \<open>auto simp: recorded_def map_add_def\<close>)
next
  case (Inr nx)
  let ?n = "nx\<lparr>cfg_Revision := i64 (cfg_Revision nx + 1)\<rparr>"
  let ?result = "reply 200 (ce_config_bytes env ?n) (configETag (cfg_Revision ?n))"
  let ?rec = "record_command env st token ''config.save_draft'' ''installation'' (digest env (ce_config_bytes env current))
      (digest env (ce_config_bytes env ?n)) ''saved_draft'' key fprint (cfg_Revision ?n) ?result"
  have "length (ce_config_bytes env ?n) \<le> MaxConfigBytes"
  proof (rule ccontr)
    assume "\<not> ?thesis"
    with assms(1) Inr have "replyProblem env 422 ''INVALID_CONFIG'' s = (r, s')" by (simp add: save_draft_def Let_def)
    with assms(2) quietD quiet_steps(2) show False by blast
  qed
  with assms(1) Inr have "seq (exec Unavailable (upd_config env (cfg_Revision ?n) (ce_config_bytes env ?n)))
      (\<lambda>_. seq ?rec (\<lambda>_. ret ?result)) s = (r, s')"
    by (simp add: save_draft_def Let_def)
  then show ?thesis
  proof (rule seq_effectE [OF _ assms(2) quiet_basic(7)])
    fix x t
    assume u: "exec Unavailable (upd_config env (cfg_Revision ?n) (ce_config_bytes env ?n)) s = (Inr x, t)"
      and ne: "pg_db s' \<noteq> pg_db t" and rest: "seq ?rec (\<lambda>_. ret ?result) t = (r, s')"
    from u have eff: "0 \<le> cfg_Revision ?n" "cfg_Revision ?n < 9007199254740990"
        "pg_tx t = (pg_tx s)\<lparr>control_config := Some (draft_row env nx)\<rparr>"
      using assms(3) by (auto simp: exec_success draft_row_def Let_def dest: upd_config_effect)
    from rest obtain z where z: "?rec t = (z, s')" "\<forall>x. r = Inr x \<longrightarrow> x = ?result" by (auto elim!: seq_runE simp: ret_def)
    from z(1) show ?thesis
      by (rule record_command_effect [OF _ ne])
        (rule Saved [OF Inr], use eff z(2) in \<open>auto simp: draft_row_def recorded_def map_add_def Let_def\<close>)
  qed
qed


lemma normalize_keeps:
  "NormalizeThemeImages lib c = (None, c') \<Longrightarrow> cfg_Revision c' = cfg_Revision c \<and> Profile c' = Profile c \<and> RegionID c' = RegionID c"
  by (auto simp: NormalizeThemeImages_def split: option.splits prod.splits)

lemma validate_revision:
  "Config_Validate parse lib c = None \<Longrightarrow> 0 \<le> v \<Longrightarrow> v < 9007199254740990 \<Longrightarrow>
     Config_Validate parse lib (c\<lparr>cfg_Revision := v\<rparr>) = None"
  by (auto simp: Config_Validate_def split: option.splits if_splits)

lemma validate_revision_range:
  "Config_Validate parse lib c = None \<Longrightarrow> 0 \<le> cfg_Revision c \<and> cfg_Revision c < 9007199254740990"
  by (auto simp: Config_Validate_def split: option.splits if_splits)

definition draft_fingerprint :: "'z CtlEnv_scheme \<Rightarrow> HttpRequest \<Rightarrow> string \<Rightarrow> string" where
  "draft_fingerprint env rq raw = pe_sha env (''control.replace-draft.v1'' @ [CHR 0x00] @ Header_Get rq ''If-Match'' @ [CHR 0x00] @ raw)"

lemma ReplaceDraft_opened:
  assumes "ReplaceDraft env token request raw s = (r, s')" and "pg_db s' \<noteq> pg_db s"
  obtains rq st current s1 judged s2 where "draft_problem request raw = None" "request = Some rq"
    "open_command env token WriteConfig request False (pe_sha env (Header_Get rq ''Idempotency-Key''))
       (draft_fingerprint env rq raw) s = (Inr (st, current, Fresh), s1)"
    "judge_draft env current (Header_Get rq ''If-Match'') raw s1 = (Inr judged, s2)"
    "save_draft env st token (pe_sha env (Header_Get rq ''Idempotency-Key'')) (draft_fingerprint env rq raw) current judged s2 = (r, s')"
    "pg_db s' \<noteq> pg_db s2"
proof -
  have none: "draft_problem request raw = None"
  proof (rule ccontr)
    assume "\<not> ?thesis"
    then obtain status code where "ReplaceDraft env token request raw = replyProblem env status code"
      by (auto simp: ReplaceDraft_def)
    with assms quietD [OF quiet_steps(2)] show False by metis
  qed
  then obtain rq where rq: "request = Some rq" by (auto simp: draft_problem_def split: option.splits)
  let ?key = "pe_sha env (Header_Get rq ''Idempotency-Key'')"
  let ?fp = "draft_fingerprint env rq raw"
  from assms(1) have "unless_recorded (open_command env token WriteConfig request False ?key ?fp) (\<lambda>st current.
      seq (judge_draft env current (Header_Get rq ''If-Match'') raw) (save_draft env st token ?key ?fp current)) s = (r, s')"
    unfolding ReplaceDraft_def rq none [unfolded rq] option.case option.sel Let_def draft_fingerprint_def .
  from this assms(2) show ?thesis
  proof (rule opened_effect)
    fix st current t
    assume o: "open_command env token WriteConfig request False ?key ?fp s = (Inr (st, current, Fresh), t)" and ne: "pg_db s' \<noteq> pg_db t"
      and run: "seq (judge_draft env current (Header_Get rq ''If-Match'') raw) (save_draft env st token ?key ?fp current) t = (r, s')"
    from run show ?thesis
      by (rule seq_effectE [OF _ ne quiet_steps(12)]) (rule that [OF none rq o])
  qed
qed

lemma draft_replaced:
  assumes "ReplaceDraft env token request raw s = (r, s')" and "pg_db s' \<noteq> pg_db s"
  shows "\<exists>rq st old. request = Some rq \<and> authorized env token WriteConfig request False (pg_db s) st \<and>
    control_config (pg_db s) = Some old \<and> control_delivery (pg_db s') = control_delivery (pg_db s) \<and>
    (control_config (pg_db s') \<noteq> Some old \<longrightarrow>
      Header_Get rq ''If-Match'' = configETag (co_revision old) \<and>
      (\<exists>current c. ce_decode_config env (co_document old) = Some current \<and>
        control_config (pg_db s') = Some \<lparr>co_revision = co_revision old + 1, co_document = ce_jsonb env (ce_config_bytes env c)\<rparr> \<and>
        cfg_Revision c = co_revision old + 1 \<and> Profile c = Profile current \<and> RegionID c = RegionID current \<and>
        Config_Validate (ce_parse env) (ce_images env) c = None))"
proof (rule ReplaceDraft_opened [OF assms])
  fix rq st current s1 judged s2
  let ?key = "pe_sha env (Header_Get rq ''Idempotency-Key'')" and ?fp = "draft_fingerprint env rq raw"
  assume rq: "request = Some rq"
    and opened: "open_command env token WriteConfig request False ?key ?fp s = (Inr (st, current, Fresh), s1)"
    and judged: "judge_draft env current (Header_Get rq ''If-Match'') raw s1 = (Inr judged, s2)"
    and saved: "save_draft env st token ?key ?fp current judged s2 = (r, s')" and ne: "pg_db s' \<noteq> pg_db s2"
  from opened show ?thesis
  proof (rule open_command_success)
    fix st0 t3
    assume auth: "authorized env token WriteConfig request False (pg_db s) st0"
      and config: "\<exists>row. control_config (pg_db s) = Some row \<and> ce_decode_config env (co_document row) = Some current \<and>
         Config_Validate (ce_parse env) (ce_images env) current = None \<and> cfg_Revision current = co_revision row"
      and t3: "pg_tx t3 = pg_db s" "pg_db t3 = pg_db s"
      and "find_replay env (a_ID (sn_account st)) ?key ?fp (sn_now st) t3 = (Inr Fresh, s1)"
    then obtain rows where s1: "pg_tx s1 = (pg_db s)\<lparr>control_commands := rows\<rparr>"
      using find_replay_fresh by fastforce
    obtain old where old: "control_config (pg_db s) = Some old" "ce_decode_config env (co_document old) = Some current"
        "Config_Validate (ce_parse env) (ce_images env) current = None" "cfg_Revision current = co_revision old"
      using config by blast
    have s2: "pg_tx s2 = pg_tx s1" using leavesD [OF leaves_steps(8) judged] .
    with s1 old have "control_config (pg_tx s2) = Some old" by simp
    from saved ne this show ?thesis
    proof (cases rule: save_draft_effect)
      case (Rejected problem)
      with s1 s2 rq auth old show ?thesis by auto
    next
      case (Saved nx)
      from judged [unfolded Saved(1)] show ?thesis
      proof (rule judge_draft_success)
        fix c
        assume j: "Header_Get rq ''If-Match'' = configETag (cfg_Revision current)" "cfg_Revision c = cfg_Revision current"
          "Profile c = Profile current" "RegionID c = RegionID current" "NormalizeThemeImages (ce_images env) c = (None, nx)"
          "Config_Validate (ce_parse env) (ce_images env) nx = None"
        have rev: "cfg_Revision nx = co_revision old" using normalize_keeps [OF j(5)] j old by simp
        have "i64 (co_revision old + 1) = co_revision old + 1"
          using validate_revision_range [OF old(3)] old(4) by (simp add: i64_id)
        with Saved rev s1 s2 rq auth old j normalize_keeps [OF j(5)] validate_revision [OF j(6), of "co_revision old + 1"]
        show ?thesis by (auto simp: draft_row_def Let_def intro!: exI [of _ "nx\<lparr>cfg_Revision := co_revision old + 1\<rparr>"])
      qed
    qed
  qed
qed

text \<open>
  C13 (optimistic draft update). A draft request that changes the durable database comes from a live
  session whose role may write the configuration. It leaves the published delivery alone, and it
  replaces the draft only when \<open>If-Match\<close> names the stored revision: by a validated configuration of
  the same profile and region, one revision further.
\<close>

theorem draft_update:
  assumes "ReplaceDraft env token request raw s = (r, s')" and "pg_db s' \<noteq> pg_db s"
  shows "\<exists>rq st old. request = Some rq \<and> authorized env token WriteConfig request False (pg_db s) st \<and>
    control_config (pg_db s) = Some old \<and> control_delivery (pg_db s') = control_delivery (pg_db s) \<and>
    (control_config (pg_db s') \<noteq> Some old \<longrightarrow>
      Header_Get rq ''If-Match'' = configETag (co_revision old) \<and>
      (\<exists>current c. ce_decode_config env (co_document old) = Some current \<and>
        control_config (pg_db s') = Some \<lparr>co_revision = co_revision old + 1, co_document = ce_jsonb env (ce_config_bytes env c)\<rparr> \<and>
        cfg_Revision c = co_revision old + 1 \<and> Profile c = Profile current \<and> RegionID c = RegionID current \<and>
        Config_Validate (ce_parse env) (ce_images env) c = None))"
  using assms by (rule draft_replaced)

lemma opened_view:
  assumes "open_command env token action request sensitive key fprint s = (Inr (st, current, Fresh), t)"
  obtains rows where "pg_tx t = (pg_db s)\<lparr>control_commands := rows\<rparr>"
  using assms by (rule open_command_success) (use find_replay_fresh in fastforce)

lemma ReplaceDraft_recorded:
  assumes "ReplaceDraft env token (Some rq) raw s = (r, s')" and "pg_db s' \<noteq> pg_db s"
  shows "draft_problem (Some rq) raw = None \<and>
    (\<exists>st hash row n. tokenHash env token = Some hash \<and> map_of (auth_sessions (pg_db s)) hash = Some row \<and>
       a_ID (sn_account st) = sr_user row \<and> sn_now st = w_clock (pg_world s) n \<and>
       recorded st (pe_sha env (Header_Get rq ''Idempotency-Key'')) (draft_fingerprint env rq raw) (pg_db s') r)"
  using assms
proof (rule ReplaceDraft_opened)
  fix rq' st current s1 judged s2
  assume rq': "draft_problem (Some rq) raw = None" "Some rq = Some rq'"
    and o: "open_command env token WriteConfig (Some rq) False (pe_sha env (Header_Get rq' ''Idempotency-Key''))
       (draft_fingerprint env rq' raw) s = (Inr (st, current, Fresh), s1)"
    and j: "judge_draft env current (Header_Get rq' ''If-Match'') raw s1 = (Inr judged, s2)"
    and f: "save_draft env st token (pe_sha env (Header_Get rq' ''Idempotency-Key'')) (draft_fingerprint env rq' raw) current judged s2 = (r, s')"
      "pg_db s' \<noteq> pg_db s2"
  from o have "\<exists>row. control_config (pg_db s) = Some row" by (rule open_command_success) blast
  moreover from o have "control_config (pg_tx s1) = control_config (pg_db s)" by (rule opened_view) simp
  ultimately obtain row where "control_config (pg_tx s2) = Some row" using leavesD [OF leaves_steps(8) j] by metis
  from f this have "recorded st (pe_sha env (Header_Get rq' ''Idempotency-Key'')) (draft_fingerprint env rq' raw) (pg_db s') r"
    by (rule save_draft_effect)
  with rq' open_command_at [OF o] show ?thesis by (simp, metis)
qed

lemma ReplaceDraft_replayed:
  assumes "ReplaceDraft env token (Some rq) raw s = (r, s')" and "draft_problem (Some rq) raw = None"
    and "tokenHash env token = Some hash" and "map_of (auth_sessions (pg_db s)) hash = Some row"
    and "map_of (control_commands (pg_db s)) (sr_user row, pe_sha env (Header_Get rq ''Idempotency-Key'')) = Some old"
    and "cm_request_hash old = draft_fingerprint env rq raw"
    and "\<And>n. cm_created old \<le> w_clock (pg_world s) n \<and> w_clock (pg_world s) n < cm_expires old"
  shows "pg_db s' = pg_db s \<and> (\<forall>x. r = Inr x \<longrightarrow> x = replay_of old)"
  by (rule opened_replay [OF _ assms(3-)]) (use assms(1,2) in \<open>simp add: ReplaceDraft_def draft_fingerprint_def Let_def\<close>)

subsection \<open>An example\<close>

text \<open>
  An installation without rooms.
\<close>

definition demo_config :: "int \<Rightarrow> Config" where
  "demo_config revision = \<lparr>cfg_SchemaVersion = 1, cfg_Revision = revision, Profile = ''standard-10k'', RegionID = ''eu'', Rooms = Some []\<rparr>"

text \<open>A configuration is written as its profile, its region and its revision.\<close>

definition demo_cbytes :: "Config \<Rightarrow> string" where
  "demo_cbytes c = (if Profile c = ''standard-10k'' then CHR ''s'' else CHR ''h'') # RegionID c @ CHR '','' # itoa (cfg_Revision c)"

definition demo_cdecode :: "string \<Rightarrow> Config option" where
  "demo_cdecode x = (case x of
      p # rest \<Rightarrow> Some \<lparr>cfg_SchemaVersion = 1, cfg_Revision = int (undec (tl (dropWhile (\<lambda>c. c \<noteq> CHR '','') rest))),
         Profile = (if p = CHR ''s'' then ''standard-10k'' else ''high-scale-100k''),
         RegionID = takeWhile (\<lambda>c. c \<noteq> CHR '','') rest, Rooms = Some []\<rparr>
    | [] \<Rightarrow> None)"

definition demo_bytes :: "Delivery \<Rightarrow> string" where
  "demo_bytes d = CHR ''{'' # demo_cbytes (d_Config d)"

definition demo_ctl :: CtlEnv where
  "demo_ctl = LoginEnv.extend demo_login \<lparr>ce_parse = \<lambda>_. None, ce_images = \<lparr>png_DecodeConfig = \<lambda>_. None,
       jpeg_DecodeConfig = \<lambda>_. None, png_Decode = \<lambda>_. None, jpeg_Decode = \<lambda>_. None, png_Redraw = \<lambda>_ _ _. None\<rparr>,
     ce_decode_config = demo_cdecode,
     ce_config_bytes = demo_cbytes, ce_delivery_bytes = demo_bytes,
     ce_widest_envelope = \<lambda>b. b, ce_jsonb = \<lambda>b. b, ce_problem = \<lambda>_ code _. code\<rparr>"

definition demo_session_db :: DB where
  "demo_session_db = demo_db\<lparr>auth_sessions := [(demo_hash, \<lparr>sr_csrf = demo_hash, sr_user = ''u'', sr_policy_version = 1,
      sr_user_version = 2, sr_mfa = True, sr_created = 5, sr_last_seen = 5\<rparr>)],
     control_config := Some \<lparr>co_revision = 0, co_document = ''seu,0''\<rparr>\<rparr>"

definition demo_request :: "string \<Rightarrow> string \<Rightarrow> HttpRequest" where
  "demo_request rmethod etag = \<lparr>rq_Method = rmethod, rq_Header = [(''Origin'', ''https://admin.example''),
     (''X-Csrf-Token'', demo_token), (''Idempotency-Key'', ''0123456789abcdef''), (''If-Match'', etag),
     (''X-Reauth-Token'', demo_token)], rq_RemoteAddr = []\<rparr>"


text \<open>What the examples use of their environment.\<close>

definition demo_like :: "'z CtlEnv_scheme \<Rightarrow> bool" where
  "demo_like env \<longleftrightarrow> pe_sha env = (\<lambda>_. demo_hash) \<and> pe_origin env = ''https://admin.example'' \<and>
     ce_decode_config env = demo_cdecode \<and> ce_jsonb env = (\<lambda>b. b) \<and>
     ce_config_bytes env = demo_cbytes \<and>
     ce_delivery_bytes env = demo_bytes \<and> ce_widest_envelope env = (\<lambda>b. b)"

lemma demo_ctl_ok: "demo_like demo_ctl"
  by (simp add: demo_like_def demo_ctl_def demo_login_def LoginEnv.extend_def)

lemma demo_simps:
  assumes "demo_like env"
  shows "pe_sha env = (\<lambda>_. demo_hash)" "pe_origin env = ''https://admin.example''"
    "ce_decode_config env = demo_cdecode" "ce_jsonb env = (\<lambda>b. b)"
    "ce_config_bytes env = demo_cbytes" "ce_delivery_bytes env = demo_bytes"
    "ce_widest_envelope env = (\<lambda>b. b)"
  using assms by (simp_all add: demo_like_def)

lemma demo_headers [simp]:
  "Header_Values (demo_request m e) ''Origin'' = [''https://admin.example'']"
  "Header_Values (demo_request m e) ''X-Csrf-Token'' = [demo_token]"
  "Header_Values (demo_request m e) ''Idempotency-Key'' = [''0123456789abcdef'']"
  "Header_Values (demo_request m e) ''If-Match'' = [e]"
  "Header_Values (demo_request m e) ''X-Reauth-Token'' = [demo_token]"
  "rq_Method (demo_request m e) = m"
  by (simp_all add: Header_Values_def demo_request_def)

lemma demo_config_simps [simp]:
  "cfg_Revision (demo_config v) = v" "Profile (demo_config v) = ''standard-10k''" "RegionID (demo_config v) = ''eu''"
  "Rooms (demo_config v) = Some []" "(demo_config v)\<lparr>cfg_Revision := w\<rparr> = demo_config w"
  "(demo_config v)\<lparr>Rooms := Some []\<rparr> = demo_config v"
  by (simp_all add: demo_config_def)

lemma demo_token_facts: "length demo_token = 43" "raw_url_decode_strict demo_token = Some demo_key32" "length demo_key32 = 32"
proof -
  show "length demo_token = 43" "length demo_key32 = 32" by code_simp+
  show "raw_url_decode_strict demo_token = Some demo_key32" by (simp add: demo_token_def)
qed

lemma demo_tokenHash_env: "demo_like env \<Longrightarrow> tokenHash env demo_token = Some demo_hash"
  by (simp add: tokenHash_def demo_simps demo_token_facts)

lemma demo_mutation:
  assumes "m \<in> {''POST'', ''PUT'', ''PATCH'', ''DELETE''}"
  shows "CheckMutation (\<lambda>_. demo_hash) ''https://admin.example'' (demo_request m e) demo_hash = None"
proof -
  have "demo_hash \<noteq> zero_hash" by code_simp
  with assms show ?thesis by (auto simp: CheckMutation_def Header_Get_def demo_token_facts)
qed

lemma demo_authority:
  "safeCommandKey ''0123456789abcdef''"
  "CheckSession \<lparr>a_ID = ''u'', a_Role = Admin, Enabled = True, SessionVersion = 2, TOTPEnrolled = True\<rparr>
     \<lparr>ss_UserID = ''u'', AuthPolicyVersion = 1, UserSessionVersion = 2, MFAVerified = True, ss_CreatedAt = 5, ss_LastSeenAt = 5\<rparr>
     DefaultPolicy 90000000000 = None"
  "AuthPolicy_Validate DefaultPolicy = None" "is_digest (hex_encode demo_hash)"
  by code_simp+

lemma demo_texts [simp]:
  "demo_cbytes (demo_config 0) = ''seu,0''" "demo_cbytes (demo_config 1) = ''seu,1''" "demo_cdecode ''seu,0'' = Some (demo_config 0)"
  by code_simp+

lemma demo_valid: "0 \<le> v \<Longrightarrow> v < 9007199254740990 \<Longrightarrow> Config_Validate p l (demo_config v) = None"
proof -
  have "regionPattern ''eu''" by code_simp
  then show "0 \<le> v \<Longrightarrow> v < 9007199254740990 \<Longrightarrow> Config_Validate p l (demo_config v) = None"
    by (simp add: Config_Validate_def demo_config_def)
qed

definition demo_state :: sessionSnapshot where
  "demo_state = \<lparr>sn_account = \<lparr>a_ID = ''u'', a_Role = Admin, Enabled = True, SessionVersion = 2, TOTPEnrolled = True\<rparr>,
     sn_session = \<lparr>ss_UserID = ''u'', AuthPolicyVersion = 1, UserSessionVersion = 2, MFAVerified = True, ss_CreatedAt = 5, ss_LastSeenAt = 5\<rparr>,
     sn_policy = DefaultPolicy, sn_csrf = demo_hash, sn_now = 90000000000\<rparr>"

lemmas demo_tx = tx_defs demo_world_def call_ok_def tick_def clock_of_def

lemma demo_opened:
  assumes env: "demo_like env" and "Requirement Admin action = Some req" "RequiresReauthentication req \<longrightarrow> sensitive"
    and m: "m \<in> {''POST'', ''PUT'', ''PATCH'', ''DELETE''}"
    and db: "auth_policy db = Some DefaultPolicy" "auth_accounts db = auth_accounts demo_db"
      "auth_sessions db = auth_sessions demo_session_db" "auth_totp_credentials db = auth_totp_credentials demo_db"
      "control_config db = control_config demo_session_db" "control_commands db = []"
  shows "\<exists>n. open_command env demo_token action (Some (demo_request m e)) sensitive key fp (demo_pg db) =
    (Inr (demo_state, demo_config 0, Fresh), (demo_pg db)\<lparr>pg_step := n\<rparr>)"
proof -
  have allowed: "\<not> (RequiresReauthentication req \<and> \<not> sensitive)" using assms(3) by simp
  show ?thesis
    using assms(2) allowed db
    by (cases sensitive) (simp_all add: open_command_def beginCommand_def demo_tokenHash_env [OF env] demo_authority authTx_def
      lock_policy_def loadSession_def demo_tx demo_pg_def demo_session_db_def demo_db_def account_of_def
      session_of_def check_mutation_def demo_mutation [OF m] demo_simps [OF env] readConfig_def demo_valid recheck_session_def
      find_replay_def prune_commands_def prune_def maxControlCommands_def demo_state_def Let_def del: One_nat_def)
qed

text \<open>In the example world the record of a command is always written.\<close>

lemma demo_record:
  assumes env: "demo_like env" and "0 \<le> revision" "200 \<le> rp_Status r" "rp_Status r \<le> 599" "rp_Body r \<noteq> []" "length (rp_Body r) \<le> 65536"
    and w: "pg_world s = demo_world" "\<not> pg_aborted s"
    and db: "auth_accounts (pg_tx s) = auth_accounts demo_db" "auth_sessions (pg_tx s) = auth_sessions demo_session_db"
      "control_commands (pg_tx s) = []"
  shows "\<exists>s'. record_command env demo_state demo_token action target (digest env b1) (digest env b2) outcome demo_hash demo_hash
    revision r s = (Inr (), s') \<and> control_config (pg_db s') = control_config (pg_tx s) \<and>
    control_delivery (pg_db s') = control_delivery (pg_tx s) \<and> auth_reauth_proofs (pg_db s') = auth_reauth_proofs (pg_tx s)"
  using assms(2-)
  by (simp add: record_command_def new_token_def demo_tx NewCSRFToken_def ins_audit_def ins_command_def see_session_def
      demo_tokenHash_env [OF env] demo_simps [OF env] digest_def demo_authority demo_state_def demo_session_db_def demo_db_def
      MaxConfigBytes_def)

lemma demo_draft:
  assumes env: "demo_like env"
  shows "\<exists>r s'. ReplaceDraft env demo_token (Some (demo_request ''PUT'' (configETag 0))) ''seu,0'' (demo_pg demo_session_db) = (Inr r, s') \<and>
     control_config (pg_db s') = Some \<lparr>co_revision = 1, co_document = ''seu,1''\<rparr>"
proof -
  let ?rq = "demo_request ''PUT'' (configETag 0)"
  have "length (configETag 0) \<le> 64" by code_simp
  then have ok: "draft_problem (Some ?rq) ''seu,0'' = None"
    using demo_authority(1) by (simp add: draft_problem_def Header_Get_def MaxConfigBytes_def)
  have req: "Requirement Admin WriteConfig = Some \<lparr>ac_Action = WriteConfig, RequiresReauthentication = False\<rparr>" by code_simp
  have "\<exists>n. open_command env demo_token WriteConfig (Some ?rq) False demo_hash demo_hash (demo_pg demo_session_db) =
      (Inr (demo_state, demo_config 0, Fresh), (demo_pg demo_session_db)\<lparr>pg_step := n\<rparr>)"
    by (intro demo_opened [OF env req]) (simp_all add: demo_session_db_def demo_db_def)
  then obtain n where opened: "open_command env demo_token WriteConfig (Some ?rq) False demo_hash demo_hash (demo_pg demo_session_db) =
      (Inr (demo_state, demo_config 0, Fresh), (demo_pg demo_session_db)\<lparr>pg_step := n\<rparr>)"
    by blast
  have "length (demo_bytes (widest_delivery (demo_config 0))) \<le> 65536"
    by (simp add: demo_bytes_def demo_cbytes_def widest_delivery_def rooms_of_def itoa_def dec.simps)
  then have judged: "judge_draft env (demo_config 0) (configETag 0) ''seu,0'' s = (Inr (Inr (demo_config 0)), s)" for s
    by (simp add: judge_draft_def demo_simps [OF env] NormalizeThemeImages_def demo_valid FitsDeliveryBudget_def MaxConfigBytes_def
        MaxSnapshotBytes_def ret_def)
  let ?s = "(demo_pg demo_session_db)\<lparr>pg_step := Suc n, pg_tx := demo_session_db\<lparr>control_config := Some \<lparr>co_revision = 1, co_document = ''seu,1''\<rparr>\<rparr>\<rparr>"
  obtain s' where rec: "record_command env demo_state demo_token ''config.save_draft'' ''installation''
      (digest env ''seu,0'') (digest env ''seu,1'') ''saved_draft'' demo_hash demo_hash 1 (reply 200 ''seu,1'' (configETag 1)) ?s = (Inr (), s')"
      "control_config (pg_db s') = Some \<lparr>co_revision = 1, co_document = ''seu,1''\<rparr>"
    using demo_record [OF env, of 1 "reply 200 ''seu,1'' (configETag 1)" ?s "''config.save_draft''" "''installation''" "''seu,0''" "''seu,1''" "''saved_draft''"]
    by (auto simp: reply_def demo_pg_def demo_session_db_def demo_db_def)
  have upd: "exec Unavailable (upd_config env 1 ''seu,1'') ((demo_pg demo_session_db)\<lparr>pg_step := n\<rparr>) = (Inr (), ?s)"
    by (simp add: exec_def call_ok_def demo_pg_def demo_world_def upd_config_def demo_session_db_def demo_simps [OF env] tick_def)
  have "save_draft env demo_state demo_token demo_hash demo_hash (demo_config 0) (Inr (demo_config 0))
      ((demo_pg demo_session_db)\<lparr>pg_step := n\<rparr>) = (Inr (reply 200 ''seu,1'' (configETag 1)), s')"
    using rec upd by (simp add: save_draft_def demo_simps [OF env] i64_def MaxConfigBytes_def seq_def ret_def Let_def)
  with rec show ?thesis
    by (simp add: ReplaceDraft_def unless_recorded_def ok seq_def opened judged demo_simps [OF env] Header_Get_def)
qed

theorem draft_update_witness:
  "\<exists>r s'. ReplaceDraft demo_ctl demo_token (Some (demo_request ''PUT'' (configETag 0))) ''seu,0'' (demo_pg demo_session_db) = (Inr r, s') \<and>
     (\<exists>c. control_config (pg_db s') = Some \<lparr>co_revision = 1, co_document = ce_jsonb demo_ctl (ce_config_bytes demo_ctl c)\<rparr> \<and>
       cfg_Revision c = 1)"
proof -
  obtain r s' where run: "ReplaceDraft demo_ctl demo_token (Some (demo_request ''PUT'' (configETag 0))) ''seu,0'' (demo_pg demo_session_db) = (Inr r, s')"
      and row: "control_config (pg_db s') = Some \<lparr>co_revision = 1, co_document = ''seu,1''\<rparr>"
    using demo_draft [OF demo_ctl_ok] by blast
  have old: "control_config (pg_db (demo_pg demo_session_db)) = Some \<lparr>co_revision = 0, co_document = ''seu,0''\<rparr>"
    by (simp add: demo_pg_def demo_session_db_def)
  with row have "pg_db s' \<noteq> pg_db (demo_pg demo_session_db)" by auto
  from draft_update [OF run this] run row old show ?thesis by auto
qed

end
