(* ===== verification/WR_Publish_Props.thy ===== *)
theory WR_Publish_Props
  imports WR_Events WR_Command_Props
begin

text \<open>
  What the publication services guarantee over any run of them, whatever calls fail: every durable
  delivery is validated and signed, each one carries the next generation, revisions never go back, and
  commands take effect once and only with the authority they need.
\<close>

section \<open>Quiet steps\<close>

lemma quiet_find_in [tx_quiet]: "quiet (find_in d i)"
  unfolding find_in_def by (intro tx_quiet)

lemma quiet_publish_rooms [tx_quiet]: "quiet (publish_rooms previous rooms)"
  by (induction rooms) (simp_all, (intro tx_quiet | simp)+)

lemma quiet_sign [tx_quiet]: "quiet (sign env d g now)"
  unfolding sign_def by (intro tx_quiet)

lemma quiet_publication [tx_quiet]:
  "quiet (readDelivery env)" "quiet (refuse_command env before status code)"
  "quiet (readEvents room)" "quiet (event_room roomID eventID)"
  unfolding readDelivery_def refuse_command_def readEvents_def event_room_def
  by (intro tx_quiet; simp)+

lemma quiet_publish_body [tx_quiet]: "quiet (publish_body env rq raw st c)"
  unfolding publish_body_def publish_over_def Let_def by (intro tx_quiet)

lemma quiet_new_epoch [tx_quiet]: "quiet (new_epoch_body env i c st d g before runtime)"
  unfolding new_epoch_body_def Let_def by (intro tx_quiet)

lemma quiet_operate_body [tx_quiet]: "quiet (operate_body env i rq raw st c)"
  unfolding operate_body_def operate_on_def apply_command_def Let_def by (intro tx_quiet)

lemma quiet_events [tx_quiet]:
  "quiet (schedule_event env roomID eventID raw now events)" "quiet (requested_event env rq roomID eventID raw now room events)"
  "quiet (store_event env roomID now d g before runtime e)"
  unfolding schedule_event_def requested_event_def store_event_def Let_def by (intro tx_quiet)+

lemma quiet_change_event [tx_quiet]: "quiet (change_event_body env roomID eventID rq raw st c)"
  unfolding change_event_body_def change_event_in_def Let_def by (intro tx_quiet)

lemma quiet_tick [tx_quiet]:
  "quiet (advance_event now active runtime)" "quiet (finish_drain v room active runtime)"
  "quiet (deliveryView env d g)"
  unfolding advance_event_def finish_drain_def deliveryView_def Let_def by (intro tx_quiet)+

lemma quiet_tick_room [tx_quiet]: "quiet (tick_room env now v i room d)"
  unfolding tick_room_def Let_def by (intro tx_quiet)

lemma quiet_tick_rooms [tx_quiet]: "quiet (tick_rooms env now v i rooms d changed)"
  by (induction env now v i rooms d changed rule: tick_rooms.induct) (simp_all, (intro tx_quiet | simp)+)

lemma quiet_metrics [tx_quiet]: "quiet (all_metrics_ok node d ms)"
proof (induction node d ms rule: all_metrics_ok.induct)
  case (2 node d m ms)
  have "quiet (metrics_ok node d m)" unfolding metrics_ok_def by (intro tx_quiet)
  with 2 show ?case by (simp add: quiet_seq quiet_basic)
qed (simp add: quiet_basic)

lemma quiet_audit_rooms [tx_quiet]: "quiet (audit_rooms env old ms)"
  by (induction env old ms rule: audit_rooms.induct) (simp_all add: Let_def, (intro tx_quiet | simp)+)

lemma quiet_auditRecovery [tx_quiet]: "quiet (auditRecovery env node rooms)"
  unfolding auditRecovery_def by (intro tx_quiet)

section \<open>What the steps leave alone\<close>

text \<open>
  A part of the database is apart when it depends neither on the audit log nor on the events nor on what
  the nodes reported. Only \<open>sign\<close> writes anything else.
\<close>

definition apart :: "(DB \<Rightarrow> 'p) \<Rightarrow> bool" where
  "apart p \<longleftrightarrow> (\<forall>db a. p (db\<lparr>control_audit := a\<rparr>) = p db) \<and> (\<forall>db e. p (db\<lparr>control_events := e\<rparr>) = p db) \<and>
     (\<forall>db n. p (db\<lparr>control_nodes := n\<rparr>) = p db) \<and> (\<forall>db k. p (db\<lparr>control_key_acks := k\<rparr>) = p db)"

lemma apart_parts [simp]:
  "apart control_delivery" "apart control_config" "apart auth_reauth_proofs" "apart (\<lambda>db. (control_delivery db, control_config db))"
  by (simp_all add: apart_def)

lemma apart_frames:
  assumes "apart p"
  shows "ins_audit a r ac t b af re ri rv now db = Some (x, db') \<Longrightarrow> p db' = p db"
    "pause_events P db = Some (n, db') \<Longrightarrow> p db' = p db"
    "put_event e db = Some (x, db') \<Longrightarrow> p db' = p db"
    "set_event_state st i db = Some (x, db') \<Longrightarrow> p db' = p db"
    "put_node nd g d m now db = Some (x, db') \<Longrightarrow> p db' = p db"
    "put_key_ack nd g d now db = Some (x, db') \<Longrightarrow> p db' = p db"
  using assms
  by (auto simp: apart_def ins_audit_def pause_events_def put_event_def set_event_state_def put_node_def put_key_ack_def
      Let_def split: if_splits option.splits)

lemma leaves_find_in [tx_leaves]: "leaves p (find_in d i)"
  unfolding find_in_def by (intro tx_leaves)

lemma leaves_publish_rooms [tx_leaves]: "leaves p (publish_rooms previous rooms)"
  by (induction rooms) (simp_all, (intro tx_leaves | simp)+)

lemma leaves_reading [tx_leaves]:
  "leaves p (readDelivery env)" "leaves p (refuse_command env before status code)"
  "leaves p (readEvents rid)" "leaves p (event_room roomID eventID)" "leaves p (deliveryView env d g)"
  "leaves p (schedule_event env roomID eventID raw now events)" "leaves p (requested_event env rq roomID eventID raw now room events)"
  unfolding readDelivery_def refuse_command_def readEvents_def event_room_def deliveryView_def requested_event_def schedule_event_def Let_def
  by (intro tx_leaves; simp)+

lemma leaves_tick [tx_leaves]:
  assumes "apart p"
  shows "leaves p (advance_event now active runtime)" "leaves p (finish_drain v room active runtime)"
  unfolding advance_event_def finish_drain_def Let_def
  by (intro tx_leaves; auto dest: apart_frames [OF assms])+

lemma leaves_tick_room [tx_leaves]: "apart p \<Longrightarrow> leaves p (tick_room env now v i room d)"
  unfolding tick_room_def Let_def by (intro tx_leaves) (auto dest: apart_frames)

lemma leaves_tick_rooms [tx_leaves]: "apart p \<Longrightarrow> leaves p (tick_rooms env now v i rooms d changed)"
  by (induction env now v i rooms d changed rule: tick_rooms.induct) (simp_all, (intro tx_leaves | simp)+)

lemma leaves_metrics [tx_leaves]: "leaves p (all_metrics_ok node d ms)"
proof (induction node d ms rule: all_metrics_ok.induct)
  case (2 node d m ms)
  have "leaves p (metrics_ok node d m)" unfolding metrics_ok_def by (intro tx_leaves)
  with 2 show ?case by (simp add: leaves_seq leaves_basic)
qed (simp add: leaves_basic)

lemma leaves_audit_rooms [tx_leaves]: "apart p \<Longrightarrow> leaves p (audit_rooms env old ms)"
  by (induction env old ms rule: audit_rooms.induct) (simp_all add: Let_def, (intro tx_leaves | auto dest: apart_frames)+)

lemma leaves_auditRecovery [tx_leaves]: "apart p \<Longrightarrow> leaves p (auditRecovery env node rooms)"
  unfolding auditRecovery_def by (intro tx_leaves)


section \<open>Signing\<close>

text \<open>The row that signing delivery \<open>d\<close> as successor of generation \<open>g\<close> leaves.\<close>

definition signed_row :: "'z PubEnv_scheme \<Rightarrow> Delivery \<Rightarrow> int \<Rightarrow> int \<Rightarrow> string \<Rightarrow> DeliveryRow" where
  "signed_row env d g now raw = \<lparr>dl_generation = i64 (g + 1), dl_document = ce_jsonb env (ce_delivery_bytes env d),
     dl_signed = Some (raw, now, now + hours 24)\<rparr>"

definition successor :: "'z PubEnv_scheme \<Rightarrow> Config set \<Rightarrow> DeliveryRow \<Rightarrow> DeliveryRow \<Rightarrow> bool" where
  "successor env cs row row' \<longleftrightarrow> (\<exists>d now raw. d_Config d \<in> cs \<and> valid_delivery env d \<and>
     Sign_snapshot (pb_trust env) (pb_key env) (next_snapshot env d (dl_generation row) now) = Inr raw \<and>
     row' = signed_row env d (dl_generation row) now raw \<and> 0 \<le> dl_generation row' \<and> dl_generation row' < 9007199254740990)"

lemma sign_success:
  assumes "sign env d g now s = (Inr x, s')"
  obtains raw where "valid_delivery env d"
    "Sign_snapshot (pb_trust env) (pb_key env) (next_snapshot env d g now) = Inr raw"
    "upd_delivery (ce_jsonb env (ce_delivery_bytes env d)) (i64 (g + 1)) raw now (now + hours 24) (pg_tx s) = Some ((), pg_tx s')"
    "pg_db s' = pg_db s"
  using assms unfolding sign_def by (auto simp: throw_def exec_success split: if_splits sum.splits)

lemma upd_delivery_effect:
  "upd_delivery doc g raw now expires db = Some (x, db') \<Longrightarrow> control_delivery db = Some row \<Longrightarrow>
     control_delivery db' = Some \<lparr>dl_generation = g, dl_document = doc, dl_signed = Some (raw, now, expires)\<rparr> \<and>
     0 \<le> g \<and> g < 9007199254740990"
  by (auto simp: upd_delivery_def split: if_splits)

lemma sign_failure: "sign env d g now s = (Inl e, s') \<Longrightarrow> pg_tx s' = pg_tx s"
  by (auto simp: sign_def throw_def exec_def split: if_splits sum.splits option.splits)

text \<open>
  \<open>signs_from\<close>: started where the delivery has generation \<open>g\<close>, the step leaves the delivery alone or
  replaces it by a signed successor with one of the given configurations.
\<close>

definition signs_from :: "'z PubEnv_scheme \<Rightarrow> int \<Rightarrow> Config set \<Rightarrow> 'a pg \<Rightarrow> bool" where
  "signs_from env g cs m \<longleftrightarrow> (\<forall>s r s' row. m s = (r, s') \<longrightarrow> control_delivery (pg_tx s) = Some row \<longrightarrow> dl_generation row = g \<longrightarrow>
     control_delivery (pg_tx s') = Some row \<or> (\<exists>row'. control_delivery (pg_tx s') = Some row' \<and> successor env cs row row'))"

lemma signs_from_leaves: "leaves control_delivery m \<Longrightarrow> signs_from env g cs m"
  by (auto simp: signs_from_def dest: leavesD)

lemma signs_from_then:
  assumes "signs_from env g cs m" and "\<And>x. leaves control_delivery (f x)"
  shows "signs_from env g cs (seq m f)"
  unfolding signs_from_def
proof (intro allI impI)
  fix s r s' row
  assume run: "seq m f s = (r, s')" and row: "control_delivery (pg_tx s) = Some row" "dl_generation row = g"
  from run show "control_delivery (pg_tx s') = Some row \<or> (\<exists>row'. control_delivery (pg_tx s') = Some row' \<and> successor env cs row row')"
  proof (cases rule: seq_runE)
    case (Stop e)
    with assms(1) row show ?thesis by (auto simp: signs_from_def)
  next
    case (Go x t)
    with assms(1) row leavesD [OF assms(2) Go(2)] show ?thesis unfolding signs_from_def by metis
  qed
qed

lemma signs_from_after:
  assumes "leaves control_delivery m" and "\<And>x. signs_from env g cs (f x)"
  shows "signs_from env g cs (seq m f)"
  unfolding signs_from_def
proof (intro allI impI)
  fix s r s' row
  assume run: "seq m f s = (r, s')" and row: "control_delivery (pg_tx s) = Some row" "dl_generation row = g"
  from run show "control_delivery (pg_tx s') = Some row \<or> (\<exists>row'. control_delivery (pg_tx s') = Some row' \<and> successor env cs row row')"
  proof (cases rule: seq_runE)
    case (Stop e)
    with leavesD [OF assms(1)] row show ?thesis by auto
  next
    case (Go x t)
    with leavesD [OF assms(1) Go(1)] assms(2) row show ?thesis by (auto simp: signs_from_def)
  qed
qed

lemma signs_from_sign: "d_Config d \<in> cs \<Longrightarrow> signs_from env g cs (sign env d g now)"
  unfolding signs_from_def
proof (intro allI impI)
  fix s r s' row
  assume cs: "d_Config d \<in> cs" and run: "sign env d g now s = (r, s')"
    and row: "control_delivery (pg_tx s) = Some row" "dl_generation row = g"
  show "control_delivery (pg_tx s') = Some row \<or> (\<exists>row'. control_delivery (pg_tx s') = Some row' \<and> successor env cs row row')"
  proof (cases r)
    case (Inl e)
    with sign_failure run row show ?thesis by metis
  next
    case (Inr x)
    with run have "sign env d g now s = (Inr x, s')" by simp
    then show ?thesis
      by (rule sign_success) (use cs row in \<open>auto simp: successor_def signed_row_def dest!: upd_delivery_effect\<close>)
  qed
qed

lemma signs_from_attempt: "signs_from env g cs m \<Longrightarrow> signs_from env g cs (attempt m)"
  by (auto simp: signs_from_def attempt_def split: prod.splits)

lemma signs_from_if: "(b \<Longrightarrow> signs_from env g cs m) \<Longrightarrow> (\<not> b \<Longrightarrow> signs_from env g cs n) \<Longrightarrow> signs_from env g cs (if b then m else n)"
  by simp

lemma signs_from_option:
  "(v = None \<Longrightarrow> signs_from env g cs m) \<Longrightarrow> (\<And>x. v = Some x \<Longrightarrow> signs_from env g cs (f x)) \<Longrightarrow>
   signs_from env g cs (case v of None \<Rightarrow> m | Some x \<Rightarrow> f x)"
  by (cases v) simp_all

lemma signs_from_sum:
  "(\<And>x. v = Inl x \<Longrightarrow> signs_from env g cs (f x)) \<Longrightarrow> (\<And>y. v = Inr y \<Longrightarrow> signs_from env g cs (h y)) \<Longrightarrow>
   signs_from env g cs (case v of Inl x \<Rightarrow> f x | Inr y \<Rightarrow> h y)"
  by (cases v) simp_all

lemma signs_from_prod: "(\<And>x y. v = (x, y) \<Longrightarrow> signs_from env g cs (f x y)) \<Longrightarrow> signs_from env g cs (case v of (x, y) \<Rightarrow> f x y)"
  by (cases v) simp

lemma signs_from_let: "(\<And>x. x = v \<Longrightarrow> signs_from env g cs (f x)) \<Longrightarrow> signs_from env g cs (let x = v in f x)"
  by simp

text \<open>The rules in the order in which they are tried: a signature ends the part that may sign.\<close>

lemmas signing = signs_from_then [OF signs_from_sign] signs_from_then [OF signs_from_attempt [OF signs_from_sign]]
  signs_from_sign signs_from_if signs_from_option signs_from_sum signs_from_prod signs_from_let

text \<open>Where a service takes the configuration from that it signs.\<close>

datatype config_source = NoConfig | PublishedConfig | DraftConfig

fun configs_of :: "'z PubEnv_scheme \<Rightarrow> config_source \<Rightarrow> DB \<Rightarrow> Config set" where
  "configs_of env NoConfig db = {}"
| "configs_of env PublishedConfig db =
     {d_Config d | row d. control_delivery db = Some row \<and> pb_decode_delivery env (dl_document row) = Some d}"
| "configs_of env DraftConfig db =
     {c | row c. control_config db = Some row \<and> ce_decode_config env (co_document row) = Some c \<and> cfg_Revision c = co_revision row}"

definition moves :: "'z PubEnv_scheme \<Rightarrow> config_source \<Rightarrow> DB \<Rightarrow> DB \<Rightarrow> bool" where
  "moves env k db db' \<longleftrightarrow> control_delivery db' = control_delivery db \<or>
     (\<exists>row row'. control_delivery db = Some row \<and> control_delivery db' = Some row' \<and> successor env (configs_of env k db) row row')"

lemma readDelivery_success:
  assumes "readDelivery env s = (Inr v, t)"
  obtains d row where "v = (d, dl_generation row)" "control_delivery (pg_tx s) = Some row"
    "pb_decode_delivery env (dl_document row) = Some d" "valid_delivery env d" "pg_tx t = pg_tx s" "pg_db t = pg_db s"
  using assms unfolding readDelivery_def by (elim tx_elims conjE) (auto simp: throw_def ret_def split: if_splits)

lemma reading_moves:
  assumes "seq (readDelivery env) f s = (r, s')"
    and "\<And>d g. d_Config d \<in> configs_of env PublishedConfig (pg_tx s) \<Longrightarrow> signs_from env g (configs_of env k (pg_tx s)) (f (d, g))"
  shows "moves env k (pg_tx s) (pg_tx s')"
  using assms(1)
proof (cases rule: seq_runE)
  case (Stop e)
  have "control_delivery (pg_tx s') = control_delivery (pg_tx s)" using leavesD [OF leaves_reading(1) Stop(1)] .
  then show ?thesis by (simp add: moves_def)
next
  case (Go v t)
  from Go(1) show ?thesis
  proof (rule readDelivery_success)
    fix d row
    assume v: "v = (d, dl_generation row)" and row: "control_delivery (pg_tx s) = Some row"
      "pb_decode_delivery env (dl_document row) = Some d" and t: "pg_tx t = pg_tx s"
    then have "signs_from env (dl_generation row) (configs_of env k (pg_tx s)) (f v)" using assms(2) by auto
    with Go(2) row t show ?thesis by (auto simp: signs_from_def moves_def)
  qed
qed

section \<open>Commands and the delivery\<close>

lemma leaves_moves: "leaves control_delivery m \<Longrightarrow> m s = (r, s') \<Longrightarrow> moves env k (pg_tx s) (pg_tx s')"
  by (simp add: moves_def) (metis leavesD)

lemmas delivery_frames = apart_frames [OF apart_parts(1)]

lemma publish_over_signs: "current \<in> cs \<Longrightarrow> signs_from env g cs (publish_over env st current d g)"
  unfolding publish_over_def Let_def
  by (intro signing signs_from_after signs_from_leaves tx_leaves) simp_all

lemma publish_body_moves:
  assumes "publish_body env rq raw st current s = (r, s')" and "current \<in> configs_of env DraftConfig (pg_tx s)"
  shows "moves env DraftConfig (pg_tx s) (pg_tx s')"
proof (cases "rq_Method rq \<noteq> ''POST'' \<or> raw \<noteq> ''{}'' \<or> Header_Get rq ''If-Match'' \<noteq> configETag (cfg_Revision current)")
  case True
  then have "leaves control_delivery (publish_body env rq raw st current)"
    unfolding publish_body_def by (auto intro!: tx_leaves)
  with assms(1) show ?thesis by (blast intro: leaves_moves)
next
  case False
  with assms(1) have "seq (readDelivery env) (\<lambda>(d, g). publish_over env st current d g) s = (r, s')"
    by (simp add: publish_body_def)
  then show ?thesis by (rule reading_moves) (use assms(2) in \<open>simp add: publish_over_signs\<close>)
qed

lemma set_runtime_config [simp]: "d_Config (set_runtime d i q) = d_Config d" "d_Config (epoch_delivery u d) = d_Config d"
  by (simp_all add: set_runtime_def epoch_delivery_def)

lemma new_epoch_signs: "d_Config d \<in> cs \<Longrightarrow> signs_from env g cs (new_epoch_body env i c st d g before runtime)"
  unfolding new_epoch_body_def Let_def
  by (intro signing signs_from_after [OF leaves_exec] signs_from_leaves tx_leaves) (auto dest: delivery_frames)

lemma apply_command_signs: "d_Config d \<in> cs \<Longrightarrow> signs_from env g cs (apply_command env i c st current d g before runtime)"
  unfolding apply_command_def Let_def
  by (intro signing signs_from_after [OF leaves_exec] signs_from_leaves tx_leaves) (auto dest: delivery_frames)

lemma operate_on_signs: "d_Config d \<in> cs \<Longrightarrow> signs_from env g cs (operate_on env i rq c st current d g)"
  unfolding operate_on_def Let_def
  by (intro signing new_epoch_signs apply_command_signs signs_from_after signs_from_leaves tx_leaves) auto

lemma operate_body_moves:
  assumes "operate_body env i rq raw st current s = (r, s')"
  shows "moves env PublishedConfig (pg_tx s) (pg_tx s')"
proof (cases "pb_decode_command env raw = None \<or> rq_Method rq \<noteq> ''PATCH''")
  case True
  then have "leaves control_delivery (operate_body env i rq raw st current)"
    unfolding operate_body_def by (auto intro!: tx_leaves)
  with assms(1) show ?thesis by (blast intro: leaves_moves)
next
  case False
  then obtain c where "pb_decode_command env raw = Some c" by auto
  with assms(1) False have "seq (readDelivery env) (\<lambda>(d, g). operate_on env i rq c st current d g) s = (r, s')"
    by (simp add: operate_body_def)
  then show ?thesis by (rule reading_moves) (simp only: prod.case operate_on_signs)
qed

lemma store_event_signs: "d_Config d \<in> cs \<Longrightarrow> signs_from env g cs (store_event env rid now d g before runtime e)"
  unfolding store_event_def Let_def
  by (intro signing signs_from_after [OF leaves_exec] signs_from_after [OF leaves_reading(3)] signs_from_leaves tx_leaves)
    (auto dest: delivery_frames)

lemma change_event_signs: "d_Config d \<in> cs \<Longrightarrow> signs_from env g cs (change_event_in env roomID eventID rq raw st d g)"
  unfolding change_event_in_def Let_def
  by (intro signing store_event_signs signs_from_after signs_from_leaves tx_leaves) auto

lemma change_event_moves:
  assumes "change_event_body env roomID eventID rq raw st current s = (r, s')"
  shows "moves env PublishedConfig (pg_tx s) (pg_tx s')"
proof (cases "event_method eventID (rq_Method rq)")
  case True
  with assms(1) have "seq (readDelivery env) (\<lambda>(d, g). change_event_in env roomID eventID rq raw st d g) s = (r, s')"
    by (simp add: change_event_body_def)
  then show ?thesis by (rule reading_moves) (simp only: prod.case change_event_signs)
next
  case False
  then have "leaves control_delivery (change_event_body env roomID eventID rq raw st current)"
    unfolding change_event_body_def by (auto intro!: tx_leaves)
  with assms(1) show ?thesis by (blast intro: leaves_moves)
qed


section \<open>Durable effects\<close>

lemma configs_of_cong:
  "control_delivery a = control_delivery b \<Longrightarrow> control_config a = control_config b \<Longrightarrow> configs_of env k a = configs_of env k b"
  by (cases k) simp_all

lemma moves_cong:
  assumes "moves env k a b" and "control_delivery a' = control_delivery a" "control_config a' = control_config a"
    and "control_delivery b' = control_delivery b"
  shows "moves env k a' b'"
  using assms configs_of_cong [of a' a env k] by (simp add: moves_def)

lemma leaves_consume [tx_leaves]:
  "leaves control_delivery (consumeReauth env token rq action target raw)" "leaves control_config (consumeReauth env token rq action target raw)"
  unfolding consumeReauth_def Let_def
  by (intro tx_leaves; auto simp: consume_proof_def split: option.splits if_splits)+

lemma opened_config:
  assumes "open_command env token action request sensitive key fprint s = (Inr (st, current, Fresh), s1)"
  shows "current \<in> configs_of env DraftConfig (pg_db s)" "control_delivery (pg_tx s1) = control_delivery (pg_db s)"
    "control_config (pg_tx s1) = control_config (pg_db s)"
proof -
  from assms have "current \<in> configs_of env DraftConfig (pg_db s) \<and> (\<exists>rows. pg_tx s1 = (pg_db s)\<lparr>control_commands := rows\<rparr>)"
  proof (rule open_command_success)
    fix t3
    assume "\<exists>row. control_config (pg_db s) = Some row \<and> ce_decode_config env (co_document row) = Some current \<and>
         Config_Validate (ce_parse env) (ce_images env) current = None \<and> cfg_Revision current = co_revision row"
      and "pg_tx t3 = pg_db s" "find_replay env (a_ID (sn_account st)) key fprint (sn_now st) t3 = (Inr Fresh, s1)"
    then show ?thesis using find_replay_fresh by fastforce
  qed
  then show "current \<in> configs_of env DraftConfig (pg_db s)" "control_delivery (pg_tx s1) = control_delivery (pg_db s)"
    "control_config (pg_tx s1) = control_config (pg_db s)"
    by auto
qed

lemma control_command_moves:
  assumes "control_command env token request raw action target etag body s = (r, s')"
    and "\<And>st c. quiet (body st c)" and "\<And>st c. leaves control_config (body st c)"
    and body: "\<And>st c s r s'. body st c s = (r, s') \<Longrightarrow> c \<in> configs_of env DraftConfig (pg_tx s) \<Longrightarrow> moves env k (pg_tx s) (pg_tx s')"
  shows "moves env k (pg_db s) (pg_db s') \<and> control_config (pg_db s') = control_config (pg_db s)"
proof (cases "pg_db s' = pg_db s")
  case False
  from assms(1) False assms(2) show ?thesis
  proof (rule control_command_effect)
    fix rq st current s1 s2 result s3
    assume o: "open_command env token action request (requires_reauth action) (pe_sha env (Header_Get rq ''Idempotency-Key''))
       (fingerprint_of env rq action target raw) s = (Inr (st, current, Fresh), s1)"
      and p: "(if requires_reauth action then consumeReauth env token rq action target raw else ret ()) s1 = (Inr (), s2)"
      and b: "body st current s2 = (Inr result, s3)"
      and f: "finish_command env st token action target (pe_sha env (Header_Get rq ''Idempotency-Key''))
       (fingerprint_of env rq action target raw) current result s3 = (r, s')" and db: "pg_db s3 = pg_db s"
    note o' = opened_config [OF o]
    have s2: "control_delivery (pg_tx s2) = control_delivery (pg_db s)" "control_config (pg_tx s2) = control_config (pg_db s)"
      using p o' by (auto simp: ret_def split: if_splits dest: leavesD [OF leaves_consume(1)] leavesD [OF leaves_consume(2)])
    then have "configs_of env DraftConfig (pg_tx s2) = configs_of env DraftConfig (pg_db s)" by (rule configs_of_cong)
    with body [OF b] o'(1) have m: "moves env k (pg_tx s2) (pg_tx s3)" by blast
    have c3: "control_config (pg_tx s3) = control_config (pg_tx s2)" using leavesD [OF assms(3) b] .
    have "pg_db s' \<noteq> pg_db s3" using False db by simp
    from f this show ?thesis
      by (rule finish_command_effect) (use moves_cong [OF m] s2 c3 in auto)
  qed
qed (simp add: moves_def)

text \<open>A transaction of its own: what becomes durable is its last view.\<close>

definition commits_view :: "'a pg \<Rightarrow> bool" where
  "commits_view m \<longleftrightarrow> (\<forall>s. pg_db (snd (m s)) = pg_db s \<or> pg_db (snd (m s)) = pg_tx (snd (m s)))"

lemma commits_viewD: "commits_view m \<Longrightarrow> m s = (r, s') \<Longrightarrow> pg_db s' = pg_db s \<or> pg_db s' = pg_tx s'"
  by (metis commits_view_def snd_conv)

lemma commits_view_quiet: "quiet m \<Longrightarrow> commits_view m"
  by (simp add: commits_view_def quiet_def)

lemma commits_view_commit: "commits_view (commit e)" "commits_view (seq (commit e) (\<lambda>_. ret x))"
  by (auto simp: commits_view_def commit_def seq_def ret_def split: outcome.splits)

lemma commits_view_seq: "quiet m \<Longrightarrow> (\<And>x. commits_view (f x)) \<Longrightarrow> commits_view (seq m f)"
  unfolding commits_view_def quiet_def seq_def by (auto split: prod.splits sum.splits) (metis snd_conv)+

lemma commits_view_if: "commits_view m \<Longrightarrow> commits_view n \<Longrightarrow> commits_view (if b then m else n)"
  by simp

lemma commits_view_prod: "(\<And>x y. commits_view (f x y)) \<Longrightarrow> commits_view (case v of (x, y) \<Rightarrow> f x y)"
  by (cases v) simp

lemmas committing = commits_view_commit commits_view_seq commits_view_if commits_view_prod

lemma service_moves:
  assumes "seq (authTx env) (\<lambda>_. m) s = (r, s')" and "commits_view m" and "leaves control_config m"
    and m: "\<And>s r s'. m s = (r, s') \<Longrightarrow> moves env k (pg_tx s) (pg_tx s')"
  shows "moves env k (pg_db s) (pg_db s') \<and> control_config (pg_db s') = control_config (pg_db s)"
  using assms(1)
proof (cases rule: seq_runE)
  case (Stop e)
  then show ?thesis using quietD [OF quiet_steps(3) Stop(1)] by (simp add: moves_def)
next
  case (Go x t)
  have t: "pg_tx t = pg_db s" "pg_db t = pg_db s" using authTx_view [OF Go(1)] by simp_all
  with commits_viewD [OF assms(2) Go(2)] m [OF Go(2)] leavesD [OF assms(3) Go(2)]
  show ?thesis by (auto simp: moves_def)
qed

lemma after_config_moves:
  assumes "seq (readConfig env) (\<lambda>c. seq (readDelivery env) f) s = (r, s')"
    and "\<And>d g cs. d_Config d \<in> cs \<Longrightarrow> signs_from env g cs (f (d, g))"
  shows "moves env PublishedConfig (pg_tx s) (pg_tx s')"
  using assms(1)
proof (cases rule: seq_runE)
  case (Stop e)
  then show ?thesis by (blast intro: leaves_moves leaves_steps)
next
  case (Go c t)
  have "pg_tx t = pg_tx s" using leavesD [OF leaves_steps(6) Go(1)] .
  with reading_moves [OF Go(2), of PublishedConfig] assms(2) show ?thesis by simp
qed


section \<open>The services\<close>

lemma leaves_sign_config [tx_leaves]: "leaves control_config (sign env d g now)" "leaves auth_reauth_proofs (sign env d g now)"
  unfolding sign_def by (intro tx_leaves; auto simp: upd_delivery_def split: option.splits if_splits)+

lemmas config_frames = apart_frames [OF apart_parts(2)]

lemma leaves_bodies [tx_leaves]:
  "leaves control_config (publish_body env rq raw st c)" "leaves control_config (operate_body env i rq raw st c)"
  "leaves control_config (change_event_body env roomID eventID rq raw st c)"
  unfolding publish_body_def publish_over_def operate_body_def operate_on_def apply_command_def new_epoch_body_def
    change_event_body_def change_event_in_def store_event_def Let_def
  by (intro tx_leaves; auto dest: config_frames)+

lemma Publish_moves:
  "Publish env token request raw s = (r, s') \<Longrightarrow> moves env DraftConfig (pg_db s) (pg_db s') \<and> control_config (pg_db s') = control_config (pg_db s)"
  unfolding Publish_def
  by (erule control_command_moves) (intro quiet_publish_body leaves_bodies publish_body_moves | assumption)+

lemma replyProblem_moves:
  assumes "replyProblem env status code s = (r, s')"
  shows "moves env k (pg_db s) (pg_db s') \<and> control_config (pg_db s') = control_config (pg_db s)"
  using quietD [OF quiet_steps(2) assms] by (simp add: moves_def)

lemma Operate_moves:
  assumes "Operate env token i request raw s = (r, s')"
  shows "moves env PublishedConfig (pg_db s) (pg_db s') \<and> control_config (pg_db s') = control_config (pg_db s)"
proof (cases "\<exists>rq c. request = Some rq \<and> pb_decode_command env raw = Some c \<and> rq_Method rq = ''PATCH''")
  case True
  then obtain rq c where "request = Some rq" "pb_decode_command env raw = Some c" "rq_Method rq = ''PATCH''" by blast
  with assms have "control_command env token request raw (operate_action c) i True (operate_body env i rq raw) s = (r, s')"
    by (simp add: Operate_def)
  then show ?thesis
    by (rule control_command_moves) (intro quiet_operate_body leaves_bodies operate_body_moves | assumption)+
next
  case False
  then have "Operate env token i request raw = replyProblem env 400 ''INVALID_REQUEST''"
    by (auto simp: Operate_def split: option.splits)
  with assms replyProblem_moves show ?thesis by metis
qed

lemma ChangeEvent_moves:
  "ChangeEvent env token roomID eventID request raw s = (r, s') \<Longrightarrow>
     moves env PublishedConfig (pg_db s) (pg_db s') \<and> control_config (pg_db s') = control_config (pg_db s)"
  unfolding ChangeEvent_def
  by (erule control_command_moves) (intro quiet_change_event leaves_bodies change_event_moves | assumption)+

lemma tick_rooms_config: "tick_rooms env now v i rooms d changed s = (Inr (d', c), t) \<Longrightarrow> d_Config d' = d_Config d"
proof (induction env now v i rooms d changed arbitrary: s rule: tick_rooms.induct)
  case (2 env now v i room rest d changed)
  have room: "d_Config d1 = d_Config d" if "tick_room env now v i room d u = (Inr (d1, c1), w)" for d1 c1 u w
    using that unfolding tick_room_def Let_def
    by (auto simp: ret_success seq_success throw_success split: if_splits prod.splits)
  from 2(2) obtain d1 c1 w where "tick_room env now v i room d s = (Inr (d1, c1), w)"
      "tick_rooms env now v (Suc i) rest d1 (changed \<or> c1) w = (Inr (d', c), t)"
    by (auto simp: seq_success)
  with 2(1) room show ?case by force
qed (simp add: ret_def)

lemma signs_from_result:
  assumes "leaves control_delivery m" and "\<And>x s t. m s = (Inr x, t) \<Longrightarrow> signs_from env g cs (f x)"
  shows "signs_from env g cs (seq m f)"
  unfolding signs_from_def
proof (intro allI impI)
  fix s r s' row
  assume run: "seq m f s = (r, s')" and row: "control_delivery (pg_tx s) = Some row" "dl_generation row = g"
  from run show "control_delivery (pg_tx s') = Some row \<or> (\<exists>row'. control_delivery (pg_tx s') = Some row' \<and> successor env cs row row')"
  proof (cases rule: seq_runE)
    case (Stop e)
    with leavesD [OF assms(1)] row show ?thesis by auto
  next
    case (Go x t)
    with leavesD [OF assms(1) Go(1)] assms(2) [OF Go(1)] row show ?thesis by (auto simp: signs_from_def)
  qed
qed

lemma Tick_moves:
  assumes "Tick env s = (r, s')"
  shows "moves env PublishedConfig (pg_db s) (pg_db s') \<and> control_config (pg_db s') = control_config (pg_db s)"
  using assms unfolding Tick_def
proof (rule service_moves, goal_cases)
  case 1
  show ?case by (intro committing tx_quiet)
next
  case 2
  show ?case by (intro tx_leaves) auto
next
  case (3 s r s')
  then show ?case
  proof (rule after_config_moves)
    fix d :: Delivery and g and cs :: "Config set"
    assume cs: "d_Config d \<in> cs"
    have tail: "signs_from env g cs (seq (if c then sign env d' g now else ret ()) (\<lambda>_. commit Unavailable))"
      if "d_Config d' = d_Config d" for d' c now
    proof (rule signs_from_then [OF signs_from_if])
      show "signs_from env g cs (sign env d' g now)" using that cs by (simp add: signs_from_sign)
    qed (intro signs_from_leaves leaves_basic)+
    show "signs_from env g cs (case (d, g) of (d, generation) \<Rightarrow>
        seq (read_clock Unavailable) (\<lambda>now.
        seq (deliveryView env d generation) (\<lambda>v.
        seq (tick_rooms env now v 0 (rooms_of (d_Config d)) d False) (\<lambda>(d', changed).
        seq (if changed then sign env d' generation now else ret ()) (\<lambda>_. commit Unavailable)))))"
      unfolding prod.case
      by (intro signs_from_after [OF leaves_basic(7)] signs_from_after [OF leaves_reading(5)]
          signs_from_result [OF leaves_tick_rooms [OF apart_parts(1)]])
        (rule signs_from_prod, rule tail, auto dest: tick_rooms_config)
  qed
qed


lemma Refresh_moves:
  assumes "Refresh env s = (r, s')"
  shows "moves env PublishedConfig (pg_db s) (pg_db s') \<and> control_config (pg_db s') = control_config (pg_db s)"
  using assms unfolding Refresh_def
proof (rule service_moves, goal_cases)
  case 1
  show ?case by (intro committing tx_quiet)
next
  case 2
  show ?case by (intro tx_leaves)
next
  case (3 s r s')
  then show ?case
    by (rule after_config_moves) (simp only: prod.case, intro signing signs_from_after signs_from_leaves tx_leaves, simp)
qed

lemma recover_signs: "d_Config d \<in> cs \<Longrightarrow> signs_from env g cs (recover_from env node req d g)"
  unfolding recover_from_def
  by (intro signs_from_after [OF leaves_basic(7)] signing signs_from_leaves tx_leaves) (auto dest: delivery_frames)

lemma RecoverClock_moves:
  assumes "RecoverClock env node req s = (r, s')"
  shows "moves env PublishedConfig (pg_db s) (pg_db s') \<and> control_config (pg_db s') = control_config (pg_db s)"
proof (cases "(node = ''gateway'' \<or> node = ''coordinator'') \<and> \<not> (cr_Generation req = 0 \<or>
    int (cr_Generation req) \<ge> 9007199254740990 \<or> cr_NotBefore req \<le> 0 \<or> cr_NotBefore req > 253402214399 \<or> \<not> is_digest (cr_Digest req))")
  case True
  with assms have "seq (authTx env) (\<lambda>_. seq (readConfig env) (\<lambda>_.
      seq (readDelivery env) (\<lambda>(d, g). recover_from env node req d g))) s = (r, s')"
    by (auto simp: RecoverClock_def)
  then show ?thesis
  proof (rule service_moves)
    show "commits_view (seq (readConfig env) (\<lambda>_. seq (readDelivery env) (\<lambda>(d, g). recover_from env node req d g)))"
      unfolding recover_from_def by (intro committing commits_view_quiet [OF quiet_basic(2)] tx_quiet)
    show "leaves control_config (seq (readConfig env) (\<lambda>_. seq (readDelivery env) (\<lambda>(d, g). recover_from env node req d g)))"
      unfolding recover_from_def by (intro tx_leaves) (auto dest: config_frames)
    show "moves env PublishedConfig (pg_tx t) (pg_tx t')"
      if "seq (readConfig env) (\<lambda>_. seq (readDelivery env) (\<lambda>(d, g). recover_from env node req d g)) t = (v, t')" for t v t'
      using that by (rule after_config_moves) (simp add: recover_signs)
  qed
next
  case False
  with assms show ?thesis unfolding RecoverClock_def by (auto simp: throw_def moves_def split: if_splits)
qed

lemma leaves_acknowledge: "apart p \<Longrightarrow> leaves p (acknowledge_in env node ack)"
  unfolding acknowledge_in_def by (intro tx_leaves) (auto dest: apart_frames)

lemma Acknowledge_moves:
  assumes "Acknowledge env node ack s = (r, s')"
  shows "moves env NoConfig (pg_db s) (pg_db s') \<and> control_config (pg_db s') = control_config (pg_db s)"
proof (cases "seq (authTx env) (\<lambda>_. acknowledge_in env node ack) s = (r, s')")
  case True
  then show ?thesis
  proof (rule service_moves)
    show "commits_view (acknowledge_in env node ack)"
      unfolding acknowledge_in_def by (intro committing tx_quiet)
    show "moves env NoConfig (pg_tx t) (pg_tx t')" if "acknowledge_in env node ack t = (v, t')" for t v t'
      using leaves_moves [OF leaves_acknowledge that] by simp
  qed (simp add: leaves_acknowledge)
next
  case False
  with assms show ?thesis unfolding Acknowledge_def by (auto simp: throw_def moves_def split: if_splits)
qed

lemma ReplaceDraft_moves:
  assumes "ReplaceDraft env token request raw s = (r, s')"
  shows "moves env NoConfig (pg_db s) (pg_db s')"
  using draft_replaced [OF assms] by (cases "pg_db s' = pg_db s") (auto simp: moves_def)


section \<open>Runs of the services\<close>

text \<open>The commands of an operator, and all services that write the database of the control plane.\<close>

datatype command = SaveDraft | PublishDraft | OperateRoom string | ChangeRoomEvent string string

fun run_command :: "'z PubEnv_scheme \<Rightarrow> command \<Rightarrow> string \<Rightarrow> HttpRequest option \<Rightarrow> string \<Rightarrow> ControlReply pg" where
  "run_command env SaveDraft token request raw = ReplaceDraft env token request raw"
| "run_command env PublishDraft token request raw = Publish env token request raw"
| "run_command env (OperateRoom i) token request raw = Operate env token i request raw"
| "run_command env (ChangeRoomEvent room event) token request raw = ChangeEvent env token room event request raw"

datatype control_op =
    OpCommand command string "HttpRequest option" string
  | OpTick | OpRefresh
  | OpRecover string ClockRecovery
  | OpAck string NodeAck

fun run_op :: "'z PubEnv_scheme \<Rightarrow> control_op \<Rightarrow> DB Pg \<Rightarrow> DB Pg" where
  "run_op env (OpCommand c token request raw) s = snd (run_command env c token request raw s)"
| "run_op env OpTick s = snd (Tick env s)"
| "run_op env OpRefresh s = snd (Refresh env s)"
| "run_op env (OpRecover node req) s = snd (RecoverClock env node req s)"
| "run_op env (OpAck node ack) s = snd (Acknowledge env node ack s)"

definition run_ops :: "'z PubEnv_scheme \<Rightarrow> control_op list \<Rightarrow> DB Pg \<Rightarrow> DB Pg" where
  "run_ops env ops s = fold (run_op env) ops s"

text \<open>Only publishing takes the configuration from the draft; every other signature is over the published one.\<close>

fun op_source :: "control_op \<Rightarrow> config_source" where
  "op_source (OpCommand SaveDraft _ _ _) = NoConfig"
| "op_source (OpCommand PublishDraft _ _ _) = DraftConfig"
| "op_source (OpAck _ _) = NoConfig"
| "op_source _ = PublishedConfig"

lemma command_moves:
  assumes "run_command env c token request raw s = (r, s')"
  shows "moves env (op_source (OpCommand c token request raw)) (pg_db s) (pg_db s')"
  using assms by (cases c) (auto dest: ReplaceDraft_moves Publish_moves Operate_moves ChangeEvent_moves)

lemma run_op_moves: "moves env (op_source op) (pg_db s) (pg_db (run_op env op s))"
proof (cases op)
  case (OpCommand c token request raw)
  then show ?thesis using command_moves [OF prod.collapse [symmetric]] by simp
qed (simp_all, (metis Tick_moves Refresh_moves RecoverClock_moves Acknowledge_moves prod.collapse)+)

lemma run_op_keeps_config:
  assumes "\<And>token request raw. op \<noteq> OpCommand SaveDraft token request raw"
  shows "control_config (pg_db (run_op env op s)) = control_config (pg_db s)"
proof (cases op)
  case (OpCommand c token request raw)
  with assms show ?thesis
    by (cases c) (simp_all, (metis Publish_moves Operate_moves ChangeEvent_moves prod.collapse)+)
qed (simp_all, (metis Tick_moves Refresh_moves RecoverClock_moves Acknowledge_moves prod.collapse)+)

text \<open>The draft: kept, or replaced by one with the next revision.\<close>

lemma run_op_config:
  "control_config (pg_db (run_op env op s)) = control_config (pg_db s) \<or>
   (\<exists>old new. control_config (pg_db s) = Some old \<and> control_config (pg_db (run_op env op s)) = Some new \<and>
      co_revision new = co_revision old + 1)"
proof (cases "\<exists>token request raw. op = OpCommand SaveDraft token request raw")
  case True
  then obtain token request raw where op: "op = OpCommand SaveDraft token request raw" by blast
  show ?thesis
  proof (cases "pg_db (snd (ReplaceDraft env token request raw s)) = pg_db s")
    case False
    from draft_replaced [OF prod.collapse [symmetric] this] show ?thesis using op by auto
  qed (simp add: op)
next
  case False
  then show ?thesis using run_op_keeps_config [of op env s] by blast
qed

text \<open>
  A readable database: the delivery decodes, its generation is in the range of the column, and the
  draft is not behind the published revision.
\<close>

definition readable :: "'z PubEnv_scheme \<Rightarrow> DB \<Rightarrow> bool" where
  "readable env db \<longleftrightarrow> (\<exists>row d c. control_delivery db = Some row \<and> pb_decode_delivery env (dl_document row) = Some d \<and>
     0 \<le> dl_generation row \<and> dl_generation row < 9007199254740990 \<and> control_config db = Some c \<and>
     cfg_Revision (d_Config d) \<le> co_revision c)"

text \<open>What one published row is to a later one.\<close>

definition later :: "'z PubEnv_scheme \<Rightarrow> DeliveryRow \<Rightarrow> DeliveryRow \<Rightarrow> bool" where
  "later env row row' \<longleftrightarrow> row' = row \<or> (dl_generation row < dl_generation row' \<and>
     (\<exists>d d' now raw. pb_decode_delivery env (dl_document row) = Some d \<and> pb_decode_delivery env (dl_document row') = Some d' \<and>
        cfg_Revision (d_Config d) \<le> cfg_Revision (d_Config d') \<and> valid_delivery env d' \<and>
        Sign_snapshot (pb_trust env) (pb_key env) (next_snapshot env d' (dl_generation row' - 1) now) = Inr raw \<and>
        dl_signed row' = Some (raw, now, now + hours 24)))"

lemma later_trans: "later env a b \<Longrightarrow> later env b c \<Longrightarrow> later env a c"
  unfolding later_def by (elim disjE conjE exE) (auto intro: order_trans)

lemma run_op_later:
  assumes codec: "\<And>d. valid_delivery env d \<Longrightarrow> pb_decode_delivery env (ce_jsonb env (ce_delivery_bytes env d)) = Some d"
    and "readable env (pg_db s)" and row: "control_delivery (pg_db s) = Some row"
  shows "readable env (pg_db (run_op env op s)) \<and>
    (\<exists>row'. control_delivery (pg_db (run_op env op s)) = Some row' \<and> later env row row')"
proof -
  let ?db = "pg_db s" and ?db' = "pg_db (run_op env op s)"
  from assms(2) row obtain d c where d: "pb_decode_delivery env (dl_document row) = Some d" "0 \<le> dl_generation row"
      "dl_generation row < 9007199254740990" and c: "control_config ?db = Some c" "cfg_Revision (d_Config d) \<le> co_revision c"
    by (auto simp: readable_def)
  obtain c' where c': "control_config ?db' = Some c'" "co_revision c \<le> co_revision c'"
    using run_op_config [of env op s] c by auto
  show ?thesis
  proof (cases "control_delivery ?db' = Some row")
    case True
    with d c c' show ?thesis by (auto simp: readable_def later_def intro: order_trans)
  next
    case False
    with run_op_moves [of env op s] row obtain row' where row': "control_delivery ?db' = Some row'"
        and suc: "successor env (configs_of env (op_source op) ?db) row row'"
      by (auto simp: moves_def)
    from suc obtain d' now raw where d': "d_Config d' \<in> configs_of env (op_source op) ?db" "valid_delivery env d'"
        "Sign_snapshot (pb_trust env) (pb_key env) (next_snapshot env d' (dl_generation row) now) = Inr raw"
        "row' = signed_row env d' (dl_generation row) now raw" "dl_generation row' < 9007199254740990"
      by (auto simp: successor_def)
    have rev: "cfg_Revision (d_Config d) \<le> cfg_Revision (d_Config d')" "cfg_Revision (d_Config d') \<le> co_revision c"
      using d'(1) d(1) row c by (cases "op_source op"; auto)+
    have gen: "dl_generation row' = dl_generation row + 1"
      using d' d by (simp add: signed_row_def i64_id)
    show ?thesis
      using d' d c' rev gen row' codec [OF d'(2)] by (auto simp: readable_def later_def signed_row_def)
  qed
qed

lemma run_ops_later:
  assumes codec: "\<And>d. valid_delivery env d \<Longrightarrow> pb_decode_delivery env (ce_jsonb env (ce_delivery_bytes env d)) = Some d"
  shows "readable env (pg_db s) \<Longrightarrow> control_delivery (pg_db s) = Some row \<Longrightarrow>
    readable env (pg_db (run_ops env ops s)) \<and> (\<exists>row'. control_delivery (pg_db (run_ops env ops s)) = Some row' \<and> later env row row')"
proof (induction ops arbitrary: s row)
  case Nil
  then show ?case by (simp add: run_ops_def later_def)
next
  case (Cons op ops)
  note step = run_op_later [OF codec Cons.prems, of op]
  then obtain mid where mid: "control_delivery (pg_db (run_op env op s)) = Some mid" "later env row mid" by blast
  from Cons.IH [of "run_op env op s" mid] step mid show ?case
    by (auto simp: run_ops_def intro: later_trans)
qed



section \<open>The board: an abstract view\<close>

text \<open>
  What the database is for: a draft, a published configuration, and the number of the publication. An
  operator saves a draft, publishes exactly the draft, or has the published configuration signed again.
\<close>

record Board =
  b_generation :: int
  b_published :: Config
  b_draft :: Config

definition board :: "'z PubEnv_scheme \<Rightarrow> DB \<Rightarrow> Board option" where
  "board env db = (case (control_delivery db, control_config db) of
      (Some row, Some c) \<Rightarrow>
        (case (pb_decode_delivery env (dl_document row), ce_decode_config env (co_document c)) of
           (Some d, Some draft) \<Rightarrow>
             if cfg_Revision draft = co_revision c \<and> 0 \<le> dl_generation row \<and> dl_generation row < 9007199254740990
             then Some \<lparr>b_generation = dl_generation row, b_published = d_Config d, b_draft = draft\<rparr> else None
         | _ \<Rightarrow> None)
    | _ \<Rightarrow> None)"

inductive board_step :: "config_source \<Rightarrow> Board \<Rightarrow> Board \<Rightarrow> bool" where
  stay: "board_step k b b"
| save: "cfg_Revision c = cfg_Revision (b_draft b) + 1 \<Longrightarrow> board_step NoConfig b (b\<lparr>b_draft := c\<rparr>)"
| publish: "board_step DraftConfig b (b\<lparr>b_generation := b_generation b + 1, b_published := b_draft b\<rparr>)"
| resign: "board_step PublishedConfig b (b\<lparr>b_generation := b_generation b + 1\<rparr>)"

inductive_cases board_step_sources: "board_step NoConfig b b'" "board_step DraftConfig b b'" "board_step PublishedConfig b b'"

lemma board_SomeD:
  assumes "board env db = Some b"
  obtains row c d where "control_delivery db = Some row" "control_config db = Some c"
    "pb_decode_delivery env (dl_document row) = Some d" "ce_decode_config env (co_document c) = Some (b_draft b)"
    "cfg_Revision (b_draft b) = co_revision c" "0 \<le> dl_generation row" "dl_generation row < 9007199254740990"
    "b_generation b = dl_generation row" "b_published b = d_Config d"
  using assms by (auto simp: board_def split: option.splits if_splits)

lemma draft_keeps_delivery:
  "control_delivery (pg_db (snd (ReplaceDraft env token request raw s))) = control_delivery (pg_db s)"
  using draft_replaced [OF prod.collapse [symmetric], of env token request raw s]
  by (cases "pg_db (snd (ReplaceDraft env token request raw s)) = pg_db s") auto

lemma draft_step:
  assumes codec: "\<And>c. Config_Validate (ce_parse env) (ce_images env) c = None \<Longrightarrow>
      ce_decode_config env (ce_jsonb env (ce_config_bytes env c)) = Some c"
    and b: "board env (pg_db s) = Some b"
  shows "\<exists>b'. board env (pg_db (snd (ReplaceDraft env token request raw s))) = Some b' \<and> board_step NoConfig b b'"
proof (cases "control_config (pg_db (snd (ReplaceDraft env token request raw s))) = control_config (pg_db s)")
  case True
  with b draft_keeps_delivery [of env token request raw s] show ?thesis by (auto simp: board_def intro: board_step.stay)
next
  case False
  let ?db' = "pg_db (snd (ReplaceDraft env token request raw s))"
  from False have "?db' \<noteq> pg_db s" by auto
  from draft_replaced [OF prod.collapse [symmetric] this] False obtain old c where
      old: "control_config (pg_db s) = Some old" and
      new: "control_config ?db' = Some \<lparr>co_revision = co_revision old + 1, co_document = ce_jsonb env (ce_config_bytes env c)\<rparr>"
        "cfg_Revision c = co_revision old + 1" "Config_Validate (ce_parse env) (ce_images env) c = None"
    by auto
  from b show ?thesis
  proof (rule board_SomeD)
    fix row c0 d
    assume row: "control_delivery (pg_db s) = Some row" "control_config (pg_db s) = Some c0"
      "pb_decode_delivery env (dl_document row) = Some d" "cfg_Revision (b_draft b) = co_revision c0"
      "0 \<le> dl_generation row" "dl_generation row < 9007199254740990" "b_generation b = dl_generation row" "b_published b = d_Config d"
    then have "board env ?db' = Some (b\<lparr>b_draft := c\<rparr>)"
      using codec [OF new(3)] new old draft_keeps_delivery [of env token request raw s] by (auto simp: board_def)
    moreover have "cfg_Revision c = cfg_Revision (b_draft b) + 1" using new old row by simp
    ultimately show ?thesis by (blast intro: board_step.save)
  qed
qed

lemma signed_step:
  assumes codec: "\<And>d. valid_delivery env d \<Longrightarrow> pb_decode_delivery env (ce_jsonb env (ce_delivery_bytes env d)) = Some d"
    and b: "board env (pg_db s) = Some b" and moved: "moves env k (pg_db s) db'" and config: "control_config db' = control_config (pg_db s)"
  shows "\<exists>b'. board env db' = Some b' \<and> board_step k b b'"
proof (cases "control_delivery db' = control_delivery (pg_db s)")
  case True
  with b config show ?thesis by (auto simp: board_def intro: board_step.stay)
next
  case False
  with moved obtain row row' where row: "control_delivery (pg_db s) = Some row" and row': "control_delivery db' = Some row'"
      and suc: "successor env (configs_of env k (pg_db s)) row row'"
    by (auto simp: moves_def)
  from suc obtain d' now raw where d': "d_Config d' \<in> configs_of env k (pg_db s)" "valid_delivery env d'"
      "row' = signed_row env d' (dl_generation row) now raw" "0 \<le> dl_generation row'" "dl_generation row' < 9007199254740990"
    by (auto simp: successor_def)
  from b show ?thesis
  proof (rule board_SomeD)
    fix row0 c d
    assume old: "control_delivery (pg_db s) = Some row0" "control_config (pg_db s) = Some c"
      "pb_decode_delivery env (dl_document row0) = Some d" "ce_decode_config env (co_document c) = Some (b_draft b)"
      "cfg_Revision (b_draft b) = co_revision c" "0 \<le> dl_generation row0" "dl_generation row0 < 9007199254740990"
      "b_generation b = dl_generation row0" "b_published b = d_Config d"
    with row d' have gen: "dl_generation row' = b_generation b + 1" by (simp add: signed_row_def i64_id)
    have "board env db' = Some (b\<lparr>b_generation := b_generation b + 1, b_published := d_Config d'\<rparr>)"
      using codec [OF d'(2)] d' gen row' config old by (auto simp: board_def signed_row_def)
    moreover have "board_step k b (b\<lparr>b_generation := b_generation b + 1, b_published := d_Config d'\<rparr>)"
    proof (cases k)
      case DraftConfig
      then have "d_Config d' = b_draft b" using d'(1) old by simp
      then show ?thesis using DraftConfig board_step.publish by simp
    next
      case PublishedConfig
      then have "d_Config d' = b_published b" using d'(1) old by simp
      then show ?thesis using PublishedConfig board_step.resign [of b] by (cases b) simp
    qed (use d'(1) in simp)
    ultimately show ?thesis by blast
  qed
qed


section \<open>Commands are executed once\<close>

text \<open>What identifies a command, and the checks made before the database is asked.\<close>

fun command_fingerprint :: "'z PubEnv_scheme \<Rightarrow> command \<Rightarrow> HttpRequest \<Rightarrow> string \<Rightarrow> string" where
  "command_fingerprint env SaveDraft rq raw = draft_fingerprint env rq raw"
| "command_fingerprint env PublishDraft rq raw = fingerprint_of env rq WriteConfig ''config.publish'' raw"
| "command_fingerprint env (OperateRoom i) rq raw =
     fingerprint_of env rq (operate_action (the (pb_decode_command env raw))) i raw"
| "command_fingerprint env (ChangeRoomEvent room event) rq raw =
     fingerprint_of env rq WriteEvents (if event = [] then room @ ''/events'' else ''events/'' @ event) raw"

fun command_ok :: "'z PubEnv_scheme \<Rightarrow> command \<Rightarrow> HttpRequest \<Rightarrow> string \<Rightarrow> bool" where
  "command_ok env SaveDraft rq raw = (draft_problem (Some rq) raw = None)"
| "command_ok env (OperateRoom i) rq raw =
     (rq_Method rq = ''PATCH'' \<and> pb_decode_command env raw \<noteq> None \<and> command_problem (Some rq) raw True = None)"
| "command_ok env _ rq raw = (command_problem (Some rq) raw True = None)"

lemma Operate_cases:
  assumes "Operate env token i (Some rq) raw s = (r, s')"
  obtains (Bad) "\<not> command_ok env (OperateRoom i) rq raw" "pg_db s' = pg_db s"
  | (Command) c where "pb_decode_command env raw = Some c" "rq_Method rq = ''PATCH''"
      "control_command env token (Some rq) raw (operate_action c) i True (operate_body env i rq raw) s = (r, s')"
proof (cases "\<exists>c. pb_decode_command env raw = Some c \<and> rq_Method rq = ''PATCH''")
  case True
  with assms that(2) show ?thesis by (auto simp: Operate_def)
next
  case False
  then have "Operate env token i (Some rq) raw = replyProblem env 400 ''INVALID_REQUEST''"
    by (auto simp: Operate_def split: option.splits)
  with assms False that(1) quietD [OF quiet_steps(2)] show ?thesis by (metis command_ok.simps(2) option.exhaust)
qed

interpretation command_contract: recorded_command "run_command env c token (Some rq) raw" "tokenHash env token"
  "pe_sha env (Header_Get rq ''Idempotency-Key'')" "command_fingerprint env c rq raw" "command_ok env c rq raw"
  for env c token rq raw
proof
  fix s r s'
  assume run: "run_command env c token (Some rq) raw s = (r, s')" and ne: "pg_db s' \<noteq> pg_db s"
  show "command_ok env c rq raw \<and> (\<exists>st hash row n. tokenHash env token = Some hash \<and> map_of (auth_sessions (pg_db s)) hash = Some row \<and>
      a_ID (sn_account st) = sr_user row \<and> sn_now st = w_clock (pg_world s) n \<and>
      recorded st (pe_sha env (Header_Get rq ''Idempotency-Key'')) (command_fingerprint env c rq raw) (pg_db s') r)"
  proof (cases c)
    case SaveDraft
    with run ne ReplaceDraft_recorded show ?thesis by simp
  next
    case PublishDraft
    from control_command_recorded [OF run [unfolded PublishDraft run_command.simps Publish_def option.sel] ne quiet_publish_body]
      PublishDraft show ?thesis by simp
  next
    case (OperateRoom i)
    with run have "Operate env token i (Some rq) raw s = (r, s')" by simp
    then show ?thesis
    proof (cases rule: Operate_cases)
      case (Command d)
      from control_command_recorded [OF Command(3) ne quiet_operate_body] Command OperateRoom show ?thesis by simp
    qed (use ne in simp)
  next
    case (ChangeRoomEvent room event)
    from control_command_recorded [OF run [unfolded ChangeRoomEvent run_command.simps ChangeEvent_def option.sel] ne quiet_change_event]
      ChangeRoomEvent show ?thesis by (simp split del: if_split)
  qed
next
  fix s r s' hash row old
  assume run: "run_command env c token (Some rq) raw s = (r, s')" and ok: "command_ok env c rq raw"
    and row: "tokenHash env token = Some hash" "map_of (auth_sessions (pg_db s)) hash = Some row"
    and old: "map_of (control_commands (pg_db s)) (sr_user row, pe_sha env (Header_Get rq ''Idempotency-Key'')) = Some old"
      "cm_request_hash old = command_fingerprint env c rq raw"
      "\<And>n. cm_created old \<le> w_clock (pg_world s) n \<and> w_clock (pg_world s) n < cm_expires old"
  note replay = control_command_replayed [OF _ _ row old(1) _ old(3)]
  show "pg_db s' = pg_db s \<and> (\<forall>x. r = Inr x \<longrightarrow> x = replay_of old)"
  proof (cases c)
    case SaveDraft
    with run ok ReplaceDraft_replayed [OF _ _ row old(1) _ old(3)] old(2) show ?thesis by simp
  next
    case PublishDraft
    with replay [OF run [unfolded PublishDraft run_command.simps Publish_def option.sel]] ok old(2) show ?thesis by simp
  next
    case (OperateRoom i)
    with run have "Operate env token i (Some rq) raw s = (r, s')" by simp
    then show ?thesis
      by (cases rule: Operate_cases) (use ok OperateRoom old(2) in \<open>auto dest!: replay\<close>)
  next
    case (ChangeRoomEvent room event)
    with replay [OF run [unfolded ChangeRoomEvent run_command.simps ChangeEvent_def option.sel]] ok old(2)
    show ?thesis by (simp split del: if_split)
  qed
qed


section \<open>Sensitive commands\<close>

lemma same_world_replyProblem [tx_world]: "same_world (replyProblem env status code)" "same_world (new_token env e)"
  unfolding replyProblem_def new_token_def by (intro tx_world)+

lemma same_world_find_replay [tx_world]: "same_world (find_replay env actor key fprint now)"
proof -
  have tail: "same_world (case found of Fresh \<Rightarrow> m | _ \<Rightarrow> ret found)" if "same_world m" for m and found :: replay
    using that by (cases found) (simp_all add: same_world_basic)
  show ?thesis unfolding find_replay_def by (intro tx_world tail)
qed

lemma same_world_open [tx_world]: "same_world (open_command env token action request sensitive key fprint)"
  unfolding open_command_def recheck_session_def by (intro tx_world)

lemma consume_proof_effect:
  "consume_proof hash session action target request now db = Some (1, db') \<Longrightarrow>
     \<exists>p. map_of (auth_reauth_proofs db) hash = Some p \<and> \<not> pf_consumed p \<and> pf_session p = session \<and> pf_action p = action \<and>
       pf_target p = target \<and> pf_digest p = request \<and> pf_created p \<le> now \<and> now < pf_expires p \<and>
       auth_reauth_proofs db' = AList.update hash (p\<lparr>pf_consumed := True\<rparr>) (auth_reauth_proofs db)"
  by (auto simp: consume_proof_def split: option.splits if_splits)

lemma consumeReauth_success:
  assumes "consumeReauth env token rq action target raw s = (Inr x, t)"
  obtains hash p where "length (Header_Values rq ''X-Reauth-Token'') = 1"
    "tokenHash env (Header_Get rq ''X-Reauth-Token'') = Some hash" "map_of (auth_reauth_proofs (pg_tx s)) hash = Some p"
    "\<not> pf_consumed p" "pf_session p = (case tokenHash env token of None \<Rightarrow> zero_hash | Some h \<Rightarrow> h)" "pf_action p = action"
    "pf_target p = target" "pf_digest p = ActionRequestDigest env (rq_Method rq) target (Header_Get rq ''If-Match'') raw"
    "pf_created p \<le> clock_of s" "clock_of s < pf_expires p"
    "auth_reauth_proofs (pg_tx t) = AList.update hash (p\<lparr>pf_consumed := True\<rparr>) (auth_reauth_proofs (pg_tx s))"
proof -
  obtain hash where hash: "length (Header_Values rq ''X-Reauth-Token'') = 1" "tokenHash env (Header_Get rq ''X-Reauth-Token'') = Some hash"
    using assms by (auto simp: consumeReauth_def throw_def split: if_splits option.splits)
  from assms obtain db where db: "consume_proof hash (case tokenHash env token of None \<Rightarrow> zero_hash | Some h \<Rightarrow> h) action target
      (ActionRequestDigest env (rq_Method rq) target (Header_Get rq ''If-Match'') raw) (clock_of s) (pg_tx s) = Some (1, db)" "pg_tx t = db"
    unfolding consumeReauth_def hash option.case Let_def by (auto simp: hash seq_success exec_at_success refuse_if_success)
  from consume_proof_effect [OF db(1)] hash db(2) show ?thesis using that by blast
qed

lemma leaves_operate_proofs: "leaves auth_reauth_proofs (operate_body env i rq raw st c)"
  unfolding operate_body_def operate_on_def apply_command_def new_epoch_body_def Let_def
  by (intro tx_leaves) (auto dest: apart_frames [OF apart_parts(3)])

text \<open>
  C8 (proof of presence). An instant switch-off or a new epoch that changes the durable database comes
  from an authorized session and uses up a reauthentication proof: one that was not used before, was
  valid at the time of use, and was issued to this session for this action, this target and exactly
  these request bytes.
\<close>

theorem sensitive_uses_proof:
  assumes "Operate env token i (Some rq) raw s = (r, s')" and "pg_db s' \<noteq> pg_db s"
    and "pb_decode_command env raw = Some c" and "rc_Action c = ''instant-off'' \<or> rc_Action c = ''new-epoch''"
  shows "\<exists>st session hash p n. authorized env token (operate_action c) (Some rq) True (pg_db s) st \<and>
    tokenHash env token = Some session \<and> tokenHash env (Header_Get rq ''X-Reauth-Token'') = Some hash \<and>
    map_of (auth_reauth_proofs (pg_db s)) hash = Some p \<and> \<not> pf_consumed p \<and> pf_session p = session \<and>
    pf_action p = operate_action c \<and> pf_target p = i \<and>
    pf_digest p = ActionRequestDigest env ''PATCH'' i (Header_Get rq ''If-Match'') raw \<and>
    pf_created p \<le> w_clock (pg_world s) n \<and> w_clock (pg_world s) n < pf_expires p \<and>
    map_of (auth_reauth_proofs (pg_db s')) hash = Some (p\<lparr>pf_consumed := True\<rparr>)"
proof -
  have "requires_reauth InstantOff" "requires_reauth NewEpochAction" by code_simp+
  with assms(4) have sensitive: "requires_reauth (operate_action c)" by (auto simp: operate_action_def)
  from assms(1) show ?thesis
  proof (cases rule: Operate_cases)
    case (Command c')
    then have c: "c' = c" using assms(3) by simp
    show ?thesis
    proof (rule control_command_effect [OF Command(3) [unfolded c] assms(2) quiet_operate_body])
      fix rq' st current s1 s2 result s3
      assume rq': "Some rq = Some rq'"
        and o: "open_command env token (operate_action c) (Some rq) (requires_reauth (operate_action c))
           (pe_sha env (Header_Get rq' ''Idempotency-Key'')) (fingerprint_of env rq' (operate_action c) i raw) s = (Inr (st, current, Fresh), s1)"
        and p: "(if requires_reauth (operate_action c) then consumeReauth env token rq' (operate_action c) i raw else ret ()) s1 = (Inr (), s2)"
        and b: "operate_body env i rq raw st current s2 = (Inr result, s3)"
        and f: "finish_command env st token (operate_action c) i (pe_sha env (Header_Get rq' ''Idempotency-Key''))
           (fingerprint_of env rq' (operate_action c) i raw) current result s3 = (r, s')" and db: "pg_db s3 = pg_db s"
      from o have auth: "\<exists>st0. authorized env token (operate_action c) (Some rq) True (pg_db s) st0"
        by (rule open_command_success) (use sensitive in auto)
      then obtain session where session: "tokenHash env token = Some session" by (auto simp: authorized_def)
      from o have s1: "auth_reauth_proofs (pg_tx s1) = auth_reauth_proofs (pg_db s)" by (rule opened_view) simp
      have world: "pg_world s1 = pg_world s" using same_worldD [OF same_world_open o] .
      have ne: "pg_db s' \<noteq> pg_db s3" using assms(2) db by simp
      have s': "auth_reauth_proofs (pg_db s') = auth_reauth_proofs (pg_tx s2)"
        by (rule finish_command_effect [OF f ne]) (use leavesD [OF leaves_operate_proofs b] in simp)
      from p sensitive have "consumeReauth env token rq (operate_action c) i raw s1 = (Inr (), s2)" using rq' by simp
      then show ?thesis
        by (rule consumeReauth_success)
          (use auth session s1 s' world Command(2) in \<open>fastforce simp: update_conv' clock_of_def\<close>)
    qed
  qed (use assms(2) in simp)
qed

subsection \<open>An example\<close>

definition demo_next :: Snapshot where
  "demo_next = \<lparr>s_SchemaVersion = 1, s_Installation = ''home'', s_Generation = 3, s_Revision = 0, s_IssuedAt = 90,
     s_ExpiresAt = 86490, s_Kid = ''config-v1'', s_Payload = ''{seu,0''\<rparr>"

definition demo_signer :: TrustEnv where
  "demo_signer = \<lparr>
     te_envelope = \<lparr>jc_Decode = \<lambda>raw. if raw = ''E'' then Some (\<lparr>e_Snapshot = ''S'', e_Signature = ''AAAA''\<rparr>, []) else None,
                    jc_Marshal = \<lambda>v. if v = \<lparr>e_Snapshot = ''S'', e_Signature = ''AAAA''\<rparr> then Some ''E'' else None\<rparr>,
     te_snapshot = \<lparr>jc_Decode = \<lambda>raw. if raw = ''S'' then Some (demo_next, []) else None,
                    jc_Marshal = \<lambda>v. if v = demo_next then Some ''S'' else None\<rparr>,
     te_json_Valid = \<lambda>_. True, te_ed_Verify = \<lambda>key msg sig. sig = replicate 3 (CHR 0x00),
     te_ed_Sign = \<lambda>key msg. replicate 3 (CHR 0x00), te_sha256_hex = \<lambda>_. [], te_validate = \<lambda>_. True\<rparr>"

definition demo_decode :: "string \<Rightarrow> Delivery option" where
  "demo_decode x = map_option (\<lambda>c. \<lparr>d_Config = c, d_Runtimes = []\<rparr>) (demo_cdecode (tl x))"

definition demo_pub :: PubEnv where
  "demo_pub = CtlEnv.extend demo_ctl \<lparr>pb_decode_delivery = demo_decode, pb_decode_command = \<lambda>_. None, pb_decode_event = \<lambda>_. None,
     pb_decode_empty = \<lambda>_. True, pb_decode_route = \<lambda>_. None, pb_envelope_kid = \<lambda>_. None, pb_json = \<lambda>_. ''j'',
     pb_metrics_bytes = \<lambda>_. ''m'', pb_decode_metrics = \<lambda>_. Some [], pb_observation_bytes = \<lambda>_. ''o'', pb_event_bytes = \<lambda>_. ''e'',
     pb_clock_bytes = \<lambda>_. ''c'', pb_trust = demo_signer, pb_kid = ''config-v1'', pb_key = replicate 64 (CHR ''s''),
     pb_keyGeneration = 0, pb_keyDigest = [], pb_installation = ''home''\<rparr>"

definition demo_delivery :: Delivery where
  "demo_delivery = \<lparr>d_Config = demo_config 0, d_Runtimes = []\<rparr>"

definition demo_published_db :: DB where
  "demo_published_db = demo_session_db\<lparr>control_delivery := Some \<lparr>dl_generation = 2, dl_document = ''{seu,0'', dl_signed = None\<rparr>\<rparr>"

lemma demo_pub_like: "demo_like demo_pub"
  by (simp add: demo_like_def demo_pub_def CtlEnv.extend_def demo_ctl_def demo_login_def LoginEnv.extend_def)

lemma demo_pub_simps [simp]:
  "pb_decode_delivery demo_pub = demo_decode" "pb_trust demo_pub = demo_signer" "pb_kid demo_pub = ''config-v1''"
  "pb_key demo_pub = replicate 64 (CHR ''s'')" "pb_installation demo_pub = ''home''" "ce_parse demo_pub = (\<lambda>_. None)"
  "pb_json demo_pub v = ''j''"
  by (simp_all add: demo_pub_def CtlEnv.extend_def demo_ctl_def demo_login_def LoginEnv.extend_def)

lemmas demo_pub_env [simp] = demo_simps [OF demo_pub_like]

lemma no_rooms_without_urls: "validate_rooms (\<lambda>_. None) lib profile before rooms = None \<Longrightarrow> rooms = []"
  by (cases rooms) (auto simp: Room_Validate_def validOrigin_def split: if_splits)

lemma split_at_first: "c \<notin> set xs \<Longrightarrow> takeWhile (\<lambda>x. x \<noteq> c) (xs @ c # y) = xs \<and> dropWhile (\<lambda>x. x \<noteq> c) (xs @ c # y) = c # y"
  by (induction xs) auto

lemma demo_config_codec:
  assumes "Config_Validate (\<lambda>_. None) lib c = None"
  shows "demo_cdecode (demo_cbytes c) = Some c \<and> Rooms c = Some []"
proof -
  obtain rooms where rooms: "Rooms c = Some rooms" "validate_rooms (\<lambda>_. None) lib (Profile c) [] rooms = None"
      "regionPattern (RegionID c)" "cfg_SchemaVersion c = 1" "0 \<le> cfg_Revision c"
      "Profile c = ''standard-10k'' \<or> Profile c = ''high-scale-100k''"
    using assms by (auto simp: Config_Validate_def split: option.splits if_splits)
  have "rooms = []" using rooms(2) by (rule no_rooms_without_urls)
  have region: "CHR '','' \<notin> set (RegionID c)"
    using rooms(3) by (auto simp: regionPattern_def list_all_iff is_lower_def is_digit_def byte_def split: list.splits)
  note split_at_first [OF region]
  with rooms \<open>rooms = []\<close> show ?thesis
    by (cases c) (auto simp: demo_cbytes_def demo_cdecode_def itoa_def)
qed

lemma demo_codec:
  assumes "valid_delivery demo_pub d"
  shows "demo_decode (demo_bytes d) = Some d"
proof -
  from assms have "Config_Validate (\<lambda>_. None) (ce_images demo_pub) (d_Config d) = None"
      "length (d_Runtimes d) = length (rooms_of (d_Config d))"
    by (auto simp: valid_delivery_def Delivery_Validate_def split: if_splits)
  with demo_config_codec show ?thesis
    by (cases d) (fastforce simp: demo_decode_def demo_bytes_def rooms_of_def)
qed

lemma demo_refresh:
  "control_delivery (pg_db (run_ops demo_pub [OpRefresh] (demo_pg demo_published_db))) =
     Some \<lparr>dl_generation = 3, dl_document = ''{seu,0'', dl_signed = Some (''E'', 90000000000, 90000000000 + hours 24)\<rparr>"
proof -
  have bytes: "demo_bytes demo_delivery = ''{seu,0''" "demo_decode ''{seu,0'' = Some demo_delivery" by code_simp+
  have valid: "valid_delivery demo_pub demo_delivery"
    by (simp add: valid_delivery_def Delivery_Validate_def demo_delivery_def demo_valid rooms_of_def)
  have snap: "next_snapshot demo_pub demo_delivery 2 90000000000 = demo_next"
    by (simp add: next_snapshot_def demo_next_def bytes uint64_def i64_def unix_def hours_def) (simp add: demo_delivery_def)
  have names: "safe_name ''home''" "safe_name ''config-v1''" by code_simp+
  have enc: "raw_url_encode (replicate 3 (CHR 0x00)) = ''AAAA''" by code_simp
  have "structural demo_signer demo_next"
    by (simp add: structural_def demo_next_def names i64_id demo_signer_def)
  then have sign: "Sign_snapshot demo_signer (replicate 64 (CHR ''s'')) demo_next = Inr ''E''"
    using enc by (simp add: Sign_snapshot_def) (simp add: demo_signer_def trust_max_bytes_def)
  show ?thesis
    by (simp add: run_ops_def Refresh_def authTx_def demo_tx demo_pg_def demo_published_db_def demo_session_db_def demo_db_def
        readConfig_def demo_valid readDelivery_def bytes valid sign_def snap sign upd_delivery_def i64_def)
qed






definition demo_ops :: PubEnv where
  "demo_ops = demo_pub\<lparr>pb_decode_command := \<lambda>_. Some \<lparr>rc_Action = ''instant-off'', rc_Limits = None, rc_Scope = [], rc_Generation = None\<rparr>\<rparr>"

definition demo_proof_db :: DB where
  "demo_proof_db = demo_published_db\<lparr>auth_reauth_proofs := [(demo_hash, \<lparr>pf_session = demo_hash, pf_action = InstantOff,
     pf_target = ''nowhere'', pf_digest = hex_encode demo_hash, pf_created = 0, pf_expires = minutes 5, pf_consumed = False\<rparr>)]\<rparr>"

lemma demo_ops_like: "demo_like demo_ops"
  using demo_pub_like by (simp add: demo_like_def demo_ops_def)

lemma demo_ops_simps [simp]:
  "pb_decode_command demo_ops x = Some \<lparr>rc_Action = ''instant-off'', rc_Limits = None, rc_Scope = [], rc_Generation = None\<rparr>"
  "pb_decode_delivery demo_ops = demo_decode" "ce_problem demo_ops status code i = code"
  by (simp_all add: demo_ops_def demo_pub_def CtlEnv.extend_def demo_ctl_def demo_login_def LoginEnv.extend_def)

lemmas demo_ops_env [simp] = demo_simps [OF demo_ops_like]

lemma demo_operate:
  "\<exists>r s'. Operate demo_ops demo_token ''nowhere'' (Some (demo_request ''PATCH'' ''e'')) ''{}'' (demo_pg demo_proof_db) = (Inr r, s') \<and>
     pg_db s' \<noteq> demo_proof_db"
proof -
  let ?rq = "demo_request ''PATCH'' ''e''"
  note env = demo_ops_like
  have ok: "command_problem (Some ?rq) ''{}'' True = None"
    using demo_authority(1) by (simp add: command_problem_def Header_Get_def MaxConfigBytes_def)
  have req: "Requirement Admin InstantOff = Some \<lparr>ac_Action = InstantOff, RequiresReauthentication = True\<rparr>" "requires_reauth InstantOff"
    by code_simp+
  have "\<exists>n. open_command demo_ops demo_token InstantOff (Some ?rq) True demo_hash demo_hash (demo_pg demo_proof_db) =
      (Inr (demo_state, demo_config 0, Fresh), (demo_pg demo_proof_db)\<lparr>pg_step := n\<rparr>)"
    by (intro demo_opened [OF env req(1)]) (simp_all add: demo_proof_db_def demo_published_db_def demo_session_db_def demo_db_def)
  then obtain n where opened: "open_command demo_ops demo_token InstantOff (Some ?rq) True demo_hash demo_hash (demo_pg demo_proof_db) =
      (Inr (demo_state, demo_config 0, Fresh), (demo_pg demo_proof_db)\<lparr>pg_step := n\<rparr>)"
    by blast
  let ?db = "demo_proof_db\<lparr>auth_reauth_proofs := [(demo_hash, \<lparr>pf_session = demo_hash, pf_action = InstantOff,
     pf_target = ''nowhere'', pf_digest = hex_encode demo_hash, pf_created = 0, pf_expires = minutes 5, pf_consumed = True\<rparr>)]\<rparr>"
  have used: "consumeReauth demo_ops demo_token ?rq InstantOff ''nowhere'' ''{}'' ((demo_pg demo_proof_db)\<lparr>pg_step := n\<rparr>) =
      (Inr (), (demo_pg demo_proof_db)\<lparr>pg_step := Suc n, pg_tx := ?db\<rparr>)"
    by (simp add: consumeReauth_def Header_Get_def demo_tokenHash_env [OF env] demo_tx demo_pg_def demo_proof_db_def consume_proof_def
        ActionRequestDigest_def digest_def demo_simps [OF env] minutes_def)
  have dec: "demo_decode ''{seu,0'' = Some demo_delivery" "demo_bytes demo_delivery = ''{seu,0''" by code_simp+
  have valid: "valid_delivery demo_ops demo_delivery"
    by (simp add: valid_delivery_def Delivery_Validate_def demo_delivery_def demo_valid rooms_of_def)
  have nowhere: "Delivery_Find demo_delivery ''nowhere'' = Some None"
    by (simp add: Delivery_Find_def demo_delivery_def rooms_of_def)
  let ?s = "(demo_pg demo_proof_db)\<lparr>pg_step := Suc (Suc (Suc n)), pg_tx := ?db\<rparr>" and ?reply = "reply 404 ''NOT_FOUND'' []"
  have body: "operate_body demo_ops ''nowhere'' ?rq ''{}'' demo_state (demo_config 0) ((demo_pg demo_proof_db)\<lparr>pg_step := Suc n, pg_tx := ?db\<rparr>) =
      (Inr (refused ?reply (digest demo_ops ''{seu,0'')), ?s)"
    by (simp add: operate_body_def operate_on_def valid dec readDelivery_def demo_tx demo_pg_def demo_proof_db_def
        demo_published_db_def find_in_def nowhere refuse_command_def replyProblem_def new_token_def NewCSRFToken_def Let_def)
  obtain s' where rec: "record_command demo_ops demo_state demo_token InstantOff ''nowhere''
      (digest demo_ops ''{seu,0'') (digest demo_ops ''{seu,0'') ''rejected'' demo_hash demo_hash 0 ?reply ?s = (Inr (), s')"
      "auth_reauth_proofs (pg_db s') = auth_reauth_proofs ?db"
    using demo_record [OF env, of 0 ?reply ?s InstantOff "''nowhere''" "''{seu,0''" "''{seu,0''" "''rejected''"]
    by (auto simp: reply_def demo_pg_def demo_proof_db_def demo_published_db_def demo_session_db_def demo_db_def)
  have "auth_reauth_proofs (pg_db s') \<noteq> auth_reauth_proofs demo_proof_db"
    using rec(2) by (simp add: demo_proof_db_def)
  then have "pg_db s' \<noteq> demo_proof_db" by auto
  moreover have "digest demo_ops ''{seu,0'' \<noteq> []" by code_simp
  ultimately show ?thesis
    using rec(1) ok req(2) opened used body
    by (simp add: Operate_def operate_action_def control_command_def unless_recorded_def execute_command_def seq_def fingerprint_of_def
        finish_command_def refused_def reply_def refuse_if_def ret_def MaxConfigBytes_def Let_def)
qed

theorem sensitive_uses_proof_witness:
  "\<exists>r s' p. Operate demo_ops demo_token ''nowhere'' (Some (demo_request ''PATCH'' ''e'')) ''{}'' (demo_pg demo_proof_db) = (Inr r, s') \<and>
     map_of (auth_reauth_proofs (pg_db s')) demo_hash = Some p \<and> pf_consumed p"
proof -
  obtain r s' where run: "Operate demo_ops demo_token ''nowhere'' (Some (demo_request ''PATCH'' ''e'')) ''{}'' (demo_pg demo_proof_db) = (Inr r, s')"
      and ne: "pg_db s' \<noteq> pg_db (demo_pg demo_proof_db)"
    using demo_operate by (auto simp: demo_pg_def)
  have "tokenHash demo_ops (Header_Get (demo_request ''PATCH'' ''e'') ''X-Reauth-Token'') = Some demo_hash"
    by (simp add: Header_Get_def demo_tokenHash_env [OF demo_ops_like])
  with sensitive_uses_proof [OF run ne demo_ops_simps(1)] run show ?thesis by fastforce
qed

end
