(* ===== verification/WR_Events_Props.thy ===== *)
theory WR_Events_Props
  imports WR_Publish_Props WR_Control_Props
begin

text \<open>
  What the scheduler guarantees: a room is switched off only on fresh, matching evidence of both nodes,
  paused events are never advanced, and the event state of a room agrees with its events.
\<close>

section \<open>Evidence for a drained room\<close>

text \<open>A report of a node for a room, in the state that the runtime describes.\<close>

definition reports :: "DeliveryView \<Rightarrow> string \<Rightarrow> string \<Rightarrow> Runtime \<Rightarrow> RoomMetrics \<Rightarrow> bool" where
  "reports v node room runtime m \<longleftrightarrow> (\<exists>n \<in> set (dv_Nodes v). nv_ID n = node \<and> m \<in> set (nv_Rooms n)) \<and>
     rm_RoomID m = room \<and> rm_Mode m = ''DRAINING'' \<and> rm_Revision m = rt_Revision runtime \<and> rm_Epoch m = rt_Epoch runtime"

definition drained :: "DeliveryView \<Rightarrow> string \<Rightarrow> Runtime \<Rightarrow> bool" where
  "drained v room runtime \<longleftrightarrow> dv_State v = ''applied'' \<and>
     (\<exists>m. reports v ''coordinator'' room runtime m \<and> rm_Waiting m = 0 \<and> rm_Ready m = 0 \<and> rm_RecoveryUntil m = 0) \<and>
     (\<exists>m. reports v ''gateway'' room runtime m \<and> rm_OriginHealthy m \<and> rm_ArrivalWindowReady m \<and>
        rm_ArrivalsFiveMinutes m \<le> i64 (AdmissionsPerMinute (rt_Limits runtime) * 5))"

lemma fold_reports:
  assumes "fold (drain_report room runtime) ms (a, b) = (q, p)"
  shows "(q \<longrightarrow> a \<or> (\<exists>m. (''coordinator'', m) \<in> set ms \<and> rm_RoomID m = room \<and> rm_Mode m = ''DRAINING'' \<and>
       rm_Revision m = rt_Revision runtime \<and> rm_Epoch m = rt_Epoch runtime \<and> rm_Waiting m = 0 \<and> rm_Ready m = 0 \<and> rm_RecoveryUntil m = 0)) \<and>
     (p \<longrightarrow> b \<or> (\<exists>m. (''gateway'', m) \<in> set ms \<and> rm_RoomID m = room \<and> rm_Mode m = ''DRAINING'' \<and>
       rm_Revision m = rt_Revision runtime \<and> rm_Epoch m = rt_Epoch runtime \<and> rm_OriginHealthy m \<and> rm_ArrivalWindowReady m \<and>
       rm_ArrivalsFiveMinutes m \<le> i64 (AdmissionsPerMinute (rt_Limits runtime) * 5)))"
  using assms
proof (induction ms arbitrary: a b)
  case (Cons x ms)
  obtain node m where x: "x = (node, m)" by (cases x)
  obtain a1 b1 where step: "drain_report room runtime x (a, b) = (a1, b1)" by fastforce
  from Cons.prems step have "fold (drain_report room runtime) ms (a1, b1) = (q, p)" by simp
  from Cons.IH [OF this] step x show ?case
    by (auto simp: drain_report_def split: if_splits)
qed simp

lemma safeDrain_sound:
  assumes "safeDrain v room runtime"
  shows "drained v room runtime"
proof -
  let ?ms = "concat (map (\<lambda>node. map (\<lambda>m. (nv_ID node, m)) (nv_Rooms node)) (dv_Nodes v))"
  from assms have applied: "dv_State v = ''applied''"
      and "fold (drain_report room runtime) ?ms (False, False) = (True, True)"
    by (auto simp: safeDrain_def split: if_splits prod.splits)
  from fold_reports [OF this(2)] applied show ?thesis
    by (fastforce simp: drained_def reports_def)
qed

section \<open>One room\<close>

text \<open>Nothing but the mode and the event state changes before the revision is counted up.\<close>

definition same_limits :: "Runtime \<Rightarrow> Runtime \<Rightarrow> bool" where
  "same_limits a b \<longleftrightarrow> rt_Revision a = rt_Revision b \<and> rt_Epoch a = rt_Epoch b \<and> rt_Limits a = rt_Limits b"

lemma NextEventMode_modes: "NextEventMode e now = (mode, state) \<Longrightarrow> mode \<noteq> ''OFF''"
  by (auto simp: NextEventMode_def split: if_splits)

lemma advance_event_success:
  assumes "advance_event now active runtime s = (Inr r, t)"
  shows "same_limits r runtime \<and> (rt_Mode r = ''OFF'' \<longrightarrow> rt_Mode runtime = ''OFF'')"
  using assms
  by (auto simp: advance_event_def same_limits_def ret_success seq_success split: option.splits prod.splits if_splits
      dest!: NextEventMode_modes)

lemma finish_drain_success:
  assumes "finish_drain v room active runtime s = (Inr r, t)"
  shows "r = runtime \<or> (safeDrain v room runtime \<and> rt_Mode runtime = ''DRAINING'' \<and> same_limits r runtime \<and> rt_Mode r = ''OFF'')"
  using assms
  by (auto simp: finish_drain_def same_limits_def ret_success seq_success split: option.splits if_splits)

text \<open>The room at place \<open>i\<close>: switched off only when drained; the other rooms stay as they are.\<close>

definition evidence :: "DeliveryView \<Rightarrow> string \<Rightarrow> Runtime \<Rightarrow> Runtime \<Rightarrow> bool" where
  "evidence v room old new \<longleftrightarrow> (rt_Mode old \<noteq> ''OFF'' \<and> rt_Mode new = ''OFF'' \<longrightarrow> (\<exists>q. drained v room q \<and> same_limits q old))"

lemma tick_room_success:
  assumes run: "tick_room env now v i room d s = (Inr (d', c), t)"
  obtains new where "d' = d\<lparr>d_Runtimes := (d_Runtimes d)[i := (d_Runtimes d ! i)\<lparr>rr_Runtime := new\<rparr>]\<rparr>"
    "evidence v (r_ID room) (rr_Runtime (d_Runtimes d ! i)) new"
proof (cases "d' = d")
  case True
  then show ?thesis using that [of "rr_Runtime (d_Runtimes d ! i)"] by (simp add: evidence_def)
next
  case False
  let ?old = "rr_Runtime (d_Runtimes d ! i)"
  from run False obtain active advanced t1 t2 runtime t3 where
      adv: "advance_event now active ?old t1 = (Inr advanced, t2)" and
      fin: "finish_drain v (r_ID room) active advanced t2 = (Inr runtime, t3)" and
      d': "d' = d\<lparr>d_Runtimes := (d_Runtimes d)[i := (d_Runtimes d ! i)\<lparr>rr_Runtime := runtime\<lparr>rt_Revision := i64 (rt_Revision runtime + 1)\<rparr>\<rparr>]\<rparr>"
    unfolding tick_room_def Let_def by (elim tx_elims) auto
  show ?thesis
  proof (rule that [OF d'])
    show "evidence v (r_ID room) ?old (runtime\<lparr>rt_Revision := i64 (rt_Revision runtime + 1)\<rparr>)"
      using advance_event_success [OF adv] finish_drain_success [OF fin]
      by (auto simp: evidence_def same_limits_def dest: safeDrain_sound)
  qed
qed

text \<open>All rooms from place \<open>i\<close> on.\<close>

lemma tick_rooms_success:
  assumes "tick_rooms env now v i rooms d changed s = (Inr (d', c), t)"
  shows "d_Config d' = d_Config d \<and> length (d_Runtimes d') = length (d_Runtimes d) \<and>
    (\<forall>j. j < i \<longrightarrow> d_Runtimes d' ! j = d_Runtimes d ! j) \<and>
    (\<forall>k < length rooms. i + k < length (d_Runtimes d) \<longrightarrow>
      evidence v (r_ID (rooms ! k)) (rr_Runtime (d_Runtimes d ! (i + k))) (rr_Runtime (d_Runtimes d' ! (i + k))))"
  using assms
proof (induction rooms arbitrary: i d changed s)
  case Nil
  then show ?case by (simp add: ret_success)
next
  case (Cons room rest)
  from Cons.prems obtain d1 c1 s1 where room: "tick_room env now v i room d s = (Inr (d1, c1), s1)"
    and rest: "tick_rooms env now v (Suc i) rest d1 (changed \<or> c1) s1 = (Inr (d', c), t)"
    by (auto simp: seq_success)
  from room obtain new where d1: "d1 = d\<lparr>d_Runtimes := (d_Runtimes d)[i := (d_Runtimes d ! i)\<lparr>rr_Runtime := new\<rparr>]\<rparr>"
    and new: "evidence v (r_ID room) (rr_Runtime (d_Runtimes d ! i)) new"
    by (rule tick_room_success)
  note ih = Cons.IH [OF rest]
  show ?case
  proof (intro conjI allI impI)
    fix k assume k: "k < length (room # rest)" "i + k < length (d_Runtimes d)"
    show "evidence v (r_ID ((room # rest) ! k)) (rr_Runtime (d_Runtimes d ! (i + k))) (rr_Runtime (d_Runtimes d' ! (i + k)))"
      using ih d1 new k by (cases k) auto
  qed (use ih d1 in auto)
qed

section \<open>The scheduler\<close>

lemma Tick_runs:
  assumes "Tick env s = (r, s')" and "pg_db s' \<noteq> pg_db s"
  obtains s1 c s2 x s3 now s4 v s5 y s6 s7 where
    "authTx env s = (Inr (), s1)" "readConfig env s1 = (Inr c, s2)" "readDelivery env s2 = (Inr x, s3)"
    "read_clock Unavailable s3 = (Inr now, s4)" "deliveryView env (fst x) (snd x) s4 = (Inr v, s5)"
    "tick_rooms env now v 0 (rooms_of (d_Config (fst x))) (fst x) False s5 = (Inr y, s6)"
    "(if snd y then sign env (fst y) (snd x) now else ret ()) s6 = (Inr (), s7)"
    "pg_db s7 = pg_db s" "commit Unavailable s7 = (r, s')"
  using assms unfolding Tick_def case_prod_unfold
  apply -
  apply (erule (1) seq_effectE, rule quiet_steps)
  apply (erule (1) seq_effectE, rule quiet_steps)
  apply (erule (1) seq_effectE, rule quiet_publication)
  apply (erule (1) seq_effectE, rule quiet_basic)
  apply (erule (1) seq_effectE, rule quiet_tick)
  apply (erule (1) seq_effectE, rule quiet_tick_rooms)
  apply (erule (1) seq_effectE, intro tx_quiet)
  apply (rule that; simp)
  done

lemma deliveryView_success:
  assumes "deliveryView env d g s = (Inr v, t)"
  shows "node_views env (clock_of s) (sort_key fst (control_nodes (pg_tx s))) = Some (dv_Nodes v) \<and>
    dv_State v = view_state g (dv_Nodes v) \<and> pg_tx t = pg_tx s"
  using assms unfolding deliveryView_def by (elim tx_elims conjE) auto

lemma node_views_member:
  "node_views env now rows = Some vs \<Longrightarrow> n \<in> set vs \<Longrightarrow>
     \<exists>row. (nv_ID n, row) \<in> set rows \<and> nv_Generation n = nd_generation row \<and>
       nv_Fresh n = (nd_observed row > now - 15000000000 \<and> nd_observed row \<le> now) \<and>
       pb_decode_metrics env (nd_metrics row) = Some (nv_Rooms n)"
  by (induction env now rows arbitrary: vs rule: node_views.induct) (fastforce split: option.splits)+

text \<open>A report of a node row for a room, at most 15 seconds old and about the given generation.\<close>

definition node_report :: "'z PubEnv_scheme \<Rightarrow> DB \<Rightarrow> int \<Rightarrow> int \<Rightarrow> string \<Rightarrow> RoomMetrics \<Rightarrow> bool" where
  "node_report env db now generation node m \<longleftrightarrow> (\<exists>row rooms. (node, row) \<in> set (control_nodes db) \<and>
     nd_generation row = generation \<and> now - 15000000000 < nd_observed row \<and> nd_observed row \<le> now \<and>
     pb_decode_metrics env (nd_metrics row) = Some rooms \<and> m \<in> set rooms)"

lemma reports_row:
  assumes "deliveryView env d g s = (Inr v, t)" and "dv_State v = ''applied''" and "reports v node room q m"
  shows "node_report env (pg_tx s) (clock_of s) g node m"
proof -
  note view = deliveryView_success [OF assms(1)]
  from assms(3) obtain n where n: "n \<in> set (dv_Nodes v)" "nv_ID n = node" "m \<in> set (nv_Rooms n)"
    by (auto simp: reports_def)
  with view obtain row where row: "(node, row) \<in> set (control_nodes (pg_tx s))" "nv_Generation n = nd_generation row"
      "nv_Fresh n = (nd_observed row > clock_of s - 15000000000 \<and> nd_observed row \<le> clock_of s)"
      "pb_decode_metrics env (nd_metrics row) = Some (nv_Rooms n)"
    using node_views_member [of env "clock_of s" _ "dv_Nodes v" n] by fastforce
  from view assms(2) n(1) have "nv_Generation n = g" "nv_Fresh n"
    by (auto simp: view_state_def list_ex_iff split: if_splits)
  with row n(3) show ?thesis by (auto simp: node_report_def)
qed

lemma quiet_commit: "commit e s = (r, s') \<Longrightarrow> pg_db s' = pg_db s \<or> pg_db s' = pg_tx s"
  using commit_effect by metis

lemma same_world_reading [tx_world]: "same_world (readDelivery env)"
  unfolding readDelivery_def by (intro tx_world; simp)

lemma Tick_effect:
  assumes "Tick env s = (r, s')" and "pg_db s' \<noteq> pg_db s"
  obtains row d now v n d' changed u u' where
    "control_delivery (pg_db s) = Some row" "pb_decode_delivery env (dl_document row) = Some d" "valid_delivery env d"
    "\<And>node room q m. dv_State v = ''applied'' \<Longrightarrow> reports v node room q m \<Longrightarrow>
       node_report env (pg_db s) (w_clock (pg_world s) n) (dl_generation row) node m"
    "tick_rooms env now v 0 (rooms_of (d_Config d)) d False u = (Inr (d', changed), u')"
    "changed \<Longrightarrow> valid_delivery env d' \<and> map_option dl_document (control_delivery (pg_db s')) = Some (ce_jsonb env (ce_delivery_bytes env d'))"
    "\<not> changed \<Longrightarrow> control_delivery (pg_db s') = Some row"
  using assms
proof (rule Tick_runs)
  fix s1 c s2 x s3 now s4 v s5 y s6 s7
  assume r: "authTx env s = (Inr (), s1)" "readConfig env s1 = (Inr c, s2)" "readDelivery env s2 = (Inr x, s3)"
    "read_clock Unavailable s3 = (Inr now, s4)" "deliveryView env (fst x) (snd x) s4 = (Inr v, s5)"
    and tick: "tick_rooms env now v 0 (rooms_of (d_Config (fst x))) (fst x) False s5 = (Inr y, s6)"
    and sign: "(if snd y then sign env (fst y) (snd x) now else ret ()) s6 = (Inr (), s7)"
    and commit: "pg_db s7 = pg_db s" "commit Unavailable s7 = (r, s')"
  have s': "pg_db s' = pg_tx s7" using quiet_commit [OF commit(2)] commit(1) assms(2) by auto
  have clock: "pg_tx s4 = pg_tx s3" "pg_world s4 = pg_world s3"
    using r(4) by (auto simp: query_at_success)
  have world: "pg_world s4 = pg_world s"
    using same_worldD [OF same_world_steps(1) r(1)] same_worldD [OF same_world_begin(2) r(2)]
      same_worldD [OF same_world_reading r(3)] clock by simp
  have s2: "pg_tx s2 = pg_db s"
    using authTx_view [OF r(1)] leavesD [OF leaves_steps(6) r(2), of id] by simp
  from r(3) obtain d row where x: "x = (d, dl_generation row)" "control_delivery (pg_tx s2) = Some row"
      "pb_decode_delivery env (dl_document row) = Some d" "valid_delivery env d" "pg_tx s3 = pg_tx s2"
    by (rule readDelivery_success)
  have s4: "pg_tx s4 = pg_db s" using x(5) s2 clock by simp
  have s6: "control_delivery (pg_tx s6) = Some row"
    using leavesD [OF leaves_tick_rooms [OF apart_parts(1)] tick] deliveryView_success [OF r(5)] s4 x(2) s2 by simp
  obtain d' changed where y: "y = (d', changed)" by (cases y)
  show thesis
  proof (rule that [of row d v "pg_step s4" now s5 d' changed s6])
    show "control_delivery (pg_db s) = Some row" using x(2) s2 by simp
    show "node_report env (pg_db s) (w_clock (pg_world s) (pg_step s4)) (dl_generation row) node m"
      if "dv_State v = ''applied''" "reports v node room q m" for node room q m
      using reports_row [OF r(5) that] s4 world x(1) by (simp add: clock_of_def)
    show "tick_rooms env now v 0 (rooms_of (d_Config d)) d False s5 = (Inr (d', changed), s6)"
      using tick x(1) y by simp
    show "control_delivery (pg_db s') = Some row" if "\<not> changed"
      using that sign y s6 s' by (simp add: ret_success)
    show "valid_delivery env d' \<and> map_option dl_document (control_delivery (pg_db s')) = Some (ce_jsonb env (ce_delivery_bytes env d'))"
      if changed
    proof -
      from that sign y x(1) have "sign env d' (dl_generation row) now s6 = (Inr (), s7)" by simp
      then show ?thesis
        by (rule sign_success) (use upd_delivery_effect [OF _ s6] s' in fastforce)
    qed
  qed (use x in auto)
qed


text \<open>A published room that drains, with both nodes reporting; its delivery before and after the tick.\<close>

definition drain_delivery :: "int \<Rightarrow> string \<Rightarrow> Delivery" where
  "drain_delivery revision mode = WR_Control_Props.demo_delivery\<lparr>d_Runtimes := [\<lparr>rr_RoomID = ''sale'',
     rr_Runtime = (InitialRuntime demo_room)\<lparr>rt_Revision := revision, rt_Mode := mode\<rparr>\<rparr>]\<rparr>"

definition drain_bytes :: "Delivery \<Rightarrow> string" where
  "drain_bytes d = (if d = drain_delivery 3 ''DRAINING'' then ''{1'' else if d = drain_delivery 4 ''OFF'' then ''{2'' else ''{3'')"

definition drain_decode :: "string \<Rightarrow> Delivery option" where
  "drain_decode x = (if x = ''{1'' then Some (drain_delivery 3 ''DRAINING'') else if x = ''{2'' then Some (drain_delivery 4 ''OFF'') else None)"

definition drain_metrics :: RoomMetrics where
  "drain_metrics = zero_RoomMetrics\<lparr>rm_RoomID := ''sale'', rm_Revision := 3, rm_Epoch := 1, rm_Mode := ''DRAINING'',
     rm_OriginHealthy := True, rm_ArrivalWindowReady := True, rm_ArrivalsFiveMinutes := 25\<rparr>"

definition drain_env :: PubEnv where
  "drain_env = demo_pub\<lparr>ce_parse := demo_parse, ce_images := no_images, ce_delivery_bytes := drain_bytes,
     pb_decode_delivery := drain_decode, pb_decode_metrics := \<lambda>_. Some [drain_metrics],
     pb_trust := demo_signer\<lparr>te_snapshot := (te_snapshot demo_signer)\<lparr>jc_Marshal := \<lambda>_. Some ''S''\<rparr>\<rparr>\<rparr>"

definition drain_db :: DB where
  "drain_db = demo_published_db\<lparr>control_delivery := Some \<lparr>dl_generation = 2, dl_document = ''{1'', dl_signed = None\<rparr>,
     control_nodes := map (\<lambda>i. (i, \<lparr>nd_generation = 2, nd_digest = [], nd_observed = 80000000000, nd_metrics = ''m''\<rparr>))
       [''coordinator'', ''gateway'']\<rparr>"

lemma drain_env_simps [simp]:
  "ce_parse drain_env = demo_parse" "ce_images drain_env = no_images" "ce_delivery_bytes drain_env = drain_bytes"
  "pb_decode_delivery drain_env = drain_decode" "pb_decode_metrics drain_env x = Some [drain_metrics]"
  "pb_trust drain_env = demo_signer\<lparr>te_snapshot := (te_snapshot demo_signer)\<lparr>jc_Marshal := \<lambda>_. Some ''S''\<rparr>\<rparr>"
  "pe_sha drain_env = (\<lambda>_. demo_hash)" "ce_decode_config drain_env = demo_cdecode" "ce_jsonb drain_env = (\<lambda>b. b)"
  "pb_kid drain_env = ''config-v1''" "pb_key drain_env = replicate 64 (CHR ''s'')" "pb_installation drain_env = ''home''"
  using demo_simps [OF demo_pub_like] by (simp_all add: drain_env_def)

lemma drain_valid:
  assumes "1 \<le> revision" "revision < 9007199254740990" "mode \<in> set [''DRAINING'', ''OFF'']"
  shows "valid_delivery drain_env (drain_delivery revision mode)"
proof -
  have "Limits_Validate (r_Limits demo_room) ''standard-10k'' = None" using demo_settings by blast
  with demo_config_valid assms show ?thesis
    by (auto simp: valid_delivery_def Delivery_Validate_def drain_delivery_def WR_Control_Props.demo_delivery_def
        WR_Control_Props.demo_config_def rooms_of_def demo_room_def Runtime_Validate_def InitialRuntime_def)
qed

lemma drain_config [simp]:
  "d_Config (drain_delivery v m) = WR_Control_Props.demo_config"
  "d_Runtimes (drain_delivery v m) = [\<lparr>rr_RoomID = ''sale'', rr_Runtime = (InitialRuntime demo_room)\<lparr>rt_Revision := v, rt_Mode := m\<rparr>\<rparr>]"
  by (simp_all add: drain_delivery_def WR_Control_Props.demo_delivery_def)

lemma drain_codec [simp]:
  "drain_bytes (drain_delivery 3 ''DRAINING'') = ''{1''" "drain_bytes (drain_delivery 4 ''OFF'') = ''{2''"
  "drain_decode ''{1'' = Some (drain_delivery 3 ''DRAINING'')" "drain_decode ''{2'' = Some (drain_delivery 4 ''OFF'')"
proof -
  have "rt_Mode (rr_Runtime (d_Runtimes (drain_delivery 3 ''DRAINING'') ! 0)) \<noteq> rt_Mode (rr_Runtime (d_Runtimes (drain_delivery 4 ''OFF'') ! 0))"
    by simp
  then have "drain_delivery 4 ''OFF'' \<noteq> drain_delivery 3 ''DRAINING''" by metis
  then show "drain_bytes (drain_delivery 3 ''DRAINING'') = ''{1''" "drain_bytes (drain_delivery 4 ''OFF'') = ''{2''"
      "drain_decode ''{1'' = Some (drain_delivery 3 ''DRAINING'')" "drain_decode ''{2'' = Some (drain_delivery 4 ''OFF'')"
    by (simp_all add: drain_bytes_def drain_decode_def)
qed

lemma drain_round_trip: "drain_decode (drain_bytes x) = Some y \<Longrightarrow> y = x"
  by (auto simp: drain_decode_def drain_bytes_def split: if_splits)

lemma drain_nodes: "node_views drain_env 90000000000 (sort_key fst (control_nodes drain_db)) =
  Some (map (\<lambda>i. \<lparr>nv_ID = i, nv_Generation = 2, nv_ObservedAt = 80000000000, nv_Fresh = True, nv_Rooms = [drain_metrics]\<rparr>)
    [''coordinator'', ''gateway''])"
proof -
  have "sort_key fst [(''coordinator'', x), (''gateway'', x)] = [(''coordinator'', x), (''gateway'', x)]" for x :: NodeRow
    by simp
  then show ?thesis by (simp add: drain_db_def)
qed

lemma drain_sign:
  "sign drain_env (drain_delivery 4 ''OFF'') 2 90000000000 s =
     exec Unavailable (upd_delivery ''{2'' 3 ''E'' 90000000000 (90000000000 + hours 24)) s"
proof -
  have names: "safe_name ''home''" "safe_name ''config-v1''" by code_simp+
  have enc: "raw_url_encode (replicate 3 (CHR 0x00)) = ''AAAA''" by code_simp
  let ?s = "next_snapshot drain_env (drain_delivery 4 ''OFF'') 2 90000000000"
  have "structural (pb_trust drain_env) ?s"
    using names by (simp add: structural_def next_snapshot_def uint64_def i64_def unix_def hours_def demo_signer_def
        WR_Control_Props.demo_config_def)
  then have "Sign_snapshot (pb_trust drain_env) (pb_key drain_env) ?s = Inr ''E''"
    using enc by (simp add: Sign_snapshot_def) (simp add: demo_signer_def trust_max_bytes_def)
  then show ?thesis
    using drain_valid [of 4 "''OFF''"] by (simp add: sign_def i64_def)
qed

lemma drain_safe:
  assumes "dv_State v = ''applied''"
    and "dv_Nodes v = map (\<lambda>i. \<lparr>nv_ID = i, nv_Generation = 2, nv_ObservedAt = 80000000000, nv_Fresh = True, nv_Rooms = [drain_metrics]\<rparr>)
       [''coordinator'', ''gateway'']"
  shows "safeDrain v ''sale'' ((InitialRuntime demo_room)\<lparr>rt_Revision := 3, rt_Mode := ''DRAINING''\<rparr>)"
  using assms by (simp add: safeDrain_def drain_report_def drain_metrics_def zero_RoomMetrics_def InitialRuntime_def demo_room_def i64_def)

lemma drain_tick:
  "\<exists>s'. Tick drain_env (demo_pg drain_db) = (Inr (), s') \<and>
     map_option dl_document (control_delivery (pg_db s')) = Some ''{2''"
proof -
  define v where "v = \<lparr>dv_Generation = 2, dv_Revision = 1, dv_State = ''applied'', dv_Config = WR_Control_Props.demo_config,
     dv_Runtimes = d_Runtimes (drain_delivery 3 ''DRAINING''),
     dv_Nodes = map (\<lambda>i. \<lparr>nv_ID = i, nv_Generation = 2, nv_ObservedAt = 80000000000, nv_Fresh = True, nv_Rooms = [drain_metrics]\<rparr>)
       [''coordinator'', ''gateway'']\<rparr>"
  have view: "deliveryView drain_env (drain_delivery 3 ''DRAINING'') 2 s = (Inr v, s\<lparr>pg_step := Suc (pg_step s)\<rparr>)"
    if "s = (demo_pg drain_db)\<lparr>pg_step := n\<rparr>" for s n
    using drain_nodes that
    by (simp add: deliveryView_def demo_tx demo_pg_def view_state_def WR_Control_Props.demo_config_def v_def)
  let ?old = "(InitialRuntime demo_room)\<lparr>rt_Revision := 3, rt_Mode := ''DRAINING''\<rparr>"
  have room: "rooms_of WR_Control_Props.demo_config = [demo_room]" "Active demo_room" "r_ID demo_room = ''sale''"
      "EventState ?old = ''none''"
    by (simp_all add: rooms_of_def WR_Control_Props.demo_config_def demo_room_def InitialRuntime_def)
  have changed: "?old\<lparr>rt_Mode := ''OFF'', EventState := ''none''\<rparr> \<noteq> ?old" by (simp add: InitialRuntime_def)
  have new: "(drain_delivery 3 ''DRAINING'')\<lparr>d_Runtimes := [\<lparr>rr_RoomID = ''sale'', rr_Runtime =
      ?old\<lparr>rt_Mode := ''OFF'', EventState := ''none'', rt_Revision := 4\<rparr>\<rparr>]\<rparr> = drain_delivery 4 ''OFF''"
    by (simp add: drain_delivery_def InitialRuntime_def)
  have dig: "is_digest (hex_encode demo_hash)" by code_simp
  have none: "control_events drain_db = []" by (simp add: drain_db_def demo_published_db_def demo_session_db_def demo_db_def)
  have events: "readEvents ''sale'' ((demo_pg drain_db)\<lparr>pg_step := n\<rparr>) = (Inr [], (demo_pg drain_db)\<lparr>pg_step := Suc n\<rparr>)" for n
    by (simp add: readEvents_def events_of_def demo_tx demo_pg_def none)
  have off: "finish_drain v ''sale'' None ?old s = (Inr (?old\<lparr>rt_Mode := ''OFF'', EventState := ''none''\<rparr>), s)" for s
    using drain_safe [of v] by (simp add: finish_drain_def ret_def v_def)
  have tick: "\<exists>m rows. tick_rooms drain_env 90000000000 v 0 [demo_room] (drain_delivery 3 ''DRAINING'') False
      ((demo_pg drain_db)\<lparr>pg_step := n\<rparr>) = (Inr (drain_delivery 4 ''OFF'', True),
        (demo_pg drain_db)\<lparr>pg_step := m, pg_tx := drain_db\<lparr>control_audit := rows\<rparr>\<rparr>)" for n
    using room changed new dig
    by (simp add: tick_room_def seq_def events active_event_def advance_event_def ret_def off i64_def Let_def)
      (simp add: demo_tx demo_pg_def new_token_def NewCSRFToken_def ins_audit_def digest_def, intro exI, rule refl)
  have doc: "control_config drain_db = Some \<lparr>co_revision = 0, co_document = ''seu,0''\<rparr>"
      "control_delivery drain_db = Some \<lparr>dl_generation = 2, dl_document = ''{1'', dl_signed = None\<rparr>"
    by (simp_all add: drain_db_def demo_published_db_def demo_session_db_def)
  have dec: "demo_cdecode ''seu,0'' = Some (WR_Command_Props.demo_config 0)" by code_simp
  have read: "readConfig drain_env ((demo_pg drain_db)\<lparr>pg_step := n\<rparr>) =
      (Inr (WR_Command_Props.demo_config 0), (demo_pg drain_db)\<lparr>pg_step := Suc n\<rparr>)"
    "readDelivery drain_env ((demo_pg drain_db)\<lparr>pg_step := n\<rparr>) =
      (Inr (drain_delivery 3 ''DRAINING'', 2), (demo_pg drain_db)\<lparr>pg_step := Suc n\<rparr>)"
    "authTx drain_env (demo_pg drain_db) = (Inr (), (demo_pg drain_db)\<lparr>pg_step := 2\<rparr>)"
    "read_clock Unavailable ((demo_pg drain_db)\<lparr>pg_step := n\<rparr>) = (Inr 90000000000, (demo_pg drain_db)\<lparr>pg_step := Suc n\<rparr>)" for n
    using drain_valid [of 3 "''DRAINING''"] demo_valid [of 0] dec
    by (simp_all add: readConfig_def readDelivery_def authTx_def demo_tx demo_pg_def doc)
  from tick obtain m rows where "tick_rooms drain_env 90000000000 v 0 [demo_room] (drain_delivery 3 ''DRAINING'') False
      ((demo_pg drain_db)\<lparr>pg_step := 6\<rparr>) = (Inr (drain_delivery 4 ''OFF'', True),
        (demo_pg drain_db)\<lparr>pg_step := m, pg_tx := drain_db\<lparr>control_audit := rows\<rparr>\<rparr>)" by blast
  then show ?thesis
    by (simp add: Tick_def seq_def read view room drain_sign)
      (simp add: demo_tx demo_pg_def upd_delivery_def doc)
qed


end
