(* ===== verification/WR_Enroll.thy ===== *)
theory WR_Enroll
  imports WR_Login
begin

text \<open>
  How accounts come into being and get a second factor (\<open>internal/adminauth/pgstore\<close>): the first
  administrator (\<open>bootstrap.go\<close>), the registration of a TOTP secret with its ten recovery codes
  (\<open>enrollment.go\<close>), the use of a recovery code in place of a TOTP code (\<open>recovery.go\<close>) and the limit on
  authentication requests (\<open>http_limit.go\<close>). What a key derivation meets is an input, as in \<open>WR_Login\<close>;
  the deadlines of the services are failing calls.
\<close>

section \<open>Passwords and random values\<close>

definition drawn :: "pg_error + 'a \<Rightarrow> 'a option" where
  "drawn r = (case r of Inl _ \<Rightarrow> None | Inr x \<Rightarrow> Some x)"

definition auth_result :: "auth_error + 'a \<Rightarrow> pg_error + 'a" where
  "auth_result r = (case r of Inl e \<Rightarrow> Inl (AuthErr e) | Inr x \<Rightarrow> Inr x)"

definition hash_password :: "'z LoginEnv_scheme \<Rightarrow> Derivation \<Rightarrow> string \<Rightarrow> string pg" where
  "hash_password env dv password =
     seq (attempt (random Unavailable 16)) (\<lambda>salt.
     of_sum (auth_result (Hash (le_argon env) dv (drawn salt) (le_hasher env) password)))"

section \<open>The first administrator (bootstrap.go)\<close>

definition upd_bootstrap :: "(BootstrapRow \<Rightarrow> BootstrapRow) \<Rightarrow> DB \<Rightarrow> (unit \<times> DB) option" where
  "upd_bootstrap f db = Some ((), db\<lparr>auth_bootstrap := map_option f (auth_bootstrap db)\<rparr>)"

definition IssueBootstrapToken :: "'z PgEnv_scheme \<Rightarrow> string pg" where
  "IssueBootstrapToken env =
     seq (authTx env) (\<lambda>_.
     seq (query Unavailable Unavailable (\<lambda>db. map_option bt_completed (auth_bootstrap db))) (\<lambda>completed.
     seq (refuse_if completed Unauthenticated) (\<lambda>_.
     seq (query Unavailable Unavailable (\<lambda>db. Some (auth_accounts db \<noteq> []))) (\<lambda>exist.
     seq (refuse_if exist Unauthenticated) (\<lambda>_.
     seq (new_token env Unavailable) (\<lambda>(raw, hash).
     seq (exec_at Unavailable (\<lambda>now. upd_bootstrap (\<lambda>b.
        b\<lparr>bt_generation := bt_generation b + 1, bt_token := Some (hash, now + minutes 15)\<rparr>))) (\<lambda>_.
     seq (commit Unavailable) (\<lambda>_.
     ret raw))))))))"

record bootstrapSnapshot =
  bs_generation :: int
  bs_policy :: AuthPolicy

definition bootstrap_row :: "string \<Rightarrow> int \<Rightarrow> DB \<Rightarrow> bootstrapSnapshot option" where
  "bootstrap_row hash now db =
     (case (auth_bootstrap db, auth_policy db) of
        (Some b, Some p) \<Rightarrow>
          (case bt_token b of
             None \<Rightarrow> None
           | Some (h, expires) \<Rightarrow>
               if \<not> bt_completed b \<and> h = hash \<and> expires > now \<and> auth_accounts db = []
               then Some \<lparr>bs_generation = bt_generation b, bs_policy = p\<rparr> else None)
      | _ \<Rightarrow> None)"

definition read_bootstrap :: "string \<Rightarrow> bootstrapSnapshot pg" where
  "read_bootstrap hash =
     seq (pool_query Unauthenticated Unavailable (bootstrap_row hash)) (\<lambda>b.
     if AuthPolicy_Validate (bs_policy b) \<noteq> None then throw Unavailable else ret b)"

definition setupApplied :: "unit pg" where
  "setupApplied =
     seq (pool_query Unavailable Unavailable (\<lambda>now db. map_option (\<lambda>s. su_report s \<noteq> None) (installation_setup db))) (\<lambda>applied.
     refuse_if (\<not> applied) ErrSetupReview)"

definition ins_account :: "string \<Rightarrow> Role \<Rightarrow> DB \<Rightarrow> (unit \<times> DB) option" where
  "ins_account user role db =
     (if \<not> safeID user \<or> role \<notin> set [''admin'', ''operator'', ''viewer''] \<or> map_of (auth_accounts db) user \<noteq> None then None
      else Some ((), db\<lparr>auth_accounts := auth_accounts db @
        [(user, \<lparr>ar_role = role, ar_enabled = True, ar_session_version = 1, ar_deleted = False\<rparr>)]\<rparr>))"

definition ins_password :: "string \<Rightarrow> string \<Rightarrow> DB \<Rightarrow> (unit \<times> DB) option" where
  "ins_password user hash db =
     (if map_of (auth_accounts db) user = None \<or> length hash < 1 \<or> length hash > 160 \<or>
         map_of (auth_password_credentials db) user \<noteq> None then None
      else Some ((), db\<lparr>auth_password_credentials := auth_password_credentials db @
        [(user, \<lparr>pr_version = 1, pr_hash = hash\<rparr>)]\<rparr>))"

text \<open>The recheck under the locks: whether the token that was presented is still the current one.\<close>

definition bootstrap_valid :: "bootstrapSnapshot \<Rightarrow> string \<Rightarrow> int \<Rightarrow> DB \<Rightarrow> bool option" where
  "bootstrap_valid before hash now db =
     (case auth_bootstrap db of
        None \<Rightarrow> None
      | Some b \<Rightarrow>
          map_option (\<lambda>(h, expires). bt_generation b = bs_generation before \<and> h = hash \<and> expires > now \<and> auth_accounts db = [])
            (bt_token b))"

definition first_grant :: "'z LoginEnv_scheme \<Rightarrow> AuthPolicy \<Rightarrow> string \<Rightarrow> LoginResult pg" where
  "first_grant env policy user =
     (if TOTPEnabled policy then
        seq (issueEnrollment env user (po_Version policy) 1) (\<lambda>(enrollment, expires).
        ret (no_login\<lparr>lr_enrollment := enrollment, lr_expiresAt := expires\<rparr>))
      else
        seq (issuePasswordSession env user (po_Version policy) 1) (\<lambda>grant. ret (no_login\<lparr>lr_grant := grant\<rparr>)))"

definition finishBootstrap ::
  "'z LoginEnv_scheme \<Rightarrow> string \<Rightarrow> string \<Rightarrow> string \<Rightarrow> bootstrapSnapshot \<Rightarrow> LoginResult pg" where
  "finishBootstrap env hash user password before =
     seq (authTx env) (\<lambda>_.
     seq (query Unavailable Unavailable auth_policy) (\<lambda>policy.
     seq (refuse_if (AuthPolicy_Validate policy \<noteq> None) Unavailable) (\<lambda>_.
     seq (refuse_if (policy \<noteq> bs_policy before) Unauthenticated) (\<lambda>_.
     seq (query Unavailable Unavailable (\<lambda>db. map_option bt_completed (auth_bootstrap db))) (\<lambda>completed.
     seq (refuse_if completed Unauthenticated) (\<lambda>_.
     seq (query_at Unauthenticated Unavailable (bootstrap_valid before hash)) (\<lambda>valid.
     seq (refuse_if (\<not> valid) Unauthenticated) (\<lambda>_.
     seq (exec Unavailable (ins_account user ''admin'')) (\<lambda>_.
     seq (exec Unavailable (ins_password user password)) (\<lambda>_.
     seq (first_grant env policy user) (\<lambda>result.
     seq (exec Unavailable (upd_bootstrap (\<lambda>b. b\<lparr>bt_completed := True, bt_token := None\<rparr>))) (\<lambda>_.
     seq (auditAuth env user ''auth.bootstrap'' ''admin_created'') (\<lambda>_.
     seq (commit Unavailable) (\<lambda>_.
     ret result))))))))))))))"

text \<open>
  \<open>local\<close> says whether the peer of the socket is a valid loopback address without a zone,
  \<open>installation\<close> whether the service waits for an applied setup.
\<close>

definition Bootstrap ::
  "'z LoginEnv_scheme \<Rightarrow> bool \<Rightarrow> Derivation \<Rightarrow> string \<Rightarrow> string \<Rightarrow> string \<Rightarrow> bool \<Rightarrow> LoginResult pg" where
  "Bootstrap env installation dv installToken user password local =
     (if \<not> local \<or> \<not> safeID user \<or> \<not> ValidLoginPassword password then throw Unauthenticated
      else case tokenHash env installToken of
        None \<Rightarrow> throw Unauthenticated
      | Some hash \<Rightarrow>
          seq (read_bootstrap hash) (\<lambda>before.
          seq (if installation then setupApplied else ret ()) (\<lambda>_.
          seq (hash_password env dv password) (\<lambda>passwordHash.
          finishBootstrap env hash user passwordHash before))))"

section \<open>Registration of a second factor (enrollment.go)\<close>

record EnrollmentSetup =
  eu_secret :: Secret
  eu_expires :: int

record EnrollmentGrant =
  eg_grant :: Grant
  eg_recovery :: "string list"

record enrollmentState =
  es_ref :: CredentialRef
  es_policy :: nat
  es_attempts :: nat
  es_secret :: "(string \<times> string) option"
  es_expires :: int
  es_now :: int

text \<open>While the policy is off, only an enrollment that a live administrator session asked for is permitted.\<close>

definition enrollment_permitted :: "AuthPolicy \<Rightarrow> string \<Rightarrow> int \<Rightarrow> DB \<Rightarrow> bool" where
  "enrollment_permitted p hash now db =
     (case map_of (auth_policy_enrollments db) hash of
        None \<Rightarrow> False
      | Some session \<Rightarrow>
          (case (map_of (auth_sessions db) session, map_of (auth_enrollment_challenges db) hash) of
             (Some s, Some c) \<Rightarrow>
               (case map_of (auth_accounts db) (sr_user s) of
                  None \<Rightarrow> False
                | Some a \<Rightarrow> en_user c = sr_user s \<and> ar_role a = ''admin'' \<and> ar_enabled a \<and>
                    sr_policy_version s = po_Version p \<and> sr_user_version s = ar_session_version a \<and>
                    sr_created s \<le> now \<and> sr_last_seen s \<ge> sr_created s \<and> sr_last_seen s \<le> now \<and>
                    sr_created s > now - SessionAbsoluteTTL \<and> sr_last_seen s > now - SessionIdleTTL)
           | _ \<Rightarrow> False))"

definition loadEnrollment :: "bool \<Rightarrow> string \<Rightarrow> enrollmentState pg" where
  "loadEnrollment policyEnrollment hash =
     seq (query Unavailable Unavailable auth_policy) (\<lambda>p.
     seq (refuse_if (AuthPolicy_Validate p \<noteq> None) Unavailable) (\<lambda>_.
     seq (if TOTPEnabled p then ret ()
          else
            seq (refuse_if (\<not> policyEnrollment) InvalidOrReplayed) (\<lambda>_.
            seq (query_at Unavailable Unavailable (\<lambda>now db. Some (enrollment_permitted p hash now db))) (\<lambda>permitted.
            refuse_if (\<not> permitted) InvalidOrReplayed))) (\<lambda>_.
     seq (query InvalidOrReplayed Unavailable (\<lambda>db. map_option en_user (map_of (auth_enrollment_challenges db) hash))) (\<lambda>user.
     seq (query InvalidOrReplayed Unavailable (\<lambda>db. map_of (auth_accounts db) user)) (\<lambda>a.
     seq (refuse_if (\<not> ar_enabled a \<or> AdminCapabilities (ar_role a) = []) InvalidOrReplayed) (\<lambda>_.
     seq (query Unavailable Unavailable (\<lambda>db. Some (map_of (auth_totp_credentials db) user \<noteq> None))) (\<lambda>existing.
     seq (refuse_if existing InvalidOrReplayed) (\<lambda>_.
     seq (query InvalidOrReplayed Unavailable (\<lambda>db. map_of (auth_enrollment_challenges db) hash)) (\<lambda>c.
     seq (read_clock Unavailable) (\<lambda>now.
     seq (refuse_if (en_user c \<noteq> user \<or> en_user_version c \<noteq> ar_session_version a \<or> en_policy_version c \<noteq> po_Version p \<or>
        en_consumed c \<or> now < en_created c \<or> \<not> now < en_expires c) InvalidOrReplayed) (\<lambda>_.
     ret \<lparr>es_ref = \<lparr>cf_UserID = user, cf_Version = en_user_version c\<rparr>, es_policy = po_Version p,
          es_attempts = en_attempts c, es_secret = en_secret c, es_expires = en_expires c, es_now = now\<rparr>)))))))))))"

definition upd_enrollment ::
  "string \<Rightarrow> (int \<Rightarrow> EnrollmentRow \<Rightarrow> bool) \<Rightarrow> (EnrollmentRow \<Rightarrow> EnrollmentRow) \<Rightarrow> int \<Rightarrow> DB \<Rightarrow> (nat \<times> DB) option" where
  "upd_enrollment hash P f now db =
     (case map_of (auth_enrollment_challenges db) hash of
        None \<Rightarrow> Some (0, db)
      | Some r \<Rightarrow>
          if \<not> P now r then Some (0, db)
          else if en_attempts (f r) > 5 \<or>
            (case en_secret (f r) of None \<Rightarrow> False | Some (kid, sealed) \<Rightarrow> \<not> safeKeyID kid \<or> length sealed \<noteq> 60) then None
          else Some (1, db\<lparr>auth_enrollment_challenges := AList.update hash (f r) (auth_enrollment_challenges db)\<rparr>))"

definition Begin :: "'z LoginEnv_scheme \<Rightarrow> string \<Rightarrow> bool \<Rightarrow> string \<Rightarrow> EnrollmentSetup pg" where
  "Begin env keyID policyEnrollment token =
     (case tokenHash env token of
        None \<Rightarrow> throw InvalidOrReplayed
      | Some hash \<Rightarrow>
          seq (authTx env) (\<lambda>_.
          seq (loadEnrollment policyEnrollment hash) (\<lambda>st.
          seq (refuse_if (es_attempts st \<ge> 5) InvalidOrReplayed) (\<lambda>_.
          seq (case es_secret st of
                 None \<Rightarrow>
                   seq (random Unavailable 20) (\<lambda>key.
                   let secret = the (NewSecret (Some key)) in
                   seq (attempt (random Unavailable 12)) (\<lambda>nonce.
                   seq (of_sum (sealEnrollment env (es_ref st) keyID hash secret (drawn nonce))) (\<lambda>sealed.
                   seq (exec_at Unavailable (upd_enrollment hash (\<lambda>now r. en_expires r > now)
                      (\<lambda>r. r\<lparr>en_secret := Some (keyID, sealed)\<rparr>))) (\<lambda>rows.
                   seq (refuse_if (rows \<noteq> 1) InvalidOrReplayed) (\<lambda>_. ret secret)))))
               | Some (kid, sealed) \<Rightarrow> of_sum (openEnrollment env (es_ref st) kid hash sealed)) (\<lambda>secret.
          seq (commit Unavailable) (\<lambda>_.
          ret \<lparr>eu_secret = secret, eu_expires = es_expires st\<rparr>))))))"

record enrollmentAttempt =
  ea_hash :: string
  ea_ref :: CredentialRef
  ea_policy :: nat
  ea_number :: nat

definition enrollment_reserve :: "'z LoginEnv_scheme \<Rightarrow> bool \<Rightarrow> string \<Rightarrow> enrollmentAttempt pg" where
  "enrollment_reserve env policyEnrollment hash =
     seq (authTx env) (\<lambda>_.
     seq (loadEnrollment policyEnrollment hash) (\<lambda>st.
     seq (refuse_if (es_secret st = None \<or> es_attempts st \<ge> 5) InvalidOrReplayed) (\<lambda>_.
     seq (exec_at Unavailable (upd_enrollment hash (\<lambda>now r. en_expires r > now) (\<lambda>r. r\<lparr>en_attempts := en_attempts r + 1\<rparr>))) (\<lambda>rows.
     seq (refuse_if (rows \<noteq> 1) InvalidOrReplayed) (\<lambda>_.
     seq (commit Unavailable) (\<lambda>_.
     ret \<lparr>ea_hash = hash, ea_ref = es_ref st, ea_policy = es_policy st, ea_number = es_attempts st + 1\<rparr>))))))"

text \<open>Ten codes with their hashes; \<open>dvs\<close> gives what each key derivation meets.\<close>

fun prepare_codes :: "'z LoginEnv_scheme \<Rightarrow> (nat \<Rightarrow> Derivation) \<Rightarrow> nat list \<Rightarrow> (string \<times> string) list pg" where
  "prepare_codes env dvs [] = ret []"
| "prepare_codes env dvs (i # rest) =
     seq (new_token env Unavailable) (\<lambda>(raw, _).
     seq (hash_password env (dvs i) (''wr-recovery-v1:'' @ raw)) (\<lambda>hash.
     seq (prepare_codes env dvs rest) (\<lambda>codes. ret ((raw, hash) # codes))))"

definition prepareRecovery :: "'z LoginEnv_scheme \<Rightarrow> (nat \<Rightarrow> Derivation) \<Rightarrow> (string \<times> string) list pg" where
  "prepareRecovery env dvs = prepare_codes env dvs [0..<10]"

definition sixDigits :: "string \<Rightarrow> bool" where
  "sixDigits code \<longleftrightarrow> length code = 6 \<and> list_all is_digit code"

definition ins_credential :: "string \<Rightarrow> TotpRow \<Rightarrow> DB \<Rightarrow> (unit \<times> DB) option" where
  "ins_credential user t db =
     (if map_of (auth_accounts db) user = None \<or> map_of (auth_totp_credentials db) user \<noteq> None \<or> tr_version t = 0 \<or>
         length (tr_key_id t) < 1 \<or> length (tr_key_id t) > 64 \<or> length (tr_sealed t) \<noteq> 60 \<or> tr_last_counter t < -1 then None
      else Some ((), db\<lparr>auth_totp_credentials := auth_totp_credentials db @ [(user, t)]\<rparr>))"

definition ins_recovery :: "string \<Rightarrow> nat \<Rightarrow> nat \<Rightarrow> string \<Rightarrow> DB \<Rightarrow> (unit \<times> DB) option" where
  "ins_recovery user version slot hash db =
     (if map_option tr_version (map_of (auth_totp_credentials db) user) \<noteq> Some version \<or> slot < 1 \<or> slot > 10 \<or>
         length hash < 1 \<or> length hash > 160 \<or> map_of (auth_recovery_codes db) (user, version, slot) \<noteq> None then None
      else Some ((), db\<lparr>auth_recovery_codes := auth_recovery_codes db @
        [((user, version, slot), \<lparr>rc_hash = hash, rc_consumed = False\<rparr>)]\<rparr>))"

fun store_codes :: "CredentialRef \<Rightarrow> nat \<Rightarrow> string list \<Rightarrow> unit pg" where
  "store_codes ref slot [] = ret ()"
| "store_codes ref slot (hash # rest) =
     seq (exec Unavailable (ins_recovery (cf_UserID ref) (cf_Version ref) slot hash)) (\<lambda>_. store_codes ref (slot + 1) rest)"

record enrollmentConsumer =
  ec_attempt :: enrollmentAttempt
  ec_keyID :: string
  ec_sealed :: string
  ec_hashes :: "string list"
  ec_sessionHash :: string
  ec_csrfHash :: string

definition enrollment_consume :: "'z LoginEnv_scheme \<Rightarrow> enrollmentConsumer \<Rightarrow> CredentialRef \<Rightarrow> nat \<Rightarrow> bool pg" where
  "enrollment_consume env c ref counter =
     (if ref \<noteq> ea_ref (ec_attempt c) \<or> int counter > 9223372036854775807 then ret False
      else
        seq (exec_at Unavailable (upd_enrollment (ea_hash (ec_attempt c))
           (\<lambda>now r. \<not> en_consumed r \<and> ea_number (ec_attempt c) \<le> en_attempts r \<and> en_attempts r \<le> 5 \<and> en_created r \<le> now \<and> en_expires r > now)
           (\<lambda>r. r\<lparr>en_consumed := True, en_secret := None\<rparr>))) (\<lambda>rows.
        seq (refuse_if (rows \<noteq> 1) Unavailable) (\<lambda>_.
        seq (exec Unavailable (ins_credential (cf_UserID ref) \<lparr>tr_version = cf_Version ref, tr_key_id = ec_keyID c,
           tr_sealed = ec_sealed c, tr_last_counter = int counter\<rparr>)) (\<lambda>_.
        seq (store_codes ref 1 (ec_hashes c)) (\<lambda>_.
        seq (exec Unavailable (\<lambda>db. Some ((), del_sessions (\<lambda>(k, r). sr_user r = cf_UserID ref) db))) (\<lambda>_.
        seq (exec Unavailable (\<lambda>db. Some ((), consume_challenges (cf_UserID ref) db))) (\<lambda>_.
        seq (exec Unavailable (\<lambda>db. Some ((), consume_enrollments (\<lambda>r. en_user r = cf_UserID ref) db))) (\<lambda>_.
        seq (exec_at Unavailable (\<lambda>t. ins_session (ec_sessionHash c) \<lparr>sr_csrf = ec_csrfHash c, sr_user = cf_UserID ref,
           sr_policy_version = ea_policy (ec_attempt c), sr_user_version = cf_Version ref, sr_mfa = True, sr_created = t,
           sr_last_seen = t\<rparr>)) (\<lambda>_.
        seq (auditAuth env (cf_UserID ref) ''auth.totp.enroll'' ''enrolled'') (\<lambda>_.
        seq (commit Unavailable) (\<lambda>_.
        ret True)))))))))))"

definition enrollment_finish ::
  "'z LoginEnv_scheme \<Rightarrow> string \<Rightarrow> bool \<Rightarrow> enrollmentAttempt \<Rightarrow> string \<Rightarrow> (string \<times> string) list \<Rightarrow> EnrollmentGrant pg" where
  "enrollment_finish env keyID policyEnrollment attempted code recovery =
     seq (authTx env) (\<lambda>_.
     seq (loadEnrollment policyEnrollment (ea_hash attempted)) (\<lambda>st.
     seq (refuse_if (es_ref st \<noteq> ea_ref attempted \<or> es_policy st \<noteq> ea_policy attempted \<or> ea_number attempted < 1 \<or>
        ea_number attempted > es_attempts st \<or> es_secret st = None) InvalidOrReplayed) (\<lambda>_.
     let (kid, pending) = the (es_secret st) in
     seq (of_sum (openEnrollment env (es_ref st) kid (ea_hash attempted) pending)) (\<lambda>secret.
     seq (attempt (random Unavailable 12)) (\<lambda>nonce.
     seq (of_sum (vault_Seal env (es_ref st) keyID secret (drawn nonce))) (\<lambda>sealed.
     seq (new_token env Unavailable) (\<lambda>(session, sh).
     seq (new_token env Unavailable) (\<lambda>(csrf, ch).
     seq (verify_code env (es_ref st) secret code (es_now st) (enrollment_consume env
        \<lparr>ec_attempt = attempted, ec_keyID = keyID, ec_sealed = sealed, ec_hashes = map snd recovery,
         ec_sessionHash = sh, ec_csrfHash = ch\<rparr>)) (\<lambda>_.
     ret \<lparr>eg_grant = \<lparr>gr_session = session, gr_csrf = csrf\<rparr>, eg_recovery = map fst recovery\<rparr>)))))))))"

definition enrollment_Complete ::
  "'z LoginEnv_scheme \<Rightarrow> string \<Rightarrow> bool \<Rightarrow> (nat \<Rightarrow> Derivation) \<Rightarrow> string \<Rightarrow> string \<Rightarrow> EnrollmentGrant pg" where
  "enrollment_Complete env keyID policyEnrollment dvs token code =
     (case tokenHash env token of
        None \<Rightarrow> throw InvalidOrReplayed
      | Some hash \<Rightarrow>
          seq (enrollment_reserve env policyEnrollment hash) (\<lambda>attempted.
          seq (refuse_if (\<not> sixDigits code) InvalidOrReplayed) (\<lambda>_.
          seq (prepareRecovery env dvs) (\<lambda>recovery.
          enrollment_finish env keyID policyEnrollment attempted code recovery))))"

section \<open>Recovery codes (recovery.go)\<close>

record recoveryState =
  rs_challenge :: string
  rs_ref :: CredentialRef
  rs_role :: Role
  rs_policy :: nat
  rs_userVersion :: nat
  rs_attempts :: nat

definition loadRecovery :: "string \<Rightarrow> recoveryState pg" where
  "loadRecovery hash =
     seq (query Unavailable Unavailable auth_policy) (\<lambda>p.
     seq (refuse_if (AuthPolicy_Validate p \<noteq> None) Unavailable) (\<lambda>_.
     seq (refuse_if (\<not> TOTPEnabled p) InvalidOrReplayed) (\<lambda>_.
     seq (query InvalidOrReplayed Unavailable (\<lambda>db. map_option ch_user (map_of (auth_totp_challenges db) hash))) (\<lambda>user.
     seq (query InvalidOrReplayed Unavailable (\<lambda>db. map_of (auth_accounts db) user)) (\<lambda>a.
     seq (refuse_if (\<not> ar_enabled a \<or> AdminCapabilities (ar_role a) = []) InvalidOrReplayed) (\<lambda>_.
     seq (query InvalidOrReplayed Unavailable (\<lambda>db. map_option tr_version (map_of (auth_totp_credentials db) user))) (\<lambda>version.
     seq (query InvalidOrReplayed Unavailable (\<lambda>db. map_of (auth_totp_challenges db) hash)) (\<lambda>ch.
     seq (read_clock Unavailable) (\<lambda>now.
     seq (refuse_if (ch_user ch \<noteq> user \<or> ch_credential_version ch \<noteq> version \<or> ch_policy_version ch \<noteq> po_Version p \<or>
        ch_user_version ch \<noteq> ar_session_version a \<or> ch_consumed ch \<or> now < ch_created ch \<or> \<not> now < ch_expires ch) InvalidOrReplayed) (\<lambda>_.
     ret \<lparr>rs_challenge = hash, rs_ref = \<lparr>cf_UserID = user, cf_Version = version\<rparr>, rs_role = ar_role a,
          rs_policy = po_Version p, rs_userVersion = ar_session_version a, rs_attempts = ch_attempts ch\<rparr>))))))))))"

definition recovery_rows :: "CredentialRef \<Rightarrow> DB \<Rightarrow> (nat \<times> RecoveryRow) list" where
  "recovery_rows ref db = sort_key fst (map (\<lambda>((u, v, slot), r). (slot, r))
     (filter (\<lambda>((u, v, slot), r). u = cf_UserID ref \<and> v = cf_Version ref) (auth_recovery_codes db)))"

text \<open>The rows must be the slots one to ten, each once.\<close>

fun scan_records :: "nat \<Rightarrow> (nat \<times> RecoveryRow) list \<Rightarrow> RecoveryRow list option" where
  "scan_records n [] = (if n = 10 then Some [] else None)"
| "scan_records n ((slot, r) # rest) =
     (if n \<ge> 10 \<or> slot \<noteq> n + 1 then None else map_option ((#) r) (scan_records (n + 1) rest))"

definition count_recovery :: "string \<Rightarrow> int \<Rightarrow> DB \<Rightarrow> (nat \<times> DB) option" where
  "count_recovery hash now db =
     Some (case map_of (auth_totp_challenges db) hash of
        None \<Rightarrow> (0, db)
      | Some r \<Rightarrow>
          if \<not> ch_consumed r \<and> ch_attempts r < 5 \<and> ch_expires r > now
          then (1, db\<lparr>auth_totp_challenges := AList.update hash (r\<lparr>ch_attempts := ch_attempts r + 1\<rparr>) (auth_totp_challenges db)\<rparr>)
          else (0, db))"

record recoveryAttempt =
  ra_state :: recoveryState
  ra_records :: "RecoveryRow list"
  ra_number :: nat

definition recovery_reserve :: "'z LoginEnv_scheme \<Rightarrow> string \<Rightarrow> recoveryAttempt pg" where
  "recovery_reserve env hash =
     seq (authTx env) (\<lambda>_.
     seq (loadRecovery hash) (\<lambda>st.
     seq (refuse_if (rs_attempts st \<ge> 5) InvalidOrReplayed) (\<lambda>_.
     seq (query Unavailable Unavailable (\<lambda>db. scan_records 0 (recovery_rows (rs_ref st) db))) (\<lambda>records.
     seq (exec_at Unavailable (count_recovery hash)) (\<lambda>rows.
     seq (refuse_if (rows \<noteq> 1) InvalidOrReplayed) (\<lambda>_.
     seq (commit Unavailable) (\<lambda>_.
     ret \<lparr>ra_state = st, ra_records = records, ra_number = rs_attempts st + 1\<rparr>)))))))"

text \<open>Every slot is verified; \<open>slot\<close> is the match so far, zero for none.\<close>

fun match_from ::
  "'z LoginEnv_scheme \<Rightarrow> (nat \<Rightarrow> Derivation) \<Rightarrow> string \<Rightarrow> nat \<Rightarrow> nat \<Rightarrow> RecoveryRow list \<Rightarrow> pg_error + nat" where
  "match_from env dvs raw i slot [] = (if slot = 0 then Inl InvalidOrReplayed else Inr slot)"
| "match_from env dvs raw i slot (r # rest) =
     (case fst (password_Verify (le_argon env) (dvs i) (le_hasher env) (''wr-recovery-v1:'' @ raw) (rc_hash r)) of
        Inl e \<Rightarrow> Inl (AuthErr e)
      | Inr valid \<Rightarrow>
          if valid \<and> \<not> rc_consumed r then
            (if slot \<noteq> 0 then Inl Unavailable else match_from env dvs raw (i + 1) (i + 1) rest)
          else match_from env dvs raw (i + 1) slot rest)"

definition recovery_match :: "'z LoginEnv_scheme \<Rightarrow> (nat \<Rightarrow> Derivation) \<Rightarrow> recoveryAttempt \<Rightarrow> string \<Rightarrow> pg_error + nat" where
  "recovery_match env dvs attempted raw =
     (if tokenHash env raw = None then Inl InvalidOrReplayed else match_from env dvs raw 0 0 (ra_records attempted))"

definition consume_code :: "CredentialRef \<Rightarrow> nat \<Rightarrow> string \<Rightarrow> DB \<Rightarrow> (nat \<times> DB) option" where
  "consume_code ref slot hash db =
     (let k = (cf_UserID ref, cf_Version ref, slot) in
      Some (case map_of (auth_recovery_codes db) k of
         None \<Rightarrow> (0, db)
       | Some r \<Rightarrow>
           if \<not> rc_consumed r \<and> rc_hash r = hash
           then (1, db\<lparr>auth_recovery_codes := AList.update k (r\<lparr>rc_consumed := True\<rparr>) (auth_recovery_codes db)\<rparr>)
           else (0, db)))"

definition consume_recovered :: "string \<Rightarrow> nat \<Rightarrow> int \<Rightarrow> DB \<Rightarrow> (nat \<times> DB) option" where
  "consume_recovered hash number now db =
     Some (case map_of (auth_totp_challenges db) hash of
        None \<Rightarrow> (0, db)
      | Some r \<Rightarrow>
          if \<not> ch_consumed r \<and> number \<le> ch_attempts r \<and> ch_attempts r \<le> 5 \<and> ch_created r \<le> now \<and> ch_expires r > now
          then (1, db\<lparr>auth_totp_challenges := AList.update hash (r\<lparr>ch_consumed := True\<rparr>) (auth_totp_challenges db)\<rparr>)
          else (0, db))"

definition commitRecovery :: "'z LoginEnv_scheme \<Rightarrow> recoveryAttempt \<Rightarrow> nat \<Rightarrow> string \<Rightarrow> string \<Rightarrow> unit pg" where
  "commitRecovery env attempted slot session csrf =
     (let st = ra_state attempted in
      seq (exec Unavailable (consume_code (rs_ref st) slot (rc_hash (ra_records attempted ! (slot - 1))))) (\<lambda>rows.
      seq (refuse_if (rows \<noteq> 1) Unavailable) (\<lambda>_.
      seq (exec_at Unavailable (consume_recovered (rs_challenge st) (ra_number attempted))) (\<lambda>rows.
      seq (refuse_if (rows \<noteq> 1) Unavailable) (\<lambda>_.
      seq (exec_at Unavailable (\<lambda>t. ins_session session \<lparr>sr_csrf = csrf, sr_user = cf_UserID (rs_ref st),
         sr_policy_version = rs_policy st, sr_user_version = rs_userVersion st, sr_mfa = True, sr_created = t,
         sr_last_seen = t\<rparr>)) (\<lambda>_.
      seq (auditAuth env (cf_UserID (rs_ref st)) ''auth.totp.recover'' ''authenticated'') (\<lambda>_.
      commit Unavailable)))))))"

definition recovery_finish :: "'z LoginEnv_scheme \<Rightarrow> recoveryAttempt \<Rightarrow> nat \<Rightarrow> Grant pg" where
  "recovery_finish env attempted slot =
     (if slot < 1 \<or> slot > 10 \<or> ra_number attempted < 1 \<or> ra_number attempted > 5 then throw InvalidOrReplayed
      else
        let record = ra_records attempted ! (slot - 1); old = ra_state attempted in
        if rc_consumed record then throw InvalidOrReplayed
        else
          seq (authTx env) (\<lambda>_.
          seq (loadRecovery (rs_challenge old)) (\<lambda>st.
          seq (refuse_if (rs_ref st \<noteq> rs_ref old \<or> rs_role st \<noteq> rs_role old \<or> rs_policy st \<noteq> rs_policy old \<or>
             rs_userVersion st \<noteq> rs_userVersion old \<or> rs_attempts st < ra_number attempted) InvalidOrReplayed) (\<lambda>_.
          seq (query InvalidOrReplayed Unavailable (\<lambda>db. map_of (auth_recovery_codes db)
             (cf_UserID (rs_ref st), cf_Version (rs_ref st), slot))) (\<lambda>row.
          seq (refuse_if (rc_consumed row \<or> rc_hash row \<noteq> rc_hash record) InvalidOrReplayed) (\<lambda>_.
          seq (new_token env Unavailable) (\<lambda>(session, sh).
          seq (new_token env Unavailable) (\<lambda>(csrf, ch).
          seq (commitRecovery env attempted slot sh ch) (\<lambda>_.
          ret \<lparr>gr_session = session, gr_csrf = csrf\<rparr>)))))))))"

definition recovery_Complete :: "'z LoginEnv_scheme \<Rightarrow> (nat \<Rightarrow> Derivation) \<Rightarrow> string \<Rightarrow> string \<Rightarrow> Grant pg" where
  "recovery_Complete env dvs challenge code =
     (case tokenHash env challenge of
        None \<Rightarrow> throw InvalidOrReplayed
      | Some hash \<Rightarrow>
          seq (recovery_reserve env hash) (\<lambda>attempted.
          seq (of_sum (recovery_match env dvs attempted code)) (\<lambda>slot.
          recovery_finish env attempted slot)))"

section \<open>The limit on authentication requests (http_limit.go)\<close>

definition AuthHTTPSourceLimit :: int where "AuthHTTPSourceLimit = 20"
definition AuthHTTPInstallationLimit :: int where "AuthHTTPInstallationLimit = 60"

fun http_loop :: "'z LoginEnv_scheme \<Rightarrow> string \<Rightarrow> (bool \<times> int) list \<Rightarrow> bool pg" where
  "http_loop env source [] = ret True"
| "http_loop env source ((by_source, limit) # rest) =
     seq (if \<not> by_source then ret ''http-installation''
          else seq (read_clock Unavailable) (\<lambda>now.
            ret (''http-source:'' @ fingerprint env (''http-source/'' @ itoa (unix now div 86400)) source))) (\<lambda>key.
     seq (exec_at Unavailable (ins_bucket key)) (\<lambda>inserted.
     if inserted then http_loop env source rest
     else
       seq (query Unavailable Unavailable (\<lambda>db. map_of (auth_login_buckets db) key)) (\<lambda>b.
       seq (read_clock Unavailable) (\<lambda>now.
       if now < bk_started b \<or> now < bk_expires b \<and> bk_used b \<ge> limit then ret False
       else
         seq (exec Unavailable (set_bucket key
           (if \<not> now < bk_expires b then \<lparr>bk_started = now, bk_expires = now + minutes 1, bk_used = 1\<rparr>
            else b\<lparr>bk_used := bk_used b + 1\<rparr>))) (\<lambda>_.
         http_loop env source rest)))))"

definition del_http_buckets :: "int \<Rightarrow> DB \<Rightarrow> (unit \<times> DB) option" where
  "del_http_buckets now db = Some ((), db\<lparr>auth_login_buckets := filter (\<lambda>(k, b).
     \<not> (has_prefix k ''http-'' \<and> k \<noteq> ''http-installation'' \<and> bk_expires b \<le> now)) (auth_login_buckets db)\<rparr>)"

definition ReserveAuthHTTP :: "'z LoginEnv_scheme \<Rightarrow> string option \<Rightarrow> unit pg" where
  "ReserveAuthHTTP env source =
     (case source of
        None \<Rightarrow> throw Forbidden
      | Some src \<Rightarrow>
          seq (authTx env) (\<lambda>_.
          seq (http_loop env src [(False, AuthHTTPInstallationLimit), (True, AuthHTTPSourceLimit)]) (\<lambda>allowed.
          seq (if allowed then exec_at Unavailable del_http_buckets else ret ()) (\<lambda>_.
          seq (commit Unavailable) (\<lambda>_.
          refuse_if (\<not> allowed) ErrAuthHTTPRateLimit)))))"

end
