(* ===== verification/WR_Security.thy ===== *)
theory WR_Security
  imports WR_Command WR_Enroll
begin

text \<open>
  Administration of accounts and of the second factor (\<open>internal/adminauth/pgstore\<close>): issuing of
  reauthentication proofs (\<open>reauth.go\<close>), the accounts (\<open>users.go\<close>) and the TOTP policy
  (\<open>totp_policy.go\<close>). The exact JSON decoders, the encoder and the parsing of a socket address are
  parameters.
\<close>

section \<open>Values and parameters\<close>

record ReauthInput =
  ri_Password :: string
  ri_TOTP :: string
  ri_Action :: Action
  ri_TargetID :: string
  ri_RequestDigest :: string

record UserView =
  uv_ID :: string
  uv_Role :: Role
  uv_Enabled :: bool
  uv_TOTPEnrolled :: bool
  uv_Revision :: nat
  uv_ETag :: string

record CreateUserInput =
  ci_ID :: string
  ci_Role :: Role
  ci_Password :: string

record UpdateUserInput =
  ui_Role :: Role
  ui_Enabled :: "bool option"

record PolicyView =
  pv_Mode :: string
  pv_Enabled :: bool
  pv_Version :: nat
  pv_Enrolled :: bool

text \<open>The values the services encode as JSON.\<close>

datatype security_value =
    VUser UserView | VUsers "UserView list" | VPolicy PolicyView | VReauth string int
  | VEnrollment string int | VSecret string int | VAuthenticated SessionView string "string list"

record SecEnv = CtlEnv +
  sx_json :: "security_value \<Rightarrow> string"
  sx_decode_reauth :: "string \<Rightarrow> ReauthInput option"
  sx_decode_create :: "string \<Rightarrow> CreateUserInput option"
  sx_decode_update :: "string \<Rightarrow> UpdateUserInput option"
  sx_decode_empty :: "string \<Rightarrow> bool"
  sx_decode_policy :: "string \<Rightarrow> bool option option"
  sx_decode_proof :: "string \<Rightarrow> (string \<times> string) option"
  sx_sealed_bytes :: "string \<Rightarrow> string"
  sx_sealed_of :: "string \<Rightarrow> string option"
  sx_source :: "string \<Rightarrow> string option"
  sx_keyID :: string

definition value_reply :: "'z SecEnv_scheme \<Rightarrow> int \<Rightarrow> security_value \<Rightarrow> string \<Rightarrow> ControlReply" where
  "value_reply env status v etag = reply status (sx_json env v) etag"

definition refuse_request :: "'z SecEnv_scheme \<Rightarrow> int \<Rightarrow> string \<Rightarrow> commandResult pg" where
  "refuse_request env status code = seq (replyProblem env status code) (\<lambda>r. ret (refused r []))"

section \<open>Reauthentication (reauth.go)\<close>

definition reauth_consume :: "CredentialRef \<Rightarrow> CredentialRef \<Rightarrow> nat \<Rightarrow> bool pg" where
  "reauth_consume own ref counter =
     (if own \<noteq> ref \<or> int counter > 9223372036854775807 then ret False
      else seq (exec Unavailable (advance_counter ref counter)) (\<lambda>rows. ret (rows = 1)))"

definition prune_proofs :: "int \<Rightarrow> DB \<Rightarrow> (unit \<times> DB) option" where
  "prune_proofs now db = Some ((), db\<lparr>auth_reauth_proofs := prune pf_expires now (auth_reauth_proofs db)\<rparr>)"

definition ins_proof :: "string \<Rightarrow> ProofRow \<Rightarrow> DB \<Rightarrow> (unit \<times> DB) option" where
  "ins_proof hash p db =
     (if length hash \<noteq> 32 \<or> map_of (auth_reauth_proofs db) hash \<noteq> None \<or> map_of (auth_sessions db) (pf_session p) = None \<or>
         length (pf_target p) < 1 \<or> length (pf_target p) > 128 \<or> \<not> is_digest (pf_digest p) \<or>
         pf_expires p \<le> pf_created p \<or> pf_expires p > pf_created p + minutes 5 then None
      else Some ((), db\<lparr>auth_reauth_proofs := auth_reauth_proofs db @ [(hash, p)]\<rparr>))"

definition reauth_allowed :: "Role \<Rightarrow> Action \<Rightarrow> bool" where
  "reauth_allowed role action = (case Requirement role action of None \<Rightarrow> False | Some q \<Rightarrow> RequiresReauthentication q)"

definition reauth_totp :: "'z SecEnv_scheme \<Rightarrow> ReauthInput \<Rightarrow> sessionSnapshot \<Rightarrow> unit pg" where
  "reauth_totp env i state =
     (if TOTPEnabled (sn_policy state) \<or> (ri_Action i = WriteTOTPPolicy \<and> ri_TargetID i = ''totp'') then
        let user = a_ID (sn_account state) in
        seq (query Unauthenticated Unauthenticated (\<lambda>db. map_of (auth_totp_credentials db) user)) (\<lambda>t.
        let ref = \<lparr>cf_UserID = user, cf_Version = tr_version t\<rparr> in
        seq (of_sum (case vault_open env ref (tr_key_id t) (tr_sealed t) of Inl _ \<Rightarrow> Inl Unavailable | Inr s \<Rightarrow> Inr s)) (\<lambda>secret.
        verify_code env ref secret (ri_TOTP i) (sn_now state) (reauth_consume ref)))
      else ret ())"

definition issue_proof :: "'z SecEnv_scheme \<Rightarrow> ReauthInput \<Rightarrow> string \<Rightarrow> sessionSnapshot \<Rightarrow> ControlReply pg" where
  "issue_proof env i session state =
     seq (new_token env Unavailable) (\<lambda>(proof, proofHash).
     seq (exec_at Unavailable prune_proofs) (\<lambda>_.
     seq (query Unavailable Unavailable (\<lambda>db. Some (length (auth_reauth_proofs db)))) (\<lambda>count.
     seq (refuse_if (count \<ge> 1000) Unavailable) (\<lambda>_.
     let expires = sn_now state + minutes 5 in
     seq (exec Unavailable (ins_proof proofHash \<lparr>pf_session = session, pf_action = ri_Action i, pf_target = ri_TargetID i,
        pf_digest = ri_RequestDigest i, pf_created = sn_now state, pf_expires = expires, pf_consumed = False\<rparr>)) (\<lambda>_.
     seq (new_token env Unavailable) (\<lambda>(requestID, _).
     seq (exec_at Unavailable (ins_audit (a_ID (sn_account state)) (a_Role (sn_account state)) ''auth.reauth'' (ri_TargetID i)
        (ri_RequestDigest i) (ri_RequestDigest i) ''accepted'' requestID 0)) (\<lambda>_.
     seq (commit Unavailable) (\<lambda>_.
     ret (value_reply env 200 (VReauth proof expires) [])))))))))"

text \<open>The second transaction: everything is read again under the locks.\<close>

definition reauth_locked ::
  "'z SecEnv_scheme \<Rightarrow> string \<Rightarrow> HttpRequest \<Rightarrow> ReauthInput \<Rightarrow> passwordSnapshot \<Rightarrow> ControlReply pg" where
  "reauth_locked env token r i before =
     seq (authTx env) (\<lambda>_.
     seq lock_policy (\<lambda>_.
     let hash = (case tokenHash env token of None \<Rightarrow> zero_hash | Some h \<Rightarrow> h) in
     seq (loadSession hash) (\<lambda>state.
     seq (check_mutation env r (sn_csrf state)) (\<lambda>_.
     seq (refuse_if (\<not> reauth_allowed (a_Role (sn_account state)) (ri_Action i) \<or> a_ID (sn_account state) \<noteq> ps_user before \<or>
        SessionVersion (sn_account state) \<noteq> ps_userVersion before \<or> po_Version (sn_policy state) \<noteq> ps_policyVersion before)
        Forbidden) (\<lambda>_.
     seq (query Unauthenticated Unauthenticated (\<lambda>db. map_of (auth_password_credentials db) (a_ID (sn_account state)))) (\<lambda>c.
     seq (refuse_if (pr_version c \<noteq> ps_passwordVersion before \<or> pr_hash c \<noteq> ps_hash before) Unauthenticated) (\<lambda>_.
     seq (reauth_totp env i state) (\<lambda>_.
     issue_proof env i hash state))))))))"

definition Reauthenticate ::
  "'z SecEnv_scheme \<Rightarrow> Derivation \<Rightarrow> string \<Rightarrow> HttpRequest option \<Rightarrow> string \<Rightarrow> ControlReply pg" where
  "Reauthenticate env dv token request raw =
     (case (request, sx_decode_reauth env raw) of
        (Some r, Some i) \<Rightarrow>
          if rq_Method r \<noteq> ''POST'' \<or> \<not> ValidLoginPassword (ri_Password i) \<or> \<not> safeID (ri_TargetID i) \<or> \<not> is_digest (ri_RequestDigest i)
          then replyProblem env 400 ''INVALID_REQUEST''
          else
            seq (begin_read env token ReadDashboard (Some r)) (\<lambda>state.
            seq (refuse_if (\<not> reauth_allowed (a_Role (sn_account state)) (ri_Action i) \<or> ri_Action i = RotateKeys) Forbidden) (\<lambda>_.
            seq (commit Unavailable) (\<lambda>_.
            case sx_source env (rq_RemoteAddr r) of
              None \<Rightarrow> throw Forbidden
            | Some source \<Rightarrow>
                seq (reserveAttempt env (a_ID (sn_account state)) source) (\<lambda>_.
                seq (pool_query Unauthenticated Unauthenticated (\<lambda>now. snapshot_row (a_ID (sn_account state)))) (\<lambda>before.
                seq (of_sum (auth_result (fst (password_Verify (le_argon env) dv (le_hasher env) (ri_Password i) (ps_hash before))))) (\<lambda>valid.
                seq (refuse_if (\<not> valid) Unauthenticated) (\<lambda>_.
                reauth_locked env token r i before)))))))
      | _ \<Rightarrow> replyProblem env 400 ''INVALID_REQUEST'')"

section \<open>Accounts (users.go)\<close>

definition userETag :: "nat \<Rightarrow> string" where
  "userETag version = [CHR 34] @ ''user-'' @ dec version @ [CHR 34]"

definition validRole :: "Role \<Rightarrow> bool" where
  "validRole role \<longleftrightarrow> role = Admin \<or> role = Operator \<or> role = Viewer"

definition user_view :: "DB \<Rightarrow> string \<times> AccountRow \<Rightarrow> UserView" where
  "user_view db = (\<lambda>(i, a). \<lparr>uv_ID = i, uv_Role = ar_role a, uv_Enabled = ar_enabled a,
     uv_TOTPEnrolled = (map_of (auth_totp_credentials db) i \<noteq> None), uv_Revision = ar_session_version a,
     uv_ETag = userETag (ar_session_version a)\<rparr>)"

definition Users :: "'z SecEnv_scheme \<Rightarrow> string \<Rightarrow> ControlReply pg" where
  "Users env token =
     seq (begin_read env token ReadUsers None) (\<lambda>_.
     seq (query Unavailable Unavailable (\<lambda>db. Some (map (user_view db)
        (take 1001 (sort_key fst (filter (\<lambda>(i, a). \<not> ar_deleted a) (auth_accounts db))))))) (\<lambda>users.
     seq (refuse_if (length users > 1000) Unavailable) (\<lambda>_.
     seq (commit Unavailable) (\<lambda>_.
     ret (value_reply env 200 (VUsers users) [])))))"

definition userResult :: "'z SecEnv_scheme \<Rightarrow> UserView \<Rightarrow> int \<Rightarrow> commandResult" where
  "userResult env u status =
     \<lparr>cd_reply = value_reply env status (VUser u) (uv_ETag u), cd_before = [], cd_after = digest env (sx_json env (VUser u)),
      cd_revision = int (uv_Revision u)\<rparr>"

definition create_user_body ::
  "'z SecEnv_scheme \<Rightarrow> CreateUserInput \<Rightarrow> string \<Rightarrow> sessionSnapshot \<Rightarrow> Config \<Rightarrow> commandResult pg" where
  "create_user_body env i hash state current =
     seq (query Forbidden Forbidden (\<lambda>db. map_option bt_completed (auth_bootstrap db))) (\<lambda>complete.
     seq (refuse_if (\<not> complete) Forbidden) (\<lambda>_.
     seq (query Unavailable Unavailable (\<lambda>db. Some (map_of (auth_accounts db) (ci_ID i) \<noteq> None, length (auth_accounts db)))) (\<lambda>(exists, count).
     if exists then refuse_request env 409 ''USER_ID_RESERVED''
     else if count \<ge> 1000 then refuse_request env 409 ''USER_CAPACITY_EXCEEDED''
     else
       seq (exec Unavailable (ins_account (ci_ID i) (ci_Role i))) (\<lambda>_.
       seq (exec Unavailable (ins_password (ci_ID i) hash)) (\<lambda>_.
       ret (userResult env \<lparr>uv_ID = ci_ID i, uv_Role = ci_Role i, uv_Enabled = True, uv_TOTPEnrolled = False,
          uv_Revision = 1, uv_ETag = userETag 1\<rparr> 201))))))"

text \<open>
  The proof is tried first in a transaction that is rolled back, so that no password is hashed without
  authority. When the proof does not hold, only the lookup of a recorded execution remains.
\<close>

definition CreateUser ::
  "'z SecEnv_scheme \<Rightarrow> Derivation \<Rightarrow> string \<Rightarrow> HttpRequest option \<Rightarrow> string \<Rightarrow> ControlReply pg" where
  "CreateUser env dv token request raw =
     (case (request, sx_decode_create env raw) of
        (Some r, Some i) \<Rightarrow>
          if rq_Method r \<noteq> ''POST'' \<or> \<not> safeID (ci_ID i) \<or> \<not> validRole (ci_Role i) \<or> \<not> ValidLoginPassword (ci_Password i) \<or>
             length (the (utf8_runes (ci_Password i))) < 15
          then replyProblem env 400 ''INVALID_REQUEST''
          else
            seq (beginCommand env token WriteUsers (Some r) True) (\<lambda>_.
            seq (attempt (consumeReauth env token r WriteUsers (ci_ID i) raw)) (\<lambda>proved.
            case proved of
              Inl _ \<Rightarrow> control_command env token (Some r) raw WriteUsers (ci_ID i) False (\<lambda>_ _. throw Forbidden)
            | Inr _ \<Rightarrow>
                seq (hash_password env dv (ci_Password i)) (\<lambda>hash.
                control_command env token (Some r) raw WriteUsers (ci_ID i) False (create_user_body env i hash))))
      | _ \<Rightarrow> replyProblem env 400 ''INVALID_REQUEST'')"

definition del_enrollments :: "(string \<times> EnrollmentRow \<Rightarrow> bool) \<Rightarrow> DB \<Rightarrow> DB" where
  "del_enrollments P db =
     (let gone = map fst (filter P (auth_enrollment_challenges db))
      in db\<lparr>auth_enrollment_challenges := filter (\<lambda>r. \<not> P r) (auth_enrollment_challenges db),
            auth_policy_enrollments := filter (\<lambda>(k, h). k \<notin> set gone) (auth_policy_enrollments db)\<rparr>)"

definition revokeUser :: "string \<Rightarrow> unit pg" where
  "revokeUser i =
     seq (exec Unavailable (\<lambda>db. Some ((), del_sessions (\<lambda>(k, r). sr_user r = i) db))) (\<lambda>_.
     seq (exec Unavailable (\<lambda>db. Some ((), db\<lparr>auth_totp_challenges := filter (\<lambda>(k, r). ch_user r \<noteq> i) (auth_totp_challenges db)\<rparr>))) (\<lambda>_.
     exec Unavailable (\<lambda>db. Some ((), del_enrollments (\<lambda>(k, r). en_user r = i) db))))"

definition removeTOTP :: "string \<Rightarrow> unit pg" where
  "removeTOTP i =
     seq (exec Unavailable (\<lambda>db. Some ((), db\<lparr>auth_recovery_codes := filter (\<lambda>((u, v, slot), r). u \<noteq> i) (auth_recovery_codes db)\<rparr>))) (\<lambda>_.
     exec Unavailable (\<lambda>db. Some ((), db\<lparr>auth_totp_credentials := AList.delete i (auth_totp_credentials db)\<rparr>)))"

text \<open>The trigger \<open>preserve_last_admin\<close>: whether an installation that was set up keeps an administrator.\<close>

definition active_admin :: "AccountRow \<Rightarrow> bool" where
  "active_admin a \<longleftrightarrow> ar_role a = ''admin'' \<and> ar_enabled a \<and> \<not> ar_deleted a"

definition keeps_admin :: "DB \<Rightarrow> bool" where
  "keeps_admin db \<longleftrightarrow> (case auth_bootstrap db of Some b \<Rightarrow> bt_completed b | None \<Rightarrow> False) \<longrightarrow>
     list_ex (\<lambda>(i, a). active_admin a) (auth_accounts db)"

definition upd_account :: "string \<Rightarrow> AccountRow \<Rightarrow> DB \<Rightarrow> (unit \<times> DB) option" where
  "upd_account i a db =
     (let db' = (if map_of (auth_accounts db) i = None then db
                 else db\<lparr>auth_accounts := AList.update i a (auth_accounts db)\<rparr>)
      in if ar_role a \<notin> set [''admin'', ''operator'', ''viewer''] \<or> ar_session_version a = 0 \<or> (ar_deleted a \<and> ar_enabled a) \<or>
            \<not> keeps_admin db' then None
         else Some ((), db'))"

text \<open>The account after the change; a reset leaves role and state, a deletion disables.\<close>

definition changed_user :: "bool \<Rightarrow> bool \<Rightarrow> UpdateUserInput \<Rightarrow> UserView \<Rightarrow> UserView" where
  "changed_user reset deleted i u =
     (let u = (if reset \<or> deleted then u\<lparr>uv_TOTPEnrolled := False\<rparr> else u);
          u = (if deleted then u\<lparr>uv_Enabled := False\<rparr>
               else if \<not> reset then u\<lparr>uv_Role := ui_Role i, uv_Enabled := the (ui_Enabled i)\<rparr> else u)
      in u\<lparr>uv_Revision := uv_Revision u + 1, uv_ETag := userETag (uv_Revision u + 1)\<rparr>)"

definition apply_user :: "'z SecEnv_scheme \<Rightarrow> bool \<Rightarrow> bool \<Rightarrow> UpdateUserInput \<Rightarrow> UserView \<Rightarrow> commandResult pg" where
  "apply_user env reset deleted i u =
     (let user = uv_ID u; u' = changed_user reset deleted i u in
      seq (refuse_if (uv_Revision u \<ge> 9007199254740990) Unavailable) (\<lambda>_.
      seq (revokeUser user) (\<lambda>_.
      seq (if reset \<or> deleted then removeTOTP user else ret ()) (\<lambda>_.
      seq (if deleted then exec Unavailable (\<lambda>db. Some ((), db\<lparr>auth_password_credentials :=
             AList.delete user (auth_password_credentials db)\<rparr>)) else ret ()) (\<lambda>_.
      seq (exec Unavailable (upd_account user \<lparr>ar_role = uv_Role u', ar_enabled = uv_Enabled u',
         ar_session_version = uv_Revision u', ar_deleted = deleted\<rparr>)) (\<lambda>_.
      ret ((userResult env u' 200)\<lparr>cd_before := digest env (sx_json env (VUser u))\<rparr>)))))))"

definition change_user_body ::
  "'z SecEnv_scheme \<Rightarrow> string \<Rightarrow> HttpRequest \<Rightarrow> bool \<Rightarrow> UpdateUserInput \<Rightarrow> sessionSnapshot \<Rightarrow> Config \<Rightarrow> commandResult pg" where
  "change_user_body env user r reset i state current =
     (let deleted = (rq_Method r = ''DELETE'') in
      seq (query Unavailable Unavailable (\<lambda>db. Some (case map_of (auth_accounts db) user of
          None \<Rightarrow> None | Some a \<Rightarrow> if ar_deleted a then None else Some (user_view db (user, a))))) (\<lambda>found.
      case found of
        None \<Rightarrow> refuse_request env 404 ''NOT_FOUND''
      | Some u \<Rightarrow>
          if Header_Get r ''If-Match'' \<noteq> uv_ETag u then refuse_request env 412 ''REVISION_MISMATCH''
          else
            let destructive = deleted \<or> (\<not> reset \<and> (\<not> the (ui_Enabled i) \<or> ui_Role i \<noteq> Admin)) in
            seq (if uv_Role u = Admin \<and> uv_Enabled u \<and> (destructive \<or> (reset \<and> TOTPEnabled (sn_policy state)))
                 then query Unavailable Unavailable (\<lambda>db. Some (length (filter (\<lambda>(k, a). active_admin a \<and> k \<noteq> user) (auth_accounts db)) = 0))
                 else ret False) (\<lambda>last.
            if last then refuse_request env 409 ''LAST_ADMIN_REQUIRED''
            else apply_user env reset deleted i u)))"

definition change_problem :: "'z SecEnv_scheme \<Rightarrow> HttpRequest \<Rightarrow> string \<Rightarrow> bool \<Rightarrow> bool" where
  "change_problem env r raw reset \<longleftrightarrow>
     (reset \<and> (rq_Method r \<noteq> ''POST'' \<or> \<not> sx_decode_empty env raw)) \<or>
     (\<not> reset \<and> rq_Method r \<noteq> ''DELETE'' \<and> (rq_Method r \<noteq> ''PATCH'' \<or>
        (case sx_decode_update env raw of None \<Rightarrow> True | Some i \<Rightarrow> \<not> validRole (ui_Role i) \<or> ui_Enabled i = None))) \<or>
     (rq_Method r = ''DELETE'' \<and> length raw \<noteq> 0)"

definition ChangeUser ::
  "'z SecEnv_scheme \<Rightarrow> string \<Rightarrow> string \<Rightarrow> HttpRequest option \<Rightarrow> string \<Rightarrow> bool \<Rightarrow> ControlReply pg" where
  "ChangeUser env token user request raw reset =
     (case request of
        None \<Rightarrow> replyProblem env 400 ''INVALID_REQUEST''
      | Some r \<Rightarrow>
          if \<not> safeID user \<or> change_problem env r raw reset then replyProblem env 400 ''INVALID_REQUEST''
          else
            let i = (case sx_decode_update env raw of None \<Rightarrow> \<lparr>ui_Role = [], ui_Enabled = None\<rparr> | Some i \<Rightarrow> i) in
            control_command env token (Some r) raw (if reset then ResetUserTOTP else WriteUsers) user True
              (change_user_body env user r reset i))"

section \<open>The TOTP policy (totp_policy.go)\<close>

definition policyETag :: "nat \<Rightarrow> string" where
  "policyETag v = [CHR 34] @ ''policy-'' @ dec v @ [CHR 34]"

definition policyView :: "sessionSnapshot \<Rightarrow> PolicyView" where
  "policyView state = \<lparr>pv_Mode = po_Mode (sn_policy state), pv_Enabled = TOTPEnabled (sn_policy state),
     pv_Version = po_Version (sn_policy state), pv_Enrolled = TOTPEnrolled (sn_account state)\<rparr>"

definition Policy :: "'z SecEnv_scheme \<Rightarrow> string \<Rightarrow> ControlReply pg" where
  "Policy env token =
     seq (begin_read env token ReadSecurity None) (\<lambda>state.
     seq (commit Unavailable) (\<lambda>_.
     ret (value_reply env 200 (VPolicy (policyView state)) (policyETag (po_Version (sn_policy state))))))"

definition proofCipher :: "'z SecEnv_scheme \<Rightarrow> string" where
  "proofCipher env = le_hmac256 env (le_fingerprintKey env) ''wr/security/command-proof/v1''"

definition sealProof :: "'z SecEnv_scheme \<Rightarrow> string \<Rightarrow> string \<Rightarrow> string pg" where
  "sealProof env body aad =
     seq (random Unavailable 12) (\<lambda>nonce.
     ret (sx_sealed_bytes env (raw_url_encode (nonce @ gcm_Seal (pe_gcm env) (proofCipher env) nonce body aad))))"

definition openProof :: "'z SecEnv_scheme \<Rightarrow> string \<Rightarrow> string \<Rightarrow> pg_error + string" where
  "openProof env body aad =
     (case sx_sealed_of env body of
        None \<Rightarrow> Inl Unavailable
      | Some encoded \<Rightarrow>
          (case raw_url_decode_strict encoded of
             None \<Rightarrow> Inl Unavailable
           | Some raw \<Rightarrow>
               if length raw < 12 + 16 then Inl Unavailable
               else case gcm_Open (pe_gcm env) (proofCipher env) (take 12 raw) (drop 12 raw) aad of
                 None \<Rightarrow> Inl Unavailable
               | Some body' \<Rightarrow> Inr body'))"

definition ins_policy_enrollment :: "string \<Rightarrow> string \<Rightarrow> DB \<Rightarrow> (unit \<times> DB) option" where
  "ins_policy_enrollment hash session db =
     (if map_of (auth_enrollment_challenges db) hash = None \<or> map_of (auth_sessions db) session = None \<or>
         map_of (auth_policy_enrollments db) hash \<noteq> None then None
      else Some ((), db\<lparr>auth_policy_enrollments := auth_policy_enrollments db @ [(hash, session)]\<rparr>))"

definition mustSessionHash :: "'z SecEnv_scheme \<Rightarrow> string \<Rightarrow> string" where
  "mustSessionHash env token = (case tokenHash env token of None \<Rightarrow> zero_hash | Some h \<Rightarrow> h)"

definition begin_enrollment_body ::
  "'z SecEnv_scheme \<Rightarrow> string \<Rightarrow> HttpRequest \<Rightarrow> string \<Rightarrow> sessionSnapshot \<Rightarrow> Config \<Rightarrow> commandResult pg" where
  "begin_enrollment_body env token r aad state current =
     (let etag = policyETag (po_Version (sn_policy state)) in
      if Header_Get r ''If-Match'' \<noteq> etag then refuse_request env 412 ''REVISION_MISMATCH''
      else if TOTPEnabled (sn_policy state) \<or> TOTPEnrolled (sn_account state)
        then refuse_request env 409 ''TOTP_ALREADY_ENROLLED_OR_ENABLED''
      else
        seq (exec Unavailable (\<lambda>db. Some ((), del_enrollments (\<lambda>(k, e). en_user e = a_ID (sn_account state)) db))) (\<lambda>_.
        seq (new_token env Unavailable) (\<lambda>(proof, hash).
        let expires = sn_now state + minutes 5 in
        seq (exec Unavailable (ins_enrollment hash \<lparr>en_user = a_ID (sn_account state), en_policy_version = po_Version (sn_policy state),
           en_user_version = SessionVersion (sn_account state), en_created = sn_now state, en_expires = expires,
           en_consumed = False, en_attempts = 0, en_secret = None\<rparr>)) (\<lambda>_.
        seq (exec Unavailable (ins_policy_enrollment hash (mustSessionHash env token))) (\<lambda>_.
        seq (sealProof env (sx_json env (VEnrollment proof expires)) aad) (\<lambda>body.
        ret (refused (reply 200 body etag) []))))))) "

definition BeginPolicyEnrollment :: "'z SecEnv_scheme \<Rightarrow> string \<Rightarrow> HttpRequest option \<Rightarrow> string \<Rightarrow> ControlReply pg" where
  "BeginPolicyEnrollment env token request raw =
     (case request of
        None \<Rightarrow> replyProblem env 400 ''INVALID_REQUEST''
      | Some r \<Rightarrow>
          if rq_Method r \<noteq> ''POST'' \<or> \<not> sx_decode_empty env raw then replyProblem env 400 ''INVALID_REQUEST''
          else
            let aad = ''policy-enrollment/v1:'' @ digest env token @ '':'' @ digest env (Header_Get r ''Idempotency-Key'') in
            seq (control_command env token (Some r) raw WriteTOTPPolicy ''totp-enrollment'' True
               (begin_enrollment_body env token r aad)) (\<lambda>out.
            if rp_Status out = 200
            then seq (of_sum (openProof env (rp_Body out) aad)) (\<lambda>body. ret (out\<lparr>rp_Body := body\<rparr>))
            else ret out))"

definition PolicyEnrollment ::
  "'z SecEnv_scheme \<Rightarrow> (nat \<Rightarrow> Derivation) \<Rightarrow> string \<Rightarrow> HttpRequest option \<Rightarrow> string \<Rightarrow> bool \<Rightarrow> ControlReply pg" where
  "PolicyEnrollment env dvs token request raw verify =
     (case (request, sx_decode_proof env raw) of
        (Some r, Some (challenge, code)) \<Rightarrow>
          if rq_Method r \<noteq> ''POST'' \<or> (\<not> verify \<and> code \<noteq> []) then replyProblem env 400 ''INVALID_REQUEST''
          else
            (case tokenHash env challenge of
               None \<Rightarrow> replyProblem env 400 ''INVALID_REQUEST''
             | Some hash \<Rightarrow>
                 seq (begin_read env token ReadSecurity (Some r)) (\<lambda>_.
                 seq (query Forbidden Forbidden (\<lambda>db. Some (map_of (auth_policy_enrollments db) hash = Some (mustSessionHash env token)))) (\<lambda>bound.
                 seq (refuse_if (\<not> bound) Forbidden) (\<lambda>_.
                 seq (commit Unavailable) (\<lambda>_.
                 seq (refuse_if (map_of (pe_keys env) (sx_keyID env) = None) Unavailable) (\<lambda>_.
                 if \<not> verify then
                   seq (Begin env (sx_keyID env) True challenge) (\<lambda>setup.
                   seq (of_sum (auth_result (ProvisioningBase32 (eu_secret setup)))) (\<lambda>key.
                   ret (value_reply env 200 (VSecret key (eu_expires setup)) [])))
                 else
                   seq (enrollment_Complete env (sx_keyID env) True dvs challenge code) (\<lambda>result.
                   seq (authTx env) (\<lambda>_.
                   seq (loadSession (mustSessionHash env (gr_session (eg_grant result)))) (\<lambda>state.
                   seq (commit Unavailable) (\<lambda>_.
                   ret ((value_reply env 200 (VAuthenticated (session_view state) (gr_csrf (eg_grant result)) (eg_recovery result)) [])
                     \<lparr>rp_RotatedGrant := eg_grant result\<rparr>)))))))))))
      | _ \<Rightarrow> replyProblem env 400 ''INVALID_REQUEST'')"

definition upd_policy :: "bool \<Rightarrow> nat \<Rightarrow> DB \<Rightarrow> (unit \<times> DB) option" where
  "upd_policy enabled version db =
     (case auth_policy db of
        None \<Rightarrow> Some ((), db)
      | Some p \<Rightarrow>
          if version = 0 \<or> (po_Mode p = ''forced_on'' \<and> \<not> enabled) then None
          else Some ((), db\<lparr>auth_policy := Some (p\<lparr>TOTPEnabled := enabled, po_Version := version\<rparr>)\<rparr>))"

definition mark_mfa :: "string \<Rightarrow> DB \<Rightarrow> (unit \<times> DB) option" where
  "mark_mfa hash db = Some ((), db\<lparr>auth_sessions := map (\<lambda>(k, r). (k, if k = hash then r\<lparr>sr_mfa := True\<rparr> else r)) (auth_sessions db)\<rparr>)"

text \<open>
  The change itself. The grant of the new session travels in the reply of the body, which the frame of
  a command returns when it executed and does not store; a replayed reply carries none.
\<close>

definition switch_policy :: "'z SecEnv_scheme \<Rightarrow> bool \<Rightarrow> sessionSnapshot \<Rightarrow> commandResult pg" where
  "switch_policy env enabled state =
     (let version = po_Version (sn_policy state) + 1;
          state' = state\<lparr>sn_policy := (sn_policy state)\<lparr>po_Version := version, TOTPEnabled := enabled\<rparr>\<rparr> in
      seq (refuse_if (po_Version (sn_policy state) \<ge> 9007199254740990) Unavailable) (\<lambda>_.
      seq (exec Unavailable (upd_policy enabled version)) (\<lambda>_.
      seq (exec Unavailable (\<lambda>db. Some ((), del_sessions (\<lambda>_. True) db))) (\<lambda>_.
      seq (exec Unavailable (\<lambda>db. Some ((), db\<lparr>auth_totp_challenges := []\<rparr>))) (\<lambda>_.
      seq (exec Unavailable (\<lambda>db. Some ((), del_enrollments (\<lambda>_. True) db))) (\<lambda>_.
      seq (issuePasswordSession env (a_ID (sn_account state)) version (SessionVersion (sn_account state))) (\<lambda>fresh.
      seq (exec Unavailable (mark_mfa (mustSessionHash env (gr_session fresh)))) (\<lambda>_.
      ret \<lparr>cd_reply = (value_reply env 200 (VPolicy (policyView state')) (policyETag version))\<lparr>rp_RotatedGrant := fresh\<rparr>,
           cd_before = digest env (sx_json env (VPolicy (policyView state))),
           cd_after = digest env (sx_json env (VPolicy (policyView state'))), cd_revision = int version\<rparr>))))))))"

definition change_policy_body ::
  "'z SecEnv_scheme \<Rightarrow> HttpRequest \<Rightarrow> bool \<Rightarrow> sessionSnapshot \<Rightarrow> Config \<Rightarrow> commandResult pg" where
  "change_policy_body env r enabled state current =
     (let etag = policyETag (po_Version (sn_policy state)) in
      if Header_Get r ''If-Match'' \<noteq> etag then refuse_request env 412 ''REVISION_MISMATCH''
      else if po_Mode (sn_policy state) = ''forced_on'' \<and> \<not> enabled then refuse_request env 403 ''TOTP_POLICY_LOCKED''
      else if enabled = TOTPEnabled (sn_policy state)
        then ret (refused (value_reply env 200 (VPolicy (policyView state)) etag) [])
      else if \<not> TOTPEnrolled (sn_account state) then refuse_request env 409 ''TOTP_ENROLLMENT_REQUIRED''
      else switch_policy env enabled state)"

definition ChangePolicy :: "'z SecEnv_scheme \<Rightarrow> string \<Rightarrow> HttpRequest option \<Rightarrow> string \<Rightarrow> ControlReply pg" where
  "ChangePolicy env token request raw =
     (case (request, sx_decode_policy env raw) of
        (Some r, Some (Some enabled)) \<Rightarrow>
          if rq_Method r \<noteq> ''PUT'' then replyProblem env 400 ''INVALID_REQUEST''
          else control_command env token (Some r) raw WriteTOTPPolicy ''totp'' True (change_policy_body env r enabled)
      | _ \<Rightarrow> replyProblem env 400 ''INVALID_REQUEST'')"

end
