(* ===== verification/WR_Enroll_Props.thy ===== *)
theory WR_Enroll_Props
  imports WR_Enroll WR_Command_Props
begin

text \<open>
  What holds of the ways into an installation: the first administrator is created once, by the holder of
  the current installation token, and a recovery code opens one session and is then used up.
\<close>

section \<open>Steps\<close>

lemma quiet_auditAuth [tx_quiet]: "quiet (auditAuth env user action result)"
  unfolding auditAuth_def by (intro tx_quiet; simp split: prod.splits; intro tx_quiet conjI allI impI)

lemma quiet_issue [tx_quiet]:
  "quiet (issuePasswordSession env user v w)" "quiet (issueEnrollment env user v w)" "quiet (first_grant env policy user)"
  unfolding first_grant_def issuePasswordSession_def issueEnrollment_def
  by (intro tx_quiet; simp split: prod.splits; intro tx_quiet conjI allI impI)+

lemma quiet_bootstrap_steps [tx_quiet]:
  "quiet (read_bootstrap hash)" "quiet setupApplied" "quiet (hash_password env dv password)"
  unfolding read_bootstrap_def setupApplied_def hash_password_def by (intro tx_quiet)+

text \<open>The part of the database that says who has authority: the accounts and the state of the first setup.\<close>

abbreviation authority :: "DB \<Rightarrow> (string \<times> AccountRow) list \<times> BootstrapRow option" where
  "authority db \<equiv> (auth_accounts db, auth_bootstrap db)"

lemma leaves_audit:
  assumes "\<And>db x. p (db\<lparr>control_audit := x\<rparr>) = p db"
  shows "leaves p (auditAuth env user action result)"
  unfolding auditAuth_def Let_def case_prod_unfold
  by (intro tx_leaves) (auto simp: ins_audit_def assms split: if_splits option.splits)

lemma leaves_auditAuth [tx_leaves]: "leaves authority (auditAuth env user action result)"
  by (rule leaves_audit) simp

lemma leaves_issue [tx_leaves]: "leaves authority (first_grant env policy user)"
  unfolding first_grant_def issuePasswordSession_def issueEnrollment_def case_prod_unfold
  by (intro tx_leaves) (auto simp: ins_session_def ins_enrollment_def consume_enrollments_def split: if_splits)

lemma commit_last:
  assumes "seq (commit e) (\<lambda>_. ret x) s = (r, s')" and "pg_db s' \<noteq> pg_db s"
  shows "pg_db s' = pg_tx s"
  using assms commit_effect by (auto simp: ret_def elim!: seq_runE)

section \<open>The first administrator\<close>

lemma finishBootstrap_runs:
  assumes "finishBootstrap env hash user password before s = (r, s')" and "pg_db s' \<noteq> pg_db s"
  obtains s1 p s2 c s3 valid s4 s5 s6 g s7 s8 s9 where
    "authTx env s = (Inr (), s1)" "query Unavailable Unavailable auth_policy s1 = (Inr p, s2)"
    "query Unavailable Unavailable (\<lambda>db. map_option bt_completed (auth_bootstrap db)) s2 = (Inr c, s3)" "\<not> c"
    "query_at Unauthenticated Unavailable (bootstrap_valid before hash) s3 = (Inr valid, s4)" valid
    "exec Unavailable (ins_account user ''admin'') s4 = (Inr (), s5)" "exec Unavailable (ins_password user password) s5 = (Inr (), s6)"
    "first_grant env p user s6 = (Inr g, s7)"
    "exec Unavailable (upd_bootstrap (\<lambda>b. b\<lparr>bt_completed := True, bt_token := None\<rparr>)) s7 = (Inr (), s8)"
    "auditAuth env user ''auth.bootstrap'' ''admin_created'' s8 = (Inr (), s9)" "pg_db s' = pg_tx s9"
  using assms unfolding finishBootstrap_def
  apply -
  apply (erule (1) seq_effectE, rule quiet_steps)
  apply (erule (1) seq_effectE, rule quiet_basic)
  apply (erule (1) seq_effectE, rule quiet_basic)
  apply (erule (1) seq_effectE, rule quiet_basic)
  apply (erule (1) seq_effectE, rule quiet_basic)
  apply (erule (1) seq_effectE, rule quiet_basic)
  apply (erule (1) seq_effectE, rule quiet_basic)
  apply (erule (1) seq_effectE, rule quiet_basic)
  apply (erule (1) seq_effectE, rule quiet_basic)
  apply (erule (1) seq_effectE, rule quiet_basic)
  apply (erule (1) seq_effectE, rule quiet_issue)
  apply (erule (1) seq_effectE, rule quiet_basic)
  apply (erule (1) seq_effectE, rule quiet_auditAuth)
  apply (drule (1) commit_last)
  apply (simp only: refuse_if_success)
  apply (elim conjE)
  apply (rule that; simp)
  done

lemma same_world_bootstrap [tx_world]:
  "same_world (read_bootstrap hash)" "same_world setupApplied" "same_world (hash_password env dv password)"
  unfolding read_bootstrap_def setupApplied_def hash_password_def by (intro tx_world)+

definition first_admin :: "string \<Rightarrow> (string \<times> AccountRow) list" where
  "first_admin user = [(user, \<lparr>ar_role = ''admin'', ar_enabled = True, ar_session_version = 1, ar_deleted = False\<rparr>)]"

lemma finishBootstrap_effect:
  assumes "finishBootstrap env hash user password before s = (r, s')" and "pg_db s' \<noteq> pg_db s"
  shows "\<exists>b expires k. auth_bootstrap (pg_db s) = Some b \<and> \<not> bt_completed b \<and> bt_token b = Some (hash, expires) \<and>
    w_clock (pg_world s) k < expires \<and> auth_accounts (pg_db s) = [] \<and>
    auth_accounts (pg_db s') = first_admin user \<and>
    auth_bootstrap (pg_db s') = Some (b\<lparr>bt_completed := True, bt_token := None\<rparr>)"
  using assms
proof (rule finishBootstrap_runs)
  fix s1 p s2 c s3 valid s4 s5 s6 g s7 s8 s9
  assume tx: "authTx env s = (Inr (), s1)" and q1: "query Unavailable Unavailable auth_policy s1 = (Inr p, s2)"
    and q2: "query Unavailable Unavailable (\<lambda>db. map_option bt_completed (auth_bootstrap db)) s2 = (Inr c, s3)" "\<not> c"
    and q3: "query_at Unauthenticated Unavailable (bootstrap_valid before hash) s3 = (Inr valid, s4)" valid
    and acc: "exec Unavailable (ins_account user ''admin'') s4 = (Inr (), s5)"
    and pw: "exec Unavailable (ins_password user password) s5 = (Inr (), s6)"
    and grant: "first_grant env p user s6 = (Inr g, s7)"
    and close: "exec Unavailable (upd_bootstrap (\<lambda>b. b\<lparr>bt_completed := True, bt_token := None\<rparr>)) s7 = (Inr (), s8)"
    and audit: "auditAuth env user ''auth.bootstrap'' ''admin_created'' s8 = (Inr (), s9)" and db: "pg_db s' = pg_tx s9"
  have view: "pg_tx s3 = pg_db s" "pg_tx s4 = pg_db s" "pg_world s3 = pg_world s"
    using authTx_view [OF tx] q1 q2(1) q3(1) same_worldD [OF same_world_steps(1) tx]
    by (auto simp: query_success query_at_success tick_def)
  obtain b expires where b: "auth_bootstrap (pg_db s) = Some b" "\<not> bt_completed b" "bt_token b = Some (hash, expires)"
      "w_clock (pg_world s) (pg_step s3) < expires" "auth_accounts (pg_db s) = []"
    using q2 q3 view by (auto simp: query_success query_at_success bootstrap_valid_def clock_of_def tick_def split: option.splits)
  have s6: "authority (pg_tx s6) = (first_admin user, auth_bootstrap (pg_db s))"
    using acc pw view b(5) by (auto simp: exec_success ins_account_def ins_password_def first_admin_def split: if_splits)
  have "authority (pg_tx s9) = authority (pg_tx s8)" "authority (pg_tx s7) = authority (pg_tx s6)"
    using leavesD [OF leaves_auditAuth audit] leavesD [OF leaves_issue grant] by simp_all
  with s6 close db b show ?thesis
    by (auto simp: exec_success upd_bootstrap_def intro!: exI [of _ "pg_step s3"])
qed

lemma Bootstrap_effect:
  assumes "Bootstrap env installation dv token user password local s = (r, s')" and "pg_db s' \<noteq> pg_db s"
  obtains hash before stored t where "local" "tokenHash env token = Some hash"
    "installation \<longrightarrow> (\<exists>row. installation_setup (pg_db s) = Some row \<and> su_report row \<noteq> None)"
    "finishBootstrap env hash user stored before t = (r, s')" "pg_db t = pg_db s" "pg_world t = pg_world s"
proof -
  obtain hash where hash: "tokenHash env token = Some hash" and ok: "local" "safeID user" "ValidLoginPassword password"
    using assms by (auto simp: Bootstrap_def throw_def split: if_splits option.splits)
  have "seq (read_bootstrap hash) (\<lambda>before. seq (if installation then setupApplied else ret ()) (\<lambda>_.
      seq (hash_password env dv password) (\<lambda>h. finishBootstrap env hash user h before))) s = (r, s')"
    using assms(1) hash ok by (simp add: Bootstrap_def)
  with assms(2) obtain before s1 u s2 h s3 where run: "read_bootstrap hash s = (Inr before, s1)"
      "(if installation then setupApplied else ret ()) s1 = (Inr u, s2)" "hash_password env dv password s2 = (Inr h, s3)"
      "finishBootstrap env hash user h before s3 = (r, s')" "pg_db s3 = pg_db s" "pg_db s1 = pg_db s"
    apply -
    apply (erule (1) seq_effectE, rule quiet_bootstrap_steps)
    apply (erule (1) seq_effectE, intro tx_quiet)
    apply (erule (1) seq_effectE, rule quiet_bootstrap_steps)
    apply simp
    done
  have "installation \<longrightarrow> (\<exists>row. installation_setup (pg_db s) = Some row \<and> su_report row \<noteq> None)"
    using run(2,6) by (auto simp: setupApplied_def tx_success)
  moreover have "pg_world s3 = pg_world s"
    using same_worldD [OF same_world_bootstrap(1) run(1)] same_worldD [OF same_world_bootstrap(3) run(3)] run(2)
      same_worldD [OF same_world_bootstrap(2), of s1] same_worldD [OF same_world_basic(1), of _ s1] by (auto split: if_splits)
  ultimately show ?thesis using that [OF ok(1) hash _ run(4,5)] by blast
qed

text \<open>Once it is completed, neither a token nor an administrator comes from the first setup any more.\<close>

lemma bootstrap_closed:
  assumes "auth_bootstrap (pg_db s) = Some b" and "bt_completed b"
  shows "pg_db (snd (Bootstrap env installation dv token user password local s)) = pg_db s"
    and "pg_db (snd (IssueBootstrapToken env s)) = pg_db s"
proof -
  show "pg_db (snd (Bootstrap env installation dv token user password local s)) = pg_db s" (is "?db = _")
  proof (rule ccontr)
    assume effect: "?db \<noteq> pg_db s"
    obtain r s' where run: "Bootstrap env installation dv token user password local s = (r, s')" by fastforce
    with effect have "pg_db s' \<noteq> pg_db s" by simp
    with run obtain hash before stored t where "finishBootstrap env hash user stored before t = (r, s')" "pg_db t = pg_db s"
      by (rule Bootstrap_effect)
    with effect run assms finishBootstrap_effect [of env hash user stored before t r s'] show False by auto
  qed
  show "pg_db (snd (IssueBootstrapToken env s)) = pg_db s" (is "?db = _")
  proof (rule ccontr)
    assume effect: "?db \<noteq> pg_db s"
    obtain r s' where run: "IssueBootstrapToken env s = (r, s')" by fastforce
    with effect have "pg_db s' \<noteq> pg_db s" by simp
    with run show False unfolding IssueBootstrapToken_def
      apply -
      apply (erule (1) seq_effectE, rule quiet_steps)
      apply (erule (1) seq_effectE, rule quiet_basic)
      apply (erule (1) seq_effectE, rule quiet_basic)
      apply (drule authTx_view)
      apply (use assms in \<open>auto simp: query_success refuse_if_success\<close>)
      done
  qed
qed

text \<open>
  C11 (bootstrap.go, \<open>Bootstrap\<close>, \<open>finishBootstrap\<close>). Whatever calls fail, a request for the first
  administrator that changes the database comes from a local peer with the current installation token
  before its end, in an installation that was not completed and had no account; where an installation
  review is required it has been applied. Afterwards the account that was asked for is the only one, the
  installation is completed and the token is gone, and from then on neither this operation nor the issue
  of installation tokens changes anything.
\<close>

theorem bootstrap_once:
  assumes "Bootstrap env installation dv token user password local s = (r, s')" and "pg_db s' \<noteq> pg_db s"
  shows "local \<and> (\<exists>hash b expires k. tokenHash env token = Some hash \<and> auth_bootstrap (pg_db s) = Some b \<and>
      \<not> bt_completed b \<and> bt_token b = Some (hash, expires) \<and> w_clock (pg_world s) k < expires \<and>
      auth_accounts (pg_db s) = [] \<and> auth_accounts (pg_db s') = first_admin user \<and>
      auth_bootstrap (pg_db s') = Some (b\<lparr>bt_completed := True, bt_token := None\<rparr>)) \<and>
    (installation \<longrightarrow> (\<exists>row. installation_setup (pg_db s) = Some row \<and> su_report row \<noteq> None)) \<and>
    (\<forall>t env' i d tok u p l. pg_db t = pg_db s' \<longrightarrow>
      pg_db (snd (Bootstrap (env' :: LoginEnv) i d tok u p l t)) = pg_db t \<and>
      pg_db (snd (IssueBootstrapToken (env' :: LoginEnv) t)) = pg_db t)"
proof -
  obtain hash before stored t where boot: "local" "tokenHash env token = Some hash"
      "installation \<longrightarrow> (\<exists>row. installation_setup (pg_db s) = Some row \<and> su_report row \<noteq> None)"
      "finishBootstrap env hash user stored before t = (r, s')" "pg_db t = pg_db s" "pg_world t = pg_world s"
    using assms by (rule Bootstrap_effect)
  then obtain b expires k where b: "auth_bootstrap (pg_db s) = Some b" "\<not> bt_completed b" "bt_token b = Some (hash, expires)"
      "w_clock (pg_world s) k < expires" "auth_accounts (pg_db s) = []" "auth_accounts (pg_db s') = first_admin user"
      "auth_bootstrap (pg_db s') = Some (b\<lparr>bt_completed := True, bt_token := None\<rparr>)"
    using finishBootstrap_effect [OF boot(4)] assms(2) by auto
  have "pg_db (snd (Bootstrap (env' :: LoginEnv) i d tok u p l t)) = pg_db t \<and>
      pg_db (snd (IssueBootstrapToken (env' :: LoginEnv) t)) = pg_db t" if "pg_db t = pg_db s'" for t env' i d tok u p l
    using b(7) that by (intro conjI bootstrap_closed [of t "b\<lparr>bt_completed := True, bt_token := None\<rparr>"]) simp_all
  with boot(1-3) b show ?thesis by blast
qed

text \<open>A fresh installation: no account, and an installation token that is still good.\<close>

definition fresh_db :: DB where
  "fresh_db = demo_db\<lparr>auth_accounts := [], auth_totp_credentials := [], auth_totp_challenges := [],
     auth_bootstrap := Some \<lparr>bt_completed = False, bt_generation = 1, bt_token = Some (demo_hash, minutes 15)\<rparr>\<rparr>"

definition demo_stored :: string where
  "demo_stored = passwordEncoding 2 (replicate 16 (CHR ''r'')) (replicate 32 (CHR ''k''))"

lemma demo_hash_password:
  "ValidLoginPassword password \<Longrightarrow> 15 \<le> length (the (utf8_runes password)) \<Longrightarrow> pg_world s = demo_world \<Longrightarrow>
   hash_password demo_login idle_slots password s = (Inr demo_stored, tick s)"
  by (simp add: hash_password_def tx_defs demo_world_def demo_login_def demo_hasher_def Hash_def auth_result_def drawn_def
      derivePassword_def idle_slots_def fixed_argon_def demo_stored_def Let_def)

definition demo_bootstrap :: "DB Pg \<Rightarrow> (pg_error + LoginResult) \<times> DB Pg" where
  "demo_bootstrap = Bootstrap demo_login False idle_slots demo_token ''root'' ''correct horse battery'' True"

lemma demo_bootstrap_run: "auth_accounts (pg_db (snd (demo_bootstrap (demo_pg fresh_db)))) = first_admin ''root''"
proof -
  have stored: "demo_stored \<noteq> []" "\<not> 160 < length demo_stored" by code_simp+
  have id: "safeID ''root''" by code_simp
  show ?thesis
    by (simp add: demo_bootstrap_def Bootstrap_def demo_tokenHash id demo_password)
      (simp add: read_bootstrap_def bootstrap_row_def demo_pg_def demo_world_def fresh_db_def demo_db_def tx_defs tick_def
        minutes_def clock_of_def DefaultPolicy_def AuthPolicy_Validate_def demo_hash_password demo_password
        finishBootstrap_def authTx_def call_ok_def bootstrap_valid_def ins_account_def ins_password_def id stored
        first_grant_def issueEnrollment_def new_token_def NewCSRFToken_def Let_def ins_enrollment_def consume_enrollments_def
        upd_bootstrap_def first_admin_def)
qed

theorem bootstrap_once_witness:
  "\<exists>r s'. demo_bootstrap (demo_pg fresh_db) = (r, s') \<and> pg_db s' \<noteq> fresh_db \<and> auth_accounts (pg_db s') = first_admin ''root'' \<and>
     pg_db (snd (demo_bootstrap (demo_pg (pg_db s')))) = pg_db s'"
proof -
  obtain r s' where run: "demo_bootstrap (demo_pg fresh_db) = (r, s')" by fastforce
  have db: "pg_db (demo_pg x) = x" for x by (simp add: demo_pg_def)
  have effect: "pg_db s' \<noteq> pg_db (demo_pg fresh_db)"
    using demo_bootstrap_run run by (auto simp: db fresh_db_def first_admin_def)
  note once = bootstrap_once [OF run [unfolded demo_bootstrap_def] effect]
  from once have "pg_db (snd (demo_bootstrap (demo_pg (pg_db s')))) = pg_db s'"
    unfolding demo_bootstrap_def by (simp add: db)
  with run once effect show ?thesis by (auto simp: db)
qed

section \<open>Recovery codes\<close>

lemma loadRecovery_success:
  assumes "loadRecovery hash s = (Inr st, s')"
  obtains p ch where "auth_policy (pg_tx s) = Some p" "TOTPEnabled p" "rs_challenge st = hash"
    "map_of (auth_totp_challenges (pg_tx s)) hash = Some ch" "rs_ref st = \<lparr>cf_UserID = ch_user ch, cf_Version = ch_credential_version ch\<rparr>"
    "rs_attempts st = ch_attempts ch" "\<not> ch_consumed ch" "pg_tx s' = pg_tx s" "pg_db s' = pg_db s"
  using assms unfolding loadRecovery_def by (elim tx_elims conjE) auto

lemma scan_records_spec:
  "scan_records n rows = Some rs \<Longrightarrow> n \<le> 10 \<Longrightarrow>
     length rs = 10 - n \<and> length rows = 10 - n \<and> (\<forall>k < length rs. rows ! k = (n + 1 + k, rs ! k))"
proof (induction n rows arbitrary: rs rule: scan_records.induct)
  case (1 n)
  then show ?case by (auto split: if_splits)
next
  case (2 n slot r rest)
  then obtain rs' where rs: "rs = r # rs'" "scan_records (n + 1) rest = Some rs'" "n < 10" "slot = n + 1"
    by (auto split: if_splits)
  note ih = 2(1) [OF _ rs(2)]
  show ?case using ih rs(1,3,4) by (auto simp: nth_Cons split: nat.splits)
qed

lemma recovery_reserve_success:
  assumes "recovery_reserve env hash s = (Inr a, s')"
  obtains p ch where "auth_policy (pg_db s) = Some p" "TOTPEnabled p"
    "map_of (auth_totp_challenges (pg_db s)) hash = Some ch" "\<not> ch_consumed ch" "ch_attempts ch < 5"
    "rs_challenge (ra_state a) = hash"
    "rs_ref (ra_state a) = \<lparr>cf_UserID = ch_user ch, cf_Version = ch_credential_version ch\<rparr>" "length (ra_records a) = 10"
    "pg_db s' = (pg_db s)\<lparr>auth_totp_challenges := AList.update hash (ch\<lparr>ch_attempts := ch_attempts ch + 1\<rparr>) (auth_totp_challenges (pg_db s))\<rparr>"
proof -
  obtain s1 st s2 records s3 rows where
      run: "authTx env s = (Inr (), s1)" "loadRecovery hash s1 = (Inr st, s2)" "rs_attempts st < 5"
      "scan_records 0 (recovery_rows (rs_ref st) (pg_tx s2)) = Some records"
      "count_recovery hash (clock_of (tick s2)) (pg_tx s2) = Some (rows, s3)" "rows = 1"
      "a = \<lparr>ra_state = st, ra_records = records, ra_number = rs_attempts st + 1\<rparr>" "pg_db s' = s3"
    using assms unfolding recovery_reserve_def by (elim tx_elims conjE) (auto simp: tick_def)
  from run(2) show ?thesis
  proof (rule loadRecovery_success)
    fix p ch
    assume "auth_policy (pg_tx s1) = Some p" "TOTPEnabled p"
      "map_of (auth_totp_challenges (pg_tx s1)) hash = Some ch" "pg_tx s2 = pg_tx s1" "rs_challenge st = hash"
      "rs_ref st = \<lparr>cf_UserID = ch_user ch, cf_Version = ch_credential_version ch\<rparr>" "rs_attempts st = ch_attempts ch"
      "\<not> ch_consumed ch"
    with run authTx_view [OF run(1)] scan_records_spec [OF run(4)] show ?thesis
      by (intro that [of p ch]) (auto simp: count_recovery_def split: if_splits)
  qed
qed

text \<open>A match is an unused code whose record verifies the text.\<close>

definition recovers :: "'z LoginEnv_scheme \<Rightarrow> Derivation \<Rightarrow> string \<Rightarrow> RecoveryRow \<Rightarrow> bool" where
  "recovers env dv raw row \<longleftrightarrow> \<not> rc_consumed row \<and>
     fst (password_Verify (le_argon env) dv (le_hasher env) (''wr-recovery-v1:'' @ raw) (rc_hash row)) = Inr True"

lemma match_from_spec:
  "match_from env dvs raw i slot rs = Inr m \<Longrightarrow> slot \<noteq> 0 \<and> m = slot \<or>
     (\<exists>k. slot = 0 \<and> m = i + k + 1 \<and> k < length rs \<and> recovers env (dvs (i + k)) raw (rs ! k))"
proof (induction env dvs raw i slot rs rule: match_from.induct)
  case (1 env dvs raw i slot)
  then show ?case by (auto split: if_splits)
next
  case (2 env dvs raw i slot r rest)
  let ?v = "fst (password_Verify (le_argon env) (dvs i) (le_hasher env) (''wr-recovery-v1:'' @ raw) (rc_hash r))"
  from 2(3) obtain valid where v: "?v = Inr valid" by (cases ?v) simp_all
  show ?case
  proof (cases "valid \<and> \<not> rc_consumed r")
    case True
    then have "recovers env (dvs i) raw r" using v by (simp add: recovers_def)
    moreover have "slot = 0 \<and> m = i + 1"
      using True 2(3) v 2(1) [OF v True] by (auto split: if_splits)
    ultimately show ?thesis by (intro disjI2 exI [of _ 0]) simp
  next
    case False
    then have "match_from env dvs raw (i + 1) slot rest = Inr m" using 2(3) v by auto
    from 2(2) [OF v False this] show ?thesis
    proof (elim disjE exE conjE)
      fix k assume "slot = 0" "m = i + 1 + k + 1" "k < length rest" "recovers env (dvs (i + 1 + k)) raw (rest ! k)"
      then show ?thesis by (intro disjI2 exI [of _ "Suc k"]) simp
    qed simp
  qed
qed

text \<open>The tables a recovery touches.\<close>

abbreviation recovery_part :: "DB \<Rightarrow> ((string \<times> nat \<times> nat) \<times> RecoveryRow) list \<times> (string \<times> ChallengeRow) list \<times> (string \<times> SessionRow) list" where
  "recovery_part db \<equiv> (auth_recovery_codes db, auth_totp_challenges db, auth_sessions db)"

lemma leaves_audit_recovery: "leaves recovery_part (auditAuth env user action result)"
  by (rule leaves_audit) simp

lemma commitRecovery_success:
  assumes "commitRecovery env a slot sh csrf s = (Inr (), s')"
  obtains row ch now where
    "map_of (auth_recovery_codes (pg_tx s)) (cf_UserID (rs_ref (ra_state a)), cf_Version (rs_ref (ra_state a)), slot) = Some row"
    "\<not> rc_consumed row" "rc_hash row = rc_hash (ra_records a ! (slot - 1))"
    "map_of (auth_totp_challenges (pg_tx s)) (rs_challenge (ra_state a)) = Some ch" "\<not> ch_consumed ch"
    "map_of (auth_sessions (pg_tx s)) sh = None"
    "recovery_part (pg_db s') =
       (AList.update (cf_UserID (rs_ref (ra_state a)), cf_Version (rs_ref (ra_state a)), slot) (row\<lparr>rc_consumed := True\<rparr>)
          (auth_recovery_codes (pg_tx s)),
        AList.update (rs_challenge (ra_state a)) (ch\<lparr>ch_consumed := True\<rparr>) (auth_totp_challenges (pg_tx s)),
        auth_sessions (pg_tx s) @ [(sh, \<lparr>sr_csrf = csrf, sr_user = cf_UserID (rs_ref (ra_state a)),
          sr_policy_version = rs_policy (ra_state a), sr_user_version = rs_userVersion (ra_state a), sr_mfa = True,
          sr_created = now, sr_last_seen = now\<rparr>)])"
proof -
  let ?st = "ra_state a" and ?h = "rc_hash (ra_records a ! (slot - 1))"
  obtain s1 s2 s3 s4 where
      code: "exec Unavailable (consume_code (rs_ref ?st) slot ?h) s = (Inr 1, s1)"
    and chal: "exec_at Unavailable (consume_recovered (rs_challenge ?st) (ra_number a)) s1 = (Inr 1, s2)"
    and sess: "exec_at Unavailable (\<lambda>t. ins_session sh \<lparr>sr_csrf = csrf, sr_user = cf_UserID (rs_ref ?st),
       sr_policy_version = rs_policy ?st, sr_user_version = rs_userVersion ?st, sr_mfa = True, sr_created = t,
       sr_last_seen = t\<rparr>) s2 = (Inr (), s3)"
    and audit: "auditAuth env (cf_UserID (rs_ref ?st)) ''auth.totp.recover'' ''authenticated'' s3 = (Inr (), s4)"
    and db: "pg_db s' = pg_tx s4"
    using assms unfolding commitRecovery_def Let_def seq_success refuse_if_success commit_success by auto
  obtain row where row: "map_of (auth_recovery_codes (pg_tx s)) (cf_UserID (rs_ref ?st), cf_Version (rs_ref ?st), slot) = Some row"
      "\<not> rc_consumed row" "rc_hash row = ?h"
      "pg_tx s1 = (pg_tx s)\<lparr>auth_recovery_codes := AList.update (cf_UserID (rs_ref ?st), cf_Version (rs_ref ?st), slot)
         (row\<lparr>rc_consumed := True\<rparr>) (auth_recovery_codes (pg_tx s))\<rparr>"
    using code by (auto simp: exec_success consume_code_def Let_def split: if_splits option.splits)
  obtain ch where ch: "map_of (auth_totp_challenges (pg_tx s)) (rs_challenge ?st) = Some ch" "\<not> ch_consumed ch"
      "pg_tx s2 = (pg_tx s1)\<lparr>auth_totp_challenges := AList.update (rs_challenge ?st) (ch\<lparr>ch_consumed := True\<rparr>) (auth_totp_challenges (pg_tx s))\<rparr>"
    using chal row(4) by (auto simp: exec_at_success consume_recovered_def split: if_splits option.splits)
  have "recovery_part (pg_tx s4) = recovery_part (pg_tx s3)" using leavesD [OF leaves_audit_recovery audit] .
  with sess row ch db show ?thesis
    by (intro that [of row ch "clock_of s2"]) (auto simp: exec_at_success ins_session_def split: if_splits)
qed

lemma loadRecovery_view: "loadRecovery hash s = (Inr st, s') \<Longrightarrow> pg_tx s' = pg_tx s \<and> pg_db s' = pg_db s"
  by (erule loadRecovery_success) simp

lemma new_token_view:
  "new_token env e s = (Inr tok, s') \<Longrightarrow> snd tok = pe_sha env (fst tok) \<and> pg_tx s' = pg_tx s \<and> pg_db s' = pg_db s"
  by (auto simp: new_token_def NewCSRFToken_def seq_success ret_success random_success Let_def)

lemma recovery_finish_success:
  assumes "recovery_finish env a slot s = (Inr g, s')"
  obtains t where "1 \<le> slot" "slot \<le> 10" "pg_tx t = pg_db s"
    "commitRecovery env a slot (pe_sha env (gr_session g)) (pe_sha env (gr_csrf g)) t = (Inr (), s')"
proof -
  have range: "1 \<le> slot" "slot \<le> 10" "\<not> rc_consumed (ra_records a ! (slot - 1))" "1 \<le> ra_number a" "ra_number a \<le> 5"
    using assms by (auto simp: recovery_finish_def throw_def Let_def split: if_splits)
  obtain s1 st s2 row s3 session s4 csrf s5
    where run: "authTx env s = (Inr (), s1)" "loadRecovery (rs_challenge (ra_state a)) s1 = (Inr st, s2)"
      "query InvalidOrReplayed Unavailable (\<lambda>db. map_of (auth_recovery_codes db) (cf_UserID (rs_ref st), cf_Version (rs_ref st), slot)) s2 = (Inr row, s3)"
      "new_token env Unavailable s3 = (Inr session, s4)" "new_token env Unavailable s4 = (Inr csrf, s5)"
      "commitRecovery env a slot (snd session) (snd csrf) s5 = (Inr (), s')"
      "g = \<lparr>gr_session = fst session, gr_csrf = fst csrf\<rparr>"
    using assms range unfolding recovery_finish_def Let_def case_prod_unfold
    by (simp only: linorder_not_less [symmetric] if_False simp_thms) (elim seqE, simp only: refuse_if_success ret_success, elim conjE, simp)
  have "pg_tx s5 = pg_db s"
    using authTx_view [OF run(1)] loadRecovery_view [OF run(2)] run(3) new_token_view [OF run(4)] new_token_view [OF run(5)]
    by (simp add: query_success)
  with range run(6,7) new_token_view [OF run(4)] new_token_view [OF run(5)] show ?thesis by (intro that [of s5]) simp_all
qed

text \<open>
  C12 (recovery.go, \<open>Complete\<close>). A recovery code gives a session only for a pending challenge that had
  fewer than five attempts, while the policy asks for a second factor, and only if it verifies against an
  unused code of the challenged credential. Afterwards that code is used, the challenge is consumed with
  the attempt counted, and exactly one new MFA session of the challenged user exists, under the hash of
  the token that was handed out.
\<close>

theorem recovery_code_once:
  assumes "recovery_Complete env dvs challenge code s = (Inr g, s')"
  shows "\<exists>hash p ch slot row session. tokenHash env challenge = Some hash \<and> auth_policy (pg_db s) = Some p \<and> TOTPEnabled p \<and>
    map_of (auth_totp_challenges (pg_db s)) hash = Some ch \<and> \<not> ch_consumed ch \<and> ch_attempts ch < 5 \<and>
    1 \<le> slot \<and> slot \<le> 10 \<and>
    map_of (auth_recovery_codes (pg_db s)) (ch_user ch, ch_credential_version ch, slot) = Some row \<and>
    recovers env (dvs (slot - 1)) code row \<and>
    auth_recovery_codes (pg_db s') =
      AList.update (ch_user ch, ch_credential_version ch, slot) (row\<lparr>rc_consumed := True\<rparr>) (auth_recovery_codes (pg_db s)) \<and>
    map_of (auth_totp_challenges (pg_db s')) hash = Some (ch\<lparr>ch_attempts := ch_attempts ch + 1, ch_consumed := True\<rparr>) \<and>
    map_of (auth_sessions (pg_db s)) (pe_sha env (gr_session g)) = None \<and>
    auth_sessions (pg_db s') = auth_sessions (pg_db s) @ [(pe_sha env (gr_session g), session)] \<and>
    sr_mfa session \<and> sr_user session = ch_user ch \<and> sr_csrf session = pe_sha env (gr_csrf g)"
proof -
  obtain hash where hash: "tokenHash env challenge = Some hash"
    using assms by (auto simp: recovery_Complete_def throw_def split: option.splits)
  then obtain a s1 slot where reserve: "recovery_reserve env hash s = (Inr a, s1)"
      and match: "recovery_match env dvs a code = Inr slot" and finish: "recovery_finish env a slot s1 = (Inr g, s')"
    using assms by (auto simp: recovery_Complete_def seq_success of_sum_success)
  from match have "match_from env dvs code 0 0 (ra_records a) = Inr slot"
    by (auto simp: recovery_match_def split: if_splits)
  then have code: "recovers env (dvs (slot - 1)) code (ra_records a ! (slot - 1))"
    using match_from_spec by fastforce
  from finish obtain t where slot: "1 \<le> slot" "slot \<le> 10" and t: "pg_tx t = pg_db s1"
      and commit: "commitRecovery env a slot (pe_sha env (gr_session g)) (pe_sha env (gr_csrf g)) t = (Inr (), s')"
    by (rule recovery_finish_success)
  from reserve show ?thesis
  proof (rule recovery_reserve_success)
    fix p ch
    assume p: "auth_policy (pg_db s) = Some p" "TOTPEnabled p"
      and ch: "map_of (auth_totp_challenges (pg_db s)) hash = Some ch" "\<not> ch_consumed ch" "ch_attempts ch < 5"
      and st: "rs_challenge (ra_state a) = hash" "rs_ref (ra_state a) = \<lparr>cf_UserID = ch_user ch, cf_Version = ch_credential_version ch\<rparr>"
      and s1: "pg_db s1 = (pg_db s)\<lparr>auth_totp_challenges := AList.update hash (ch\<lparr>ch_attempts := ch_attempts ch + 1\<rparr>) (auth_totp_challenges (pg_db s))\<rparr>"
    from commit show ?thesis
    proof (rule commitRecovery_success)
      fix row ch' now
      assume "map_of (auth_recovery_codes (pg_tx t)) (cf_UserID (rs_ref (ra_state a)), cf_Version (rs_ref (ra_state a)), slot) = Some row"
        "\<not> rc_consumed row" "rc_hash row = rc_hash (ra_records a ! (slot - 1))"
        "map_of (auth_totp_challenges (pg_tx t)) (rs_challenge (ra_state a)) = Some ch'"
        "map_of (auth_sessions (pg_tx t)) (pe_sha env (gr_session g)) = None"
        "recovery_part (pg_db s') =
          (AList.update (cf_UserID (rs_ref (ra_state a)), cf_Version (rs_ref (ra_state a)), slot) (row\<lparr>rc_consumed := True\<rparr>)
            (auth_recovery_codes (pg_tx t)),
           AList.update (rs_challenge (ra_state a)) (ch'\<lparr>ch_consumed := True\<rparr>) (auth_totp_challenges (pg_tx t)),
           auth_sessions (pg_tx t) @ [(pe_sha env (gr_session g), \<lparr>sr_csrf = pe_sha env (gr_csrf g),
             sr_user = cf_UserID (rs_ref (ra_state a)), sr_policy_version = rs_policy (ra_state a),
             sr_user_version = rs_userVersion (ra_state a), sr_mfa = True, sr_created = now, sr_last_seen = now\<rparr>)])"
      then have "map_of (auth_recovery_codes (pg_db s)) (ch_user ch, ch_credential_version ch, slot) = Some row"
        "recovers env (dvs (slot - 1)) code row" "map_of (auth_sessions (pg_db s)) (pe_sha env (gr_session g)) = None"
        "ch' = ch\<lparr>ch_attempts := ch_attempts ch + 1\<rparr>"
        "auth_recovery_codes (pg_db s') = AList.update (ch_user ch, ch_credential_version ch, slot) (row\<lparr>rc_consumed := True\<rparr>) (auth_recovery_codes (pg_db s))"
        "map_of (auth_totp_challenges (pg_db s')) hash = Some (ch\<lparr>ch_attempts := ch_attempts ch + 1, ch_consumed := True\<rparr>)"
        "\<exists>session. auth_sessions (pg_db s') = auth_sessions (pg_db s) @ [(pe_sha env (gr_session g), session)] \<and>
           sr_mfa session \<and> sr_user session = ch_user ch \<and> sr_csrf session = pe_sha env (gr_csrf g)"
        using code t s1 st by (simp_all add: update_conv' recovers_def)
      with hash p ch slot show ?thesis by blast
    qed
  qed
qed

text \<open>A user who has one recovery code left.\<close>

definition demo_codes :: "RecoveryRow list" where
  "demo_codes = \<lparr>rc_hash = demo_stored, rc_consumed = False\<rparr> # replicate 9 \<lparr>rc_hash = demo_stored, rc_consumed = True\<rparr>"

definition demo_code_rows :: "((string \<times> nat \<times> nat) \<times> RecoveryRow) list" where
  "demo_code_rows = map (\<lambda>i. ((''u'', 2, i), demo_codes ! (i - 1))) [1..<11]"

definition recovery_db :: DB where
  "recovery_db = demo_db\<lparr>auth_recovery_codes := demo_code_rows\<rparr>"

lemma demo_code_password: "ValidLoginPassword (''wr-recovery-v1:'' @ demo_token)"
  by (rule ascii_password; code_simp)

lemma demo_verifies:
  "fst (password_Verify (le_argon demo_login) idle_slots (le_hasher demo_login) (''wr-recovery-v1:'' @ demo_token) demo_stored) = Inr True"
proof -
  have "Hash fixed_argon idle_slots (Some (replicate 16 (CHR ''r''))) demo_hasher ''correct horse battery'' = Inr demo_stored"
    using demo_password
    by (simp add: Hash_def demo_hasher_def idle_slots_def derivePassword_def Let_def fixed_argon_def demo_stored_def)
  then have "parsePassword demo_stored = Some (2, replicate 16 (CHR ''r''), replicate 32 (CHR ''k''))"
    by (subst Hash_parses) (auto simp: fixed_argon_def demo_hasher_def)
  moreover have "demo_stored \<noteq> []" by code_simp
  ultimately show ?thesis
    using demo_code_password
    by (simp add: password_Verify_def demo_login_def demo_hasher_def passwordEncoding_def Let_def derivePassword_def
        idle_slots_def fixed_argon_def)
qed

lemma demo_match: "match_from demo_login (\<lambda>_. idle_slots) demo_token 0 0 demo_codes = Inr 1"
proof -
  have "match_from demo_login (\<lambda>_. idle_slots) demo_token i (Suc j) (replicate n \<lparr>rc_hash = demo_stored, rc_consumed = True\<rparr>) = Inr (Suc j)" for i j n
    using demo_verifies by (induction n arbitrary: i) simp_all
  then show ?thesis using demo_verifies by (simp add: demo_codes_def)
qed

lemma demo_records:
  "auth_recovery_codes db = demo_code_rows \<Longrightarrow> scan_records 0 (recovery_rows \<lparr>cf_UserID = ''u'', cf_Version = 2\<rparr> db) = Some demo_codes"
  "map_of demo_code_rows (''u'', 2, Suc 0) = Some \<lparr>rc_hash = demo_stored, rc_consumed = False\<rparr>"
proof -
  have slots: "[1..<11] = [1, 2, 3, 4, 5, 6, 7, 8, 9, 10]" by code_simp
  show "map_of demo_code_rows (''u'', 2, Suc 0) = Some \<lparr>rc_hash = demo_stored, rc_consumed = False\<rparr>"
    unfolding demo_code_rows_def demo_codes_def slots by simp
  assume "auth_recovery_codes db = demo_code_rows"
  then show "scan_records 0 (recovery_rows \<lparr>cf_UserID = ''u'', cf_Version = 2\<rparr> db) = Some demo_codes"
    unfolding recovery_rows_def demo_code_rows_def demo_codes_def slots by (simp add: numeral_eq_Suc)
qed

lemma demo_recovery_run: "\<exists>g s'. recovery_Complete demo_login (\<lambda>_. idle_slots) demo_token demo_token (demo_pg recovery_db) = (Inr g, s')"
proof -
  have admin: "AdminCapabilities Admin \<noteq> []" by code_simp
  have unused: "demo_codes ! 0 = \<lparr>rc_hash = demo_stored, rc_consumed = False\<rparr>" by (simp add: demo_codes_def)
  show ?thesis
    by (simp add: recovery_Complete_def demo_tokenHash recovery_match_def)
      (simp add: recovery_reserve_def loadRecovery_def demo_pg_def demo_world_def recovery_db_def demo_db_def tx_defs tick_def
        minutes_def clock_of_def DefaultPolicy_def AuthPolicy_Validate_def authTx_def call_ok_def admin demo_records
        count_recovery_def demo_match recovery_finish_def unused Let_def new_token_def NewCSRFToken_def commitRecovery_def
        consume_code_def consume_recovered_def ins_session_def)
qed

theorem recovery_code_once_witness:
  "\<exists>g s'. recovery_Complete demo_login (\<lambda>_. idle_slots) demo_token demo_token (demo_pg recovery_db) = (Inr g, s') \<and>
     (\<exists>session. auth_sessions (pg_db s') = [(pe_sha demo_login (gr_session g), session)] \<and> sr_mfa session \<and> sr_user session = ''u'')"
proof -
  obtain g s' where run: "recovery_Complete demo_login (\<lambda>_. idle_slots) demo_token demo_token (demo_pg recovery_db) = (Inr g, s')"
    using demo_recovery_run by blast
  have "auth_sessions (pg_db (demo_pg recovery_db)) = []"
    "map_of (auth_totp_challenges (pg_db (demo_pg recovery_db))) h = Some ch \<Longrightarrow> ch_user ch = ''u''" for h ch
    by (auto simp: demo_pg_def recovery_db_def demo_db_def split: if_splits)
  with recovery_code_once [OF run] run show ?thesis by force
qed

end
