(* ===== verification/WR_Security_Props.thy ===== *)
theory WR_Security_Props
  imports WR_Security WR_Enroll_Props
begin

text \<open>
  An installation that was set up keeps an administrator: whatever the account, login, enrollment,
  recovery and policy services do and whatever calls fail, an enabled administrator remains and the
  first setup stays closed.
\<close>

section \<open>Services that do not touch the accounts\<close>

lemma keeps_replay:
  "(\<And>x. keeps R (f x)) \<Longrightarrow> (\<And>x. keeps R (g x)) \<Longrightarrow> keeps R m \<Longrightarrow>
   keeps R (case v of Recorded x \<Rightarrow> f x | Refused_reply x \<Rightarrow> g x | Fresh \<Rightarrow> m)"
  by (cases v) simp_all

text \<open>
  The contract of a relation between databases that only depends on who has authority. Whatever does
  not write the accounts or the state of the first setup keeps such a relation.
\<close>

locale authority_relation =
  fixes R :: "DB \<Rightarrow> DB \<Rightarrow> bool"
  assumes frame: "authority db' = authority db \<Longrightarrow> R d db \<Longrightarrow> R d db'"
begin

lemma kept_stmt:
  assumes "\<And>db x db'. f db = Some (x, db') \<Longrightarrow> authority db' = authority db"
  shows "keeps R (exec e f)"
  by (rule keeps_exec) (use assms frame in blast)

lemma kept_stmt_at:
  assumes "\<And>now db x db'. f now db = Some (x, db') \<Longrightarrow> authority db' = authority db"
  shows "keeps R (exec_at e f)"
  by (rule keeps_exec_at) (use assms frame in blast)

lemmas stmts = tx_keeps kept_stmt kept_stmt_at

lemma kept_tokens: "keeps R (new_token env e)" "keeps R (authTx env)" "keeps R (hash_password lenv dv password)"
  "keeps R (loadSession hash)" "keeps R (check_mutation env r csrf)"
  unfolding new_token_def authTx_def hash_password_def loadSession_def check_mutation_def by (intro stmts; auto)+

lemma kept_audit: "keeps R (auditAuth env user action result)" "keeps R (auditRejectedPassword env)"
  unfolding auditRejectedPassword_def auditAuth_def Let_def case_prod_unfold
  by (intro stmts kept_tokens; auto simp: ins_audit_def split: if_splits option.splits)+

lemma kept_issue: "keeps R (issuePasswordSession env user v w)" "keeps R (issueEnrollment env user v w)"
  unfolding issuePasswordSession_def issueEnrollment_def case_prod_unfold
  by (intro stmts kept_tokens; auto simp: ins_session_def ins_enrollment_def consume_enrollments_def split: if_splits)+

lemma kept_reserve_loop: "keeps R (reserve_loop env user source limits)"
proof (induction env user source limits rule: reserve_loop.induct)
  case (2 env user source dimension limit rest)
  show ?case unfolding reserve_loop.simps
    by (intro stmts 2 kept_audit; auto simp: ins_bucket_def set_bucket_def split: if_splits option.splits)
qed (simp add: keeps_ret)

lemma kept_http_loop: "keeps R (http_loop env source limits)"
proof (induction env source limits rule: http_loop.induct)
  case (2 env source by_source limit rest)
  show ?case unfolding http_loop.simps
    by (intro stmts 2; auto simp: ins_bucket_def set_bucket_def split: if_splits option.splits)
qed (simp add: keeps_ret)

lemma kept_login: "keeps R (reserveAttempt env user source)" "keeps R (ReserveAuthHTTP env src)"
  "keeps R (finishPassword env before)" "keeps R (Login env dv user password src)"
  unfolding Login_def finishPassword_def reserveAttempt_def ReserveAuthHTTP_def Let_def case_prod_unfold
  by (intro stmts kept_tokens kept_audit kept_issue kept_reserve_loop kept_http_loop;
      auto simp: del_buckets_def del_http_buckets_def consume_challenges_def ins_challenge_def split: if_splits)+

lemma kept_totp: "keeps R (load_challenge hash)" "keeps R (login_consume env c ref k)" "keeps R (CompleteTOTP env challenge code)"
  unfolding CompleteTOTP_def login_consume_def load_challenge_def Let_def case_prod_unfold
  by (intro stmts kept_tokens kept_audit keeps_verify_code;
      auto simp: advance_counter_def consume_challenge_def ins_session_def count_attempt_def split: if_splits option.splits)+

lemma kept_store_codes: "keeps R (store_codes ref slot hashes)"
  by (induction ref slot hashes rule: store_codes.induct)
     (simp_all, (intro stmts; auto simp: ins_recovery_def split: if_splits)+)

lemma kept_prepare_codes: "keeps R (prepare_codes env dvs slots)"
  by (induction slots) (simp_all add: case_prod_unfold, (intro stmts kept_tokens)+)

lemma kept_enrollment_steps: "keeps R (loadEnrollment policy hash)" "keeps R (enrollment_reserve env policy hash)"
  "keeps R (enrollment_consume env c ref k)"
  unfolding enrollment_reserve_def loadEnrollment_def enrollment_consume_def Let_def case_prod_unfold
  by (intro stmts kept_tokens kept_audit kept_store_codes;
      auto simp: upd_enrollment_def ins_credential_def del_sessions_def consume_challenges_def consume_enrollments_def
        ins_session_def Let_def split: if_splits option.splits)+

lemma kept_enrollment: "keeps R (Begin env keyID policy token)" "keeps R (enrollment_Complete env keyID policy dvs token code)"
  unfolding Begin_def enrollment_Complete_def enrollment_finish_def prepareRecovery_def Let_def case_prod_unfold
  by (intro stmts kept_tokens kept_prepare_codes kept_enrollment_steps keeps_verify_code;
      auto simp: upd_enrollment_def split: if_splits option.splits)+

lemma kept_recovery: "keeps R (recovery_Complete env dvs challenge code)"
  unfolding recovery_Complete_def recovery_reserve_def loadRecovery_def recovery_finish_def commitRecovery_def Let_def case_prod_unfold
  by (intro stmts kept_tokens kept_audit;
      auto simp: count_recovery_def consume_code_def consume_recovered_def ins_session_def Let_def split: if_splits option.splits)

lemma kept_command_steps: "keeps R (replyProblem env status code)" "keeps R (beginCommand env token action request sensitive)"
  "keeps R (readConfig env)" "keeps R (recheck_session state)" "keeps R (consumeReauth env token rq action target raw)"
  unfolding replyProblem_def beginCommand_def lock_policy_def readConfig_def recheck_session_def consumeReauth_def
    Let_def case_prod_unfold
  by (intro stmts kept_tokens; auto simp: consume_proof_def split: if_splits option.splits)+

lemma kept_replay: "keeps R (find_replay env actor key fprint now)"
  unfolding find_replay_def
  by (intro stmts kept_command_steps keeps_replay; auto simp: del_command_def prune_commands_def)

lemma kept_record: "keeps R (record_command env state token action target before after outcome key fprint revision r)"
  unfolding record_command_def case_prod_unfold
  by (intro stmts kept_tokens; auto simp: ins_audit_def ins_command_def see_session_def split: if_splits option.splits)

lemma kept_command:
  assumes "\<And>state current. keeps R (body state current)"
  shows "keeps R (control_command env token request raw action target etag body)"
  unfolding control_command_def unless_recorded_def open_command_def execute_command_def finish_command_def Let_def case_prod_unfold
  by (intro stmts kept_command_steps kept_replay kept_record keeps_replay assms)

lemma kept_verify_reauth: "keeps R (reauth_consume own ref counter)" "keeps R (reauth_totp env i state)"
  "keeps R (issue_proof env i session state)"
  unfolding reauth_totp_def reauth_consume_def issue_proof_def Let_def case_prod_unfold
  by (intro stmts kept_tokens keeps_verify_code;
      auto simp: advance_counter_def prune_proofs_def ins_proof_def ins_audit_def split: if_splits option.splits)+

lemma kept_reauthenticate: "keeps R (Reauthenticate env dv token request raw)"
  unfolding Reauthenticate_def reauth_locked_def begin_read_def lock_policy_def Let_def case_prod_unfold
  by (split option.split, intro conjI allI impI;
      intro stmts kept_tokens kept_command_steps kept_verify_reauth kept_login; auto)

lemma kept_refuse: "keeps R (refuse_request env status code)"
  unfolding refuse_request_def by (intro stmts kept_command_steps)

lemma kept_begin_policy: "keeps R (BeginPolicyEnrollment env token request raw)"
  unfolding BeginPolicyEnrollment_def begin_enrollment_body_def sealProof_def Let_def case_prod_unfold
  by (intro stmts kept_command kept_tokens kept_command_steps kept_refuse;
      auto simp: del_enrollments_def ins_enrollment_def ins_policy_enrollment_def Let_def split: if_splits)

lemma kept_policy_enrollment: "keeps R (PolicyEnrollment env dvs token request raw verify)"
  unfolding PolicyEnrollment_def begin_read_def Let_def case_prod_unfold
  by (split option.split, intro conjI allI impI;
      intro stmts kept_tokens kept_command_steps kept_enrollment; auto)

lemma kept_change_policy: "keeps R (ChangePolicy env token request raw)"
  unfolding ChangePolicy_def change_policy_body_def switch_policy_def Let_def case_prod_unfold
  by (split option.split, intro conjI allI impI;
      intro stmts kept_command kept_tokens kept_command_steps kept_refuse kept_issue;
      auto simp: upd_policy_def del_sessions_def del_enrollments_def mark_mfa_def Let_def split: if_splits option.splits)

end

section \<open>The last administrator\<close>

definition completed :: "DB \<Rightarrow> bool" where
  "completed db = (case auth_bootstrap db of Some b \<Rightarrow> bt_completed b | None \<Rightarrow> False)"

definition has_admin :: "DB \<Rightarrow> bool" where
  "has_admin db \<longleftrightarrow> (\<exists>user a. (user, a) \<in> set (auth_accounts db) \<and> active_admin a)"

lemma keeps_admin_iff: "keeps_admin db \<longleftrightarrow> (completed db \<longrightarrow> has_admin db)"
  by (auto simp: keeps_admin_def completed_def has_admin_def list_ex_iff split: option.splits)

definition admin_kept :: "DB \<Rightarrow> DB \<Rightarrow> bool" where
  "admin_kept d db \<longleftrightarrow> (keeps_admin d \<longrightarrow> keeps_admin db) \<and> (completed d \<longrightarrow> completed db)"

interpretation authority: authority_relation admin_kept
  by unfold_locales (auto simp: admin_kept_def keeps_admin_iff completed_def has_admin_def)

lemma admin_kept_trans: "admin_kept a b \<Longrightarrow> admin_kept b c \<Longrightarrow> admin_kept a c"
  by (auto simp: admin_kept_def)

text \<open>The three statements that write the accounts or the state of the first setup.\<close>

lemma admin_ins_account: "keeps admin_kept (exec e (ins_account user role))"
proof (rule keeps_exec)
  fix d db x db'
  assume "ins_account user role db = Some (x, db')" and d: "admin_kept d db"
  then have "auth_bootstrap db' = auth_bootstrap db" "set (auth_accounts db) \<subseteq> set (auth_accounts db')"
    by (auto simp: ins_account_def split: if_splits)
  then have "completed db' = completed db" "has_admin db \<Longrightarrow> has_admin db'" by (auto simp: completed_def has_admin_def)
  with d show "admin_kept d db'" by (auto simp: admin_kept_def keeps_admin_iff)
qed

lemma admin_upd_account: "keeps admin_kept (exec e (upd_account user a))"
  by (rule keeps_exec)
     (auto simp: admin_kept_def upd_account_def completed_def Let_def split: if_splits)

lemma admin_new_token: "keeps admin_kept (exec_at e (\<lambda>now. upd_bootstrap (\<lambda>b. b\<lparr>bt_generation := g b, bt_token := h now b\<rparr>)))"
  by (rule keeps_exec_at)
     (auto simp: admin_kept_def keeps_admin_iff completed_def has_admin_def upd_bootstrap_def split: option.splits)

lemma admin_issue_token: "keeps admin_kept (IssueBootstrapToken env)"
  unfolding IssueBootstrapToken_def case_prod_unfold
  by (intro tx_keeps authority.kept_tokens admin_new_token)

lemma admin_create_user: "keeps admin_kept (CreateUser env dv token request raw)"
  unfolding CreateUser_def create_user_body_def Let_def case_prod_unfold
  by (split option.split, intro conjI allI impI;
      intro authority.stmts authority.kept_command authority.kept_tokens authority.kept_command_steps authority.kept_refuse
        admin_ins_account;
      auto simp: ins_password_def split: if_splits)

lemma admin_change_user: "keeps admin_kept (ChangeUser env token user request raw reset)"
  unfolding ChangeUser_def change_user_body_def apply_user_def revokeUser_def removeTOTP_def Let_def case_prod_unfold
  by (intro tx_keeps authority.kept_command authority.kept_command_steps authority.kept_refuse admin_upd_account
        authority.kept_stmt;
      auto simp: del_sessions_def del_enrollments_def Let_def split: if_splits)

lemma admin_bootstrap:
  "admin_kept (pg_db s) (pg_db (snd (Bootstrap env installation dv token user password local s)))"
proof (cases "pg_db (snd (Bootstrap env installation dv token user password local s)) = pg_db s")
  case True
  then show ?thesis by (simp add: admin_kept_def)
next
  case False
  obtain r s' where run: "Bootstrap env installation dv token user password local s = (r, s')" by fastforce
  with False have "pg_db s' \<noteq> pg_db s" by simp
  with run obtain hash before stored t where "finishBootstrap env hash user stored before t = (r, s')" "pg_db t = pg_db s"
    by (rule Bootstrap_effect)
  with finishBootstrap_effect [of env hash user stored before t r s'] \<open>pg_db s' \<noteq> pg_db s\<close>
  have "completed (pg_db s')" "has_admin (pg_db s')"
    by (auto simp: completed_def has_admin_def first_admin_def active_admin_def)
  with run show ?thesis by (simp add: admin_kept_def keeps_admin_iff)
qed

text \<open>
  The account services, each started outside a transaction; the argument of a step is any request, any
  behaviour of the database and any clock.
\<close>

inductive account_step :: "'y LoginEnv_scheme \<Rightarrow> 'z SecEnv_scheme \<Rightarrow> DB \<Rightarrow> DB \<Rightarrow> bool" for lenv senv where
  token: "pg_tx s = pg_db s \<Longrightarrow> account_step lenv senv (pg_db s) (pg_db (snd (IssueBootstrapToken lenv s)))"
| bootstrap: "account_step lenv senv (pg_db s) (pg_db (snd (Bootstrap lenv installation dv token user password local s)))"
| limit: "pg_tx s = pg_db s \<Longrightarrow> account_step lenv senv (pg_db s) (pg_db (snd (ReserveAuthHTTP lenv source s)))"
| login: "pg_tx s = pg_db s \<Longrightarrow> account_step lenv senv (pg_db s) (pg_db (snd (Login lenv dv user password source s)))"
| totp: "pg_tx s = pg_db s \<Longrightarrow> account_step lenv senv (pg_db s) (pg_db (snd (CompleteTOTP lenv challenge code s)))"
| enroll: "pg_tx s = pg_db s \<Longrightarrow> account_step lenv senv (pg_db s) (pg_db (snd (Begin lenv keyID policy challenge s)))"
| enrolled: "pg_tx s = pg_db s \<Longrightarrow>
    account_step lenv senv (pg_db s) (pg_db (snd (enrollment_Complete lenv keyID policy dvs challenge code s)))"
| recover: "pg_tx s = pg_db s \<Longrightarrow> account_step lenv senv (pg_db s) (pg_db (snd (recovery_Complete lenv dvs challenge code s)))"
| reauth: "pg_tx s = pg_db s \<Longrightarrow> account_step lenv senv (pg_db s) (pg_db (snd (Reauthenticate senv dv token request raw s)))"
| create: "pg_tx s = pg_db s \<Longrightarrow> account_step lenv senv (pg_db s) (pg_db (snd (CreateUser senv dv token request raw s)))"
| change: "pg_tx s = pg_db s \<Longrightarrow> account_step lenv senv (pg_db s) (pg_db (snd (ChangeUser senv token user request raw reset s)))"
| enroll_admin: "pg_tx s = pg_db s \<Longrightarrow>
    account_step lenv senv (pg_db s) (pg_db (snd (BeginPolicyEnrollment senv token request raw s)))"
| enrolled_admin: "pg_tx s = pg_db s \<Longrightarrow>
    account_step lenv senv (pg_db s) (pg_db (snd (PolicyEnrollment senv dvs token request raw verify s)))"
| policy: "pg_tx s = pg_db s \<Longrightarrow> account_step lenv senv (pg_db s) (pg_db (snd (ChangePolicy senv token request raw s)))"

lemma keeps_durable: "keeps admin_kept m \<Longrightarrow> pg_tx s = pg_db s \<Longrightarrow> admin_kept (pg_db s) (pg_db (snd (m s)))"
  using keepsD [of admin_kept m s "fst (m s)" "snd (m s)" "pg_db s"] by (simp add: admin_kept_def)

lemma account_step_kept: "account_step lenv senv db db' \<Longrightarrow> admin_kept db db'"
  by (induction rule: account_step.induct)
     (intro keeps_durable admin_bootstrap admin_issue_token admin_create_user admin_change_user authority.kept_login
        authority.kept_totp authority.kept_enrollment authority.kept_recovery authority.kept_reauthenticate
        authority.kept_begin_policy authority.kept_policy_enrollment authority.kept_change_policy; assumption)+

text \<open>
  C10 (the last administrator). Over any sequence of account, login, enrollment, recovery and policy
  requests, in whatever order and whatever calls fail, an installation that was set up keeps an enabled,
  undeleted administrator, and the first setup stays closed.
\<close>

theorem administrator_kept:
  assumes "(account_step lenv senv)\<^sup>*\<^sup>* db db'" and "keeps_admin db"
  shows "keeps_admin db' \<and> (completed db \<longrightarrow> completed db' \<and> has_admin db')"
proof -
  from assms(1) have "admin_kept db db'"
    by (induction rule: rtranclp_induct) (auto simp: admin_kept_def dest: account_step_kept admin_kept_trans)
  with assms(2) show ?thesis by (auto simp: admin_kept_def keeps_admin_iff)
qed

text \<open>After the first setup, a second request of the holder of the old token and a limited login request.\<close>

definition set_up_db :: DB where
  "set_up_db = pg_db (snd (demo_bootstrap (demo_pg fresh_db)))"

definition later_db :: DB where
  "later_db = pg_db (snd (ReserveAuthHTTP demo_login (Some ''192.0.2.1'') (demo_pg (pg_db (snd (demo_bootstrap (demo_pg set_up_db)))))))"

lemma set_up_db_admin: "keeps_admin set_up_db \<and> completed set_up_db"
proof -
  obtain r s' where run: "demo_bootstrap (demo_pg fresh_db) = (r, s')" by fastforce
  have "pg_db s' \<noteq> pg_db (demo_pg fresh_db)"
    using demo_bootstrap_run run by (auto simp: demo_pg_def fresh_db_def first_admin_def)
  with run obtain hash before stored t where "finishBootstrap demo_login hash ''root'' stored before t = (r, s')"
      "pg_db t = pg_db (demo_pg fresh_db)"
    unfolding demo_bootstrap_def by (rule Bootstrap_effect)
  with finishBootstrap_effect [of demo_login hash "''root''" stored before t r s'] \<open>pg_db s' \<noteq> _\<close> run show ?thesis
    by (auto simp: set_up_db_def keeps_admin_iff completed_def has_admin_def first_admin_def active_admin_def)
qed

theorem administrator_kept_witness:
  "(account_step demo_login (undefined :: SecEnv))\<^sup>*\<^sup>* set_up_db later_db \<and> keeps_admin set_up_db \<and> completed set_up_db \<and>
     completed later_db \<and> has_admin later_db"
proof -
  have idle: "pg_tx (demo_pg db) = pg_db (demo_pg db)" "pg_db (demo_pg db) = db" for db by (simp_all add: demo_pg_def)
  let ?mid = "pg_db (snd (demo_bootstrap (demo_pg set_up_db)))"
  have "account_step demo_login (undefined :: SecEnv) set_up_db ?mid"
    using account_step.bootstrap [of demo_login undefined "demo_pg set_up_db"] unfolding demo_bootstrap_def idle(2) .
  moreover have "account_step demo_login (undefined :: SecEnv) ?mid later_db"
    using account_step.limit [OF idle(1) [of ?mid], of demo_login undefined "Some ''192.0.2.1''"] unfolding later_db_def idle(2) .
  ultimately have run: "(account_step demo_login (undefined :: SecEnv))\<^sup>*\<^sup>* set_up_db later_db" by simp
  from administrator_kept [OF run] set_up_db_admin run show ?thesis by blast
qed

end
