(* ===== verification/WR_Plan.thy ===== *)
theory WR_Plan
  imports WR_Db "HOL-Library.Signed_Division"
begin

text \<open>
  The installation planner (\<open>internal/installplan\<close>): the bounded proposal (\<open>plan.go\<close>), the comparison of
  user-entered prices (\<open>cost.go\<close>), the digest of a plan (\<open>digest.go\<close>), the planning report (\<open>report.go\<close>)
  and the plan of a local setup (\<open>setup.go\<close>). Nothing here touches a system: every operation is a
  function of its input. The JSON tokenizer, the typed decoders and the encoder are parameters; what the
  package does with the tokens is modelled.
\<close>

section \<open>Values\<close>

text \<open>\<open>Panicked\<close> stands for a run-time panic: a use of a nil number or a negative repeat count.\<close>

datatype plan_error = InvalidInput | Panicked

record PlanLimits =
  ln_MaxActiveAdmissionLeases :: int
  ln_AdmissionsPerMinute :: int
  ln_AdmissionTTLSeconds :: int

record TOTP =
  tp_Mode :: string
  tp_Enabled :: bool

record Input =
  in_SchemaVersion :: int
  in_Profile :: string
  in_RegionID :: string
  in_QueuePolicy :: string
  ExpectedPeakVisitors :: int
  in_Limits :: PlanLimits
  in_TOTP :: TOTP

record Resource =
  rs_Name :: string
  Ownership :: string
  Replicas :: int
  CPUMillicores :: int
  MemoryMiB :: int
  StorageGiB :: int
  Meaning :: string

record Plan =
  pl_SchemaVersion :: int
  pl_Kind :: string
  pl_Executable :: bool
  pl_ActivationAllowed :: bool
  pl_Qualification :: string
  pl_Input :: Input
  Deployment :: string
  VisitorStateCap :: int
  IdempotencyBudget :: int
  RateCapPerMinute :: int
  Resources :: "Resource list"
  RequiredChecks :: "string list"
  OperatorProvides :: "string list"
  pl_Warnings :: "string list"
  pl_CostStatus :: string
  CostExcluded :: "string list"

record CostInput =
  ct_SchemaVersion :: int
  Provider :: string
  ct_RegionID :: string
  Currency :: string
  AsOf :: string
  FractionDigits :: int
  MonthlyHours :: int
  StandardHostHourly :: string
  HighWorkerHourly :: string
  VolumeGiBMonthly :: string
  HighWorkerVolumeGiB :: int
  ExpectedEgressGiB :: int

record CostLine =
  ce_ID :: string
  Quantity :: int
  Unit :: string
  UnitPrice :: string
  Formula :: string
  ExactAmount :: string

record CostProfile =
  cp_Profile :: string
  Hosts :: int
  VCPUPerHost :: int
  MemoryGiBPerHost :: int
  VolumeGiBPerHost :: int
  Included :: "CostLine list"
  ExactSubtotal :: string
  RoundedSubtotal :: string
  Excluded :: "string list"

record CostReport =
  cr_SchemaVersion :: int
  Scope :: string
  cr_Input :: CostInput
  Rounding :: string
  Profiles :: "CostProfile list"
  HighToStandardRatio :: "string option"
  RatioMeaning :: string
  cr_Warnings :: "string list"
  cr_Qualification :: string

section \<open>The proposal (plan.go)\<close>

definition MaxInputBytes :: nat where "MaxInputBytes = 16384"

text \<open>The caps of a profile: visitor states and admissions per minute.\<close>

definition plan_caps :: "string \<Rightarrow> (int \<times> int) option" where
  "plan_caps profile =
     (if profile = ''high-scale-100k'' then Some (100000, 60000)
      else if profile = ''standard-10k'' then Some (10000, 6000) else None)"

definition input_valid :: "int \<Rightarrow> int \<Rightarrow> Input \<Rightarrow> bool" where
  "input_valid cap rate i \<longleftrightarrow>
     \<not> (in_SchemaVersion i \<noteq> 1 \<or> \<not> regionPattern (in_RegionID i) \<or> in_QueuePolicy i \<noteq> ''fifo'' \<or>
        ExpectedPeakVisitors i < 1 \<or> ExpectedPeakVisitors i > cap \<or>
        ln_MaxActiveAdmissionLeases (in_Limits i) < 1 \<or> ln_MaxActiveAdmissionLeases (in_Limits i) > cap \<or>
        ln_AdmissionsPerMinute (in_Limits i) < 1 \<or> ln_AdmissionsPerMinute (in_Limits i) > rate \<or>
        ln_AdmissionTTLSeconds (in_Limits i) < 60 \<or> ln_AdmissionTTLSeconds (in_Limits i) > 3600 \<or>
        (tp_Mode (in_TOTP i) \<noteq> ''configurable'' \<and> tp_Mode (in_TOTP i) \<noteq> ''forced_on'') \<or>
        (tp_Mode (in_TOTP i) = ''forced_on'' \<and> \<not> tp_Enabled (in_TOTP i)))"

definition base_checks :: "string list" where
  "base_checks =
   [''environment-capabilities'',
    ''dns-tls-ports-storage'',
    ''clock-source-and-offset'',
    ''secret-mounts'',
    ''signed-config'',
    ''origin-protection-active-probe'',
    ''quick-20'',
    ''profile-qualification'']"

definition base_warnings :: "string list" where
  "base_warnings =
   [''Planning only: no install, apply, secret generation, network probe or activation has occurred.'',
    ''Visitor-state cap counts WAITING + READY + ADMITTED until token expiry plus verifier leeway (at most 30 seconds); it is not TCP or online-user capacity.'',
    ''Runtime Room and installation aggregate guards remain required; valid planning inputs do not prove live capacity.'',
    ''One Home Region only; live-ticket migration is unsupported.'',
    ''Reference BOM is not a performance or HA certification.'']"

definition cost_excluded :: "string list" where
  "cost_excluded =
   [''CDN/load-balancer'',
    ''egress'',
    ''external-HA-stores'',
    ''backup-object-storage'',
    ''Prometheus-retention'',
    ''operator-labor'']"

definition standard_resources :: "Resource list" where
  "standard_resources =
   [\<lparr>rs_Name = ''gateway'', Ownership = ''application'', Replicas = 1, CPUMillicores = 1000, MemoryMiB = 1024, StorageGiB = 0, Meaning = ''CPU planning share; not reserved cores''\<rparr>,
    \<lparr>rs_Name = ''control-ui'', Ownership = ''application'', Replicas = 1, CPUMillicores = 250, MemoryMiB = 768, StorageGiB = 0, Meaning = ''CPU planning share; not reserved cores''\<rparr>,
    \<lparr>rs_Name = ''coordinator'', Ownership = ''application'', Replicas = 1, CPUMillicores = 500, MemoryMiB = 512, StorageGiB = 0, Meaning = ''CPU planning share; not reserved cores''\<rparr>,
    \<lparr>rs_Name = ''valkey'', Ownership = ''bundled-store'', Replicas = 1, CPUMillicores = 750, MemoryMiB = 2048, StorageGiB = 10, Meaning = ''maxmemory 1 GiB; noeviction; AOF everysec + RDB; not HA''\<rparr>,
    \<lparr>rs_Name = ''postgresql'', Ownership = ''bundled-store'', Replicas = 1, CPUMillicores = 500, MemoryMiB = 1536, StorageGiB = 20, Meaning = ''single node; not HA''\<rparr>]"

definition high_resources :: "Resource list" where
  "high_resources =
   [\<lparr>rs_Name = ''gateway'', Ownership = ''application'', Replicas = 4, CPUMillicores = 1000, MemoryMiB = 768, StorageGiB = 0, Meaning = ''request; limit 2 CPU / 1536 MiB; event pre-scale 8; maximum 12''\<rparr>,
    \<lparr>rs_Name = ''control-ui'', Ownership = ''application'', Replicas = 2, CPUMillicores = 500, MemoryMiB = 512, StorageGiB = 0, Meaning = ''request''\<rparr>,
    \<lparr>rs_Name = ''coordinator'', Ownership = ''application'', Replicas = 4, CPUMillicores = 1000, MemoryMiB = 1024, StorageGiB = 0, Meaning = ''request; limit 2 CPU / 2048 MiB; maximum 8''\<rparr>,
    \<lparr>rs_Name = ''valkey'', Ownership = ''operator-external'', Replicas = 3, CPUMillicores = 4000, MemoryMiB = 8192, StorageGiB = 50, Meaning = ''primary + two replicas; not provisioned by installer''\<rparr>,
    \<lparr>rs_Name = ''postgresql'', Ownership = ''operator-external'', Replicas = 2, CPUMillicores = 2000, MemoryMiB = 8192, StorageGiB = 100, Meaning = ''primary + standby; not provisioned by installer''\<rparr>]"

definition base_plan :: "int \<Rightarrow> int \<Rightarrow> Input \<Rightarrow> Plan" where
  "base_plan cap rate i =
     \<lparr>pl_SchemaVersion = 1, pl_Kind = ''offline-install-proposal'', pl_Executable = False, pl_ActivationAllowed = False,
      pl_Qualification = ''NOT_RUN'', pl_Input = i, Deployment = [], VisitorStateCap = cap, IdempotencyBudget = cap * 2,
      RateCapPerMinute = rate, Resources = [], RequiredChecks = base_checks, OperatorProvides = [], pl_Warnings = base_warnings,
      pl_CostStatus = ''NOT_CALCULATED: use wrctl estimate with explicit non-secret user pricing inputs for reference subtotals; no monetary estimate is made by this plan.'',
      CostExcluded = cost_excluded\<rparr>"

definition standard_plan :: "Plan \<Rightarrow> Plan" where
  "standard_plan p = p\<lparr>Deployment := ''compose-single-host'',
     OperatorProvides := [''Linux host: 4 vCPU / 8 GiB / 50 GiB SSD / 1 Gbps'',
    ''Docker engine'',
    ''DNS/TLS'',
    ''origin ACL/mTLS''],
     Resources := standard_resources,
     pl_Warnings := pl_Warnings p @ [''Host/OS/runtime headroom is additional to component shares. Lab origin, generators and long-term Prometheus are excluded.'']\<rparr>"

definition high_plan :: "Plan \<Rightarrow> Plan" where
  "high_plan p = p\<lparr>Deployment := ''helm-application-only'',
     OperatorProvides := [''Kubernetes: three failure domains; three workers each 8 vCPU / 16 GiB'',
    ''Ingress/load-balancer and DNS/TLS'',
    ''external HA PostgreSQL and Valkey'',
    ''origin ACL/mTLS'',
    ''workload identity/mTLS and NetworkPolicy''],
     Resources := high_resources,
     RequiredChecks := RequiredChecks p @ [''external-store-tls-auth-role-read-write-switch'',
    ''operator-HA-backup-RPO-RTO-record'',
    ''three-domain-topology-and-sentinel-quorum-2'',
    ''hpa-pdb-and-network-policy'',
    ''T-minus-10m-gateway-8-coordinator-4'',
    ''T-minus-5m-all-ready-and-valkey-p95-RTT-less-than-2ms''],
     pl_Warnings := pl_Warnings p @ [''Endpoint connectivity cannot prove replicas, zones, backup, HA or RPO/RTO. External stores and cluster are operator responsibilities.'']\<rparr>"

definition Build :: "Input \<Rightarrow> plan_error + Plan" where
  "Build i =
     (case plan_caps (in_Profile i) of
        None \<Rightarrow> Inl InvalidInput
      | Some (cap, rate) \<Rightarrow>
          if \<not> input_valid cap rate i then Inl InvalidInput
          else Inr (if in_Profile i = ''standard-10k'' then standard_plan (base_plan cap rate i)
                    else high_plan (base_plan cap rate i)))"

section \<open>Exact JSON objects (plan.go)\<close>

text \<open>
  What the tokenizer hands out in turn. \<open>TBad\<close> is a token it refuses; the end of the list is the end of
  the input, which is an error inside an object and \<open>io.EOF\<close> outside.
\<close>

datatype jtoken = TDelim char | TString string | TNumber string | TBool bool | TNull | TBad

datatype jvalue = JObject "(string \<times> jvalue) list" | JString string | JNumber string | JBool bool

text \<open>
  \<open>More\<close> is false before a closing delimiter and at the end of the input; then only \<open>}\<close> closes the
  object.
\<close>

function jvalue_at :: "nat \<Rightarrow> jtoken list \<Rightarrow> (jvalue \<times> jtoken list) option"
  and jmembers :: "nat \<Rightarrow> (string \<times> jvalue) list \<Rightarrow> jtoken list \<Rightarrow> (jvalue \<times> jtoken list) option" where
  "jvalue_at depth ts =
     (if depth > 4 then None
      else case ts of
        [] \<Rightarrow> None
      | t # r \<Rightarrow>
          (case t of
             TDelim c \<Rightarrow> if c \<noteq> CHR ''{'' then None else jmembers depth [] r
           | TString s \<Rightarrow> Some (JString s, r)
           | TNumber n \<Rightarrow> Some (JNumber n, r)
           | TBool b \<Rightarrow> Some (JBool b, r)
           | _ \<Rightarrow> None))"
| "jmembers depth m ts =
     (case ts of
        [] \<Rightarrow> None
      | t # r \<Rightarrow>
          (case t of
             TDelim c \<Rightarrow> if c = CHR ''}'' then Some (JObject m, r) else None
           | TString s \<Rightarrow>
               if map_of m s \<noteq> None then None
               else (case jvalue_at (depth + 1) r of
                       None \<Rightarrow> None
                     | Some (v, r') \<Rightarrow> jmembers depth (m @ [(s, v)]) r')
           | _ \<Rightarrow> None))"
  by pat_completeness auto

text \<open>Every value consumes at least one token, so the loop over the members ends.\<close>

lemma jvalue_consumes:
  "jvalue_at_jmembers_dom (Inl (depth, ts)) \<Longrightarrow> jvalue_at depth ts = Some (v, r) \<Longrightarrow> length r < length ts"
  "jvalue_at_jmembers_dom (Inr (depth, m, ts)) \<Longrightarrow> jmembers depth m ts = Some (v, r) \<Longrightarrow> length r < length ts"
proof (induction depth ts and depth m ts arbitrary: v r and v r rule: jvalue_at_jmembers.pinduct)
  case (1 depth ts)
  then show ?case
    by (auto simp: jvalue_at.psimps split: if_splits list.splits jtoken.splits)
       (metis less_Suc_eq)
next
  case (2 depth m ts)
  show ?case
  proof (cases ts)
    case Nil
    with 2 show ?thesis by (simp add: jmembers.psimps)
  next
    case (Cons t r1)
    with 2(1,4) show ?thesis
    proof (cases t)
      case (TString s)
      with 2(1,4) Cons obtain v1 r2 where new: "map_of m s = None" and one: "jvalue_at (depth + 1) r1 = Some (v1, r2)"
        and rest: "jmembers depth (m @ [(s, v1)]) r2 = Some (v, r)"
        by (auto simp: jmembers.psimps split: if_splits option.splits)
      have "length r2 < length r1" using 2(2) [OF Cons TString _ one] new by simp
      moreover have "length r < length r2" using 2(3) [OF Cons TString _ one refl rest] new by simp
      ultimately show ?thesis using Cons by simp
    qed (auto simp: jmembers.psimps split: if_splits)
  qed
qed

termination jvalue_at
  by (relation "measure (\<lambda>x. case x of Inl (d, ts) \<Rightarrow> length ts | Inr (d, m, ts) \<Rightarrow> length ts)")
     (auto dest: jvalue_consumes)

declare jvalue_at.simps [simp del] jmembers.simps [simp del]

section \<open>Decimal prices (cost.go)\<close>

text \<open>The compiled patterns, anchored at both ends.\<close>

definition pricePattern :: "string \<Rightarrow> bool" where
  "pricePattern s \<longleftrightarrow>
     (let a = takeWhile (\<lambda>c. c \<noteq> CHR ''.'') s; b = drop (length a) s
      in list_all is_digit a \<and> (a = ''0'' \<or> 1 \<le> length a \<and> length a \<le> 9 \<and> hd a \<noteq> CHR ''0'') \<and>
         (b = [] \<or> 2 \<le> length b \<and> length b \<le> 7 \<and> list_all is_digit (tl b)))"

definition currencyPattern :: "string \<Rightarrow> bool" where
  "currencyPattern s \<longleftrightarrow> length s = 3 \<and> list_all is_upper s"

text \<open>\<open>time.Parse\<close> with the layout of a calendar date: year, month and day of a day that exists.\<close>

definition days_in :: "nat \<Rightarrow> nat \<Rightarrow> nat" where
  "days_in m y =
     (if m = 2 then (if y mod 4 = 0 \<and> (y mod 100 \<noteq> 0 \<or> y mod 400 = 0) then 29 else 28)
      else if m \<in> set [4, 6, 9, 11] then 30 else 31)"

definition parse_date :: "string \<Rightarrow> (nat \<times> nat \<times> nat) option" where
  "parse_date s =
     (let y = take 4 s; m = take 2 (drop 5 s); d = drop 8 s in
      if length s \<noteq> 10 \<or> \<not> list_all is_digit (y @ m @ d) \<or> s ! 4 \<noteq> CHR ''-'' \<or> s ! 7 \<noteq> CHR ''-'' then None
      else if undec m < 1 \<or> undec m > 12 \<or> undec d < 1 \<or> undec d > days_in (undec m) (undec y) then None
      else Some (undec y, undec m, undec d))"

text \<open>\<open>SetString\<close> of a big integer in base ten.\<close>

definition set_string :: "string \<Rightarrow> int option" where
  "set_string s =
     (let digits = (\<lambda>r. if r \<noteq> [] \<and> list_all is_digit r then Some (int (undec r)) else None)
      in case s of
        [] \<Rightarrow> None
      | c # r \<Rightarrow> if c = CHR ''-'' then map_option uminus (digits r) else if c = CHR ''+'' then digits r else digits s)"

definition micro :: "string \<Rightarrow> int option" where
  "micro s =
     (let whole = takeWhile (\<lambda>c. c \<noteq> CHR ''.'') s; fraction = drop (Suc (length whole)) s
      in if length fraction > 6 then None
         else set_string (whole @ fraction @ replicate (6 - length fraction) (CHR ''0'')))"

definition fixed :: "int \<Rightarrow> nat \<Rightarrow> string" where
  "fixed n places =
     (let s = itoa n in
      if places = 0 then s
      else let s = (if length s \<le> places then replicate (places - length s + 1) (CHR ''0'') @ s else s)
           in take (length s - places) s @ ''.'' @ drop (length s - places) s)"

definition roundQuotient :: "int \<Rightarrow> int \<Rightarrow> int" where
  "roundQuotient n d =
     (let q = n sdiv d; r = n smod d in if r * 2 \<ge> d then q + 1 else q)"

definition cost_lines :: "int \<Rightarrow> int \<Rightarrow> string \<Rightarrow> string \<Rightarrow> int \<Rightarrow> int \<Rightarrow> CostLine list" where
  "cost_lines computeQuantity volumeQuantity hourly monthly compute storage =
     [\<lparr>ce_ID = ''compute'', Quantity = computeQuantity, Unit = ''host-hour'', UnitPrice = hourly,
       Formula = ''hosts * monthlyHours * hostHourly'', ExactAmount = fixed compute 6\<rparr>,
      \<lparr>ce_ID = ''volume'', Quantity = volumeQuantity, Unit = ''GiB-month'', UnitPrice = monthly,
       Formula = ''hosts * volumeGiBPerHost * volumeGiBMonthly'', ExactAmount = fixed storage 6\<rparr>]"

definition profile_excluded :: "string \<Rightarrow> string list" where
  "profile_excluded profile =
   [''CDN/load-balancer'',
    ''egress'',
    ''backup-object-storage'',
    ''Prometheus-retention'',
    ''operator-labor'',
    ''tax'',
    ''IOPS-and-provider-additional-fees''] @
   (if profile = ''high-scale-100k''
    then [''external-HA-stores-including-storage-and-sentinel'',
    ''Kubernetes-control-plane'',
    ''extra-workers-beyond-three''] else [])"

definition costProfile :: "string \<Rightarrow> int \<Rightarrow> int \<Rightarrow> int \<Rightarrow> int \<Rightarrow> string \<Rightarrow> CostInput \<Rightarrow> CostProfile option" where
  "costProfile profile hosts cpu memory volume hourly i =
     (let computeQuantity = i64 (hosts * MonthlyHours i);
          volumeQuantity = i64 (hosts * volume)
      in case (micro hourly, micro (VolumeGiBMonthly i)) of
        (Some h, Some v) \<Rightarrow>
          let compute = h * computeQuantity; storage = v * volumeQuantity; total = compute + storage
          in Some \<lparr>cp_Profile = profile, Hosts = hosts, VCPUPerHost = cpu, MemoryGiBPerHost = memory, VolumeGiBPerHost = volume,
               Included = cost_lines computeQuantity volumeQuantity hourly (VolumeGiBMonthly i) compute storage,
               ExactSubtotal = fixed total 6,
               RoundedSubtotal = fixed (roundQuotient total (10 ^ nat (6 - FractionDigits i))) (nat (FractionDigits i)),
               Excluded = profile_excluded profile\<rparr>
      | _ \<Rightarrow> None)"

definition cost_valid :: "CostInput \<Rightarrow> bool" where
  "cost_valid i \<longleftrightarrow>
     \<not> ((case parse_date (AsOf i) of None \<Rightarrow> True | Some (year, _) \<Rightarrow> year < 2000 \<or> year > 9999) \<or> ct_SchemaVersion i \<noteq> 1 \<or>
        \<not> regionPattern (Provider i) \<or> \<not> regionPattern (ct_RegionID i) \<or> \<not> currencyPattern (Currency i) \<or>
        FractionDigits i < 0 \<or> FractionDigits i > 4 \<or> MonthlyHours i < 1 \<or> MonthlyHours i > 744 \<or>
        HighWorkerVolumeGiB i < 1 \<or> HighWorkerVolumeGiB i > 65536 \<or> ExpectedEgressGiB i < 0 \<or> ExpectedEgressGiB i > 1000000000 \<or>
        \<not> pricePattern (StandardHostHourly i) \<or> \<not> pricePattern (HighWorkerHourly i) \<or> \<not> pricePattern (VolumeGiBMonthly i))"

definition rounding_text :: string where
  "rounding_text = ''Exact integer micro-units (six decimal places); sum unrounded line amounts, then round subtotal half-up to fractionDigits. Ratio uses exact subtotals, rounded half-up to four decimals.''"

definition ratio_meaning :: "bool \<Rightarrow> string" where
  "ratio_meaning zero =
     (if zero then ''UNAVAILABLE_ZERO_STANDARD_SUBTOTAL: a zero user-priced included subtotal does not mean operation is free.''
      else ''High/Standard ratio of INCLUDED subtotals only, using the same provider/region/currency/as-of inputs; not a total operating-cost ratio.'')"

definition cost_warnings :: "string list" where
  "cost_warnings =
   [''User-entered prices, not provider-verified quotes. No pricing API, exchange-rate lookup or currency-registry validation is performed.'',
    ''Host/worker prices must cover the stated CPU and memory bundle but exclude separately priced volumes. Existing pod planning shares are not billed again.'',
    ''Standard includes its single host (including bundled stores) and 50 GiB host storage. High includes three workers and user-entered per-worker storage; external HA stores remain excluded.'',
    ''Monthly hours are an explicit compute billing assumption. Volumes are charged for a full month, without hourly proration. Discounts, tax, IOPS, snapshots and provider billing rules are not inferred.'',
    ''High worker volume size is a cost assumption, not a qualified storage recommendation. Pre-scaling pods does not automatically change this fixed worker-count estimate; extra nodes cost extra.'',
    ''Expected egress is recorded but unpriced. Missing excluded-item prices do not mean those items are free. This report does not certify installability, HA or 10K/100K capacity.'']"

definition Estimate :: "CostInput \<Rightarrow> plan_error + CostReport" where
  "Estimate i =
     (if \<not> cost_valid i then Inl InvalidInput
      else case (costProfile ''standard-10k'' 1 4 8 50 (StandardHostHourly i) i,
                 costProfile ''high-scale-100k'' 3 8 16 (HighWorkerVolumeGiB i) (HighWorkerHourly i) i) of
        (Some s, Some h) \<Rightarrow>
          (case (micro (ExactSubtotal s), micro (ExactSubtotal h)) of
             (Some den, Some num) \<Rightarrow>
               Inr \<lparr>cr_SchemaVersion = 1, Scope = ''user-priced-reference-subtotals-only'', cr_Input = i,
                    Rounding = rounding_text, Profiles = [s, h],
                    HighToStandardRatio = (if den = 0 then None else Some (fixed (roundQuotient (num * 10000) den) 4)),
                    RatioMeaning = ratio_meaning (den = 0), cr_Warnings = cost_warnings, cr_Qualification = ''NOT_RUN''\<rparr>
           | _ \<Rightarrow> Inl Panicked)
      | _ \<Rightarrow> Inl Panicked)"

section \<open>Decoding\<close>

text \<open>
  The JSON library: the tokens of a document, the encoder of decoded values and of the package's own
  types, and the typed decoders.
\<close>

record SetupApply =
  sa_Input :: Input
  sa_PlanDigest :: string
  sa_CalibrationDigest :: string

record ReportInput =
  ri_SchemaVersion :: int
  ri_Plan :: Input
  ri_Cost :: "CostInput option"

record PlanningPayload =
  py_Kind :: string
  py_PlanDigest :: string
  py_Plan :: Plan
  py_Cost :: "CostReport option"
  py_CostStatus :: string
  Installation :: string
  py_ActivationAllowed :: bool
  py_Qualification :: string
  py_Warning :: string

record PlanningReport =
  rt_SchemaVersion :: int
  Payload :: PlanningPayload
  SHA256 :: string
  HashEncoding :: string

record PlanLib =
  jl_sha :: "string \<Rightarrow> string"
  jl_tokens :: "string \<Rightarrow> jtoken list"
  jl_marshal :: "jvalue \<Rightarrow> string"
  jl_input :: "string \<Rightarrow> Input option"
  jl_cost :: "string \<Rightarrow> CostInput option"
  jl_apply :: "string \<Rightarrow> SetupApply option"
  jl_plan_bytes :: "Plan \<Rightarrow> string"
  jl_payload_bytes :: "PlanningPayload \<Rightarrow> string"

text \<open>A reader is its content, or \<open>None\<close> when reading fails.\<close>

definition decodeObject :: "'z PlanLib_scheme \<Rightarrow> string option \<Rightarrow> plan_error + string \<times> (string \<times> jvalue) list" where
  "decodeObject lib reader =
     (case reader of
        None \<Rightarrow> Inl InvalidInput
      | Some content \<Rightarrow>
          let b = take (MaxInputBytes + 1) content in
          if length b > MaxInputBytes then Inl InvalidInput
          else case jvalue_at 0 (jl_tokens lib b) of
            Some (JObject root, []) \<Rightarrow> Inr (b, root)
          | _ \<Rightarrow> Inl InvalidInput)"

definition keys :: "(string \<times> jvalue) list \<Rightarrow> string list \<Rightarrow> bool" where
  "keys m names \<longleftrightarrow> length m = length names \<and> list_all (\<lambda>n. map_of m n \<noteq> None) names"

definition has_keys :: "jvalue option \<Rightarrow> string list \<Rightarrow> bool" where
  "has_keys v names = (case v of Some (JObject m) \<Rightarrow> keys m names | _ \<Rightarrow> False)"

definition Decode :: "'z PlanLib_scheme \<Rightarrow> string option \<Rightarrow> plan_error + Input" where
  "Decode lib reader =
     (case decodeObject lib reader of
        Inl e \<Rightarrow> Inl e
      | Inr (b, root) \<Rightarrow>
          if \<not> keys root [''schemaVersion'', ''profile'', ''regionId'', ''queuePolicy'', ''expectedPeakVisitors'', ''limits'', ''totp'']
          then Inl InvalidInput
          else if \<not> has_keys (map_of root ''limits'') [''maxActiveAdmissionLeases'', ''admissionsPerMinute'', ''admissionTtlSeconds'']
          then Inl InvalidInput
          else if \<not> has_keys (map_of root ''totp'') [''mode'', ''enabled''] then Inl InvalidInput
          else case jl_input lib b of
            None \<Rightarrow> Inl InvalidInput
          | Some i \<Rightarrow> (case Build i of Inl e \<Rightarrow> Inl e | Inr _ \<Rightarrow> Inr i))"

definition DecodeCost :: "'z PlanLib_scheme \<Rightarrow> string option \<Rightarrow> plan_error + CostInput" where
  "DecodeCost lib reader =
     (case decodeObject lib reader of
        Inl _ \<Rightarrow> Inl InvalidInput
      | Inr (b, root) \<Rightarrow>
          if \<not> keys root [''schemaVersion'', ''provider'', ''regionId'', ''currency'', ''asOf'', ''fractionDigits'', ''monthlyHours'',
                ''standardHostHourly'', ''highWorkerHourly'', ''volumeGiBMonthly'', ''highWorkerVolumeGiB'', ''expectedEgressGiB'']
          then Inl InvalidInput
          else case jl_cost lib b of
            None \<Rightarrow> Inl InvalidInput
          | Some i \<Rightarrow> (case Estimate i of Inl e \<Rightarrow> Inl e | Inr _ \<Rightarrow> Inr i))"

section \<open>Digests and reports (digest.go, report.go)\<close>

definition plan_Digest :: "'z PlanLib_scheme \<Rightarrow> Input \<Rightarrow> plan_error + string" where
  "plan_Digest lib i = (case Build i of Inl e \<Rightarrow> Inl e | Inr p \<Rightarrow> Inr (hex_encode (jl_sha lib (jl_plan_bytes lib p))))"

definition report_cost :: "ReportInput \<Rightarrow> plan_error + CostReport option" where
  "report_cost i =
     (case ri_Cost i of
        None \<Rightarrow> Inr None
      | Some c \<Rightarrow>
          if ct_RegionID c \<noteq> in_RegionID (ri_Plan i) then Inl InvalidInput
          else (case Estimate c of Inl e \<Rightarrow> Inl e | Inr r \<Rightarrow> Inr (Some r)))"

definition report_warning :: string where
  "report_warning = ''User-priced planning only. No installation, environment probe, activation or qualification has occurred. Checksum is not a signature or permission. Normal input values are retained; do not include secrets.''"

definition hash_encoding :: string where
  "hash_encoding = ''SHA-256 of Go encoding/json compact payload, struct field order as emitted, HTML escaping enabled, UTF-8, no trailing newline; not RFC 8785.''"

definition BuildReport :: "'z PlanLib_scheme \<Rightarrow> ReportInput \<Rightarrow> plan_error + PlanningReport" where
  "BuildReport lib i =
     (if ri_SchemaVersion i \<noteq> 1 then Inl InvalidInput
      else case (Build (ri_Plan i), plan_Digest lib (ri_Plan i)) of
        (Inr plan, Inr checksum) \<Rightarrow>
          (case report_cost i of
             Inl e \<Rightarrow> Inl e
           | Inr cost \<Rightarrow>
               let p = \<lparr>py_Kind = ''offline-planning-report'', py_PlanDigest = checksum, py_Plan = plan, py_Cost = cost,
                        py_CostStatus = (if cost = None then ''NOT_REQUESTED'' else ''REFERENCE_SUBTOTALS_ONLY''),
                        Installation = ''NOT_RUN'', py_ActivationAllowed = False, py_Qualification = ''NOT_RUN'',
                        py_Warning = report_warning\<rparr>
               in Inr \<lparr>rt_SchemaVersion = 1, Payload = p, SHA256 = hex_encode (jl_sha lib (jl_payload_bytes lib p)),
                       HashEncoding = hash_encoding\<rparr>)
      | (Inl e, _) \<Rightarrow> Inl e
      | (_, Inl e) \<Rightarrow> Inl e)"

definition decode_cost_member :: "'z PlanLib_scheme \<Rightarrow> (string \<times> jvalue) list \<Rightarrow> plan_error + CostInput option" where
  "decode_cost_member lib root =
     (case map_of root ''cost'' of
        None \<Rightarrow> Inr None
      | Some raw \<Rightarrow> (case DecodeCost lib (Some (jl_marshal lib raw)) of Inl e \<Rightarrow> Inl e | Inr c \<Rightarrow> Inr (Some c)))"

definition DecodeReport :: "'z PlanLib_scheme \<Rightarrow> string option \<Rightarrow> plan_error + ReportInput" where
  "DecodeReport lib reader =
     (case decodeObject lib reader of
        Inl e \<Rightarrow> Inl e
      | Inr (_, root) \<Rightarrow>
          if \<not> keys root ([''schemaVersion'', ''plan''] @ (if map_of root ''cost'' \<noteq> None then [''cost''] else [])) \<or>
             map_of root ''schemaVersion'' \<noteq> Some (JNumber ''1'') then Inl InvalidInput
          else case Decode lib (map_option (jl_marshal lib) (map_of root ''plan'')) of
            Inl e \<Rightarrow> Inl e
          | Inr plan \<Rightarrow>
              (case decode_cost_member lib root of
                 Inl e \<Rightarrow> Inl e
               | Inr cost \<Rightarrow>
                   let i = \<lparr>ri_SchemaVersion = 1, ri_Plan = plan, ri_Cost = cost\<rparr>
                   in (case BuildReport lib i of Inl e \<Rightarrow> Inl e | Inr _ \<Rightarrow> Inr i)))"

section \<open>The local setup (setup.go)\<close>

record SetupPlan =
  sp_SchemaVersion :: int
  sp_Kind :: string
  sp_Input :: Input
  sp_Calibration :: Calibration
  AdminURL :: string
  GatewayURL :: string
  Changes :: "string list"
  NotVerified :: "string list"

definition BuildSetup :: "Input \<Rightarrow> Calibration \<Rightarrow> plan_error + SetupPlan" where
  "BuildSetup i c =
     (case Build i of
        Inl _ \<Rightarrow> Inl InvalidInput
      | Inr _ \<Rightarrow>
          if in_Profile i \<noteq> ''standard-10k'' then Inl InvalidInput
          else if ca_Version c \<noteq> 1 \<or> ca_MemoryKiB c \<noteq> PasswordMemoryKiB \<or> ca_Parallelism c \<noteq> 1 \<or> \<not> TargetMet c \<or>
                  ca_Iterations c < 2 \<or> ca_Iterations c > 10 then Inl InvalidInput
          else Inr \<lparr>sp_SchemaVersion = 1, sp_Kind = ''local-compose-setup'', sp_Input = i, sp_Calibration = c,
                    AdminURL = ''https://127.0.0.1:19443'', GatewayURL = ''https://127.0.0.1:20443'',
                    Changes = [''save-installation-region-and-profile'', ''save-new-room-traffic-defaults'',
                      ''set-initial-totp-policy'', ''persist-password-parameters'', ''save-setup-report-and-audit''],
                    NotVerified = [''public-dns-and-tls'', ''host-ntp-offset'', ''production-origin-protection'', ''quick-20'',
                      ''10k-performance'', ''high-scale-and-ha'']\<rparr>)"

definition DecodeSetupApply :: "'z PlanLib_scheme \<Rightarrow> string option \<Rightarrow> plan_error + SetupApply" where
  "DecodeSetupApply lib reader =
     (case decodeObject lib reader of
        Inl _ \<Rightarrow> Inl InvalidInput
      | Inr (b, root) \<Rightarrow>
          if \<not> keys root [''input'', ''planDigest'', ''calibrationDigest''] then Inl InvalidInput
          else case Decode lib (map_option (jl_marshal lib) (map_of root ''input'')) of
            Inl e \<Rightarrow> Inl e
          | Inr input \<Rightarrow>
              (case jl_apply lib b of
                 None \<Rightarrow> Inl InvalidInput
               | Some out \<Rightarrow>
                   if \<not> is_digest (sa_PlanDigest out) \<or> \<not> is_digest (sa_CalibrationDigest out) then Inl InvalidInput
                   else Inr (out\<lparr>sa_Input := input\<rparr>)))"

end
