(* ===== verification/WR_Plan_Props.thy ===== *)
theory WR_Plan_Props
  imports Complex_Main WR_Plan
begin

text \<open>
  Cost comparison without rounding errors: the decimal texts of a report denote exactly the products and
  sums of the entered prices, and the rounded figures are these values rounded half up. The reference
  arithmetic is on rational numbers, the program works on digit strings and integers.
\<close>

section \<open>Decimal texts as numbers\<close>

text \<open>The number a decimal text denotes.\<close>

definition decimal :: "string \<Rightarrow> rat" where
  "decimal s =
     (let whole = takeWhile (\<lambda>c. c \<noteq> CHR ''.'') s; fraction = drop (Suc (length whole)) s
      in of_nat (undec (whole @ fraction)) / 10 ^ length fraction)"

text \<open>Rounding half up to a number of places.\<close>

definition half_up :: "nat \<Rightarrow> rat \<Rightarrow> rat" where
  "half_up places x = of_int \<lfloor>x * 10 ^ places + 1 / 2\<rfloor> / 10 ^ places"

lemma undec_from_zeros [simp]: "undec_from a (replicate k (CHR ''0'')) = a * 10 ^ k"
  by (induction k arbitrary: a) (simp_all add: digit_val_def)

lemma digit_val_zero [simp]: "digit_val (CHR ''0'') = 0"
  by (simp add: digit_val_def)

lemma is_digit_zero [simp]: "is_digit (CHR ''0'')"
  by (simp add: is_digit_def)

lemma digit_no_sign: "is_digit c \<Longrightarrow> c \<noteq> CHR ''-'' \<and> c \<noteq> CHR ''+'' \<and> c \<noteq> CHR ''.''"
  by (auto simp: is_digit_def)

lemma set_string_digits: "s \<noteq> [] \<Longrightarrow> list_all is_digit s \<Longrightarrow> set_string s = Some (int (undec s))"
  by (cases s) (auto simp: set_string_def dest: digit_no_sign)

lemma takeWhile_digits:
  assumes "list_all is_digit a"
  shows "takeWhile (\<lambda>c. c \<noteq> CHR ''.'') a = a" "takeWhile (\<lambda>c. c \<noteq> CHR ''.'') (a @ CHR ''.'' # b) = a"
  using assms by (auto simp: takeWhile_eq_all_conv takeWhile_append list_all_iff dest: digit_no_sign)

text \<open>A text with at most six places and its number of millionths.\<close>

lemma micro_digits:
  assumes "list_all is_digit a" "a \<noteq> []" "list_all is_digit b" "length b \<le> 6"
    and "takeWhile (\<lambda>c. c \<noteq> CHR ''.'') s = a" "drop (Suc (length a)) s = b"
  shows "micro s = Some (int (undec (a @ b)) * 10 ^ (6 - length b))"
proof -
  have "list_all is_digit (a @ b @ replicate (6 - length b) (CHR ''0''))"
    using assms(1,3) by (auto simp: list_all_iff)
  then show ?thesis
    unfolding micro_def Let_def assms(5,6) using assms(2,4) by (simp add: set_string_digits)
qed

lemma micro_decimal_digits:
  assumes "list_all is_digit a" "a \<noteq> []" "list_all is_digit b" "length b \<le> 6"
    and "takeWhile (\<lambda>c. c \<noteq> CHR ''.'') s = a" "drop (Suc (length a)) s = b"
  shows "\<exists>m. micro s = Some m \<and> 0 \<le> m \<and> of_int m = decimal s * 10 ^ 6"
proof -
  have ten: "(10::rat) ^ 6 = 10 ^ (6 - length b) * 10 ^ length b"
    using assms(4) by (simp flip: power_add)
  have "decimal s * 10 ^ 6 = of_nat (undec (a @ b)) * 10 ^ (6 - length b)"
    unfolding decimal_def Let_def assms(5,6) ten by simp
  then show ?thesis using micro_digits [OF assms] by simp
qed

lemma price_decimal:
  assumes "pricePattern s"
  shows "\<exists>m. micro s = Some m \<and> 0 \<le> m \<and> of_int m = decimal s * 10 ^ 6"
proof -
  define a where "a = takeWhile (\<lambda>c. c \<noteq> CHR ''.'') s"
  have a: "list_all is_digit a" "a \<noteq> []" using assms by (auto simp: pricePattern_def Let_def a_def [symmetric])
  have "drop (length a) s = [] \<or> length (drop (length a) s) \<le> 7 \<and> list_all is_digit (tl (drop (length a) s))"
    using assms unfolding pricePattern_def Let_def a_def [symmetric] by blast
  then have b: "list_all is_digit (drop (Suc (length a)) s)" "length (drop (Suc (length a)) s) \<le> 6"
    by (auto simp: drop_Suc tl_drop)
  show ?thesis using micro_decimal_digits [OF a b a_def [symmetric] refl] .
qed

section \<open>Printing\<close>

lemma itoa_nat: "0 \<le> n \<Longrightarrow> itoa n = dec (nat n)"
  by (simp add: itoa_def)

text \<open>A printed amount is a whole part, a point and the places, with the digits of the number.\<close>

lemma fixed_parts:
  assumes "0 \<le> n" and "places > 0"
  obtains a b where "fixed n places = a @ CHR ''.'' # b" "list_all is_digit a" "a \<noteq> []" "list_all is_digit b"
    "length b = places" "undec (a @ b) = nat n"
proof -
  define s where "s = (if length (itoa n) \<le> places then replicate (places - length (itoa n) + 1) (CHR ''0'') @ itoa n else itoa n)"
  have digits: "list_all is_digit s"
    using dec_digits [of "nat n"] assms by (auto simp: s_def itoa_nat list_all_iff)
  have len: "length s > places" by (simp add: s_def)
  have val: "undec s = nat n" using assms by (simp add: s_def itoa_nat)
  have "fixed n places = take (length s - places) s @ CHR ''.'' # drop (length s - places) s"
    using assms by (simp add: fixed_def Let_def s_def)
  moreover have "list_all is_digit (take (length s - places) s)" "list_all is_digit (drop (length s - places) s)"
    using digits by (auto simp: list_all_iff dest: in_set_takeD in_set_dropD)
  ultimately show ?thesis
    using len val by (intro that [of "take (length s - places) s" "drop (length s - places) s"]) (auto simp del: undec_from_append)
qed

lemma decimal_fixed:
  assumes "0 \<le> n"
  shows "decimal (fixed n places) = of_int n / 10 ^ places"
proof (cases "places = 0")
  case True
  then show ?thesis
    using assms dec_digits [of "nat n"] by (simp add: decimal_def fixed_def itoa_nat takeWhile_digits)
next
  case False
  then obtain a b where "fixed n places = a @ CHR ''.'' # b" "list_all is_digit a" "length b = places" "undec (a @ b) = nat n"
    using fixed_parts [OF assms, of places] by blast
  then show ?thesis
    using assms by (simp add: decimal_def takeWhile_digits Let_def del: undec_from_append)
qed

lemma micro_fixed:
  assumes "0 \<le> n"
  shows "micro (fixed n 6) = Some n"
proof -
  obtain a b where f: "fixed n 6 = a @ CHR ''.'' # b" "list_all is_digit a" "a \<noteq> []" "list_all is_digit b" "length b = 6"
    and v: "undec (a @ b) = nat n"
    using fixed_parts [OF assms, of 6] by auto
  have "micro (fixed n 6) = Some (int (undec (a @ b)) * 10 ^ (6 - length b))"
    using f by (intro micro_digits) (simp_all add: takeWhile_digits)
  then show ?thesis using assms f(5) v by (simp del: undec_from_append)
qed

section \<open>Rounding\<close>

lemma roundQuotient_floor:
  assumes "0 \<le> n" "0 < d"
  shows "roundQuotient n d = \<lfloor>of_int n / of_int d + (1 / 2 :: rat)\<rfloor>"
proof -
  define q r where "q = n div d" and "r = n mod d"
  have n: "n = q * d + r" and r: "0 \<le> r" "r < d" using assms by (simp_all add: q_def r_def)
  have frac: "(of_int n :: rat) / of_int d = of_int q + of_int r / of_int d"
    using assms by (simp add: n add_divide_distrib)
  have sd: "n sdiv d = q" "n smod d = r"
    using assms by (auto simp: signed_divide_int_def signed_modulo_int_def q_def r_def sgn_if)
  have "(of_int r :: rat) / of_int d < 1" "(0::rat) \<le> of_int r / of_int d"
    using r assms by (simp_all add: divide_less_eq)
  moreover have "r * 2 \<ge> d \<longleftrightarrow> (of_int r :: rat) / of_int d \<ge> 1 / 2"
  proof -
    have "r * 2 \<ge> d \<longleftrightarrow> (of_int (r * 2) :: rat) \<ge> of_int d" by (simp only: of_int_le_iff)
    also have "\<dots> \<longleftrightarrow> (of_int r :: rat) / of_int d \<ge> 1 / 2" using assms by (simp add: le_divide_eq)
    finally show ?thesis .
  qed
  moreover have "0 \<le> x \<Longrightarrow> x < 1 \<Longrightarrow> \<lfloor>x + 1 / 2\<rfloor> = (if 1 / 2 \<le> x then 1 else 0)" for x :: rat
    by (auto simp: floor_eq_iff)
  ultimately have "\<lfloor>(of_int r :: rat) / of_int d + 1 / 2\<rfloor> = (if r * 2 \<ge> d then 1 else 0)"
    by metis
  then show ?thesis
    unfolding roundQuotient_def Let_def sd frac by (simp add: add.assoc)
qed

lemma roundQuotient_nonneg: "0 \<le> n \<Longrightarrow> 0 < d \<Longrightarrow> 0 \<le> roundQuotient n d"
  by (simp add: roundQuotient_floor)

lemma rounded_amount:
  assumes "0 \<le> n" "0 \<le> f" "f \<le> 4"
  shows "decimal (fixed (roundQuotient n (10 ^ nat (6 - f))) (nat f)) = half_up (nat f) (of_int n / 10 ^ 6)"
proof -
  have "nat (6 - f) + nat f = 6" using assms by simp
  then have ten: "(10::rat) ^ 6 = 10 ^ nat (6 - f) * 10 ^ nat f" by (metis power_add)
  have "(of_int n :: rat) / 10 ^ 6 * 10 ^ nat f = of_int n / of_int (10 ^ nat (6 - f))"
    unfolding ten by simp
  then show ?thesis
    using assms by (simp add: decimal_fixed roundQuotient_nonneg roundQuotient_floor half_up_def)
qed

section \<open>The report\<close>

text \<open>What a profile must say: the price of its hosts and volumes, line by line, in total, and rounded.\<close>

definition priced :: "CostInput \<Rightarrow> int \<Rightarrow> int \<Rightarrow> string \<Rightarrow> CostProfile \<Rightarrow> bool" where
  "priced i hosts volume hourly p \<longleftrightarrow>
     (let compute = of_int (hosts * MonthlyHours i) * decimal hourly;
          storage = of_int (hosts * volume) * decimal (VolumeGiBMonthly i)
      in map (decimal \<circ> ExactAmount) (Included p) = [compute, storage] \<and>
         map Quantity (Included p) = [hosts * MonthlyHours i, hosts * volume] \<and>
         decimal (ExactSubtotal p) = compute + storage \<and>
         decimal (RoundedSubtotal p) = half_up (nat (FractionDigits i)) (compute + storage))"

lemma costProfile_priced:
  assumes valid: "cost_valid i" and price: "pricePattern hourly"
    and hosts: "0 < hosts" "hosts \<le> 3" and volume: "0 < volume" "volume \<le> 65536"
  obtains p n where "costProfile profile hosts cpu memory volume hourly i = Some p" "priced i hosts volume hourly p"
    "0 \<le> n" "ExactSubtotal p = fixed n 6"
proof -
  obtain h where h: "micro hourly = Some h" "0 \<le> h" "of_int h = decimal hourly * 10 ^ 6"
    using price_decimal [OF price] by auto
  obtain v where v: "micro (VolumeGiBMonthly i) = Some v" "0 \<le> v" "of_int v = decimal (VolumeGiBMonthly i) * 10 ^ 6"
    using price_decimal [of "VolumeGiBMonthly i"] valid by (auto simp: cost_valid_def)
  have f: "0 \<le> FractionDigits i" "FractionDigits i \<le> 4" and m: "1 \<le> MonthlyHours i" "MonthlyHours i \<le> 744"
    using valid by (auto simp: cost_valid_def)
  have "hosts * MonthlyHours i \<le> 3 * 744" "hosts * volume \<le> 3 * 65536"
    by (rule mult_mono; use hosts volume m in simp)+
  moreover have "0 \<le> hosts * MonthlyHours i" "0 \<le> hosts * volume" using hosts volume m by simp_all
  ultimately have wide: "i64 (hosts * MonthlyHours i) = hosts * MonthlyHours i" "i64 (hosts * volume) = hosts * volume"
    by (auto intro!: i64_id)
  define n where "n = h * (hosts * MonthlyHours i) + v * (hosts * volume)"
  have n: "0 \<le> n" "of_int n / 10 ^ 6 = of_int (hosts * MonthlyHours i) * decimal hourly + of_int (hosts * volume) * decimal (VolumeGiBMonthly i)"
    using h v hosts volume m by (simp_all add: n_def field_simps)
  show ?thesis
  proof (rule that)
    show "costProfile profile hosts cpu memory volume hourly i = Some \<lparr>cp_Profile = profile, Hosts = hosts, VCPUPerHost = cpu,
       MemoryGiBPerHost = memory, VolumeGiBPerHost = volume,
       Included = cost_lines (hosts * MonthlyHours i) (hosts * volume) hourly (VolumeGiBMonthly i)
         (h * (hosts * MonthlyHours i)) (v * (hosts * volume)),
       ExactSubtotal = fixed n 6, RoundedSubtotal = fixed (roundQuotient n (10 ^ nat (6 - FractionDigits i))) (nat (FractionDigits i)),
       Excluded = profile_excluded profile\<rparr>" (is "_ = Some ?p")
      by (simp add: costProfile_def h v wide Let_def n_def)
    show "priced i hosts volume hourly ?p"
      unfolding priced_def cost_lines_def Let_def
      using h v hosts volume m n f by (simp add: decimal_fixed rounded_amount [OF n(1) f, unfolded n(2)])
    show "0 \<le> n" by (rule n)
  qed simp
qed

text \<open>
  C15 (cost.go, \<open>Estimate\<close>). Valid user prices always give a report, never a panic. Every decimal text in
  it denotes the exact value: the lines and subtotals of both profiles are quantity times price, the
  rounded subtotals are these rounded half up to the chosen places, and the ratio of the subtotals is
  given exactly when the smaller profile is not free, rounded half up to four places.
\<close>

theorem estimate_exact:
  assumes "cost_valid i"
  shows "\<exists>r s h. Estimate i = Inr r \<and> Profiles r = [s, h] \<and>
    priced i 1 50 (StandardHostHourly i) s \<and> priced i 3 (HighWorkerVolumeGiB i) (HighWorkerHourly i) h \<and>
    map_option decimal (HighToStandardRatio r) =
      (if decimal (ExactSubtotal s) = 0 then None
       else Some (half_up 4 (decimal (ExactSubtotal h) / decimal (ExactSubtotal s))))"
proof -
  have prices: "pricePattern (StandardHostHourly i)" "pricePattern (HighWorkerHourly i)"
    and volume: "0 < HighWorkerVolumeGiB i" "HighWorkerVolumeGiB i \<le> 65536"
    using assms by (auto simp: cost_valid_def)
  obtain s m where s: "costProfile ''standard-10k'' 1 4 8 50 (StandardHostHourly i) i = Some s"
      "priced i 1 50 (StandardHostHourly i) s" "0 \<le> m" "ExactSubtotal s = fixed m 6"
    by (rule costProfile_priced [OF assms prices(1), of 1 50 "''standard-10k''" 4 8]) auto
  obtain h n where h: "costProfile ''high-scale-100k'' 3 8 16 (HighWorkerVolumeGiB i) (HighWorkerHourly i) i = Some h"
      "priced i 3 (HighWorkerVolumeGiB i) (HighWorkerHourly i) h" "0 \<le> n" "ExactSubtotal h = fixed n 6"
    by (rule costProfile_priced [OF assms prices(2), of 3 "HighWorkerVolumeGiB i" "''high-scale-100k''" 8 16]) (use volume in auto)
  have "decimal (fixed (roundQuotient (n * 10000) m) 4) = half_up 4 (decimal (ExactSubtotal h) / decimal (ExactSubtotal s))"
    if "m \<noteq> 0"
    using that s(3,4) h(3,4)
    by (simp add: decimal_fixed roundQuotient_nonneg roundQuotient_floor half_up_def)
  then show ?thesis
    using assms s h by (simp add: Estimate_def micro_fixed decimal_fixed)
qed

theorem estimate_exact_witness:
  "let i = \<lparr>ct_SchemaVersion = 1, Provider = ''cloud'', ct_RegionID = ''eu-1'', Currency = ''EUR'', AsOf = ''2024-02-29'',
        FractionDigits = 2, MonthlyHours = 730, StandardHostHourly = ''0.5'', HighWorkerHourly = ''1.25'',
        VolumeGiBMonthly = ''0.1'', HighWorkerVolumeGiB = 100, ExpectedEgressGiB = 0\<rparr>
   in cost_valid i \<and> (\<exists>r s h. Estimate i = Inr r \<and> Profiles r = [s, h] \<and>
    priced i 1 50 (StandardHostHourly i) s \<and> priced i 3 (HighWorkerVolumeGiB i) (HighWorkerHourly i) h \<and>
    map_option decimal (HighToStandardRatio r) =
      (if decimal (ExactSubtotal s) = 0 then None
       else Some (half_up 4 (decimal (ExactSubtotal h) / decimal (ExactSubtotal s)))))"
proof -
  let ?i = "\<lparr>ct_SchemaVersion = 1, Provider = ''cloud'', ct_RegionID = ''eu-1'', Currency = ''EUR'', AsOf = ''2024-02-29'',
        FractionDigits = 2, MonthlyHours = 730, StandardHostHourly = ''0.5'', HighWorkerHourly = ''1.25'',
        VolumeGiBMonthly = ''0.1'', HighWorkerVolumeGiB = 100, ExpectedEgressGiB = 0\<rparr>"
  have "cost_valid ?i" by code_simp
  then show ?thesis unfolding Let_def by (intro conjI estimate_exact)
qed

end
