(* ===== verification/WR_Setup.thy ===== *)
theory WR_Setup
  imports WR_Command WR_Enroll WR_Plan
begin

text \<open>
  The first configuration of an installation (\<open>internal/adminauth/pgstore/setup.go\<close>): inspection,
  measurement of the password parameters, review of a plan and its single application. Whoever holds the
  installation token acts; no account exists yet. Runtime facts of the process and what the measurement
  yields are inputs, the JSON codecs are parameters.
\<close>

section \<open>Values and parameters\<close>

record SetupReview =
  sv_Plan :: SetupPlan
  sv_PlanDigest :: string
  sv_CalibrationDigest :: string

record SetupEnvironment =
  OS :: string
  Arch :: string
  AvailableCPUs :: int
  GoParallelism :: int
  Database :: string
  DatabaseClockDifferenceMS :: int
  HostClock :: string

record SetupReport = SetupReview +
  AppliedAt :: int
  ConfigRevision :: int
  sr_Environment :: SetupEnvironment
  CalibratedAt :: int

record SetupInspection =
  si_Input :: Input
  si_Environment :: SetupEnvironment
  si_Report :: "SetupReport option"

record SetupEnv = CtlEnv +
  st_plan_bytes :: "SetupPlan \<Rightarrow> string"
  st_calibration_bytes :: "Calibration \<Rightarrow> string"
  st_calibration_of :: "string \<Rightarrow> Calibration option"
  st_report_bytes :: "SetupReport \<Rightarrow> string"
  st_report_of :: "string \<Rightarrow> SetupReport option"
  st_config_of :: "string \<Rightarrow> Config option"
  st_set_config :: "string \<Rightarrow> string \<Rightarrow> string"
  st_report_reply :: "SetupReport option \<Rightarrow> string"

text \<open>What the process reads of its host around one query: its clock before and after, and its runtime.\<close>

record HostReading =
  hr_start :: int
  hr_end :: int
  hr_os :: string
  hr_arch :: string
  hr_cpus :: int
  hr_parallelism :: int

section \<open>Reading\<close>

definition PasswordIterations :: "nat pg" where
  "PasswordIterations =
     seq (pool_query Unavailable Unavailable (\<lambda>now db. map_option su_iterations (installation_setup db))) (\<lambda>n.
     if n < 2 \<or> n > 10 then throw Unavailable else ret n)"

definition setup_authorize :: "'z SetupEnv_scheme \<Rightarrow> string \<Rightarrow> (string \<times> bootstrapSnapshot) pg" where
  "setup_authorize env token =
     (case tokenHash env token of
        None \<Rightarrow> throw Unauthenticated
      | Some hash \<Rightarrow> seq (read_bootstrap hash) (\<lambda>b. ret (hash, b)))"

definition setup_environment :: "HostReading \<Rightarrow> SetupEnvironment pg" where
  "setup_environment host =
     seq (pool_query Unavailable Unavailable (\<lambda>now db. Some now)) (\<lambda>now.
     let elapsed = hr_end host - hr_start host;
         offset = (now - (hr_start host + elapsed sdiv 2)) sdiv 1000000 in
     if offset > 5000 \<or> offset < - 5000 \<or> elapsed > milliseconds 2000 then throw Unavailable
     else ret \<lparr>OS = hr_os host, Arch = hr_arch host, AvailableCPUs = hr_cpus host, GoParallelism = hr_parallelism host,
               Database = ''reachable'', DatabaseClockDifferenceMS = offset, HostClock = ''NOT_VERIFIED''\<rparr>)"

definition setupReport :: "'z SetupEnv_scheme \<Rightarrow> SetupReport option pg" where
  "setupReport env =
     seq (pool_query Unavailable Unavailable (\<lambda>now db. map_option su_report (installation_setup db))) (\<lambda>raw.
     case raw of
       None \<Rightarrow> ret None
     | Some (document, _) \<Rightarrow>
         (case st_report_of env document of None \<Rightarrow> throw Unavailable | Some report \<Rightarrow> ret (Some report)))"

definition default_input :: "AuthPolicy \<Rightarrow> Input" where
  "default_input policy =
     \<lparr>in_SchemaVersion = 1, in_Profile = ''standard-10k'', in_RegionID = ''local'', in_QueuePolicy = ''fifo'',
      ExpectedPeakVisitors = 1000,
      in_Limits = \<lparr>ln_MaxActiveAdmissionLeases = 100, ln_AdmissionsPerMinute = 60, ln_AdmissionTTLSeconds = 900\<rparr>,
      in_TOTP = \<lparr>tp_Mode = po_Mode policy, tp_Enabled = TOTPEnabled policy\<rparr>\<rparr>"

definition Inspect :: "'z SetupEnv_scheme \<Rightarrow> HostReading \<Rightarrow> string \<Rightarrow> SetupInspection pg" where
  "Inspect env host token =
     seq (setup_authorize env token) (\<lambda>(hash, b).
     seq (setup_environment host) (\<lambda>environment.
     seq (setupReport env) (\<lambda>report.
     ret \<lparr>si_Input = (case report of None \<Rightarrow> default_input (bs_policy b) | Some r \<Rightarrow> sp_Input (sv_Plan r)),
          si_Environment = environment, si_Report = report\<rparr>)))"

text \<open>
  The recheck under the locks. A conjunction with a missing token is null unless another conjunct is
  false, and a null cannot be read into a truth value.
\<close>

definition setup_valid :: "int \<Rightarrow> string \<Rightarrow> int \<Rightarrow> DB \<Rightarrow> bool option" where
  "setup_valid generation hash now db =
     (case auth_bootstrap db of
        None \<Rightarrow> None
      | Some b \<Rightarrow>
          let fixed = (\<not> bt_completed b \<and> bt_generation b = generation \<and> auth_accounts db = []) in
          (case bt_token b of
             None \<Rightarrow> if fixed then None else Some False
           | Some (h, expires) \<Rightarrow> Some (fixed \<and> h = hash \<and> expires > now)))"

definition setup_locked :: "string \<Rightarrow> bootstrapSnapshot \<Rightarrow> unit pg" where
  "setup_locked hash b =
     seq (query Unavailable Unavailable auth_policy) (\<lambda>policy.
     seq (exec Unavailable (\<lambda>db. Some ((), db))) (\<lambda>_.
     seq (query_at Unavailable Unavailable (setup_valid (bs_generation b) hash)) (\<lambda>valid.
     seq (refuse_if (\<not> valid) Unauthenticated) (\<lambda>_.
     refuse_if (policy \<noteq> bs_policy b) ErrSetupReview))))"

section \<open>Calibration and review\<close>

definition fresh_calibration :: "int \<Rightarrow> int \<Rightarrow> SetupRow \<Rightarrow> (string \<times> string \<times> int) option" where
  "fresh_calibration generation now s =
     (case su_calibration s of
        Some (raw, checksum, g, at) \<Rightarrow>
          if g = generation \<and> at > now - minutes 15 \<and> at \<le> now then Some (raw, checksum, at) else None
      | None \<Rightarrow> None)"

definition open_calibration :: "'z SetupEnv_scheme \<Rightarrow> string \<Rightarrow> string \<Rightarrow> Calibration pg" where
  "open_calibration env raw checksum =
     (case st_calibration_of env raw of
        None \<Rightarrow> throw Unavailable
      | Some c \<Rightarrow> if digest env (st_calibration_bytes env c) \<noteq> checksum then throw Unavailable else ret c)"

definition setup_calibration :: "'z SetupEnv_scheme \<Rightarrow> int \<Rightarrow> (Calibration \<times> string) pg" where
  "setup_calibration env generation =
     seq (pool_query ErrSetupReview Unavailable (\<lambda>now db.
        case installation_setup db of None \<Rightarrow> None | Some s \<Rightarrow> fresh_calibration generation now s)) (\<lambda>(raw, checksum, at).
     seq (open_calibration env raw checksum) (\<lambda>c. ret (c, checksum)))"

definition upd_calibration :: "'z SetupEnv_scheme \<Rightarrow> string \<Rightarrow> string \<Rightarrow> int \<Rightarrow> int \<Rightarrow> DB \<Rightarrow> (nat \<times> DB) option" where
  "upd_calibration env raw checksum generation now db =
     (case installation_setup db of
        None \<Rightarrow> Some (0, db)
      | Some s \<Rightarrow>
          if su_report s \<noteq> None then Some (0, db)
          else if \<not> is_digest checksum then None
          else Some (1, db\<lparr>installation_setup := Some (s\<lparr>su_calibration := Some (ce_jsonb env raw, checksum, generation, now)\<rparr>)\<rparr>))"

text \<open>\<open>free\<close> says whether the only calibration slot is free, \<open>measured\<close> is what the measurement yields.\<close>

definition Calibrate ::
  "'z SetupEnv_scheme \<Rightarrow> HostReading \<Rightarrow> bool \<Rightarrow> (auth_error + Calibration) \<Rightarrow> string \<Rightarrow> (Calibration \<times> string) pg" where
  "Calibrate env host free measured token =
     seq (setup_authorize env token) (\<lambda>(hash, b).
     seq (setupReport env) (\<lambda>report.
     seq (refuse_if (report \<noteq> None) ErrSetupConflict) (\<lambda>_.
     seq (refuse_if (\<not> free) Unavailable) (\<lambda>_.
     seq (setup_environment host) (\<lambda>_.
     seq (of_sum (auth_result measured)) (\<lambda>c.
     let raw = st_calibration_bytes env c; checksum = digest env raw in
     seq (authTx env) (\<lambda>_.
     seq (setup_locked hash b) (\<lambda>_.
     seq (exec_at Unavailable (upd_calibration env raw checksum (bs_generation b))) (\<lambda>rows.
     seq (refuse_if (rows \<noteq> 1) ErrSetupConflict) (\<lambda>_.
     seq (commit Unavailable) (\<lambda>_.
     ret (c, checksum))))))))))))"

definition setupReview :: "'z SetupEnv_scheme \<Rightarrow> Input \<Rightarrow> Calibration \<Rightarrow> string \<Rightarrow> pg_error + SetupReview" where
  "setupReview env i c checksum =
     (case BuildSetup i c of
        Inl _ \<Rightarrow> Inl ErrInput
      | Inr p \<Rightarrow> Inr \<lparr>sv_Plan = p, sv_PlanDigest = digest env (st_plan_bytes env p), sv_CalibrationDigest = checksum\<rparr>)"

definition loosens :: "AuthPolicy \<Rightarrow> Input \<Rightarrow> bool" where
  "loosens policy i \<longleftrightarrow> po_Mode policy = ''forced_on'' \<and> tp_Mode (in_TOTP i) \<noteq> ''forced_on''"

definition setup_Plan :: "'z SetupEnv_scheme \<Rightarrow> string \<Rightarrow> Input \<Rightarrow> SetupReview pg" where
  "setup_Plan env token i =
     seq (setup_authorize env token) (\<lambda>(hash, b).
     seq (setup_calibration env (bs_generation b)) (\<lambda>(c, checksum).
     seq (refuse_if (loosens (bs_policy b) i) Forbidden) (\<lambda>_.
     of_sum (setupReview env i c checksum))))"

section \<open>Application\<close>

definition set_delivery_config :: "'z SetupEnv_scheme \<Rightarrow> string \<Rightarrow> DB \<Rightarrow> (unit \<times> DB) option" where
  "set_delivery_config env updated db =
     (case control_delivery db of
        None \<Rightarrow> Some ((), db)
      | Some row \<Rightarrow>
          let generation = dl_generation row + 1 in
          if generation < 0 \<or> generation \<ge> 9007199254740990 then None
          else Some ((), db\<lparr>control_delivery := Some \<lparr>dl_generation = generation,
                 dl_document = st_set_config env (dl_document row) updated, dl_signed = None\<rparr>\<rparr>))"

definition set_policy :: "TOTP \<Rightarrow> DB \<Rightarrow> (unit \<times> DB) option" where
  "set_policy t db =
     (case auth_policy db of
        None \<Rightarrow> Some ((), db)
      | Some p \<Rightarrow>
          if tp_Mode t \<notin> set [''configurable'', ''forced_on''] \<or> (tp_Mode t = ''forced_on'' \<and> \<not> tp_Enabled t) then None
          else Some ((), db\<lparr>auth_policy := Some (p\<lparr>po_Mode := tp_Mode t, TOTPEnabled := tp_Enabled t, po_Version := po_Version p + 1\<rparr>)\<rparr>))"

definition upd_setup :: "'z SetupEnv_scheme \<Rightarrow> nat \<Rightarrow> string \<Rightarrow> int \<Rightarrow> DB \<Rightarrow> (unit \<times> DB) option" where
  "upd_setup env iterations report at db =
     (case installation_setup db of
        None \<Rightarrow> Some ((), db)
      | Some s \<Rightarrow>
          if iterations < 2 \<or> iterations > 10 then None
          else Some ((), db\<lparr>installation_setup := Some (s\<lparr>su_iterations := iterations, su_report := Some (ce_jsonb env report, at)\<rparr>)\<rparr>))"

text \<open>A retry after success reads the stored report; anything else about it is a conflict.\<close>

definition repeat_apply :: "'z SetupEnv_scheme \<Rightarrow> SetupApply \<Rightarrow> string \<Rightarrow> pg_error + SetupReport" where
  "repeat_apply env i existing =
     (case st_report_of env existing of
        None \<Rightarrow> Inl Unavailable
      | Some report \<Rightarrow>
          if sv_PlanDigest report \<noteq> sa_PlanDigest i \<or> sv_CalibrationDigest report \<noteq> sa_CalibrationDigest i \<or>
             sp_Input (sv_Plan report) \<noteq> sa_Input i then Inl ErrSetupConflict
          else Inr report)"

definition read_empty_config :: "'z SetupEnv_scheme \<Rightarrow> (string \<times> Config) pg" where
  "read_empty_config env =
     seq (query Unavailable Unavailable control_config) (\<lambda>row.
     case st_config_of env (co_document row) of
       None \<Rightarrow> throw ErrSetupConflict
     | Some c \<Rightarrow>
         if (case Rooms c of None \<Rightarrow> 0 | Some rooms \<Rightarrow> length rooms) \<noteq> 0 \<or> co_revision row \<noteq> 0 then throw ErrSetupConflict
         else ret (co_document row, c))"

definition write_setup ::
  "'z SetupEnv_scheme \<Rightarrow> SetupApply \<Rightarrow> SetupReview \<Rightarrow> Calibration \<Rightarrow> SetupEnvironment \<Rightarrow> int \<Rightarrow> SetupReport pg" where
  "write_setup env i review c environment calibratedAt =
     seq (read_empty_config env) (\<lambda>(configRaw, config).
     let config = config\<lparr>Profile := in_Profile (sa_Input i), RegionID := in_RegionID (sa_Input i), cfg_Revision := 1\<rparr>;
         updated = ce_config_bytes env config in
     seq (exec Unavailable (upd_config env 1 updated)) (\<lambda>_.
     seq (exec Unavailable (set_delivery_config env updated)) (\<lambda>_.
     seq (exec Unavailable (set_policy (in_TOTP (sa_Input i)))) (\<lambda>_.
     seq (read_clock Unavailable) (\<lambda>at.
     let report = \<lparr>sv_Plan = sv_Plan review, sv_PlanDigest = sv_PlanDigest review, sv_CalibrationDigest = sv_CalibrationDigest review,
           AppliedAt = at, ConfigRevision = 1, sr_Environment = environment, CalibratedAt = calibratedAt\<rparr> in
     seq (exec Unavailable (upd_setup env (ca_Iterations c) (st_report_bytes env report) at)) (\<lambda>_.
     seq (exec_at Unavailable (ins_audit ''system:setup'' ''system'' ''installation.apply'' ''installation'' (digest env configRaw)
        (sa_PlanDigest i) ''applied'' (sa_PlanDigest i) 1)) (\<lambda>_.
     seq (commit Unavailable) (\<lambda>_.
     ret report))))))))"

definition apply_fresh ::
  "'z SetupEnv_scheme \<Rightarrow> SetupApply \<Rightarrow> AuthPolicy \<Rightarrow> SetupEnvironment \<Rightarrow> (string \<times> string \<times> int) option \<Rightarrow> SetupReport pg" where
  "apply_fresh env i policy environment calibrated =
     (case calibrated of
        None \<Rightarrow> throw ErrSetupReview
      | Some (raw, checksum, calibratedAt) \<Rightarrow>
          seq (refuse_if (checksum \<noteq> sa_CalibrationDigest i) ErrSetupReview) (\<lambda>_.
          seq (open_calibration env raw checksum) (\<lambda>c.
          seq (of_sum (setupReview env (sa_Input i) c checksum)) (\<lambda>review.
          seq (refuse_if (sv_PlanDigest review \<noteq> sa_PlanDigest i) ErrSetupReview) (\<lambda>_.
          seq (refuse_if (loosens policy (sa_Input i)) Forbidden) (\<lambda>_.
          write_setup env i review c environment calibratedAt))))))"

definition setup_Apply :: "'z SetupEnv_scheme \<Rightarrow> HostReading \<Rightarrow> string \<Rightarrow> SetupApply \<Rightarrow> SetupReport pg" where
  "setup_Apply env host token i =
     seq (setup_authorize env token) (\<lambda>(hash, b).
     seq (setup_environment host) (\<lambda>environment.
     seq (authTx env) (\<lambda>_.
     seq (setup_locked hash b) (\<lambda>_.
     seq (query_at Unavailable Unavailable (\<lambda>now db. map_option (\<lambda>s.
        (su_report s, fresh_calibration (bs_generation b) now s)) (installation_setup db))) (\<lambda>(existing, calibrated).
     case existing of
       Some (document, _) \<Rightarrow> of_sum (repeat_apply env i document)
     | None \<Rightarrow> apply_fresh env i (bs_policy b) environment calibrated)))))"

definition control_Installation :: "'z SetupEnv_scheme \<Rightarrow> string \<Rightarrow> ControlReply pg" where
  "control_Installation env token =
     seq (Config_read env token) (\<lambda>_.
     seq (setupReport env) (\<lambda>report.
     ret (reply 200 (st_report_reply env report) [])))"

end
