(* ===== verification/Spec2Isabelle.thy ===== *)
theory Spec2Isabelle
  imports WR_Queue_Props WR_Control_Props WR_Trust_Props WR_Keys_Props WR_Auth_Props WR_Events_Props WR_Security_Props WR_Plan_Props WR_Setup
begin

text \<open>
  A verification library for the waiting room.

  \<^bold>\<open>The program.\<close> A waiting room admits visitors of a protected site at a bounded rate. Its parts, and how
  they interact:

  \<^item> the \<^emph>\<open>queue\<close> of a room (\<open>internal/policy\<close>, \<open>internal/queue/model\<close>) hands out tickets, promotes
    the oldest eligible ones within a rolling rate and a lease capacity, and turns a promotion into an
    admission;
  \<^item> the \<^emph>\<open>configuration\<close> (\<open>internal/control\<close>) describes rooms, routes and their runtime switches; an
    operator edits a draft and publishes it as a \<^emph>\<open>delivery\<close>;
  \<^item> the \<^emph>\<open>Backoffice\<close> (\<open>internal/adminauth\<close> and its store \<open>internal/adminauth/pgstore\<close> on PostgreSQL)
    authenticates operators and executes their commands: drafts, publication, room switches, planned
    events, accounts, the TOTP policy, the first setup;
  \<^item> the \<^emph>\<open>trust gate\<close> (\<open>internal/configtrust\<close>) of a node accepts a published delivery only if it is signed,
    current and not older than the one it has;
  \<^item> the \<^emph>\<open>keyring\<close> (\<open>internal/keyring\<close>, \<open>internal/localcontrol/rotation.go\<close>) holds the keys of an
    installation and rotates them; \<^emph>\<open>admission tokens\<close> (\<open>internal/admission\<close>) are signed with them;
  \<^item> the \<^emph>\<open>planner\<close> (\<open>internal/installplan\<close>) turns planning values into a bounded proposal, compares
    user-entered prices and prepares the local setup that the Backoffice applies.

  \<^bold>\<open>Theories.\<close> Definitions keep the names of the source; where one Go function is split, the parts are
  named after what they do, and where two packages use a name the definition carries a prefix.

  \<^item> \<open>WR_Prelude\<close>: integers of 64 bits (\<open>i64\<close>, \<open>u64\<close>), decimal text, association lists as Go maps, and
    the lemmas the components share.
  \<^item> \<open>WR_Policy\<close>, \<open>WR_Queue\<close>: \<open>policy/fifo.go\<close> and \<open>queue/model/model.go\<close>; the state of a room is the
    record \<open>Model\<close>, each operation one function. \<open>WR_Queue_Inv\<close> has the invariant that every operation
    preserves, \<open>WR_Queue_Props\<close> the safety and progress of the queue over every reachable state.
  \<^item> \<open>WR_Codec\<close>: text and codecs of the standard library that the source uses (base64, hexadecimal, UTF-8,
    splitting, integer parsing).
  \<^item> \<open>WR_Control\<close>: \<open>control/config.go\<close>, \<open>logo.go\<close>, \<open>route_check.go\<close>, \<open>runtime.go\<close>; \<open>WR_Control_Props\<close> shows
    what a validated configuration and delivery guarantee.
  \<^item> \<open>WR_Trust\<close>: \<open>configtrust/snapshot.go\<close>, \<open>file.go\<close>, with files as an explicit disk whose calls may fail;
    \<open>WR_Trust_Props\<close> shows that nothing older or foreign is ever served, over restarts and failures.
  \<^item> \<open>WR_Keys\<close>: \<open>keyring\<close>, \<open>admission/token.go\<close>, \<open>localcontrol/rotation.go\<close>; \<open>WR_Keys_Props\<close> has the round
    trips, the separation of roles and purposes, and that rotation keeps a valid keyring and its signers.
  \<^item> \<open>WR_Auth\<close>: the primitives of \<open>adminauth\<close> (roles, sessions, CSRF, one-time codes, passwords,
    calibration); \<open>WR_Auth_Props\<close> their meaning.
  \<^item> \<open>WR_Tx\<close>: PostgreSQL as a state monad with a durable database, the view of the open transaction, and a
    world that decides for every call whether it succeeds, is refused or loses its answer, and gives the
    clock and the random bytes. It has weakest preconditions, relations that steps keep, and elimination
    rules for successful runs; \<open>WR_Frames\<close> adds frame reasoning.
  \<^item> \<open>WR_Db\<close>, \<open>WR_Login\<close>: the tables of the migrations with their constraints, \<open>store.go\<close>, \<open>vault.go\<close>,
    \<open>sessions.go\<close>, \<open>logout.go\<close>, \<open>login.go\<close>; \<open>WR_Login_Props\<close>: the second factor.
  \<^item> \<open>WR_Command\<close>: \<open>control.go\<close>, \<open>commands.go\<close>, use of proofs in \<open>reauth.go\<close>; \<open>WR_Command_Props\<close>: what the
    frame of every command guarantees.
  \<^item> \<open>WR_Publish\<close>, \<open>WR_Events\<close>: \<open>publication.go\<close>, \<open>delivery.go\<close>, \<open>clock_recovery.go\<close>, \<open>recovery_audit.go\<close>,
    \<open>events.go\<close>; \<open>WR_Publish_Props\<close> has the history of publications, their refinement of an abstract board
    and the single execution of commands, \<open>WR_Events_Props\<close> the safe end of an event.
  \<^item> \<open>WR_Enroll\<close>, \<open>WR_Security\<close>: \<open>bootstrap.go\<close>, \<open>enrollment.go\<close>, \<open>recovery.go\<close>, \<open>http_limit.go\<close>, \<open>reauth.go\<close>,
    \<open>users.go\<close>, \<open>totp_policy.go\<close>; \<open>WR_Enroll_Props\<close> shows that the first administrator and a recovery code
    are used once, \<open>WR_Security_Props\<close> that an administrator always remains.
  \<^item> \<open>WR_Plan\<close>: \<open>installplan\<close>; \<open>WR_Plan_Props\<close>: the decimal arithmetic of a cost report is exact.
    \<open>WR_Setup\<close>: \<open>setup.go\<close>, the single application of a reviewed plan.

  \<^bold>\<open>Conventions.\<close> Strings are byte lists. Instants are integers of nanoseconds; the database keeps
  microseconds, which no result here depends on. Fallible code returns a sum or an option, and each early
  return of the source is a branch. Cryptographic functions, JSON codecs, URL, address and image parsing are
  parameters of the definitions; what the code relies on of them is a hypothesis of the theorem that needs
  it, with an instance in its witness. Statements of a transaction run one after the other on the view they
  see; locks are the reason why this is faithful and are not modelled themselves, and concurrent requests
  appear as sequences of runs. A commit whose answer is lost may have happened. Time limits of the services
  are failing calls. The identity column of the audit table counts rows. Text identifiers are ordered
  bytewise.

  \<^bold>\<open>Bounds.\<close> No definition uses fuel: loops are structural recursion or have a measure. The promotion
  loop of the queue runs over the candidates, calibration over at most nine iteration counts, the object
  decoder of the planner over the remaining tokens.

  \<^bold>\<open>Not modelled.\<close> The Lua scripts of \<open>internal/queue/valkeystore\<close> and \<open>internal/publicguard\<close> with their
  clients; HTTP handlers (\<open>authhttp\<close>, \<open>sessionhttp\<close>, \<open>controlhttp\<close>, \<open>adminserver\<close>), which decode requests and
  set cookies and headers around the services; the node process (\<open>runtimeplane\<close>), the laboratories
  (\<open>lab\<close>, \<open>processlab\<close>, \<open>trafficlab\<close>, \<open>traffic_lab.go\<close>) and the programs under \<open>cmd\<close>, whose substance is
  goroutines, timers and network calls; files, certificates and processes of an installation
  (\<open>localcontrol\<close> apart from rotation, \<open>installer\<close>, \<open>recoveryarchive\<close>, \<open>preflight\<close>, \<open>preview\<close>,
  \<open>clockcheck\<close>); pages and browser code (\<open>waiting\<close>, \<open>apps\<close>). Redacting printers of secret values are left out.
\<close>

end
